(* ===== verification/Py_Base.thy ===== *)
theory Py_Base
  imports Main "HOL-Library.Char_ord" "HOL-Library.List_Lexorder" "HOL-Library.Product_Lexorder"
    "HOL-Library.Sublist"
begin

text \<open>
  Prelude: the Python values and library calls every component uses.

  A Python \<open>str\<close> is a HOL string whose characters stand for the code points U+0000 to
  U+00FF, one character for one code point; the operations below agree with CPython on that
  range (\<open>lower\<close>, \<open>isdigit\<close> and \<open>strip\<close> are tabulated for all of it). A Python \<open>int\<close> is
  an \<open>int\<close>, \<open>None\<close> is \<open>None\<close>, a raise is the left side of a sum. The collections
  \<open>py_simps\<close> (string operations) and \<open>db_simps\<close> (tables) carry the proofs of the components.
\<close>

named_theorems py_simps \<open>equations of the modelled string operations\<close>
named_theorems db_simps \<open>equations of the modelled tables\<close>

type_synonym 'a exn = "string + 'a"

section \<open>Characters\<close>

abbreviation ord_c :: "char \<Rightarrow> nat" where
  "ord_c c \<equiv> of_char c"

definition bslash :: char where "bslash = CHR 0x5C"
definition dquote :: char where "dquote = CHR 0x22"
definition squote :: char where "squote = CHR 0x27"
definition nl :: char where "nl = CHR 0x0A"
definition cr :: char where "cr = CHR 0x0D"
definition tab :: char where "tab = CHR 0x09"

lemmas char_consts = bslash_def dquote_def squote_def nl_def cr_def tab_def

lemma char_neqs [simp]:
  "dquote \<noteq> bslash" "bslash \<noteq> dquote" "bslash \<noteq> CHR ''/''" "CHR ''/'' \<noteq> bslash"
  "bslash \<noteq> CHR '']''" "CHR '']'' \<noteq> bslash" "dquote \<noteq> CHR '']''" "CHR '']'' \<noteq> dquote"
  "squote \<noteq> dquote" "dquote \<noteq> squote" "squote \<noteq> bslash" "bslash \<noteq> squote"
  "nl \<noteq> cr" "cr \<noteq> nl" "nl \<noteq> tab" "tab \<noteq> nl" "nl \<noteq> bslash" "nl \<noteq> dquote"
  "nl \<noteq> CHR '' ''" "CHR '' '' \<noteq> nl" "cr \<noteq> CHR '' ''" "CHR '' '' \<noteq> cr"
  "bslash \<noteq> CHR '' ''" "CHR '' '' \<noteq> bslash" "dquote \<noteq> CHR '' ''" "CHR '' '' \<noteq> dquote"
  by (simp_all add: char_consts)

lemma eq_char_of_iff: "c = char_of (n :: nat) \<longleftrightarrow> take_bit 8 n = of_char c"
  by (metis char_of_eq_iff)

lemmas char_eval = char_of_eq_iff eq_char_of_iff

definition py_lower_char :: "char \<Rightarrow> char" where
  "py_lower_char c =
     (let n = ord_c c in
      if (65 \<le> n \<and> n \<le> 90) \<or> (192 \<le> n \<and> n \<le> 222 \<and> n \<noteq> 215) then char_of (n + 32) else c)"

definition py_lower :: "string \<Rightarrow> string" where
  "py_lower s = map py_lower_char s"

definition is_ascii_digit :: "char \<Rightarrow> bool" where
  "is_ascii_digit c \<longleftrightarrow> 48 \<le> ord_c c \<and> ord_c c \<le> 57"

text \<open>\<open>str.isdigit\<close> also accepts the superscripts U+00B2, U+00B3 and U+00B9.\<close>

definition py_isdigit_char :: "char \<Rightarrow> bool" where
  "py_isdigit_char c \<longleftrightarrow> is_ascii_digit c \<or> ord_c c \<in> {178, 179, 185}"

definition py_isdigit :: "string \<Rightarrow> bool" where
  "py_isdigit s \<longleftrightarrow> s \<noteq> [] \<and> list_all py_isdigit_char s"

definition py_isspace_char :: "char \<Rightarrow> bool" where
  "py_isspace_char c \<longleftrightarrow>
     (9 \<le> ord_c c \<and> ord_c c \<le> 13) \<or> (28 \<le> ord_c c \<and> ord_c c \<le> 32) \<or> ord_c c \<in> {133, 160}"

definition digit_val :: "char \<Rightarrow> nat" where
  "digit_val c = ord_c c - 48"

definition hex_val :: "char \<Rightarrow> nat option" where
  "hex_val c =
     (if is_ascii_digit c then Some (ord_c c - 48)
      else if 97 \<le> ord_c c \<and> ord_c c \<le> 102 then Some (ord_c c - 87)
      else if 65 \<le> ord_c c \<and> ord_c c \<le> 70 then Some (ord_c c - 55)
      else None)"

definition digit_char :: "nat \<Rightarrow> char" where
  "digit_char n = char_of (n + 48)"

lemma ord_digit_char [simp]: "n < 10 \<Longrightarrow> ord_c (digit_char n) = n + 48"
  by (simp add: digit_char_def)

lemma digit_char_literals [simp]:
  "digit_char 0 = CHR ''0''" "digit_char 1 = CHR ''1''" "digit_char (Suc 0) = CHR ''1''"
  "digit_char 2 = CHR ''2''" "digit_char 3 = CHR ''3''" "digit_char 4 = CHR ''4''"
  "digit_char 5 = CHR ''5''" "digit_char 6 = CHR ''6''" "digit_char 7 = CHR ''7''"
  "digit_char 8 = CHR ''8''" "digit_char 9 = CHR ''9''"
  by (simp_all add: digit_char_def char_of_eq_iff)

lemma digit_val_char [simp]: "n < 10 \<Longrightarrow> digit_val (digit_char n) = n"
  by (simp add: digit_val_def)

lemma is_ascii_digit_char [simp]: "n < 10 \<Longrightarrow> is_ascii_digit (digit_char n)"
  by (simp add: is_ascii_digit_def)

lemma py_lower_char_idem [simp]: "py_lower_char (py_lower_char c) = py_lower_char c"
  by (auto simp: py_lower_char_def Let_def)

lemma py_lower_Nil [simp]: "py_lower [] = []"
  by (simp add: py_lower_def)

lemma py_lower_Cons [simp]: "py_lower (c # s) = py_lower_char c # py_lower s"
  by (simp add: py_lower_def)

lemma py_lower_append [simp]: "py_lower (s @ t) = py_lower s @ py_lower t"
  by (simp add: py_lower_def)

lemma py_lower_idem [simp]: "py_lower (py_lower s) = py_lower s"
  by (induction s) simp_all

section \<open>Decimal numbers\<close>

fun nat_to_str :: "nat \<Rightarrow> string" where
  "nat_to_str n = (if n < 10 then [digit_char n] else nat_to_str (n div 10) @ [digit_char (n mod 10)])"

declare nat_to_str.simps [simp del]

definition int_to_str :: "int \<Rightarrow> string" where
  "int_to_str i = (if i < 0 then CHR ''-'' # nat_to_str (nat (- i)) else nat_to_str (nat i))"

definition digits_val :: "string \<Rightarrow> nat" where
  "digits_val s = foldl (\<lambda>a c. 10 * a + digit_val c) 0 s"

lemma digits_val_snoc [simp]: "digits_val (s @ [c]) = 10 * digits_val s + digit_val c"
  by (simp add: digits_val_def)

lemma digits_val_Nil [simp]: "digits_val [] = 0"
  by (simp add: digits_val_def)

lemma nat_to_str_digits: "list_all is_ascii_digit (nat_to_str n)"
proof (induction n rule: nat_to_str.induct)
  case (1 n)
  then show ?case by (subst nat_to_str.simps) auto
qed

lemma nat_to_str_nonempty [simp]: "nat_to_str n \<noteq> []"
  by (subst nat_to_str.simps) simp

lemma digits_val_nat_to_str [simp]: "digits_val (nat_to_str n) = n"
proof (induction n rule: nat_to_str.induct)
  case (1 n)
  show ?case
  proof (cases "n < 10")
    case True
    then show ?thesis
      using digits_val_snoc [of "[]" "digit_char n"] by (subst nat_to_str.simps) simp
  next
    case False
    with 1 show ?thesis by (subst nat_to_str.simps) simp
  qed
qed

lemma nat_to_str_inj [simp]: "nat_to_str m = nat_to_str n \<longleftrightarrow> m = n"
  by (metis digits_val_nat_to_str)

text \<open>
  \<open>int(s)\<close>: surrounding whitespace, an optional sign, digits with single underscores between
  them; anything else is a \<open>ValueError\<close>, the value \<open>None\<close>.
\<close>

fun drop_underscores :: "string \<Rightarrow> string option" where
  "drop_underscores [] = None"
| "drop_underscores [c] = (if is_ascii_digit c then Some [c] else None)"
| "drop_underscores (c # d # s) =
     (if \<not> is_ascii_digit c then None
      else if d = CHR ''_'' then map_option ((#) c) (drop_underscores s)
      else map_option ((#) c) (drop_underscores (d # s)))"

definition py_strip :: "string \<Rightarrow> string" where
  "py_strip s = rev (dropWhile py_isspace_char (rev (dropWhile py_isspace_char s)))"

definition py_int :: "string \<Rightarrow> int option" where
  "py_int raw =
     (let s = py_strip raw in
      case s of
        [] \<Rightarrow> None
      | c # t \<Rightarrow>
          if c = CHR ''-'' then map_option (\<lambda>d. - int (digits_val d)) (drop_underscores t)
          else if c = CHR ''+'' then map_option (\<lambda>d. int (digits_val d)) (drop_underscores t)
          else map_option (\<lambda>d. int (digits_val d)) (drop_underscores s))"

lemma underscore_not_digit [simp]: "\<not> is_ascii_digit (CHR ''_'')"
  by (simp add: is_ascii_digit_def)

lemma drop_underscores_digits:
  "s \<noteq> [] \<Longrightarrow> list_all is_ascii_digit s \<Longrightarrow> drop_underscores s = Some s"
  by (induction s rule: drop_underscores.induct) auto

lemma digit_not_space: "is_ascii_digit c \<Longrightarrow> \<not> py_isspace_char c"
  by (auto simp: is_ascii_digit_def py_isspace_char_def)

lemma dropWhile_all_not: "list_all (\<lambda>c. \<not> P c) s \<Longrightarrow> dropWhile P s = s"
  by (cases s) auto

lemma py_strip_clean: "list_all (\<lambda>c. \<not> py_isspace_char c) s \<Longrightarrow> py_strip s = s"
  by (simp add: py_strip_def dropWhile_all_not list_all_rev)

lemma digits_clean: "list_all is_ascii_digit s \<Longrightarrow> list_all (\<lambda>c. \<not> py_isspace_char c) s"
  by (auto simp: list_all_iff dest: digit_not_space)

lemma digit_not_sign: "is_ascii_digit c \<Longrightarrow> c \<noteq> CHR ''-'' \<and> c \<noteq> CHR ''+''"
  by (auto simp: is_ascii_digit_def)

lemma py_int_digits:
  assumes "s \<noteq> []" and "list_all is_ascii_digit s"
  shows "py_int s = Some (int (digits_val s))"
proof -
  from assms obtain c t where s: "s = c # t" by (cases s) auto
  with assms have "c \<noteq> CHR ''-''" "c \<noteq> CHR ''+''" by (auto dest: digit_not_sign)
  with assms s show ?thesis
    by (simp add: py_int_def Let_def py_strip_clean [OF digits_clean] drop_underscores_digits
          del: drop_underscores.simps)
qed

lemma py_int_nat_to_str [simp]: "py_int (nat_to_str n) = Some (int n)"
  by (simp add: py_int_digits nat_to_str_digits)

lemma py_int_int_to_str [simp]: "py_int (int_to_str i) = Some i"
proof (cases "i < 0")
  case True
  let ?d = "nat_to_str (nat (- i))"
  have "list_all (\<lambda>c. \<not> py_isspace_char c) (CHR ''-'' # ?d)"
    using digits_clean [OF nat_to_str_digits] by (simp add: py_isspace_char_def)
  then have "py_strip (CHR ''-'' # ?d) = CHR ''-'' # ?d" by (rule py_strip_clean)
  moreover have "drop_underscores ?d = Some ?d"
    by (simp add: drop_underscores_digits nat_to_str_digits)
  ultimately show ?thesis
    using True by (simp add: int_to_str_def py_int_def Let_def del: drop_underscores.simps)
next
  case False
  then show ?thesis by (simp add: int_to_str_def)
qed

lemma py_isdigit_nat_to_str [simp]: "py_isdigit (nat_to_str n)"
  using nat_to_str_digits [of n]
  by (auto simp: py_isdigit_def py_isdigit_char_def list_all_iff)

lemma int_to_str_inj [simp]: "int_to_str i = int_to_str j \<longleftrightarrow> i = j"
  by (metis option.inject py_int_int_to_str)

lemma int_to_str_nonempty [simp]: "int_to_str i \<noteq> []"
  by (simp add: int_to_str_def)

section \<open>Splitting, joining, replacing\<close>

fun py_split :: "char \<Rightarrow> string \<Rightarrow> string list" where
  "py_split sep [] = [[]]"
| "py_split sep (c # s) =
     (if c = sep then [] # py_split sep s
      else (case py_split sep s of [] \<Rightarrow> [[c]] | p # ps \<Rightarrow> (c # p) # ps))"

fun py_join :: "string \<Rightarrow> string list \<Rightarrow> string" where
  "py_join sep [] = []"
| "py_join sep [p] = p"
| "py_join sep (p # q # ps) = p @ sep @ py_join sep (q # ps)"

text \<open>\<open>str.partition\<close> at a character: the part before, whether it occurs, the part after.\<close>

fun py_partition :: "char \<Rightarrow> string \<Rightarrow> string \<times> bool \<times> string" where
  "py_partition sep [] = ([], False, [])"
| "py_partition sep (c # s) =
     (if c = sep then ([], True, s)
      else (case py_partition sep s of (a, f, b) \<Rightarrow> (c # a, f, b)))"

text \<open>\<open>str.replace\<close> of a single character.\<close>

definition py_replace :: "char \<Rightarrow> string \<Rightarrow> string \<Rightarrow> string" where
  "py_replace a r s = concat (map (\<lambda>c. if c = a then r else [c]) s)"

fun startswith :: "string \<Rightarrow> string \<Rightarrow> bool" where
  "startswith [] s = True"
| "startswith (p # ps) [] = False"
| "startswith (p # ps) (c # s) = (p = c \<and> startswith ps s)"

definition py_rstrip :: "char \<Rightarrow> string \<Rightarrow> string" where
  "py_rstrip a s = rev (dropWhile (\<lambda>c. c = a) (rev s))"

lemma py_replace_Nil [simp, py_simps]: "py_replace a r [] = []"
  by (simp add: py_replace_def)

lemma py_replace_Cons [py_simps]:
  "py_replace a r (c # s) = (if c = a then r @ py_replace a r s else c # py_replace a r s)"
  by (simp add: py_replace_def)

lemma py_replace_append [py_simps]: "py_replace a r (s @ t) = py_replace a r s @ py_replace a r t"
  by (simp add: py_replace_def)

lemma py_replace_notin [simp]: "a \<notin> set s \<Longrightarrow> py_replace a r s = s"
  by (induction s) (auto simp: py_simps)

lemma set_py_replace_subset: "set (py_replace a r s) \<subseteq> (set s - {a}) \<union> set r"
  by (induction s) (auto simp: py_simps)

lemma py_replace_removes: "a \<notin> set r \<Longrightarrow> a \<notin> set (py_replace a r s)"
  using set_py_replace_subset [of a r s] by auto

lemma py_split_nonempty [simp]: "py_split sep s \<noteq> []"
  by (cases "(sep, s)" rule: py_split.cases) (auto split: list.splits)

lemma py_split_notin [simp]: "sep \<notin> set s \<Longrightarrow> py_split sep s = [s]"
  by (induction s) auto

lemma py_split_append: "sep \<notin> set p \<Longrightarrow> py_split sep (p @ sep # s) = p # py_split sep s"
  by (induction p) auto

lemma py_split_join:
  "ps \<noteq> [] \<Longrightarrow> list_all (\<lambda>p. sep \<notin> set p) ps \<Longrightarrow> py_split sep (py_join [sep] ps) = ps"
  by (induction "[sep]" ps rule: py_join.induct) (auto simp: py_split_append)

lemma py_join_Cons: "ps \<noteq> [] \<Longrightarrow> py_join sep (p # ps) = p @ sep @ py_join sep ps"
  by (cases ps) auto

lemma py_join_split: "py_join [sep] (py_split sep s) = s"
proof (induction s)
  case Nil
  then show ?case by simp
next
  case (Cons c s)
  then show ?case
    by (cases "py_split sep s"; cases "c = sep")
       (auto simp: py_join_Cons split: list.splits, (metis append_Cons append_Nil neq_Nil_conv
          py_join.simps(2) py_join_Cons)+)
qed

lemma py_split_parts_notin: "p \<in> set (py_split sep s) \<Longrightarrow> sep \<notin> set p"
  by (induction s arbitrary: p) (fastforce split: if_splits list.splits)+

lemma py_partition_notin [simp]: "sep \<notin> set s \<Longrightarrow> py_partition sep s = (s, False, [])"
  by (induction s) auto

lemma py_partition_append [simp]:
  "sep \<notin> set p \<Longrightarrow> py_partition sep (p @ sep # s) = (p, True, s)"
  by (induction p) auto

lemma startswith_prefix: "startswith p s \<longleftrightarrow> prefix p s"
  by (induction p s rule: startswith.induct) auto

section \<open>Truthiness and optional values\<close>

text \<open>\<open>value or default\<close> on an optional string: the default replaces \<open>None\<close> and the empty string.\<close>

definition or_default :: "string option \<Rightarrow> string \<Rightarrow> string" where
  "or_default v d = (case v of None \<Rightarrow> d | Some s \<Rightarrow> if s = [] then d else s)"

definition truthy :: "string option \<Rightarrow> bool" where
  "truthy v \<longleftrightarrow> (case v of None \<Rightarrow> False | Some s \<Rightarrow> s \<noteq> [])"

definition none_if_empty :: "string \<Rightarrow> string option" where
  "none_if_empty s = (if s = [] then None else Some s)"

lemma truthy_simps [simp]: "\<not> truthy None" "truthy (Some s) \<longleftrightarrow> s \<noteq> []"
  by (simp_all add: truthy_def)

lemma or_default_simps [simp]:
  "or_default None d = d" "or_default (Some []) d = d" "s \<noteq> [] \<Longrightarrow> or_default (Some s) d = s"
  by (simp_all add: or_default_def)

lemma none_if_empty_simps [simp]:
  "none_if_empty [] = None" "s \<noteq> [] \<Longrightarrow> none_if_empty s = Some s"
  by (simp_all add: none_if_empty_def)

section \<open>Lists\<close>

lemma find_Some_in: "find P xs = Some x \<Longrightarrow> x \<in> set xs \<and> P x"
  by (induction xs) (auto split: if_splits)

lemma find_None_all: "find P xs = None \<longleftrightarrow> (\<forall>x\<in>set xs. \<not> P x)"
  by (induction xs) auto

lemma find_distinct_key:
  "distinct (map f xs) \<Longrightarrow> x \<in> set xs \<Longrightarrow> find (\<lambda>y. f y = f x) xs = Some x"
  by (induction xs) (auto simp: rev_image_eqI)

lemma map_key_update:
  "(\<And>x. f (g x) = f x) \<Longrightarrow> map f (map (\<lambda>x. if P x then g x else x) xs) = map f xs"
  by (induction xs) auto

lemma filter_unique_key: "distinct (map f xs) \<Longrightarrow> x \<in> set xs \<Longrightarrow> filter (\<lambda>y. f y = f x) xs = [x]"
proof (induction xs)
  case (Cons y ys)
  show ?case
  proof (cases "x = y")
    case True
    with Cons.prems have "filter (\<lambda>z. f z = f x) ys = []"
      by (auto simp: filter_empty_conv image_iff)
    with True show ?thesis by simp
  next
    case False
    with Cons show ?thesis by (auto simp: image_iff)
  qed
qed simp

lemma sorted_last_max: "sorted (map f xs) \<Longrightarrow> x \<in> set xs \<Longrightarrow> f x \<le> f (last xs)"
  by (induction xs) auto

end
