(* ===== verification/Models.thy ===== *)
theory Models
  imports Py_Base "HOL-Library.AList"
begin

text \<open>
  The data model: one record per ORM class of \<open>app/db/models\<close>, the database as a record with
  one list of rows per table, and the constraints the models declare. A table keeps its rows in
  insertion order; \<open>system_setting\<close> and \<open>system_secret\<close>, whose primary key is their only
  other column, are maps. Instants are integers, microseconds of UTC since the epoch; all reads
  of the clock inside one request return the request's instant. A primary key is the next
  number of its table's sequence. Deleting a row follows the \<open>ondelete\<close> rules of the models.
  Column length limits of the database are not modelled.
\<close>

type_synonym instant = int

abbreviation seconds :: "int \<Rightarrow> int" where
  "seconds n \<equiv> n * 1000000"

section \<open>Identity (db/models/identity.py)\<close>

record user_row =
  u_id :: int
  u_sam_account_name :: string
  u_ad_object_guid :: "string option"
  u_distinguished_name :: string
  u_upn :: "string option"
  u_display_name :: "string option"
  u_enabled :: bool
  u_last_seen_in_sync_at :: "instant option"

record ad_group_row =
  g_id :: int
  g_sid :: string
  g_distinguished_name :: string
  g_name :: "string option"
  g_last_seen_in_sync_at :: "instant option"

section \<open>Domain (db/models/domain.py)\<close>

record device_group_row =
  dg_id :: int
  dg_name :: string
  dg_description :: "string option"
  dg_created_at :: instant

record privilege_profile_row =
  pp_id :: int
  pp_name :: string
  tacacs_priv_lvl :: int
  permit_commands_regex :: "string list"
  deny_commands_regex :: "string list"
  extra_av_pairs :: "(string \<times> string) list"
  pp_description :: "string option"
  pp_created_at :: instant

record device_row =
  d_id :: int
  d_name :: string
  d_ip_or_cidr :: string
  d_device_group_id :: int
  current_secret_enc :: "string option"
  previous_secret_enc :: "string option"
  previous_retired_at :: "instant option"
  d_description :: "string option"
  d_created_at :: instant
  d_updated_at :: instant

record authorization_row =
  a_id :: int
  principal_user_id :: "int option"
  principal_ad_group_id :: "int option"
  a_device_group_id :: int
  privilege_profile_id :: int
  a_created_at :: instant

text \<open>
  The loaded ORM objects: an authorization with its eagerly joined profile, a user with the
  groups of the \<open>selectinload(User.groups)\<close> option.
\<close>

record loaded_authorization = authorization_row +
  privilege_profile :: privilege_profile_row

record loaded_user = user_row +
  u_groups :: "ad_group_row list"

definition is_direct :: "'a authorization_row_scheme \<Rightarrow> bool" where
  "is_direct a \<longleftrightarrow> principal_user_id a \<noteq> None"

section \<open>Administration (db/models/admin.py)\<close>

record local_admin_row =
  la_id :: int
  la_username :: string
  password_argon2_hash :: string
  allowed_source_cidr :: "string option"
  la_created_at :: instant
  last_login_at :: "instant option"

record web_session_row =
  ws_token :: string
  ws_auth_method :: string
  ws_local_admin_id :: "int option"
  username_snapshot :: string
  ws_role :: string
  ws_created_at :: instant
  ws_last_seen_at :: instant
  ws_expires_at :: instant
  hard_expires_at :: instant
  ws_client_ip :: "string option"

record audit_row =
  al_id :: int
  al_ts :: instant
  al_actor_id :: "int option"
  actor_username_snapshot :: string
  actor_role :: string
  al_auth_method :: string
  al_action :: string
  target_type :: "string option"
  target_id :: "int option"
  al_summary :: "string option"
  al_client_ip :: "string option"
  al_user_agent :: "string option"

section \<open>Accounting (db/models/accounting.py)\<close>

record accounting_row =
  ar_id :: int
  ar_ts :: instant
  ar_nas_ip :: "string option"
  ar_username :: "string option"
  ar_port :: "string option"
  ar_nac_ip :: "string option"
  ar_action :: string
  ar_service :: "string option"
  ar_cmd :: "string option"
  ar_priv_lvl :: "int option"
  ar_elapsed_seconds :: "int option"
  ar_task_id :: "string option"
  ar_device_id :: "int option"
  ar_raw_av_pairs :: "(string \<times> string) list"

section \<open>The database\<close>

datatype table =
    T_user | T_ad_group | T_device_group | T_privilege_profile | T_device | T_authorization
  | T_audit_log | T_accounting_record

record db =
  users :: "user_row list"
  ad_groups :: "ad_group_row list"
  user_ad_group :: "(int \<times> int) list"
  device_groups :: "device_group_row list"
  privilege_profiles :: "privilege_profile_row list"
  devices :: "device_row list"
  authorizations :: "authorization_row list"
  local_admins :: "local_admin_row list"
  web_sessions :: "web_session_row list"
  audit_log :: "audit_row list"
  accounting_records :: "accounting_row list"
  system_settings :: "string \<Rightarrow> string option"
  system_secrets :: "string \<Rightarrow> string option"
  seqs :: "table \<Rightarrow> int"

definition empty_db :: db where
  "empty_db = \<lparr>users = [], ad_groups = [], user_ad_group = [], device_groups = [],
     privilege_profiles = [], devices = [], authorizations = [], local_admins = [],
     web_sessions = [], audit_log = [], accounting_records = [],
     system_settings = (\<lambda>_. None), system_secrets = (\<lambda>_. None), seqs = (\<lambda>_. 1)\<rparr>"

definition bump_seq :: "table \<Rightarrow> db \<Rightarrow> db" where
  "bump_seq t d = d\<lparr>seqs := (seqs d)(t := seqs d t + 1)\<rparr>"

text \<open>\<open>session.get(Model, id)\<close>.\<close>

definition get_user :: "db \<Rightarrow> int \<Rightarrow> user_row option" where
  "get_user d i = find (\<lambda>r. u_id r = i) (users d)"

definition get_ad_group :: "db \<Rightarrow> int \<Rightarrow> ad_group_row option" where
  "get_ad_group d i = find (\<lambda>r. g_id r = i) (ad_groups d)"

definition get_device_group :: "db \<Rightarrow> int \<Rightarrow> device_group_row option" where
  "get_device_group d i = find (\<lambda>r. dg_id r = i) (device_groups d)"

definition get_profile :: "db \<Rightarrow> int \<Rightarrow> privilege_profile_row option" where
  "get_profile d i = find (\<lambda>r. pp_id r = i) (privilege_profiles d)"

definition get_device :: "db \<Rightarrow> int \<Rightarrow> device_row option" where
  "get_device d i = find (\<lambda>r. d_id r = i) (devices d)"

definition get_authorization :: "db \<Rightarrow> int \<Rightarrow> authorization_row option" where
  "get_authorization d i = find (\<lambda>r. a_id r = i) (authorizations d)"

text \<open>\<open>user.groups\<close>: the groups joined through \<open>user_ad_group\<close>.\<close>

definition groups_of :: "db \<Rightarrow> int \<Rightarrow> ad_group_row list" where
  "groups_of d uid =
     concat (map (\<lambda>(u, g). if u = uid then filter (\<lambda>r. g_id r = g) (ad_groups d) else [])
       (user_ad_group d))"

definition load_user :: "db \<Rightarrow> user_row \<Rightarrow> loaded_user" where
  "load_user d u = user_row.extend u \<lparr>u_groups = groups_of d (u_id u)\<rparr>"

definition load_authorization :: "db \<Rightarrow> authorization_row \<Rightarrow> loaded_authorization option" where
  "load_authorization d a =
     map_option (\<lambda>p. authorization_row.extend a \<lparr>privilege_profile = p\<rparr>)
       (get_profile d (privilege_profile_id a))"

definition load_authorizations :: "db \<Rightarrow> (authorization_row \<Rightarrow> bool) \<Rightarrow> loaded_authorization list" where
  "load_authorizations d P = List.map_filter (load_authorization d) (filter P (authorizations d))"

text \<open>\<open>scalar_one_or_none\<close>: no row, one row, or \<open>MultipleResultsFound\<close>.\<close>

definition scalar_one_or_none :: "'a list \<Rightarrow> 'a option exn" where
  "scalar_one_or_none xs =
     (case xs of [] \<Rightarrow> Inr None | [x] \<Rightarrow> Inr (Some x) | _ \<Rightarrow> Inl ''MultipleResultsFound'')"

section \<open>Declared constraints\<close>

definition user_uniques_ok :: "user_row list \<Rightarrow> bool" where
  "user_uniques_ok us \<longleftrightarrow>
     distinct (map u_sam_account_name us) \<and>
     distinct (List.map_filter u_ad_object_guid us)"

definition device_groups_ok :: "device_group_row list \<Rightarrow> bool" where
  "device_groups_ok gs \<longleftrightarrow> distinct (map dg_name gs)"

definition profile_ok :: "privilege_profile_row \<Rightarrow> bool" where
  "profile_ok p \<longleftrightarrow> 0 \<le> tacacs_priv_lvl p \<and> tacacs_priv_lvl p \<le> 15"

definition profiles_ok :: "privilege_profile_row list \<Rightarrow> bool" where
  "profiles_ok ps \<longleftrightarrow> distinct (map pp_name ps) \<and> list_all profile_ok ps"

definition devices_ok :: "device_group_row list \<Rightarrow> device_row list \<Rightarrow> bool" where
  "devices_ok gs ds \<longleftrightarrow>
     distinct (map d_name ds) \<and> distinct (map d_ip_or_cidr ds) \<and>
     list_all (\<lambda>x. d_device_group_id x \<in> set (map dg_id gs)) ds"

definition one_principal :: "authorization_row \<Rightarrow> bool" where
  "one_principal a \<longleftrightarrow>
     (principal_user_id a \<noteq> None \<and> principal_ad_group_id a = None) \<or>
     (principal_user_id a = None \<and> principal_ad_group_id a \<noteq> None)"

text \<open>The two unique constraints; SQL compares no NULL equal.\<close>

definition authz_user_key :: "authorization_row \<Rightarrow> (int \<times> int \<times> int) option" where
  "authz_user_key a =
     map_option (\<lambda>u. (u, a_device_group_id a, privilege_profile_id a)) (principal_user_id a)"

definition authz_group_key :: "authorization_row \<Rightarrow> (int \<times> int \<times> int) option" where
  "authz_group_key a =
     map_option (\<lambda>g. (g, a_device_group_id a, privilege_profile_id a)) (principal_ad_group_id a)"

definition authz_refs_ok :: "db \<Rightarrow> authorization_row \<Rightarrow> bool" where
  "authz_refs_ok d a \<longleftrightarrow>
     (case principal_user_id a of None \<Rightarrow> True | Some u \<Rightarrow> u \<in> set (map u_id (users d))) \<and>
     (case principal_ad_group_id a of None \<Rightarrow> True | Some g \<Rightarrow> g \<in> set (map g_id (ad_groups d))) \<and>
     a_device_group_id a \<in> set (map dg_id (device_groups d)) \<and>
     privilege_profile_id a \<in> set (map pp_id (privilege_profiles d))"

definition authorizations_ok :: "db \<Rightarrow> bool" where
  "authorizations_ok d \<longleftrightarrow>
     list_all one_principal (authorizations d) \<and>
     list_all (authz_refs_ok d) (authorizations d) \<and>
     distinct (List.map_filter authz_user_key (authorizations d)) \<and>
     distinct (List.map_filter authz_group_key (authorizations d))"

definition web_session_ok :: "web_session_row \<Rightarrow> bool" where
  "web_session_ok w \<longleftrightarrow> ws_auth_method w \<in> {''local'', ''saml''}"

definition keys_ok :: "int \<Rightarrow> int list \<Rightarrow> bool" where
  "keys_ok nxt ks \<longleftrightarrow> distinct ks \<and> list_all (\<lambda>k. 0 < k \<and> k < nxt) ks"

text \<open>
  The integrity of the configuration tables: keys below their sequence, and every declared
  constraint of the device group, profile, device and authorization tables.
\<close>

definition config_ok :: "db \<Rightarrow> bool" where
  "config_ok d \<longleftrightarrow>
     keys_ok (seqs d T_device_group) (map dg_id (device_groups d)) \<and> 0 < seqs d T_device_group \<and>
     keys_ok (seqs d T_privilege_profile) (map pp_id (privilege_profiles d)) \<and>
       0 < seqs d T_privilege_profile \<and>
     keys_ok (seqs d T_device) (map d_id (devices d)) \<and> 0 < seqs d T_device \<and>
     keys_ok (seqs d T_authorization) (map a_id (authorizations d)) \<and>
       0 < seqs d T_authorization \<and>
     device_groups_ok (device_groups d) \<and> profiles_ok (privilege_profiles d) \<and>
     devices_ok (device_groups d) (devices d) \<and> authorizations_ok d"

lemma config_ok_empty: "config_ok empty_db"
  by (simp add: config_ok_def empty_db_def keys_ok_def device_groups_ok_def profiles_ok_def
      devices_ok_def authorizations_ok_def List.map_filter_def)

lemma keys_ok_snoc: "keys_ok n ks \<Longrightarrow> 0 < n \<Longrightarrow> keys_ok (n + 1) (ks @ [n])"
  by (auto simp: keys_ok_def list_all_iff)

lemma keys_ok_filter: "keys_ok n (map f xs) \<Longrightarrow> keys_ok n (map f (filter P xs))"
  by (auto simp: keys_ok_def list_all_iff distinct_map_filter)

lemma keys_ok_fresh: "keys_ok n ks \<Longrightarrow> n \<notin> set ks"
  by (auto simp: keys_ok_def list_all_iff)

lemma bump_seq_frame [simp]:
  "users (bump_seq t d) = users d" "ad_groups (bump_seq t d) = ad_groups d"
  "user_ad_group (bump_seq t d) = user_ad_group d"
  "device_groups (bump_seq t d) = device_groups d"
  "privilege_profiles (bump_seq t d) = privilege_profiles d"
  "devices (bump_seq t d) = devices d" "authorizations (bump_seq t d) = authorizations d"
  "local_admins (bump_seq t d) = local_admins d" "web_sessions (bump_seq t d) = web_sessions d"
  "audit_log (bump_seq t d) = audit_log d"
  "accounting_records (bump_seq t d) = accounting_records d"
  "system_settings (bump_seq t d) = system_settings d"
  "system_secrets (bump_seq t d) = system_secrets d"
  "seqs (bump_seq t d) = (seqs d)(t := seqs d t + 1)"
  by (simp_all add: bump_seq_def)

lemma load_user_fields [simp]:
  "u_id (load_user d u) = u_id u" "u_sam_account_name (load_user d u) = u_sam_account_name u"
  "u_enabled (load_user d u) = u_enabled u" "u_groups (load_user d u) = groups_of d (u_id u)"
  "u_distinguished_name (load_user d u) = u_distinguished_name u"
  by (simp_all add: load_user_def user_row.defs)

lemma load_authorization_fields:
  "load_authorization d a = Some l \<Longrightarrow>
     a_id l = a_id a \<and> principal_user_id l = principal_user_id a \<and>
     principal_ad_group_id l = principal_ad_group_id a \<and>
     a_device_group_id l = a_device_group_id a \<and>
     privilege_profile_id l = privilege_profile_id a \<and>
     get_profile d (privilege_profile_id a) = Some (privilege_profile l)"
  by (auto simp: load_authorization_def authorization_row.defs)

lemma load_authorizations_mem:
  "l \<in> set (load_authorizations d P) \<longleftrightarrow>
     (\<exists>a\<in>set (authorizations d). P a \<and> load_authorization d a = Some l)"
  by (force simp: load_authorizations_def List.map_filter_def image_iff)

lemma map_filter_ids:
  "(\<And>x y. f x = Some y \<Longrightarrow> g y = h x) \<Longrightarrow>
     map g (List.map_filter f xs) = map h (filter (\<lambda>x. f x \<noteq> None) xs)"
  by (induction xs) (auto simp: List.map_filter_simps split: option.splits)

lemma load_authorizations_ids_distinct:
  "distinct (map a_id (authorizations d)) \<Longrightarrow>
     distinct (map a_id (load_authorizations d P))"
  unfolding load_authorizations_def
  by (subst map_filter_ids [where h = a_id])
     (auto dest: load_authorization_fields simp: distinct_map_filter)

lemma scalar_one_or_none_Some:
  "scalar_one_or_none xs = Inr (Some x) \<longleftrightarrow> xs = [x]"
  by (auto simp: scalar_one_or_none_def split: list.splits)

lemma scalar_one_or_none_None:
  "scalar_one_or_none xs = Inr None \<longleftrightarrow> xs = []"
  by (auto simp: scalar_one_or_none_def split: list.splits)

end
