(* ===== verification/Selection.thy ===== *)
theory Selection
  imports Py_Base
begin

text \<open>
  The interface of the two places where the code picks one row out of many: the longest-prefix
  match of devices and the conflict resolution of authorizations. A choice scores each element
  (\<open>None\<close>: not eligible) and returns the first element of the highest score. The laws below
  say that the choice is eligible, is unbeaten, is determined by these two facts, ignores the
  elements that are not eligible, and does not depend on the order of the list when eligible
  elements have different scores.
\<close>

locale best_choice =
  fixes score :: "'a \<Rightarrow> ('k::linorder) option" and pick :: "'a list \<Rightarrow> 'a option"
  assumes pick_none: "pick xs = None \<longleftrightarrow> (\<forall>x\<in>set xs. score x = None)"
    and pick_some: "pick xs = Some x \<Longrightarrow>
      \<exists>ys zs k. xs = ys @ x # zs \<and> score x = Some k \<and>
        (\<forall>y\<in>set ys. \<forall>j. score y = Some j \<longrightarrow> j < k) \<and>
        (\<forall>z\<in>set zs. \<forall>j. score z = Some j \<longrightarrow> j \<le> k)"
begin

lemma chosen_mem: "pick xs = Some x \<Longrightarrow> x \<in> set xs"
  by (auto dest!: pick_some)

lemma chosen_eligible: "pick xs = Some x \<Longrightarrow> score x \<noteq> None"
  by (auto dest!: pick_some)

lemma chosen_unbeaten:
  assumes "pick xs = Some x" and "y \<in> set xs" and "score y = Some j"
  shows "\<exists>k. score x = Some k \<and> j \<le> k"
proof -
  from pick_some [OF assms(1)] obtain ys zs k where
    xs: "xs = ys @ x # zs" and k: "score x = Some k"
    and before: "\<forall>y\<in>set ys. \<forall>j. score y = Some j \<longrightarrow> j < k"
    and after: "\<forall>z\<in>set zs. \<forall>j. score z = Some j \<longrightarrow> j \<le> k" by blast
  from assms(2) xs consider "y \<in> set ys" | "y = x" | "y \<in> set zs" by auto
  then show ?thesis
    using before after k assms(3) by cases (auto intro: less_imp_le)
qed

lemma chosen_first:
  assumes "pick (ys @ x # zs) = Some w" and "score x = score w" and "score w \<noteq> None"
    and "w \<notin> set ys"
  shows "w = x"
proof -
  from pick_some [OF assms(1)] obtain us vs k where
    eq: "ys @ x # zs = us @ w # vs" and k: "score w = Some k"
    and before: "\<forall>y\<in>set us. \<forall>j. score y = Some j \<longrightarrow> j < k" by blast
  from eq have "length ys < length us \<or> us = ys \<or> length us < length ys"
    by (metis append_eq_append_conv linorder_less_linear)
  then show ?thesis
  proof (elim disjE)
    assume "length ys < length us"
    then have "x \<in> set us" using eq
      by (metis append_eq_append_conv_if in_set_conv_nth nth_append nth_append_length order.asym)
    with before k assms(2) show ?thesis by fastforce
  next
    assume "us = ys"
    with eq show ?thesis by simp
  next
    assume "length us < length ys"
    then have "w \<in> set ys" using eq
      by (metis in_set_conv_nth nth_append nth_append_length)
    with assms(4) show ?thesis by simp
  qed
qed

lemma pick_exists: "x \<in> set xs \<Longrightarrow> score x \<noteq> None \<Longrightarrow> \<exists>w. pick xs = Some w"
  using pick_none [of xs] by auto

lemma pick_order_free:
  assumes same: "set xs = set ys"
    and inj: "\<And>x y. x \<in> set xs \<Longrightarrow> y \<in> set xs \<Longrightarrow> score x \<noteq> None \<Longrightarrow>
      score x = score y \<Longrightarrow> x = y"
  shows "pick xs = pick ys"
proof (cases "pick xs")
  case None
  with same have "pick ys = None" by (simp add: pick_none)
  with None show ?thesis by simp
next
  case (Some x)
  then have x: "x \<in> set xs" "score x \<noteq> None" by (auto dest: chosen_mem chosen_eligible)
  with same obtain y where y: "pick ys = Some y" using pick_exists [of x ys] by auto
  then have "y \<in> set xs" "score y \<noteq> None" using same by (auto dest: chosen_mem chosen_eligible)
  then obtain i j where ij: "score x = Some i" "score y = Some j" using x by auto
  have "j \<le> i" using chosen_unbeaten [OF Some \<open>y \<in> set xs\<close> ij(2)] ij by simp
  moreover have "i \<le> j" using chosen_unbeaten [OF y _ ij(1)] x same ij by simp
  ultimately have "x = y" using inj [of x y] x \<open>y \<in> set xs\<close> ij by simp
  with Some y show ?thesis by simp
qed

end

text \<open>The head of a stable sort is the first element of the least key.\<close>

lemma hd_sort_key_first:
  fixes f :: "'a \<Rightarrow> 'k::linorder"
  assumes "xs \<noteq> []"
  defines "w \<equiv> hd (sort_key f xs)"
  shows "\<exists>ys zs. xs = ys @ w # zs \<and> (\<forall>y\<in>set ys. f w < f y) \<and> (\<forall>z\<in>set zs. f w \<le> f z)"
proof -
  from assms(1) have ne: "sort_key f xs \<noteq> []"
    by (metis length_0_conv length_sort)
  then have split: "sort_key f xs = w # tl (sort_key f xs)" by (simp add: w_def)
  have least: "f w \<le> f x" if "x \<in> set xs" for x
  proof -
    have "sorted (map f (w # tl (sort_key f xs)))" using split sorted_sort_key by metis
    moreover have "x \<in> set (w # tl (sort_key f xs))" using that split by (metis set_sort)
    ultimately show ?thesis by auto
  qed
  have "filter (\<lambda>x. f x = f w) (sort_key f xs) = w # filter (\<lambda>x. f x = f w) (tl (sort_key f xs))"
    by (subst split) simp
  then have "filter (\<lambda>x. f x = f w) xs = w # filter (\<lambda>x. f x = f w) (tl (sort_key f xs))"
    by (simp add: sort_key_stable)
  then obtain ys zs where "xs = ys @ w # zs" "\<forall>y\<in>set ys. f y \<noteq> f w"
    by (auto dest!: filter_eq_ConsD)
  with least show ?thesis by (metis Un_iff insert_iff list.set(2) order_le_less set_append)
qed

end
