(* ===== verification/Policy.thy ===== *)
theory Policy
  imports Models Selection "HOL-Library.Multiset"
begin

text \<open>
  \<open>app/authz/policy.py\<close>: the effective authorization of a user on a device group (ADR-0006).
  \<open>evaluate_for_user\<close> follows the source, including that \<open>pool\<close> is the list \<open>candidates\<close>
  itself when there is no direct authorization, so that sorting the pool also reorders the
  overridden rows. Two rows are the same object when they have the same primary key (the
  identity map of the ORM session).
\<close>

record effective_authorization =
  winning :: "loaded_authorization option"
  overridden :: "loaded_authorization list"

definition effective_profile :: "effective_authorization \<Rightarrow> privilege_profile_row option" where
  "effective_profile e = map_option privilege_profile (winning e)"

definition authz_matches :: "loaded_user \<Rightarrow> int \<Rightarrow> 'a authorization_row_scheme \<Rightarrow> bool" where
  "authz_matches user dg auth \<longleftrightarrow>
     a_device_group_id auth = dg \<and>
     (principal_user_id auth = Some (u_id user) \<or>
      (case principal_ad_group_id auth of
         None \<Rightarrow> False | Some g \<Rightarrow> g \<in> set (map g_id (u_groups user))))"

definition authz_key :: "loaded_authorization \<Rightarrow> int \<times> int" where
  "authz_key a = (- tacacs_priv_lvl (privilege_profile a), a_id a)"

definition evaluate_for_user ::
    "loaded_user \<Rightarrow> int \<Rightarrow> loaded_authorization list \<Rightarrow> effective_authorization" where
  "evaluate_for_user user device_group_id auths =
     (let candidates = filter (authz_matches user device_group_id) auths in
      if candidates = [] then \<lparr>winning = None, overridden = []\<rparr>
      else
        (let direct = filter is_direct candidates;
             pool = sort_key authz_key (if direct \<noteq> [] then direct else candidates);
             candidates' = (if direct \<noteq> [] then candidates else pool);
             winner = hd pool
         in \<lparr>winning = Some winner,
             overridden = filter (\<lambda>c. a_id c \<noteq> a_id winner) candidates'\<rparr>))"

text \<open>
  The specification of ADR-0006 as a score: a direct authorization first, then the higher
  privilege level, then the lower row id.
\<close>

definition authz_score ::
    "loaded_user \<Rightarrow> int \<Rightarrow> loaded_authorization \<Rightarrow> (bool \<times> int \<times> int) option" where
  "authz_score user dg a =
     (if authz_matches user dg a
      then Some (is_direct a, tacacs_priv_lvl (privilege_profile a), - a_id a) else None)"

definition adr6_choice ::
    "loaded_user \<Rightarrow> int \<Rightarrow> loaded_authorization list \<Rightarrow> loaded_authorization option" where
  "adr6_choice user dg auths = winning (evaluate_for_user user dg auths)"

lemma winning_None:
  "winning (evaluate_for_user user dg auths) = None \<longleftrightarrow> filter (authz_matches user dg) auths = []"
  by (simp add: evaluate_for_user_def Let_def)

lemma filter_split_first:
  assumes "filter P xs = ys @ w # zs"
  shows "\<exists>us vs. xs = us @ w # vs \<and> filter P us = ys \<and> filter P vs = zs"
  using assms
proof (induction xs arbitrary: ys)
  case Nil
  then show ?case by simp
next
  case (Cons x xs)
  show ?case
  proof (cases "P x \<and> ys = []")
    case True
    with Cons.prems show ?thesis by (intro exI [of _ "[]"] exI [of _ xs]) auto
  next
    case False
    with Cons.prems have "filter P xs = (if P x then tl ys else ys) @ w # zs"
      and "P x \<longrightarrow> ys = x # tl ys" by (auto simp: append_eq_Cons_conv Cons_eq_append_conv)
    with Cons.IH obtain us vs where "xs = us @ w # vs"
      "filter P us = (if P x then tl ys else ys)" "filter P vs = zs" by blast
    with \<open>P x \<longrightarrow> ys = x # tl ys\<close> show ?thesis
      by (intro exI [of _ "x # us"] exI [of _ vs]) auto
  qed
qed

lemma score_le_of_key:
  "authz_key w \<le> authz_key a \<Longrightarrow> is_direct a = is_direct w \<Longrightarrow> authz_score user dg a = Some j \<Longrightarrow>
     j \<le> (is_direct w, tacacs_priv_lvl (privilege_profile w), - a_id w)"
  by (auto simp: authz_score_def authz_key_def less_eq_prod_def split: if_splits)

lemma score_less_of_key:
  "authz_key w < authz_key a \<Longrightarrow> is_direct a = is_direct w \<Longrightarrow> authz_score user dg a = Some j \<Longrightarrow>
     j < (is_direct w, tacacs_priv_lvl (privilege_profile w), - a_id w)"
  by (auto simp: authz_score_def authz_key_def less_prod_def split: if_splits)

lemma score_less_of_direct:
  "\<not> is_direct a \<Longrightarrow> is_direct w \<Longrightarrow> authz_score user dg a = Some j \<Longrightarrow>
     j < (is_direct w, tacacs_priv_lvl (privilege_profile w), - a_id w)"
  by (auto simp: authz_score_def less_prod_def split: if_splits)

text \<open>
  With \<open>Q\<close> the filter that leaves the pool, the winner is the first element of the list with
  the best score.
\<close>

lemma pool_choice:
  assumes pool: "filter Q auths \<noteq> []" and w: "w = hd (sort_key authz_key (filter Q auths))"
    and sub: "\<And>a. Q a \<Longrightarrow> authz_matches user dg a \<and> is_direct a = dir"
    and out: "\<And>a. a \<in> set auths \<Longrightarrow> \<not> Q a \<Longrightarrow> authz_matches user dg a \<Longrightarrow> dir \<and> \<not> is_direct a"
  shows "\<exists>ys zs k. auths = ys @ w # zs \<and> authz_score user dg w = Some k \<and>
      (\<forall>y\<in>set ys. \<forall>j. authz_score user dg y = Some j \<longrightarrow> j < k) \<and>
      (\<forall>z\<in>set zs. \<forall>j. authz_score user dg z = Some j \<longrightarrow> j \<le> k)"
proof -
  let ?k = "(is_direct w, tacacs_priv_lvl (privilege_profile w), - a_id w)"
  from hd_sort_key_first [OF pool, of authz_key] obtain ys zs where
    f: "filter Q auths = ys @ w # zs" and less: "\<forall>y\<in>set ys. authz_key w < authz_key y"
    and le: "\<forall>z\<in>set zs. authz_key w \<le> authz_key z" unfolding w by blast
  from filter_split_first [OF f] obtain us vs where
    uv: "auths = us @ w # vs" "filter Q us = ys" "filter Q vs = zs" by blast
  have "w \<in> set (filter Q auths)" using f by simp
  then have w': "authz_matches user dg w" "is_direct w = dir" using sub by auto
  then have k: "authz_score user dg w = Some ?k" by (simp add: authz_score_def)
  have outside: "j < ?k" if "a \<in> set auths" "\<not> Q a" "authz_score user dg a = Some j" for a j
  proof -
    from that have "authz_matches user dg a" by (simp add: authz_score_def split: if_splits)
    with that out w' have "\<not> is_direct a" "is_direct w" by auto
    with that show ?thesis by (rule_tac score_less_of_direct)
  qed
  have "j < ?k" if "y \<in> set us" "authz_score user dg y = Some j" for y j
  proof (cases "Q y")
    case True
    with that uv have "y \<in> set ys" by auto
    with less sub [OF True] w' that show ?thesis by (intro score_less_of_key) auto
  next
    case False
    with that uv show ?thesis by (intro outside) auto
  qed
  moreover have "j \<le> ?k" if "z \<in> set vs" "authz_score user dg z = Some j" for z j
  proof (cases "Q z")
    case True
    with that uv have "z \<in> set zs" by auto
    with le sub [OF True] w' that show ?thesis by (intro score_le_of_key) auto
  next
    case False
    with that uv show ?thesis by (intro less_imp_le outside) auto
  qed
  ultimately show ?thesis using uv k by blast
qed

lemma adr6_choice_first:
  assumes "adr6_choice user dg auths = Some w"
  shows "\<exists>ys zs k. auths = ys @ w # zs \<and> authz_score user dg w = Some k \<and>
      (\<forall>y\<in>set ys. \<forall>j. authz_score user dg y = Some j \<longrightarrow> j < k) \<and>
      (\<forall>z\<in>set zs. \<forall>j. authz_score user dg z = Some j \<longrightarrow> j \<le> k)"
proof -
  let ?M = "authz_matches user dg" and ?D = "\<lambda>a. authz_matches user dg a \<and> is_direct a"
  have dir: "filter is_direct (filter ?M auths) = filter ?D auths" by (simp add: conj_commute)
  show ?thesis
  proof (cases "filter ?D auths = []")
    case True
    with assms have "filter ?M auths \<noteq> []" "w = hd (sort_key authz_key (filter ?M auths))"
      by (auto simp: adr6_choice_def evaluate_for_user_def dir Let_def split: if_splits)
    moreover have "\<not> is_direct a" if "a \<in> set auths" "?M a" for a
      using True that by (auto simp: filter_empty_conv)
    moreover from calculation(3) have "filter ?M auths = filter (\<lambda>a. ?M a \<and> \<not> is_direct a) auths"
      by (intro filter_cong) auto
    ultimately show ?thesis
      by (intro pool_choice [where Q = "\<lambda>a. ?M a \<and> \<not> is_direct a" and dir = False]) auto
  next
    case False
    with assms have "w = hd (sort_key authz_key (filter ?D auths))"
      by (auto simp: adr6_choice_def evaluate_for_user_def dir Let_def split: if_splits)
    with False show ?thesis by (intro pool_choice [where Q = ?D and dir = True]) auto
  qed
qed

interpretation adr6: best_choice "authz_score user dg" "adr6_choice user dg" for user dg
proof (unfold_locales, goal_cases)
  case (1 auths)
  show ?case
    by (auto simp: adr6_choice_def winning_None filter_empty_conv authz_score_def)
next
  case (2 auths w)
  then show ?case by (rule adr6_choice_first)
qed

text \<open>The rows that lost are the other candidates.\<close>

lemma overridden_mset:
  "mset (overridden (evaluate_for_user user dg auths)) =
     {# c \<in># mset (filter (authz_matches user dg) auths).
        winning (evaluate_for_user user dg auths) \<noteq> None \<and>
        a_id c \<noteq> a_id (the (winning (evaluate_for_user user dg auths))) #}"
  by (simp add: evaluate_for_user_def Let_def)

section \<open>Properties\<close>

text \<open>
  C22: The effective authorization of a user on a device group is a row that grants the user
  access there, and no other such row beats it: direct rows come before group rows, then the
  higher privilege level wins, then the lower row id.
\<close>

theorem winner_is_unbeaten:
  assumes "winning (evaluate_for_user user dg auths) = Some w"
  shows "w \<in> set auths \<and> authz_matches user dg w \<and>
    (\<forall>a\<in>set auths. authz_matches user dg a \<longrightarrow>
       (is_direct a, tacacs_priv_lvl (privilege_profile a), - a_id a) \<le>
       (is_direct w, tacacs_priv_lvl (privilege_profile w), - a_id w))"
proof -
  from assms have w: "adr6_choice user dg auths = Some w" by (simp add: adr6_choice_def)
  from adr6.chosen_eligible [OF w] have "authz_matches user dg w"
    by (simp add: authz_score_def split: if_splits)
  moreover have "(is_direct a, tacacs_priv_lvl (privilege_profile a), - a_id a) \<le>
      (is_direct w, tacacs_priv_lvl (privilege_profile w), - a_id w)"
    if "a \<in> set auths" "authz_matches user dg a" for a
    using adr6.chosen_unbeaten [OF w that(1)] that(2) calculation by (simp add: authz_score_def)
  ultimately show ?thesis using adr6.chosen_mem [OF w] by blast
qed

text \<open>A user with a direct row at level 1 and a group row at level 15.\<close>

definition ex_profile :: "int \<Rightarrow> int \<Rightarrow> privilege_profile_row" where
  "ex_profile i lvl = \<lparr>pp_id = i, pp_name = ''p'', tacacs_priv_lvl = lvl,
     permit_commands_regex = [], deny_commands_regex = [], extra_av_pairs = [],
     pp_description = None, pp_created_at = 0\<rparr>"

definition ex_group :: ad_group_row where
  "ex_group = \<lparr>g_id = 5, g_sid = ''S-1-5'', g_distinguished_name = ''CN=ops'',
     g_name = None, g_last_seen_in_sync_at = None\<rparr>"

definition ex_user :: loaded_user where
  "ex_user = \<lparr>u_id = 7, u_sam_account_name = ''alice'', u_ad_object_guid = None,
     u_distinguished_name = ''CN=alice'', u_upn = None, u_display_name = None,
     u_enabled = True, u_last_seen_in_sync_at = None, u_groups = [ex_group]\<rparr>"

definition ex_direct :: loaded_authorization where
  "ex_direct = \<lparr>a_id = 2, principal_user_id = Some 7, principal_ad_group_id = None,
     a_device_group_id = 1, privilege_profile_id = 1, a_created_at = 0,
     privilege_profile = ex_profile 1 1\<rparr>"

definition ex_by_group :: loaded_authorization where
  "ex_by_group = \<lparr>a_id = 1, principal_user_id = None, principal_ad_group_id = Some 5,
     a_device_group_id = 1, privilege_profile_id = 2, a_created_at = 0,
     privilege_profile = ex_profile 2 15\<rparr>"

lemmas ex_policy_defs = ex_user_def ex_group_def ex_direct_def ex_by_group_def ex_profile_def
  authz_matches_def is_direct_def

lemma ex_policy_winner:
  "winning (evaluate_for_user ex_user 1 [ex_by_group, ex_direct]) = Some ex_direct"
  by (simp add: evaluate_for_user_def ex_policy_defs)

theorem winner_is_unbeaten_witness:
  "ex_direct \<in> set [ex_by_group, ex_direct] \<and> authz_matches ex_user 1 ex_direct"
  using winner_is_unbeaten [OF ex_policy_winner] by simp

text \<open>
  Which authorization wins does not depend on the order in which the query returns the
  rows, when row ids are unique.
\<close>

theorem winner_order_free:
  assumes "set auths = set auths'" and "inj_on a_id (set auths)"
  shows "winning (evaluate_for_user user dg auths) = winning (evaluate_for_user user dg auths')"
proof -
  have "adr6_choice user dg auths = adr6_choice user dg auths'"
  proof (rule adr6.pick_order_free [OF assms(1)])
    fix x y
    assume "x \<in> set auths" "y \<in> set auths" "authz_score user dg x \<noteq> None"
      "authz_score user dg x = authz_score user dg y"
    with assms(2) show "x = y" by (auto simp: authz_score_def inj_on_def split: if_splits)
  qed
  then show ?thesis by (simp add: adr6_choice_def)
qed

theorem winner_order_free_witness:
  "winning (evaluate_for_user ex_user 1 [ex_direct, ex_by_group]) =
   winning (evaluate_for_user ex_user 1 [ex_by_group, ex_direct])"
  by (rule winner_order_free) (auto simp: ex_policy_defs)

text \<open>
  A user has no access exactly when no row matches; otherwise the winner together with the
  overridden rows is exactly the matching rows, each as often as the query returned it.
\<close>

theorem evaluation_accounts_for_all_matches:
  assumes "distinct (map a_id auths)"
  shows "mset (filter (authz_matches user dg) auths) =
    (case winning (evaluate_for_user user dg auths) of
       None \<Rightarrow> {#} | Some w \<Rightarrow> {#w#}) + mset (overridden (evaluate_for_user user dg auths))"
proof (cases "winning (evaluate_for_user user dg auths)")
  case None
  then have "filter (authz_matches user dg) auths = []" by (simp add: winning_None)
  with None show ?thesis by (simp add: evaluate_for_user_def)
next
  case (Some w)
  let ?cs = "filter (authz_matches user dg) auths"
  from Some have w: "adr6_choice user dg auths = Some w" by (simp add: adr6_choice_def)
  have d: "distinct (map a_id ?cs)" using assms by (simp add: distinct_map_filter)
  have "w \<in> set ?cs" using adr6.chosen_mem [OF w] adr6.chosen_eligible [OF w]
    by (simp add: authz_score_def split: if_splits)
  with d have "filter (\<lambda>c. a_id c = a_id w) ?cs = [w]"
    by (rule filter_unique_key)
  then have "{# c \<in># mset ?cs. a_id c = a_id w #} = {#w#}"
    by (simp only: mset_filter [symmetric]) simp
  with multiset_partition [of "mset ?cs" "\<lambda>c. a_id c = a_id w"]
  have "mset ?cs = {#w#} + {# c \<in># mset ?cs. a_id c \<noteq> a_id w #}" by (simp only:)
  moreover have "mset (overridden (evaluate_for_user user dg auths)) =
      {# c \<in># mset ?cs. a_id c \<noteq> a_id w #}"
    using Some by (simp only: overridden_mset option.sel not_False_eq_True option.distinct simp_thms)
  ultimately show ?thesis using Some by (simp only: option.case)
qed

theorem evaluation_accounts_for_all_matches_witness:
  "mset (filter (authz_matches ex_user 1) [ex_by_group, ex_direct]) =
    (case winning (evaluate_for_user ex_user 1 [ex_by_group, ex_direct]) of
       None \<Rightarrow> {#} | Some w \<Rightarrow> {#w#}) +
    mset (overridden (evaluate_for_user ex_user 1 [ex_by_group, ex_direct]))"
  by (rule evaluation_accounts_for_all_matches) (simp add: ex_policy_defs)

end
