(* ===== verification/Ip_Address.thy ===== *)
theory Ip_Address
  imports Py_Base
begin

text \<open>
  The part of Python's standard module \<open>ipaddress\<close> the code uses: \<open>ip_address(s)\<close>,
  \<open>ip_network(s, strict=False)\<close>, \<open>.version\<close>, \<open>.prefixlen\<close> and \<open>addr in net\<close>, as in
  CPython 3.12. An address is its version and its integer; a network is its version, its
  network address and its prefix length. A \<open>ValueError\<close> of any kind is \<open>None\<close>.
\<close>

unbundle bit_operations_syntax

datatype ip_version = V4 | V6

record ip_addr =
  ip_ver :: ip_version
  ip_int :: nat

record ip_net =
  net_ver :: ip_version
  net_addr :: nat
  net_prefixlen :: nat

fun max_prefixlen :: "ip_version \<Rightarrow> nat" where
  "max_prefixlen V4 = 32"
| "max_prefixlen V6 = 128"

section \<open>Parsing addresses\<close>

text \<open>\<open>_BaseV4._parse_octet\<close>: ASCII digits, at most three, no leading zero, at most 255.\<close>

definition parse_octet :: "string \<Rightarrow> nat option" where
  "parse_octet s =
     (if s = [] \<or> \<not> list_all is_ascii_digit s then None
      else if 3 < length s then None
      else if s \<noteq> ''0'' \<and> hd s = CHR ''0'' then None
      else if 255 < digits_val s then None
      else Some (digits_val s))"

fun all_some :: "'a option list \<Rightarrow> 'a list option" where
  "all_some [] = Some []"
| "all_some (None # xs) = None"
| "all_some (Some x # xs) = map_option ((#) x) (all_some xs)"

definition parse_v4 :: "string \<Rightarrow> nat option" where
  "parse_v4 s =
     (if s = [] then None
      else (let octets = py_split (CHR ''.'') s in
        if length octets \<noteq> 4 then None
        else map_option (foldl (\<lambda>a o'. a * 256 + o') 0) (all_some (map parse_octet octets))))"

text \<open>\<open>_BaseV6._parse_hextet\<close>.\<close>

definition parse_hextet :: "string \<Rightarrow> nat option" where
  "parse_hextet s =
     (if s = [] \<or> 4 < length s then None
      else map_option (foldl (\<lambda>a d. a * 16 + d) 0) (all_some (map hex_val s)))"

text \<open>
  A part of the text of an IPv6 address: the hextets written out, and the two hextets that
  replace a dotted-quad suffix. \<open>None\<close> is an empty part.
\<close>

definition v6_parts :: "string \<Rightarrow> nat option list option" where
  "v6_parts s =
     (let parts = py_split (CHR '':'') s in
      if length parts < 3 then None
      else
        (let body = butlast parts; suffix = last parts;
             hextet = (\<lambda>p. if p = [] then Some None else map_option Some (parse_hextet p)) in
         if CHR ''.'' \<in> set suffix
         then (case parse_v4 suffix of
                 None \<Rightarrow> None
               | Some v \<Rightarrow> map_option (\<lambda>xs. xs @ [Some (v div 65536 mod 65536), Some (v mod 65536)])
                             (all_some (map hextet body)))
         else all_some (map hextet parts)))"

definition join_hextets :: "nat list \<Rightarrow> nat" where
  "join_hextets hs = foldl (\<lambda>a h. a * 65536 + h) 0 hs"

text \<open>
  \<open>_BaseV6._ip_int_from_string\<close> after the parts are read: at most nine parts; at most one
  empty part strictly inside; an empty first (last) part only beside it.
\<close>

definition v6_from_parts :: "nat option list \<Rightarrow> nat option" where
  "v6_from_parts parts =
     (if 9 < length parts then None
      else
        (let skips = filter (\<lambda>i. parts ! i = None) [1..<length parts - 1] in
         case skips of
           [] \<Rightarrow> if length parts = 8 then map_option join_hextets (all_some parts) else None
         | [k] \<Rightarrow>
             (let hi = (if hd parts = None then k - 1 else k);
                  lo0 = length parts - k - 1;
                  lo = (if last parts = None then lo0 - 1 else lo0) in
              if hd parts = None \<and> hi \<noteq> 0 then None
              else if last parts = None \<and> lo \<noteq> 0 then None
              else if 8 - (hi + lo) < 1 then None
              else
                (case (all_some (take hi parts), all_some (drop (length parts - lo) parts)) of
                   (Some his, Some los) \<Rightarrow>
                     Some (join_hextets (his @ replicate (8 - (hi + lo)) 0 @ los))
                 | _ \<Rightarrow> None))
         | _ \<Rightarrow> None))"

text \<open>\<open>_split_scope_id\<close>: \<open>addr%scope\<close> with a non-empty scope that holds no further \<open>%\<close>.\<close>

definition strip_scope :: "string \<Rightarrow> string option" where
  "strip_scope s =
     (case py_partition (CHR 0x25) s of
        (addr, False, _) \<Rightarrow> Some addr
      | (addr, True, scope) \<Rightarrow> if scope = [] \<or> CHR 0x25 \<in> set scope then None else Some addr)"

definition parse_v6 :: "string \<Rightarrow> nat option" where
  "parse_v6 s =
     (case strip_scope s of
        None \<Rightarrow> None
      | Some addr \<Rightarrow> if addr = [] then None else Option.bind (v6_parts addr) v6_from_parts)"

definition ipv4_address :: "string \<Rightarrow> ip_addr option" where
  "ipv4_address s =
     (if CHR ''/'' \<in> set s then None
      else map_option (\<lambda>n. \<lparr>ip_ver = V4, ip_int = n\<rparr>) (parse_v4 s))"

definition ipv6_address :: "string \<Rightarrow> ip_addr option" where
  "ipv6_address s =
     (if CHR ''/'' \<in> set s then None
      else map_option (\<lambda>n. \<lparr>ip_ver = V6, ip_int = n\<rparr>) (parse_v6 s))"

definition ip_address :: "string \<Rightarrow> ip_addr option" where
  "ip_address s = (case ipv4_address s of Some a \<Rightarrow> Some a | None \<Rightarrow> ipv6_address s)"

section \<open>Parsing networks\<close>

definition parse_prefixlen :: "ip_version \<Rightarrow> string \<Rightarrow> nat option" where
  "parse_prefixlen v s =
     (if s \<noteq> [] \<and> list_all is_ascii_digit s \<and> digits_val s \<le> max_prefixlen v
      then Some (digits_val s) else None)"

text \<open>\<open>_prefix_from_ip_int\<close>: the prefix length of a netmask, ones followed by zeroes.\<close>

definition netmask_of :: "ip_version \<Rightarrow> nat \<Rightarrow> nat" where
  "netmask_of v p = 2 ^ max_prefixlen v - 2 ^ (max_prefixlen v - p)"

definition prefix_from_int :: "ip_version \<Rightarrow> nat \<Rightarrow> nat option" where
  "prefix_from_int v m = find (\<lambda>p. netmask_of v p = m) [0..<max_prefixlen v + 1]"

text \<open>Dotted-quad masks exist for IPv4 only: a netmask first, then a hostmask.\<close>

definition prefix_from_v4_mask :: "string \<Rightarrow> nat option" where
  "prefix_from_v4_mask s =
     (case parse_v4 s of
        None \<Rightarrow> None
      | Some m \<Rightarrow>
          (case prefix_from_int V4 m of
             Some p \<Rightarrow> Some p
           | None \<Rightarrow> prefix_from_int V4 (2 ^ 32 - 1 - m)))"

definition make_prefixlen :: "ip_version \<Rightarrow> string \<Rightarrow> nat option" where
  "make_prefixlen v s =
     (case parse_prefixlen v s of
        Some p \<Rightarrow> Some p
      | None \<Rightarrow> if v = V4 then prefix_from_v4_mask s else None)"

text \<open>With \<open>strict=False\<close> the host bits are cleared.\<close>

definition network_of :: "ip_version \<Rightarrow> nat \<Rightarrow> nat \<Rightarrow> ip_net" where
  "network_of v a p =
     \<lparr>net_ver = v, net_addr = a AND netmask_of v p, net_prefixlen = p\<rparr>"

definition ip_network_v :: "ip_version \<Rightarrow> (string \<Rightarrow> ip_addr option) \<Rightarrow> string \<Rightarrow> ip_net option" where
  "ip_network_v v parse s =
     (case py_split (CHR ''/'') s of
        [a] \<Rightarrow> map_option (\<lambda>x. network_of v (ip_int x) (max_prefixlen v)) (parse a)
      | [a, m] \<Rightarrow>
          (case parse a of
             None \<Rightarrow> None
           | Some x \<Rightarrow> map_option (network_of v (ip_int x)) (make_prefixlen v m))
      | _ \<Rightarrow> None)"

definition ip_network :: "string \<Rightarrow> ip_net option" where
  "ip_network s =
     (case ip_network_v V4 ipv4_address s of
        Some n \<Rightarrow> Some n
      | None \<Rightarrow> ip_network_v V6 ipv6_address s)"

text \<open>\<open>addr in net\<close>.\<close>

definition ip_in :: "ip_addr \<Rightarrow> ip_net \<Rightarrow> bool" where
  "ip_in a n \<longleftrightarrow>
     ip_ver a = net_ver n \<and>
     ip_int a AND netmask_of (net_ver n) (net_prefixlen n) = net_addr n"

section \<open>Facts\<close>

lemma parse_octet_bound: "parse_octet s = Some n \<Longrightarrow> n \<le> 255"
  by (auto simp: parse_octet_def split: if_splits)

lemma all_some_eq: "all_some xs = Some ys \<longleftrightarrow> xs = map Some ys"
  by (induction xs arbitrary: ys rule: all_some.induct) auto

lemma foldl_base_bound:
  fixes b :: nat
  assumes "\<forall>x\<in>set xs. x < b" and "a < b ^ k"
  shows "foldl (\<lambda>a x. a * b + x) a xs < b ^ (k + length xs)"
  using assms
proof (induction xs arbitrary: a k)
  case Nil
  then show ?case by simp
next
  case (Cons x xs)
  from Cons.prems have "a + 1 \<le> b ^ k" "x < b" by auto
  then have "(a + 1) * b \<le> b ^ k * b" by (intro mult_right_mono) auto
  with \<open>x < b\<close> have "a * b + x < b ^ Suc k" by (simp add: algebra_simps)
  with Cons.IH [of "a * b + x" "Suc k"] Cons.prems show ?case by simp
qed

lemma parse_v4_bound:
  assumes "parse_v4 s = Some n"
  shows "n < 2 ^ 32"
proof -
  from assms obtain os where os: "all_some (map parse_octet (py_split (CHR ''.'') s)) = Some os"
    and len: "length (py_split (CHR ''.'') s) = 4"
    and n: "n = foldl (\<lambda>a o'. a * 256 + o') 0 os"
    by (auto simp: parse_v4_def Let_def split: if_splits)
  from os have "map parse_octet (py_split (CHR ''.'') s) = map Some os"
    by (simp add: all_some_eq)
  then have "length os = 4" and "\<forall>x\<in>set os. x < 256"
    using len by (metis length_map, fastforce simp: in_set_conv_nth list_eq_iff_nth_eq
      dest!: parse_octet_bound)
  then show ?thesis
    using foldl_base_bound [of os 256 0 0] n by simp
qed

lemma network_of_prefixlen [simp]:
  "net_prefixlen (network_of v a p) = p" "net_ver (network_of v a p) = v"
  by (simp_all add: network_of_def)

lemma ip_in_own_network:
  "ip_in \<lparr>ip_ver = v, ip_int = a\<rparr> (network_of v a p)"
  by (simp add: ip_in_def network_of_def)

lemma prefix_from_int_bound: "prefix_from_int v m = Some p \<Longrightarrow> p \<le> max_prefixlen v"
  unfolding prefix_from_int_def by (drule find_Some_in) auto

lemma make_prefixlen_bound: "make_prefixlen v m = Some p \<Longrightarrow> p \<le> max_prefixlen v"
  by (auto simp: make_prefixlen_def parse_prefixlen_def prefix_from_v4_mask_def
      split: option.splits if_splits dest: prefix_from_int_bound)

lemma ip_network_v_shape:
  "ip_network_v v parse s = Some n \<Longrightarrow>
     net_ver n = v \<and> net_prefixlen n \<le> max_prefixlen v"
  by (auto simp: ip_network_v_def split: list.splits option.splits dest: make_prefixlen_bound)

lemma ip_network_prefixlen_bound:
  "ip_network s = Some n \<Longrightarrow> net_prefixlen n \<le> max_prefixlen (net_ver n)"
  by (auto simp: ip_network_def split: option.splits dest: ip_network_v_shape)

text \<open>A netmask keeps the leading bits: membership is agreement of the leading bits.\<close>

lemma netmask_mask: "p \<le> max_prefixlen v \<Longrightarrow>
    netmask_of v p = push_bit (max_prefixlen v - p) (mask p)"
  by (simp add: netmask_of_def push_bit_eq_mult mask_eq_exp_minus_1 diff_mult_distrib
      flip: power_add)

lemma and_netmask:
  fixes x :: nat
  assumes "x < 2 ^ max_prefixlen v" and "p \<le> max_prefixlen v"
  shows "x AND netmask_of v p = x div 2 ^ (max_prefixlen v - p) * 2 ^ (max_prefixlen v - p)"
proof -
  let ?w = "max_prefixlen v" and ?k = "max_prefixlen v - p"
  have "x div 2 ^ ?k < 2 ^ p"
    using assms by (simp add: less_mult_imp_div_less flip: power_add)
  then have small: "take_bit p (drop_bit ?k x) = drop_bit ?k x"
    by (simp add: take_bit_nat_eq_self drop_bit_eq_div)
  have "x AND push_bit ?k (mask p) = push_bit ?k (drop_bit ?k x AND mask p)"
    by (rule bit_eqI) (auto simp: bit_and_iff bit_push_bit_iff bit_drop_bit_eq)
  also have "\<dots> = push_bit ?k (drop_bit ?k x)"
    using small by (simp add: take_bit_eq_mask)
  finally show ?thesis
    by (simp add: netmask_mask assms push_bit_eq_mult drop_bit_eq_div)
qed

text \<open>The simplifier evaluates the module on literals with these equations.\<close>

lemmas ip_eval = ip_address_def ipv4_address_def ipv6_address_def parse_v4_def parse_octet_def
  is_ascii_digit_def digits_val_def digit_val_def ip_network_def ip_network_v_def
  make_prefixlen_def parse_prefixlen_def network_of_def netmask_of_def ip_in_def parse_v6_def
  strip_scope_def v6_parts_def v6_from_parts_def

end
