(* ===== verification/Device_Resolution.thy ===== *)
theory Device_Resolution
  imports Models Ip_Address Selection
begin

text \<open>
  \<open>app/authz/device_resolution.py\<close>: the device of a NAS source address by longest prefix.
  The loop of the source is \<open>resolve_loop\<close>, with its accumulator \<open>best\<close>; the choice it makes is
  an instance of the interface \<open>best_choice\<close>, scored by the prefix length.
\<close>

fun resolve_loop ::
    "ip_addr \<Rightarrow> (nat \<times> device_row) option \<Rightarrow> device_row list \<Rightarrow> (nat \<times> device_row) option" where
  "resolve_loop addr best [] = best"
| "resolve_loop addr best (device # rest) =
     (case ip_network (d_ip_or_cidr device) of
        None \<Rightarrow> resolve_loop addr best rest
      | Some net \<Rightarrow>
          if ip_ver addr \<noteq> net_ver net then resolve_loop addr best rest
          else if \<not> ip_in addr net then resolve_loop addr best rest
          else
            (let prefix_len = net_prefixlen net in
             if (case best of None \<Rightarrow> True | Some (l, _) \<Rightarrow> l < prefix_len)
             then resolve_loop addr (Some (prefix_len, device)) rest
             else resolve_loop addr best rest))"

definition resolve_device_for_ip :: "string \<Rightarrow> device_row list \<Rightarrow> device_row option" where
  "resolve_device_for_ip nas_ip ds =
     (case ip_address nas_ip of
        None \<Rightarrow> None
      | Some addr \<Rightarrow> map_option snd (resolve_loop addr None ds))"

text \<open>The prefix length with which a device covers an address, if it does.\<close>

definition covers :: "ip_addr \<Rightarrow> device_row \<Rightarrow> nat option" where
  "covers addr device =
     (case ip_network (d_ip_or_cidr device) of
        None \<Rightarrow> None
      | Some net \<Rightarrow> if ip_in addr net then Some (net_prefixlen net) else None)"

definition longest_prefix :: "ip_addr \<Rightarrow> device_row list \<Rightarrow> device_row option" where
  "longest_prefix addr ds = map_option snd (resolve_loop addr None ds)"

lemma resolve_loop_Cons:
  "resolve_loop addr best (device # rest) =
     (case covers addr device of
        None \<Rightarrow> resolve_loop addr best rest
      | Some p \<Rightarrow>
          (case best of
             None \<Rightarrow> resolve_loop addr (Some (p, device)) rest
           | Some (l, b) \<Rightarrow>
               if l < p then resolve_loop addr (Some (p, device)) rest
               else resolve_loop addr best rest))"
  by (auto simp: covers_def ip_in_def Let_def split: option.splits)

declare resolve_loop.simps(2) [simp del]

lemma resolve_loop_None:
  "resolve_loop addr best ds = None \<longleftrightarrow> best = None \<and> (\<forall>x\<in>set ds. covers addr x = None)"
  by (induction ds arbitrary: best)
     (auto simp: resolve_loop_Cons simp del: not_None_eq split: option.split)

lemma resolve_loop_Some:
  "resolve_loop addr best ds = Some (k, w) \<Longrightarrow>
     (best = Some (k, w) \<and> (\<forall>z\<in>set ds. \<forall>j. covers addr z = Some j \<longrightarrow> j \<le> k)) \<or>
     (\<exists>ys zs. ds = ys @ w # zs \<and> covers addr w = Some k \<and>
        (\<forall>l b. best = Some (l, b) \<longrightarrow> l < k) \<and>
        (\<forall>y\<in>set ys. \<forall>j. covers addr y = Some j \<longrightarrow> j < k) \<and>
        (\<forall>z\<in>set zs. \<forall>j. covers addr z = Some j \<longrightarrow> j \<le> k))"
proof (induction ds arbitrary: best)
  case Nil
  then show ?case by simp
next
  case (Cons x ds)
  consider (skip) "resolve_loop addr best ds = Some (k, w)"
      "\<forall>p. covers addr x = Some p \<longrightarrow> (\<exists>l b. best = Some (l, b) \<and> p \<le> l)"
    | (take) p where "covers addr x = Some p" "resolve_loop addr (Some (p, x)) ds = Some (k, w)"
      "\<forall>l b. best = Some (l, b) \<longrightarrow> l < p"
    using Cons.prems
    by (auto simp: resolve_loop_Cons not_less split: option.splits if_splits)
  then show ?case
  proof cases
    case skip
    from Cons.IH [OF skip(1)] show ?thesis
    proof (elim disjE exE conjE)
      assume "best = Some (k, w)" "\<forall>z\<in>set ds. \<forall>j. covers addr z = Some j \<longrightarrow> j \<le> k"
      with skip(2) show ?thesis by auto
    next
      fix ys zs
      assume *: "ds = ys @ w # zs" "covers addr w = Some k"
        "\<forall>l b. best = Some (l, b) \<longrightarrow> l < k"
        "\<forall>y\<in>set ys. \<forall>j. covers addr y = Some j \<longrightarrow> j < k"
        "\<forall>z\<in>set zs. \<forall>j. covers addr z = Some j \<longrightarrow> j \<le> k"
      with skip(2) have "\<forall>j. covers addr x = Some j \<longrightarrow> j < k" by fastforce
      with * show ?thesis by (intro disjI2 exI [of _ "x # ys"] exI [of _ zs]) auto
    qed
  next
    case take
    from Cons.IH [OF take(2)] show ?thesis
    proof (elim disjE exE conjE)
      assume "Some (p, x) = Some (k, w)" "\<forall>z\<in>set ds. \<forall>j. covers addr z = Some j \<longrightarrow> j \<le> k"
      with take show ?thesis by (intro disjI2 exI [of _ "[]"] exI [of _ ds]) auto
    next
      fix ys zs
      assume *: "ds = ys @ w # zs" "covers addr w = Some k"
        "\<forall>l b. Some (p, x) = Some (l, b) \<longrightarrow> l < k"
        "\<forall>y\<in>set ys. \<forall>j. covers addr y = Some j \<longrightarrow> j < k"
        "\<forall>z\<in>set zs. \<forall>j. covers addr z = Some j \<longrightarrow> j \<le> k"
      with take show ?thesis
        by (intro disjI2 exI [of _ "x # ys"] exI [of _ zs]) (auto intro: less_trans)
    qed
  qed
qed

interpretation lpm: best_choice "covers addr" "longest_prefix addr" for addr
proof (unfold_locales, goal_cases)
  case (1 ds)
  show ?case by (simp add: longest_prefix_def resolve_loop_None)
next
  case (2 ds w)
  then obtain k where "resolve_loop addr None ds = Some (k, w)"
    by (auto simp: longest_prefix_def)
  from resolve_loop_Some [OF this] show ?case by auto
qed

lemma resolve_device_longest:
  "resolve_device_for_ip nas_ip ds =
     Option.bind (ip_address nas_ip) (\<lambda>addr. longest_prefix addr ds)"
  by (simp add: resolve_device_for_ip_def longest_prefix_def split: option.splits)

section \<open>Properties\<close>

lemma ip_in_same_prefix:
  "ip_in a m \<Longrightarrow> ip_in a n \<Longrightarrow> net_prefixlen m = net_prefixlen n \<Longrightarrow> m = n"
  by (auto simp: ip_in_def intro: ip_net.equality)

text \<open>
  C23: The device of a NAS address is one whose network contains the address, and no device
  whose network contains it has a longer prefix.
\<close>

theorem resolved_device_is_longest_match:
  assumes "resolve_device_for_ip nas_ip ds = Some d"
  shows "d \<in> set ds \<and>
    (\<exists>addr net. ip_address nas_ip = Some addr \<and> ip_network (d_ip_or_cidr d) = Some net \<and>
       ip_in addr net \<and>
       (\<forall>d'\<in>set ds. \<forall>net'. ip_network (d_ip_or_cidr d') = Some net' \<longrightarrow> ip_in addr net' \<longrightarrow>
          net_prefixlen net' \<le> net_prefixlen net))"
proof -
  from assms obtain addr where addr: "ip_address nas_ip = Some addr"
    and l: "longest_prefix addr ds = Some d"
    by (auto simp: resolve_device_longest bind_eq_Some_conv)
  from lpm.chosen_eligible [OF l] obtain net where
    net: "ip_network (d_ip_or_cidr d) = Some net" "ip_in addr net"
    by (auto simp: covers_def split: option.splits if_splits)
  have "net_prefixlen net' \<le> net_prefixlen net"
    if "d' \<in> set ds" "ip_network (d_ip_or_cidr d') = Some net'" "ip_in addr net'" for d' net'
    using lpm.chosen_unbeaten [OF l that(1), of "net_prefixlen net'"] that net
    by (simp add: covers_def)
  with addr net lpm.chosen_mem [OF l] show ?thesis by blast
qed

definition ex_device :: "int \<Rightarrow> string \<Rightarrow> device_row" where
  "ex_device i cidr = \<lparr>d_id = i, d_name = ''sw'', d_ip_or_cidr = cidr, d_device_group_id = 1,
     current_secret_enc = Some ''s'', previous_secret_enc = None, previous_retired_at = None,
     d_description = None, d_created_at = 0, d_updated_at = 0\<rparr>"

lemma ex_addr: "ip_address ''10.0.5.9'' = Some \<lparr>ip_ver = V4, ip_int = 167773449\<rparr>"
  by (simp add: ip_eval)

lemma ex_net8: "ip_network ''10.0.0.0/8'' =
    Some \<lparr>net_ver = V4, net_addr = 167772160, net_prefixlen = 8\<rparr>"
  by (simp add: ip_eval)

lemma ex_net24: "ip_network ''10.0.5.0/24'' =
    Some \<lparr>net_ver = V4, net_addr = 167773440, net_prefixlen = 24\<rparr>"
  by (simp add: ip_eval)

lemma ex_resolve:
  "resolve_device_for_ip ''10.0.5.9'' [ex_device 1 ''10.0.0.0/8'', ex_device 2 ''10.0.5.0/24'']
     = Some (ex_device 2 ''10.0.5.0/24'')"
  by (simp add: resolve_device_for_ip_def ex_addr resolve_loop_Cons covers_def ex_device_def
      ex_net8 ex_net24 ip_in_def netmask_of_def)

theorem resolved_device_is_longest_match_witness:
  "ex_device 2 ''10.0.5.0/24'' \<in> set [ex_device 1 ''10.0.0.0/8'', ex_device 2 ''10.0.5.0/24'']"
  using resolved_device_is_longest_match [OF ex_resolve] by blast

text \<open>
  An address that some device covers always resolves, and to the same device whatever the
  order of the rows, when no two devices denote the same network.
\<close>

theorem resolution_complete_and_order_free:
  assumes "ip_address nas_ip = Some addr" and "d \<in> set ds"
    and "ip_network (d_ip_or_cidr d) = Some net" and "ip_in addr net"
    and "inj_on (\<lambda>x. ip_network (d_ip_or_cidr x)) (set ds)" and "set ds = set ds'"
  shows "\<exists>r. resolve_device_for_ip nas_ip ds = Some r \<and> resolve_device_for_ip nas_ip ds' = Some r"
proof -
  have "longest_prefix addr ds = longest_prefix addr ds'"
  proof (rule lpm.pick_order_free [OF assms(6)])
    fix x y
    assume xy: "x \<in> set ds" "y \<in> set ds" "covers addr x \<noteq> None" "covers addr x = covers addr y"
    then obtain m n where "ip_network (d_ip_or_cidr x) = Some m" "ip_in addr m"
      "ip_network (d_ip_or_cidr y) = Some n" "ip_in addr n" "net_prefixlen m = net_prefixlen n"
      by (auto simp: covers_def split: option.splits if_splits)
    with ip_in_same_prefix [of addr m n]
    have "ip_network (d_ip_or_cidr x) = ip_network (d_ip_or_cidr y)" by simp
    with assms(5) xy(1,2) show "x = y" by (simp add: inj_on_def)
  qed
  moreover have "covers addr d \<noteq> None" using assms by (simp add: covers_def)
  then obtain r where "longest_prefix addr ds = Some r" using lpm.pick_exists assms(2) by blast
  ultimately have "longest_prefix addr ds = Some r" "longest_prefix addr ds' = Some r"
    by simp_all
  with assms(1) show ?thesis by (intro exI [of _ r]) (simp add: resolve_device_longest)
qed

theorem resolution_complete_and_order_free_witness:
  "\<exists>r. resolve_device_for_ip ''10.0.5.9'' [ex_device 1 ''10.0.0.0/8''] = Some r \<and>
       resolve_device_for_ip ''10.0.5.9'' [ex_device 1 ''10.0.0.0/8''] = Some r"
  by (rule resolution_complete_and_order_free [OF ex_addr _ _ _ _ refl,
        where d = "ex_device 1 ''10.0.0.0/8''" and
          net = "\<lparr>net_ver = V4, net_addr = 167772160, net_prefixlen = 8\<rparr>"])
     (simp_all add: ex_device_def ex_net8 ip_in_def netmask_of_def)

end
