(* ===== verification/Escaping.thy ===== *)
theory Escaping
  imports Py_Base
begin

text \<open>
  The interface of the escape functions of the repository that put an untrusted value inside a
  delimited literal (\<open>key = "..."\<close> of the NAS configuration, \<open>set k = "..."\<close> of a profile
  script, \<open>PARAM-VALUE\<close> of RFC 5424). The promise is the locale \<open>bs_literal\<close>: the function
  works character by character, puts a backslash before each of its special characters, and the
  backslash itself is special. From that alone follow the facts the components need: the value
  can be read back, different values stay different, and a reader of the literal stops exactly
  at the closing delimiter, so a value never escapes from its literal.
\<close>

definition bs_escape :: "char list \<Rightarrow> string \<Rightarrow> string" where
  "bs_escape S s = concat (map (\<lambda>c. if c \<in> set S then [bslash, c] else [c]) s)"

fun bs_unescape :: "string \<Rightarrow> string" where
  "bs_unescape [] = []"
| "bs_unescape [c] = [c]"
| "bs_unescape (c # d # s) =
     (if c = bslash then d # bs_unescape s else c # bs_unescape (d # s))"

text \<open>
  The reader of a literal that ends at the delimiter \<open>q\<close>: a backslash protects the character
  after it. It returns the value and the text after the delimiter.
\<close>

fun read_literal :: "char \<Rightarrow> string \<Rightarrow> (string \<times> string) option" where
  "read_literal q [] = None"
| "read_literal q [c] = (if c = q then Some ([], []) else None)"
| "read_literal q (c # d # s) =
     (if c = q then Some ([], d # s)
      else if c = bslash then map_option (\<lambda>(v, r). (d # v, r)) (read_literal q s)
      else map_option (\<lambda>(v, r). (c # v, r)) (read_literal q (d # s)))"

lemma bs_escape_Nil [simp]: "bs_escape S [] = []"
  by (simp add: bs_escape_def)

lemma bs_escape_Cons [py_simps]:
  "bs_escape S (c # s) = (if c \<in> set S then bslash # c # bs_escape S s else c # bs_escape S s)"
  by (simp add: bs_escape_def)

lemma bs_escape_append [py_simps]: "bs_escape S (s @ t) = bs_escape S s @ bs_escape S t"
  by (simp add: bs_escape_def)

lemma bs_escape_eq_Nil [simp]: "bs_escape S s = [] \<longleftrightarrow> s = []"
  by (cases s) (auto simp: py_simps)

lemma bs_unescape_plain: "c \<noteq> bslash \<Longrightarrow> bs_unescape (c # s) = c # bs_unescape s"
  by (cases s) auto

lemma bs_unescape_escape: "bslash \<in> set S \<Longrightarrow> bs_unescape (bs_escape S s) = s"
proof (induction s)
  case Nil
  then show ?case by simp
next
  case (Cons c s)
  then show ?case by (cases "c = bslash") (auto simp: py_simps bs_unescape_plain)
qed

lemma read_literal_plain:
  "c \<noteq> q \<Longrightarrow> c \<noteq> bslash \<Longrightarrow> s \<noteq> [] \<Longrightarrow>
     read_literal q (c # s) = map_option (\<lambda>(v, r). (c # v, r)) (read_literal q s)"
  by (cases s) auto

lemma read_literal_stop [simp]: "read_literal q (q # r) = Some ([], r)"
  by (cases r) auto

lemma read_literal_escape:
  assumes "bslash \<in> set S" and "q \<in> set S" and "q \<noteq> bslash"
  shows "read_literal q (bs_escape S s @ q # r) = Some (s, r)"
proof (induction s)
  case Nil
  then show ?case by simp
next
  case (Cons c s)
  show ?case
  proof (cases "c \<in> set S")
    case True
    with Cons assms show ?thesis by (auto simp: py_simps)
  next
    case False
    with assms have "c \<noteq> q" "c \<noteq> bslash" by auto
    with Cons False show ?thesis by (simp add: py_simps read_literal_plain)
  qed
qed

locale bs_literal =
  fixes esc :: "string \<Rightarrow> string" and specials :: "char list"
  assumes esc_by_char: "esc s = bs_escape specials s"
    and bslash_special: "bslash \<in> set specials"
begin

lemma esc_Nil: "esc [] = []"
  by (simp add: esc_by_char)

lemma unescape_esc: "bs_unescape (esc s) = s"
  by (simp add: esc_by_char bs_unescape_escape bslash_special)

lemma esc_inject: "esc s = esc t \<longleftrightarrow> s = t"
  by (metis unescape_esc)

lemma esc_append: "esc (s @ t) = esc s @ esc t"
  by (simp add: esc_by_char py_simps)

lemma esc_read:
  "q \<in> set specials \<Longrightarrow> q \<noteq> bslash \<Longrightarrow> read_literal q (esc s @ q # r) = Some (s, r)"
  by (simp add: esc_by_char read_literal_escape bslash_special)

lemma esc_keeps: "c \<in> set s \<Longrightarrow> c \<in> set (esc s)"
  by (induction s) (auto simp: esc_by_char py_simps)

lemma esc_adds: "c \<in> set (esc s) \<Longrightarrow> c = bslash \<or> c \<in> set s"
  by (induction s) (auto simp: esc_by_char py_simps split: if_splits)

end

text \<open>
  The replacement chains of the source, backslash first, are such functions.
\<close>

lemma replace_chain2:
  "a \<noteq> bslash \<Longrightarrow>
   py_replace a [bslash, a] (py_replace bslash [bslash, bslash] s) = bs_escape [bslash, a] s"
  by (induction s) (auto simp: py_simps)

lemma replace_chain3:
  "a \<noteq> bslash \<Longrightarrow> b \<noteq> bslash \<Longrightarrow> a \<noteq> b \<Longrightarrow>
   py_replace b [bslash, b] (py_replace a [bslash, a] (py_replace bslash [bslash, bslash] s))
     = bs_escape [bslash, a, b] s"
  by (induction s) (auto simp: py_simps)

end
