(* ===== verification/Profile_Render.thy ===== *)
theory Profile_Render
  imports Models Escaping
begin

text \<open>
  \<open>app/authz/profile_render.py\<close>: a privilege profile as a tac_plus-ng profile script.
  \<open>render_tacprofile\<close> builds the text line by line as the source does. The semantics its
  comment gives the script (per command, the first line that applies decides; deny patterns come
  before permit patterns; the tail denies) is \<open>run_script\<close>, an interpreter of the lines of the
  \<open>service == shell\<close> block, whose regular expression matcher is a parameter.
\<close>

definition indent :: "nat \<Rightarrow> string" where
  "indent n = replicate n (CHR '' '')"

definition escape_double_quote :: "string \<Rightarrow> string" where
  "escape_double_quote value =
     py_replace dquote [bslash, dquote] (py_replace bslash [bslash, bslash] value)"

definition escape_regex_for_script :: "string \<Rightarrow> string" where
  "escape_regex_for_script pattern = py_replace (CHR ''/'') [bslash, CHR ''/''] pattern"

definition extra_av_lines :: "(string \<times> string) list \<Rightarrow> string list" where
  "extra_av_lines av =
     map (\<lambda>(key, value). indent 20 @ ''set '' @ key @ '' = '' @ [dquote]
       @ escape_double_quote value @ [dquote]) av"

definition shell_session_block :: "privilege_profile_row \<Rightarrow> string list" where
  "shell_session_block p =
     [indent 16 @ ''if (cmd == '' @ [dquote, dquote] @ '') {'',
      indent 20 @ ''set priv-lvl = '' @ int_to_str (tacacs_priv_lvl p)]
     @ extra_av_lines (extra_av_pairs p)
     @ [indent 20 @ ''permit'', indent 16 @ ''}'']"

definition deny_line :: "string \<Rightarrow> string" where
  "deny_line pattern =
     indent 16 @ ''if (cmd =~ /'' @ escape_regex_for_script pattern @ ''/) deny''"

definition permit_line :: "string \<Rightarrow> string" where
  "permit_line pattern =
     indent 16 @ ''if (cmd =~ /'' @ escape_regex_for_script pattern @ ''/) permit''"

definition per_command_lines :: "privilege_profile_row \<Rightarrow> string list" where
  "per_command_lines p =
     (if permit_commands_regex p = [] \<and> deny_commands_regex p = []
      then [indent 16 @ ''permit'']
      else map deny_line (deny_commands_regex p) @ map permit_line (permit_commands_regex p)
        @ [indent 16 @ ''deny''])"

definition render_lines :: "privilege_profile_row \<Rightarrow> string list" where
  "render_lines p =
     [''{'', indent 4 @ ''profile {'', indent 8 @ ''script {'',
      indent 12 @ ''if (service == shell) {'']
     @ shell_session_block p @ per_command_lines p
     @ [indent 12 @ ''}'', indent 12 @ ''deny'', indent 8 @ ''}'', indent 4 @ ''}'', ''}'']"

definition render_tacprofile :: "privilege_profile_row \<Rightarrow> string" where
  "render_tacprofile p = py_join [nl] (render_lines p)"

interpretation av_literal: bs_literal escape_double_quote "[bslash, dquote]"
  by unfold_locales (simp_all add: escape_double_quote_def replace_chain2)

section \<open>Escaped patterns\<close>

text \<open>The reader of a pattern inside \<open>/.../\<close>: a backslash directly before a slash goes away.\<close>

fun unescape_slash :: "string \<Rightarrow> string" where
  "unescape_slash [] = []"
| "unescape_slash [c] = [c]"
| "unescape_slash (c # d # s) =
     (if c = bslash \<and> d = CHR ''/'' then CHR ''/'' # unescape_slash s
      else c # unescape_slash (d # s))"

text \<open>Every slash of the text has a backslash directly before it.\<close>

fun slashes_guarded :: "char \<Rightarrow> string \<Rightarrow> bool" where
  "slashes_guarded prev [] = True"
| "slashes_guarded prev (c # s) = ((c = CHR ''/'' \<longrightarrow> prev = bslash) \<and> slashes_guarded c s)"

lemma escape_regex_Nil [simp]: "escape_regex_for_script [] = []"
  by (simp add: escape_regex_for_script_def)

lemma escape_regex_Cons:
  "escape_regex_for_script (c # s) =
     (if c = CHR ''/'' then bslash # CHR ''/'' # escape_regex_for_script s
      else c # escape_regex_for_script s)"
  by (simp add: escape_regex_for_script_def py_simps)

lemma escape_regex_hd_slash: "escape_regex_for_script s \<noteq> CHR ''/'' # t"
  by (cases s) (auto simp: escape_regex_Cons bslash_def)

lemma unescape_slash_Cons:
  "(\<forall>t. s \<noteq> CHR ''/'' # t) \<Longrightarrow> unescape_slash (c # s) = c # unescape_slash s"
  by (cases s) auto

lemma unescape_slash_escape: "unescape_slash (escape_regex_for_script s) = s"
proof (induction s)
  case Nil
  then show ?case by simp
next
  case (Cons c s)
  then show ?case
    by (auto simp: escape_regex_Cons unescape_slash_Cons escape_regex_hd_slash)
qed

lemma escape_regex_guarded: "slashes_guarded p (escape_regex_for_script s)"
  by (induction s arbitrary: p) (auto simp: escape_regex_Cons)

section \<open>What the script decides\<close>

datatype verdict = Permit | Deny

text \<open>The per-command lines, read back: a guarded line or a bare verdict.\<close>

datatype command_line = When string verdict | Always verdict

definition line_text :: "command_line \<Rightarrow> string" where
  "line_text l =
     (case l of
        When re Deny \<Rightarrow> deny_line re
      | When re Permit \<Rightarrow> permit_line re
      | Always Deny \<Rightarrow> indent 16 @ ''deny''
      | Always Permit \<Rightarrow> indent 16 @ ''permit'')"

fun run_script :: "(string \<Rightarrow> string \<Rightarrow> bool) \<Rightarrow> command_line list \<Rightarrow> string \<Rightarrow> verdict option" where
  "run_script matches [] cmd = None"
| "run_script matches (When re v # ls) cmd =
     (if matches re cmd then Some v else run_script matches ls cmd)"
| "run_script matches (Always v # ls) cmd = Some v"

definition command_program :: "privilege_profile_row \<Rightarrow> command_line list" where
  "command_program p =
     (if permit_commands_regex p = [] \<and> deny_commands_regex p = [] then [Always Permit]
      else map (\<lambda>re. When re Deny) (deny_commands_regex p)
        @ map (\<lambda>re. When re Permit) (permit_commands_regex p) @ [Always Deny])"

text \<open>ADR-0006: deny wins over permit, no patterns means no restriction, otherwise default deny.\<close>

definition command_allowed :: "(string \<Rightarrow> string \<Rightarrow> bool) \<Rightarrow> privilege_profile_row \<Rightarrow> string \<Rightarrow> bool" where
  "command_allowed matches p cmd \<longleftrightarrow>
     \<not> list_ex (\<lambda>re. matches re cmd) (deny_commands_regex p) \<and>
     (list_ex (\<lambda>re. matches re cmd) (permit_commands_regex p) \<or>
      (permit_commands_regex p = [] \<and> deny_commands_regex p = []))"

lemma command_program_text: "map line_text (command_program p) = per_command_lines p"
  by (simp add: command_program_def per_command_lines_def line_text_def comp_def)

lemma run_script_append:
  "run_script m (ls @ ks) cmd =
     (case run_script m ls cmd of None \<Rightarrow> run_script m ks cmd | Some v \<Rightarrow> Some v)"
  by (induction m ls cmd rule: run_script.induct) auto

lemma run_script_when:
  "run_script m (map (\<lambda>re. When re v) res) cmd =
     (if list_ex (\<lambda>re. m re cmd) res then Some v else None)"
  by (induction res) auto

lemma run_command_program:
  "run_script m (command_program p) cmd = Some (if command_allowed m p cmd then Permit else Deny)"
  by (auto simp: command_program_def command_allowed_def run_script_append run_script_when)

section \<open>Properties\<close>


text \<open>
  Every value of an extra AV pair is read back from the rendered line unchanged, up to the
  closing quote and no further, whatever characters it holds.
\<close>

theorem av_value_reads_back:
  "extra_av_lines [(k, v)] =
     [indent 20 @ ''set '' @ k @ '' = '' @ [dquote] @ escape_double_quote v @ [dquote]] \<and>
   read_literal dquote (escape_double_quote v @ dquote # rest) = Some (v, rest)"
  by (simp add: extra_av_lines_def av_literal.esc_read)

text \<open>
  A pattern put between slashes keeps its text: removing the backslash before each slash
  gives the pattern back, and no slash of the escaped text stands without a backslash.
\<close>

theorem pattern_escape_roundtrip:
  "unescape_slash (escape_regex_for_script re) = re \<and>
   slashes_guarded (CHR ''/'') (escape_regex_for_script re)"
  by (simp add: unescape_slash_escape escape_regex_guarded)

text \<open>
  Escaping only the slash does not survive a reader that takes backslash pairs: the pattern
  of a backslash and a slash then ends early, and one ending in a backslash never ends.
\<close>

theorem pattern_escape_not_pairwise:
  "read_literal (CHR ''/'') (escape_regex_for_script [bslash, CHR ''/'', CHR ''x''] @ ''/) deny'')
     = Some ([bslash], ''x/) deny'') \<and>
   read_literal (CHR ''/'') (escape_regex_for_script [CHR ''x'', bslash] @ ''/) deny'') = None"
  by (simp add: escape_regex_Cons bslash_def)

end
