(* ===== verification/Nas_Config.thy ===== *)
theory Nas_Config
  imports Models Escaping "HOL-Library.Multiset"
begin

text \<open>
  \<open>app/nas_config\<close>: the \<open>host\<close> blocks of \<open>hosts.cfg\<close> from the Device table, the bootstrap
  fallback, and the regeneration of the file. \<open>regenerate_nas_config\<close> takes the environment's
  shared secret and whether the volume can be written; an \<open>OSError\<close> of a write is \<open>None\<close>.
\<close>

section \<open>Block names (render.py)\<close>

definition safe_name_char :: "char \<Rightarrow> bool" where
  "safe_name_char c \<longleftrightarrow>
     (65 \<le> ord_c c \<and> ord_c c \<le> 90) \<or> (97 \<le> ord_c c \<and> ord_c c \<le> 122) \<or>
     is_ascii_digit c \<or> c = CHR ''_''"

text \<open>\<open>re.sub(r"_+", "_", s)\<close>.\<close>

fun collapse_underscores :: "string \<Rightarrow> string" where
  "collapse_underscores [] = []"
| "collapse_underscores [c] = [c]"
| "collapse_underscores (c # d # s) =
     (if c = CHR ''_'' \<and> d = CHR ''_'' then collapse_underscores (d # s)
      else c # collapse_underscores (d # s))"

definition strip_underscores :: "string \<Rightarrow> string" where
  "strip_underscores s =
     rev (dropWhile (\<lambda>c. c = CHR ''_'') (rev (dropWhile (\<lambda>c. c = CHR ''_'') s)))"

definition safe_block_name :: "string \<Rightarrow> string" where
  "safe_block_name name =
     (let cleaned = map (\<lambda>c. if safe_name_char c then c else CHR ''_'') name;
          cleaned' = strip_underscores (collapse_underscores cleaned)
      in if cleaned' = [] then ''dev'' else cleaned')"

section \<open>Host blocks (render.py)\<close>

definition escape_quoted :: "string \<Rightarrow> string" where
  "escape_quoted value =
     py_replace dquote [bslash, dquote] (py_replace bslash [bslash, bslash] value)"

definition key_line :: "string \<Rightarrow> string" where
  "key_line secret = ''    key = '' @ [dquote] @ escape_quoted secret @ [dquote]"

definition host_block :: "string \<Rightarrow> device_row \<Rightarrow> string" where
  "host_block safe d =
     py_join [nl]
       ([''host '' @ safe @ '' {'',
         ''    address = '' @ d_ip_or_cidr d,
         key_line (or_default (current_secret_enc d) [])]
        @ (if truthy (previous_secret_enc d) then [key_line (the (previous_secret_enc d))] else [])
        @ [''    mavis backend = yes'', ''}''])"

text \<open>The loop over the sorted devices: the blocks so far, with the name each block got.\<close>

fun render_loop :: "string list \<Rightarrow> device_row list \<Rightarrow> (string \<times> device_row) list" where
  "render_loop seen_names [] = []"
| "render_loop seen_names (device # rest) =
     (if \<not> truthy (current_secret_enc device) then render_loop seen_names rest
      else
        (let safe = safe_block_name (d_name device);
             safe' = (if safe \<in> set seen_names then safe @ ''_'' @ int_to_str (d_id device)
                      else safe)
         in (safe', device) # render_loop (safe' # seen_names) rest))"

definition named_blocks :: "device_row list \<Rightarrow> (string \<times> device_row) list" where
  "named_blocks ds = render_loop [] (sort_key (\<lambda>d. (d_name d, d_id d)) ds)"

definition render_host_blocks :: "device_row list \<Rightarrow> string" where
  "render_host_blocks ds =
     (let blocks = map (\<lambda>(safe, d). host_block safe d) (named_blocks ds) in
      if blocks \<noteq> [] then py_join [nl, nl] blocks @ [nl] else [])"

section \<open>Writing the file (writer.py)\<close>

definition fallback_block :: "string \<Rightarrow> string" where
  "fallback_block shared_secret =
     (let safe_secret =
            py_replace dquote [bslash, dquote] (py_replace bslash [bslash, bslash] shared_secret)
      in ''host bootstrap {'' @ [nl] @
         ''    address = 0.0.0.0/0'' @ [nl] @
         ''    address = ::/0'' @ [nl] @
         ''    key = '' @ [dquote] @ safe_secret @ [dquote, nl] @
         ''    mavis backend = yes'' @ [nl] @
         ''}'' @ [nl] @
         [nl] @
         ''# Docker healthcheck probes via TCP from the container'' @ [squote] @ ''s own'' @ [nl] @
         ''# loopback; matching it explicitly stops the log from filling'' @ [nl] @
         ''# with `connection request from ::1 ... rejected (host unknown)`'' @ [nl] @
         ''# every 15 seconds.'' @ [nl] @
         ''host healthcheck {'' @ [nl] @
         ''    address = 127.0.0.1'' @ [nl] @
         ''    address = ::1'' @ [nl] @
         ''    key = '' @ [dquote] @ ''healthcheck-only-no-tacacs-traffic'' @ [dquote, nl] @
         ''}'' @ [nl])"

definition rendered_config :: "string \<Rightarrow> db \<Rightarrow> string" where
  "rendered_config shared_secret d =
     (let rendered = render_host_blocks (devices d) in
      if rendered = [] then
        (if shared_secret \<noteq> [] then fallback_block shared_secret else rendered)
      else rendered)"

text \<open>The content returned and the new \<open>hosts.cfg\<close>; \<open>None\<close> is an \<open>OSError\<close>.\<close>

definition regenerate_nas_config :: "string \<Rightarrow> bool \<Rightarrow> db \<Rightarrow> string option" where
  "regenerate_nas_config shared_secret writable d =
     (if writable then Some (rendered_config shared_secret d) else None)"

interpretation key_literal: bs_literal escape_quoted "[bslash, dquote]"
  by unfold_locales (simp_all add: escape_quoted_def replace_chain2)

section \<open>Facts\<close>

lemma collapse_set: "set (collapse_underscores s) = set s"
  by (induction s rule: collapse_underscores.induct) auto

lemma collapse_hd: "collapse_underscores (c # s) = c # tl (collapse_underscores (c # s))"
proof (induction s arbitrary: c)
  case Nil
  then show ?case by simp
next
  case (Cons d s)
  then show ?case by (cases "c = CHR ''_'' \<and> d = CHR ''_''") (metis collapse_underscores.simps(3) list.sel(3))+
qed

fun no_double_underscore :: "string \<Rightarrow> bool" where
  "no_double_underscore (c # d # s) =
     (\<not> (c = CHR ''_'' \<and> d = CHR ''_'') \<and> no_double_underscore (d # s))"
| "no_double_underscore s = True"

lemma no_double_tl: "no_double_underscore (c # s) \<Longrightarrow> no_double_underscore s"
  by (cases s) auto

lemma no_double_Cons:
  "no_double_underscore s \<Longrightarrow> (s \<noteq> [] \<Longrightarrow> c = CHR ''_'' \<Longrightarrow> hd s \<noteq> CHR ''_'') \<Longrightarrow>
     no_double_underscore (c # s)"
  by (cases s) auto

lemma collapse_no_double: "no_double_underscore (collapse_underscores s)"
proof (induction s rule: collapse_underscores.induct)
  case (3 c d s)
  have "hd (collapse_underscores (d # s)) = d" by (subst collapse_hd) simp
  with 3 show ?case by (auto intro!: no_double_Cons)
qed auto

lemma no_double_dropWhile: "no_double_underscore s \<Longrightarrow> no_double_underscore (dropWhile P s)"
  by (induction s) (auto dest: no_double_tl)

lemma no_double_append1: "no_double_underscore (s @ t) \<Longrightarrow> no_double_underscore s"
proof (induction s rule: no_double_underscore.induct)
  case (1 c d s)
  then show ?case by auto
qed auto

lemma strip_split1:
  "s = takeWhile (\<lambda>c. c = CHR ''_'') s @ strip_underscores s @
     rev (takeWhile (\<lambda>c. c = CHR ''_'') (rev (dropWhile (\<lambda>c. c = CHR ''_'') s)))"
proof -
  let ?P = "\<lambda>c. c = CHR ''_''"
  have "rev (takeWhile ?P (rev (dropWhile ?P s)) @ dropWhile ?P (rev (dropWhile ?P s))) =
      dropWhile ?P s"
    by (simp only: takeWhile_dropWhile_id rev_rev_ident)
  then have "strip_underscores s @ rev (takeWhile ?P (rev (dropWhile ?P s))) = dropWhile ?P s"
    by (simp only: rev_append strip_underscores_def)
  then show ?thesis by simp
qed

lemma strip_split:
  "\<exists>u v. s = u @ strip_underscores s @ v \<and> set u \<subseteq> {CHR ''_''} \<and> set v \<subseteq> {CHR ''_''}"
proof -
  have "set (takeWhile (\<lambda>c. c = CHR ''_'') s) \<subseteq> {CHR ''_''}" for s
    by (auto dest: set_takeWhileD)
  then show ?thesis using strip_split1 [of s] by (metis set_rev)
qed

lemma hd_dropWhile_us: "dropWhile (\<lambda>c. c = CHR ''_'') s \<noteq> [] \<Longrightarrow>
    hd (dropWhile (\<lambda>c. c = CHR ''_'') s) \<noteq> CHR ''_''"
  using hd_dropWhile [of "\<lambda>c. c = CHR ''_''" s] by blast

lemma strip_ends:
  "strip_underscores s \<noteq> [] \<Longrightarrow>
     hd (strip_underscores s) \<noteq> CHR ''_'' \<and> last (strip_underscores s) \<noteq> CHR ''_''"
proof -
  assume ne: "strip_underscores s \<noteq> []"
  let ?P = "\<lambda>c. c = CHR ''_''"
  let ?t = "dropWhile ?P s"
  from ne have r: "dropWhile ?P (rev ?t) \<noteq> []" by (simp add: strip_underscores_def)
  have "last (strip_underscores s) = hd (dropWhile ?P (rev ?t))"
    using r by (simp add: strip_underscores_def last_rev)
  then have l: "last (strip_underscores s) \<noteq> CHR ''_''" using hd_dropWhile_us [OF r] by simp
  from r have t: "?t \<noteq> []" by (metis dropWhile.simps(1) rev.simps(1))
  have "s = takeWhile ?P s @ strip_underscores s @ rev (takeWhile ?P (rev ?t))"
    by (rule strip_split1)
  moreover have "s = takeWhile ?P s @ ?t" by simp
  ultimately have "?t = strip_underscores s @ rev (takeWhile ?P (rev ?t))"
    by (metis same_append_eq)
  then have "hd ?t = hd (strip_underscores s)" using ne by (metis hd_append2)
  with hd_dropWhile_us [OF t] l show ?thesis by simp
qed

lemma render_loop_devices:
  "map snd (render_loop seen ds) = filter (\<lambda>d. truthy (current_secret_enc d)) ds"
  by (induction ds arbitrary: seen) (auto simp: Let_def)

lemma safe_char_map: "c \<in> set (map (\<lambda>c. if safe_name_char c then c else CHR ''_'') s) \<Longrightarrow>
    safe_name_char c"
  by (auto simp: safe_name_char_def)

lemma strip_set: "set (strip_underscores s) \<subseteq> set s"
  using strip_split [of s] by (metis Un_iff set_append subsetI)

lemma strip_no_double: "no_double_underscore s \<Longrightarrow> no_double_underscore (strip_underscores s)"
proof -
  assume "no_double_underscore s"
  then have t: "no_double_underscore (dropWhile (\<lambda>c. c = CHR ''_'') s)"
    by (rule no_double_dropWhile)
  have "dropWhile (\<lambda>c. c = CHR ''_'') s = strip_underscores s @
      rev (takeWhile (\<lambda>c. c = CHR ''_'') (rev (dropWhile (\<lambda>c. c = CHR ''_'') s)))"
    using strip_split1 [of s] by (metis same_append_eq takeWhile_dropWhile_id)
  with t show ?thesis by (metis no_double_append1)
qed

lemma render_loop_names_fresh:
  "distinct (map (\<lambda>d. safe_block_name (d_name d)) ds) \<Longrightarrow>
   set seen \<inter> set (map (\<lambda>d. safe_block_name (d_name d)) ds) = {} \<Longrightarrow>
   render_loop seen ds =
     map (\<lambda>d. (safe_block_name (d_name d), d)) (filter (\<lambda>d. truthy (current_secret_enc d)) ds)"
proof (induction ds arbitrary: seen)
  case Nil
  then show ?case by simp
next
  case (Cons d ds)
  from Cons.prems have fresh: "safe_block_name (d_name d) \<notin> set seen" by auto
  have "render_loop (safe_block_name (d_name d) # seen) ds = map (\<lambda>d. (safe_block_name (d_name d), d))
      (filter (\<lambda>d. truthy (current_secret_enc d)) ds)"
    using Cons.prems by (intro Cons.IH) auto
  moreover have "render_loop seen ds = map (\<lambda>d. (safe_block_name (d_name d), d))
      (filter (\<lambda>d. truthy (current_secret_enc d)) ds)"
    using Cons.prems by (intro Cons.IH) auto
  ultimately show ?case using fresh by (simp add: Let_def)
qed

section \<open>Properties\<close>

text \<open>
  The name of a block is a valid identifier: not empty, only letters, digits and
  underscores, no two underscores in a row, none at either end.
\<close>

theorem block_name_wellformed:
  "safe_block_name n \<noteq> [] \<and> list_all safe_name_char (safe_block_name n) \<and>
   no_double_underscore (safe_block_name n) \<and>
   hd (safe_block_name n) \<noteq> CHR ''_'' \<and> last (safe_block_name n) \<noteq> CHR ''_''"
proof -
  let ?m = "map (\<lambda>c. if safe_name_char c then c else CHR ''_'') n"
  let ?s = "strip_underscores (collapse_underscores ?m)"
  show ?thesis
  proof (cases "?s = []")
    case True
    then have "safe_block_name n = ''dev''" by (simp add: safe_block_name_def Let_def)
    then show ?thesis by (simp add: safe_name_char_def)
  next
    case False
    then have n: "safe_block_name n = ?s" by (simp add: safe_block_name_def Let_def)
    have "set ?s \<subseteq> set ?m"
      using strip_set [of "collapse_underscores ?m"] by (simp only: collapse_set)
    then have "list_all safe_name_char ?s"
      unfolding list_all_iff using safe_char_map [of _ n] by blast
    moreover have "no_double_underscore ?s" by (intro strip_no_double collapse_no_double)
    moreover note strip_ends [OF False]
    ultimately show ?thesis unfolding n using False by blast
  qed
qed

text \<open>
  The configuration has one block for each device that has a secret, and no other, in the
  order of the device names and then of the ids.
\<close>

theorem one_block_per_provisioned_device:
  "map snd (named_blocks ds) =
     filter (\<lambda>d. truthy (current_secret_enc d)) (sort_key (\<lambda>d. (d_name d, d_id d)) ds) \<and>
   mset (map snd (named_blocks ds)) = {# d \<in># mset ds. truthy (current_secret_enc d) #}"
  by (simp add: named_blocks_def render_loop_devices mset_filter)

text \<open>
  The key of a block is read back unchanged from the rendered line, up to the closing quote
  and no further: no secret can add text to the configuration.
\<close>

theorem key_line_reads_back:
  "key_line s = ''    key = '' @ [dquote] @ escape_quoted s @ [dquote] \<and>
   read_literal dquote (escape_quoted s @ dquote # rest) = Some (s, rest)"
  by (simp add: key_line_def key_literal.esc_read)

text \<open>
  When the devices' names are different after the filter, each block has its device's
  filtered name, so block names are pairwise different.
\<close>

theorem block_names_distinct_if_filtered_names_are:
  assumes "distinct (map (\<lambda>d. safe_block_name (d_name d)) ds)"
  shows "distinct (map fst (named_blocks ds)) \<and>
    list_all (\<lambda>(safe, d). safe = safe_block_name (d_name d)) (named_blocks ds)"
proof -
  let ?s = "sort_key (\<lambda>d. (d_name d, d_id d)) ds"
  have "mset (map (\<lambda>d. safe_block_name (d_name d)) ?s) =
      mset (map (\<lambda>d. safe_block_name (d_name d)) ds)" by simp
  then have d: "distinct (map (\<lambda>d. safe_block_name (d_name d)) ?s)"
    using assms by (metis mset_eq_imp_distinct_iff)
  then have "named_blocks ds = map (\<lambda>d. (safe_block_name (d_name d), d))
      (filter (\<lambda>d. truthy (current_secret_enc d)) ?s)"
    unfolding named_blocks_def by (intro render_loop_names_fresh) auto
  with d show ?thesis by (simp add: list_all_iff comp_def distinct_map_filter)
qed

definition ex_named :: "int \<Rightarrow> string \<Rightarrow> device_row" where
  "ex_named i n = \<lparr>d_id = i, d_name = n, d_ip_or_cidr = ''10.0.0.1'', d_device_group_id = 1,
     current_secret_enc = Some ''s'', previous_secret_enc = None, previous_retired_at = None,
     d_description = None, d_created_at = 0, d_updated_at = 0\<rparr>"

lemmas safe_name_eval = safe_block_name_def strip_underscores_def safe_name_char_def
  is_ascii_digit_def Let_def

theorem block_names_distinct_if_filtered_names_are_witness:
  "distinct (map fst (named_blocks [ex_named 1 ''a b'', ex_named 2 ''c'']))"
  using block_names_distinct_if_filtered_names_are [of "[ex_named 1 ''a b'', ex_named 2 ''c'']"]
  by (simp add: ex_named_def safe_name_eval)

text \<open>
  Appending the id to a name already taken does not look at whether the result is taken:
  the devices "a b", "a b_2" and "a_b" with ids 1, 3 and 2 get two blocks called "a_b_2".
\<close>

theorem block_names_can_collide:
  "map fst (named_blocks [ex_named 1 ''a b'', ex_named 2 ''a_b'', ex_named 3 ''a b_2'']) =
     [''a_b'', ''a_b_2'', ''a_b_2'']"
proof -
  have "sort_key (\<lambda>d. (d_name d, d_id d)) [ex_named 1 ''a b'', ex_named 2 ''a_b'', ex_named 3 ''a b_2''] =
      [ex_named 1 ''a b'', ex_named 3 ''a b_2'', ex_named 2 ''a_b'']"
    by (simp add: ex_named_def less_eq_prod_def less_char_def)
  then show ?thesis
    by (simp add: named_blocks_def safe_name_eval ex_named_def int_to_str_def nat_to_str.simps)
qed

end
