(* ===== verification/Requests.thy ===== *)
theory Requests
  imports Models
begin

text \<open>
  What all HTTP handlers share: the result of a handler is the database it leaves committed and
  either an error or a response. An exception no handler catches becomes a 500 response and the
  session is rolled back; the text of the exception is kept to tell the cases apart.
\<close>

datatype http_exc = HTTPException int string | Unhandled string

type_synonym 'a outcome = "db \<times> (http_exc + 'a)"

record request_info =
  rq_client_ip :: "string option"
  rq_user_agent :: "string option"

text \<open>An exception at this point leaves the database \<open>d0\<close> of the last commit.\<close>

definition or_500 :: "db \<Rightarrow> 'b exn \<Rightarrow> ('b \<Rightarrow> 'a outcome) \<Rightarrow> 'a outcome" where
  "or_500 d0 r k = (case r of Inl e \<Rightarrow> (d0, Inl (Unhandled e)) | Inr x \<Rightarrow> k x)"

text \<open>A dependency that raises ends the request; one that returns hands its database on.\<close>

definition depends :: "'b outcome \<Rightarrow> (db \<Rightarrow> 'b \<Rightarrow> 'a outcome) \<Rightarrow> 'a outcome" where
  "depends r k = (case r of (d, Inl e) \<Rightarrow> (d, Inl e) | (d, Inr x) \<Rightarrow> k d x)"

lemma or_500_simps [simp]:
  "or_500 d0 (Inl e) k = (d0, Inl (Unhandled e))" "or_500 d0 (Inr x) k = k x"
  by (simp_all add: or_500_def)

lemma depends_simps [simp]:
  "depends (d, Inl e) k = (d, Inl e)" "depends (d, Inr x) k = k d x"
  by (simp_all add: depends_def)

end
