(* ===== verification/Audit_Trail.thy ===== *)
theory Audit_Trail
  imports Requests
begin

text \<open>
  \<open>app/audit\<close>: the closed vocabulary of action codes and the single insertion path of the
  audit log. The constants of \<open>actions.py\<close> are the constructors of \<open>audit_action\<close>.
\<close>

datatype (plugins only: code) audit_action =
    LOCAL_ADMIN_BOOTSTRAPPED | LOCAL_ADMIN_PASSWORD_RESET | AUTH_LOGIN_SUCCEEDED
    | AUTH_LOGIN_FAILED | AUTH_LOGOUT | AUTH_SESSION_EXPIRED | DEVICE_CREATED | DEVICE_UPDATED
    | DEVICE_DELETED | DEVICE_SECRET_ROTATED | DEVICE_PREVIOUS_RETIRED | DEVICE_GROUP_CREATED
    | DEVICE_GROUP_UPDATED | DEVICE_GROUP_DELETED | PRIVILEGE_PROFILE_CREATED
    | PRIVILEGE_PROFILE_UPDATED | PRIVILEGE_PROFILE_DELETED | AUTHORIZATION_CREATED
    | AUTHORIZATION_DELETED | SETTING_LDAP_URL_UPDATED | SETTING_WEB_BASE_URL_UPDATED
    | TLS_CERT_UPLOADED | TLS_PFX_UPLOADED | TLS_CERT_REGENERATED | SAML_IDP_METADATA_IMPORTED
    | SAML_MAPPING_UPDATED | SAML_SP_KEYPAIR_REGENERATED | LDAP_SYNC_CONFIG_UPDATED
    | LDAP_SYNC_TEST_SUCCEEDED | LDAP_SYNC_TEST_FAILED | LDAP_SYNC_RUN_SUCCEEDED
    | LDAP_SYNC_RUN_FAILED | TACACS_AUTHN_SUCCEEDED | TACACS_AUTHN_FAILED
    | TACACS_AUTHZ_SUCCEEDED | TACACS_AUTHZ_FAILED | NAS_CONFIG_REGENERATED
    | SYSLOG_CONFIG_UPDATED | SYSLOG_TEST_SUCCEEDED | SYSLOG_TEST_FAILED
    | SETUP_WIZARD_COMPLETED | SETUP_WIZARD_REOPENED

primrec action_code :: "audit_action \<Rightarrow> string" where
  "action_code LOCAL_ADMIN_BOOTSTRAPPED = ''local_admin.bootstrapped''"
| "action_code LOCAL_ADMIN_PASSWORD_RESET = ''local_admin.password_reset''"
| "action_code AUTH_LOGIN_SUCCEEDED = ''auth.login_succeeded''"
| "action_code AUTH_LOGIN_FAILED = ''auth.login_failed''"
| "action_code AUTH_LOGOUT = ''auth.logout''"
| "action_code AUTH_SESSION_EXPIRED = ''auth.session_expired''"
| "action_code DEVICE_CREATED = ''device.created''"
| "action_code DEVICE_UPDATED = ''device.updated''"
| "action_code DEVICE_DELETED = ''device.deleted''"
| "action_code DEVICE_SECRET_ROTATED = ''device.secret_rotated''"
| "action_code DEVICE_PREVIOUS_RETIRED = ''device.previous_secret_retired''"
| "action_code DEVICE_GROUP_CREATED = ''device_group.created''"
| "action_code DEVICE_GROUP_UPDATED = ''device_group.updated''"
| "action_code DEVICE_GROUP_DELETED = ''device_group.deleted''"
| "action_code PRIVILEGE_PROFILE_CREATED = ''privilege_profile.created''"
| "action_code PRIVILEGE_PROFILE_UPDATED = ''privilege_profile.updated''"
| "action_code PRIVILEGE_PROFILE_DELETED = ''privilege_profile.deleted''"
| "action_code AUTHORIZATION_CREATED = ''authorization.created''"
| "action_code AUTHORIZATION_DELETED = ''authorization.deleted''"
| "action_code SETTING_LDAP_URL_UPDATED = ''setting.ldap_url_updated''"
| "action_code SETTING_WEB_BASE_URL_UPDATED = ''setting.web_base_url_updated''"
| "action_code TLS_CERT_UPLOADED = ''tls.cert_uploaded''"
| "action_code TLS_PFX_UPLOADED = ''tls.pfx_uploaded''"
| "action_code TLS_CERT_REGENERATED = ''tls.cert_regenerated_self_signed''"
| "action_code SAML_IDP_METADATA_IMPORTED = ''saml.idp_metadata_imported''"
| "action_code SAML_MAPPING_UPDATED = ''saml.mapping_updated''"
| "action_code SAML_SP_KEYPAIR_REGENERATED = ''saml.sp_keypair_regenerated''"
| "action_code LDAP_SYNC_CONFIG_UPDATED = ''ldap_sync.config_updated''"
| "action_code LDAP_SYNC_TEST_SUCCEEDED = ''ldap_sync.test_succeeded''"
| "action_code LDAP_SYNC_TEST_FAILED = ''ldap_sync.test_failed''"
| "action_code LDAP_SYNC_RUN_SUCCEEDED = ''ldap_sync.run_succeeded''"
| "action_code LDAP_SYNC_RUN_FAILED = ''ldap_sync.run_failed''"
| "action_code TACACS_AUTHN_SUCCEEDED = ''tacacs.authn_succeeded''"
| "action_code TACACS_AUTHN_FAILED = ''tacacs.authn_failed''"
| "action_code TACACS_AUTHZ_SUCCEEDED = ''tacacs.authz_succeeded''"
| "action_code TACACS_AUTHZ_FAILED = ''tacacs.authz_failed''"
| "action_code NAS_CONFIG_REGENERATED = ''nas_config.regenerated''"
| "action_code SYSLOG_CONFIG_UPDATED = ''syslog.config_updated''"
| "action_code SYSLOG_TEST_SUCCEEDED = ''syslog.test_succeeded''"
| "action_code SYSLOG_TEST_FAILED = ''syslog.test_failed''"
| "action_code SETUP_WIZARD_COMPLETED = ''setup.wizard_completed''"
| "action_code SETUP_WIZARD_REOPENED = ''setup.wizard_reopened''"

definition listed_actions :: "audit_action list" where
  "listed_actions = [
     LOCAL_ADMIN_BOOTSTRAPPED, LOCAL_ADMIN_PASSWORD_RESET, AUTH_LOGIN_SUCCEEDED
     , AUTH_LOGIN_FAILED, AUTH_LOGOUT, AUTH_SESSION_EXPIRED, DEVICE_CREATED, DEVICE_UPDATED
     , DEVICE_DELETED, DEVICE_SECRET_ROTATED, DEVICE_PREVIOUS_RETIRED, DEVICE_GROUP_CREATED
     , DEVICE_GROUP_UPDATED, DEVICE_GROUP_DELETED, PRIVILEGE_PROFILE_CREATED
     , PRIVILEGE_PROFILE_UPDATED, PRIVILEGE_PROFILE_DELETED, AUTHORIZATION_CREATED
     , AUTHORIZATION_DELETED, SETTING_LDAP_URL_UPDATED, SETTING_WEB_BASE_URL_UPDATED
     , TLS_CERT_UPLOADED, TLS_PFX_UPLOADED, TLS_CERT_REGENERATED, SAML_IDP_METADATA_IMPORTED
     , SAML_MAPPING_UPDATED, SAML_SP_KEYPAIR_REGENERATED, LDAP_SYNC_CONFIG_UPDATED
     , LDAP_SYNC_TEST_SUCCEEDED, LDAP_SYNC_TEST_FAILED, LDAP_SYNC_RUN_SUCCEEDED
     , LDAP_SYNC_RUN_FAILED, TACACS_AUTHN_SUCCEEDED, TACACS_AUTHN_FAILED, TACACS_AUTHZ_SUCCEEDED
     , TACACS_AUTHZ_FAILED, NAS_CONFIG_REGENERATED, SYSLOG_CONFIG_UPDATED, SYSLOG_TEST_SUCCEEDED
     , SYSLOG_TEST_FAILED, SETUP_WIZARD_COMPLETED, SETUP_WIZARD_REOPENED]"

definition ALL_ACTIONS :: "string list" where
  "ALL_ACTIONS = List.map action_code listed_actions"

text \<open>The keyword arguments of \<open>append\<close>, with the defaults of the source in \<open>audit_args\<close>.\<close>

record audit_entry =
  ae_actor_username :: string
  ae_actor_role :: string
  ae_auth_method :: string
  ae_action :: string
  ae_target_type :: "string option"
  ae_target_id :: "int option"
  ae_summary :: "string option"
  ae_client_ip :: "string option"
  ae_user_agent :: "string option"
  ae_actor_id :: "int option"

definition audit_args :: "string \<Rightarrow> string \<Rightarrow> string \<Rightarrow> audit_action \<Rightarrow> audit_entry" where
  "audit_args username role auth_method action =
     \<lparr>ae_actor_username = username, ae_actor_role = role, ae_auth_method = auth_method,
      ae_action = action_code action, ae_target_type = None, ae_target_id = None,
      ae_summary = None, ae_client_ip = None, ae_user_agent = None, ae_actor_id = None\<rparr>"

definition audit_row_of :: "instant \<Rightarrow> int \<Rightarrow> audit_entry \<Rightarrow> audit_row" where
  "audit_row_of ts i e =
     \<lparr>al_id = i, al_ts = ts, al_actor_id = ae_actor_id e,
      actor_username_snapshot = ae_actor_username e, actor_role = ae_actor_role e,
      al_auth_method = ae_auth_method e, al_action = ae_action e,
      target_type = ae_target_type e, target_id = ae_target_id e, al_summary = ae_summary e,
      al_client_ip = ae_client_ip e, al_user_agent = ae_user_agent e\<rparr>"

definition audit_append :: "instant \<Rightarrow> audit_entry \<Rightarrow> db \<Rightarrow> db exn" where
  "audit_append ts e d =
     (if ae_action e \<notin> set ALL_ACTIONS then Inl ''ValueError: unknown audit action''
      else Inr (bump_seq T_audit_log
             (d\<lparr>audit_log := audit_log d @ [audit_row_of ts (seqs d T_audit_log) e]\<rparr>)))"

record session_context =
  sc_token :: string
  sc_username :: string
  sc_role :: string
  sc_auth_method :: string
  sc_actor_id :: "int option"
  sc_client_ip :: "string option"
  sc_user_agent :: "string option"

definition crud_entry ::
    "session_context \<Rightarrow> audit_action \<Rightarrow> string \<Rightarrow> int \<Rightarrow> string option \<Rightarrow> audit_entry" where
  "crud_entry ctx action ttype tid summary =
     (audit_args (sc_username ctx) (sc_role ctx) (sc_auth_method ctx) action)
       \<lparr>ae_actor_id := sc_actor_id ctx, ae_target_type := Some ttype, ae_target_id := Some tid,
        ae_summary := summary, ae_client_ip := sc_client_ip ctx,
        ae_user_agent := sc_user_agent ctx\<rparr>"

definition append_crud ::
    "instant \<Rightarrow> session_context \<Rightarrow> audit_action \<Rightarrow> string \<Rightarrow> int \<Rightarrow> string option \<Rightarrow> db \<Rightarrow> db exn" where
  "append_crud ts ctx action ttype tid summary d =
     audit_append ts (crud_entry ctx action ttype tid summary) d"

text \<open>What a successful \<open>append\<close> does to the database.\<close>

definition with_audit :: "instant \<Rightarrow> audit_entry \<Rightarrow> db \<Rightarrow> db" where
  "with_audit ts e d = bump_seq T_audit_log
     (d\<lparr>audit_log := audit_log d @ [audit_row_of ts (seqs d T_audit_log) e]\<rparr>)"

lemma every_action_listed: "a \<in> set listed_actions"
  by (cases a) (simp_all add: listed_actions_def)

lemma action_codes_distinct: "distinct ALL_ACTIONS"
  by (simp add: ALL_ACTIONS_def listed_actions_def)

declare action_code.simps [simp del]

lemma action_registered [simp]: "action_code a \<in> set ALL_ACTIONS"
  unfolding ALL_ACTIONS_def set_map by (rule imageI) (rule every_action_listed)

lemma audit_args_fields [simp]:
  "ae_action (audit_args u r m a) = action_code a" "ae_actor_username (audit_args u r m a) = u"
  "ae_actor_role (audit_args u r m a) = r" "ae_auth_method (audit_args u r m a) = m"
  by (simp_all add: audit_args_def)

lemma audit_append_registered [simp]:
  "ae_action e \<in> set ALL_ACTIONS \<Longrightarrow> audit_append ts e d = Inr (with_audit ts e d)"
  by (simp add: audit_append_def with_audit_def)

lemma append_crud_ok [simp]:
  "append_crud ts ctx a ty i s d = Inr (with_audit ts (crud_entry ctx a ty i s) d)"
  by (simp add: append_crud_def crud_entry_def)

lemma with_audit_frame [simp]:
  "users (with_audit ts e d) = users d" "ad_groups (with_audit ts e d) = ad_groups d"
  "user_ad_group (with_audit ts e d) = user_ad_group d"
  "device_groups (with_audit ts e d) = device_groups d"
  "privilege_profiles (with_audit ts e d) = privilege_profiles d"
  "devices (with_audit ts e d) = devices d" "authorizations (with_audit ts e d) = authorizations d"
  "local_admins (with_audit ts e d) = local_admins d"
  "web_sessions (with_audit ts e d) = web_sessions d"
  "audit_log (with_audit ts e d) = audit_log d @ [audit_row_of ts (seqs d T_audit_log) e]"
  "accounting_records (with_audit ts e d) = accounting_records d"
  "system_settings (with_audit ts e d) = system_settings d"
  "system_secrets (with_audit ts e d) = system_secrets d"
  "t \<noteq> T_audit_log \<Longrightarrow> seqs (with_audit ts e d) t = seqs d t"
  by (simp_all add: with_audit_def)

lemma with_audit_seq: "seqs (with_audit now e d) =
    (seqs d)(T_audit_log := seqs d T_audit_log + 1)"
  by (simp add: with_audit_def)

lemma audit_row_fields [simp]:
  "al_action (audit_row_of ts i e) = ae_action e" "al_ts (audit_row_of ts i e) = ts"
  "al_id (audit_row_of ts i e) = i" "al_summary (audit_row_of ts i e) = ae_summary e"
  "actor_username_snapshot (audit_row_of ts i e) = ae_actor_username e"
  by (simp_all add: audit_row_of_def)

lemma config_ok_with_audit [simp]: "config_ok (with_audit ts e d) = config_ok d"
proof -
  have "authz_refs_ok (with_audit ts e d) = authz_refs_ok d"
    by (rule ext) (simp add: authz_refs_ok_def split: option.split)
  then show ?thesis by (simp add: config_ok_def authorizations_ok_def)
qed

lemma action_code_inject [simp]: "action_code a = action_code b \<longleftrightarrow> a = b"
proof -
  have "inj_on action_code (set listed_actions)"
    using action_codes_distinct by (simp add: ALL_ACTIONS_def distinct_map)
  then show ?thesis using every_action_listed by (auto dest: inj_onD)
qed

end
