(* ===== verification/Sessions.thy ===== *)
theory Sessions
  imports Audit_Trail
begin

text \<open>
  \<open>app/auth/sessions.py\<close>: server-side web sessions. A session slides by eight hours with every
  request and never outlives twenty-four hours. The random token is a parameter of
  \<open>create_session\<close>; a token that is already taken is an integrity error.
\<close>

definition SESSION_SLIDING_LIFETIME :: int where
  "SESSION_SLIDING_LIFETIME = seconds (8 * 3600)"

definition SESSION_HARD_LIFETIME :: int where
  "SESSION_HARD_LIFETIME = seconds (24 * 3600)"

definition get_web_session :: "db \<Rightarrow> string \<Rightarrow> web_session_row option" where
  "get_web_session d token = find (\<lambda>w. ws_token w = token) (web_sessions d)"

definition insert_web_session :: "web_session_row \<Rightarrow> db \<Rightarrow> db exn" where
  "insert_web_session w d =
     (if ws_token w \<in> set (map ws_token (web_sessions d)) \<or> \<not> web_session_ok w \<or>
         (case ws_local_admin_id w of
            None \<Rightarrow> False | Some i \<Rightarrow> i \<notin> set (map la_id (local_admins d)))
      then Inl ''IntegrityError''
      else Inr (d\<lparr>web_sessions := web_sessions d @ [w]\<rparr>))"

definition new_session_row ::
    "instant \<Rightarrow> string \<Rightarrow> string \<Rightarrow> string \<Rightarrow> string \<Rightarrow> int option \<Rightarrow> string option \<Rightarrow> web_session_row" where
  "new_session_row now token username role auth_method actor_id client_ip =
     \<lparr>ws_token = token, ws_auth_method = auth_method,
      ws_local_admin_id = (if auth_method = ''local'' then actor_id else None),
      username_snapshot = username, ws_role = role, ws_created_at = now, ws_last_seen_at = now,
      ws_expires_at = now + SESSION_SLIDING_LIFETIME,
      hard_expires_at = now + SESSION_HARD_LIFETIME, ws_client_ip = client_ip\<rparr>"

definition create_session ::
    "instant \<Rightarrow> string \<Rightarrow> string \<Rightarrow> string \<Rightarrow> string \<Rightarrow> int option \<Rightarrow> string option \<Rightarrow> db \<Rightarrow> db exn" where
  "create_session now token username role auth_method actor_id client_ip d =
     insert_web_session (new_session_row now token username role auth_method actor_id client_ip) d"

definition delete_web_session :: "string \<Rightarrow> db \<Rightarrow> db" where
  "delete_web_session token d =
     d\<lparr>web_sessions := filter (\<lambda>w. ws_token w \<noteq> token) (web_sessions d)\<rparr>"

definition revoke_session :: "string \<Rightarrow> db \<Rightarrow> db \<times> bool" where
  "revoke_session token d =
     (case get_web_session d token of
        None \<Rightarrow> (d, False)
      | Some row \<Rightarrow> (delete_web_session token d, True))"

definition load_active_session :: "string \<Rightarrow> instant \<Rightarrow> db \<Rightarrow> db \<times> web_session_row option" where
  "load_active_session token now d =
     (case get_web_session d token of
        None \<Rightarrow> (d, None)
      | Some row \<Rightarrow>
          if hard_expires_at row \<le> now \<or> ws_expires_at row \<le> now
          then (delete_web_session token d, None)
          else (d, Some row))"

definition slide :: "instant \<Rightarrow> web_session_row \<Rightarrow> web_session_row" where
  "slide now row =
     row\<lparr>ws_last_seen_at := now,
         ws_expires_at := min (now + SESSION_SLIDING_LIFETIME) (hard_expires_at row)\<rparr>"

definition context_of :: "request_info \<Rightarrow> web_session_row \<Rightarrow> session_context" where
  "context_of rq row =
     \<lparr>sc_token = ws_token row, sc_username = username_snapshot row, sc_role = ws_role row,
      sc_auth_method = ws_auth_method row, sc_actor_id = ws_local_admin_id row,
      sc_client_ip = rq_client_ip rq, sc_user_agent = rq_user_agent rq\<rparr>"

definition require_session ::
    "instant \<Rightarrow> request_info \<Rightarrow> string option \<Rightarrow> db \<Rightarrow> session_context outcome" where
  "require_session now rq cookie_token d =
     (if \<not> truthy cookie_token then (d, Inl (HTTPException 401 ''no_session''))
      else
        (case load_active_session (the cookie_token) now d of
           (d', None) \<Rightarrow> (d', Inl (HTTPException 401 ''session_expired''))
         | (d', Some row) \<Rightarrow>
             (d'\<lparr>web_sessions := map (\<lambda>w. if ws_token w = ws_token row then slide now w else w)
                   (web_sessions d')\<rparr>,
              Inr (context_of rq row))))"

definition require_admin ::
    "instant \<Rightarrow> request_info \<Rightarrow> string option \<Rightarrow> db \<Rightarrow> session_context outcome" where
  "require_admin now rq cookie_token d =
     depends (require_session now rq cookie_token d) (\<lambda>d' ctx.
       if sc_role ctx \<noteq> ''admin'' then (d', Inl (HTTPException 403 ''admin_required''))
       else (d', Inr ctx))"

section \<open>The invariant of the session table\<close>

definition session_times_ok :: "instant \<Rightarrow> web_session_row \<Rightarrow> bool" where
  "session_times_ok now w \<longleftrightarrow>
     ws_created_at w \<le> ws_last_seen_at w \<and> ws_last_seen_at w \<le> now \<and>
     hard_expires_at w = ws_created_at w + SESSION_HARD_LIFETIME \<and>
     ws_expires_at w = min (ws_last_seen_at w + SESSION_SLIDING_LIFETIME) (hard_expires_at w)"

definition sessions_ok :: "instant \<Rightarrow> db \<Rightarrow> bool" where
  "sessions_ok now d \<longleftrightarrow>
     distinct (map ws_token (web_sessions d)) \<and>
     list_all (session_times_ok now) (web_sessions d) \<and>
     list_all web_session_ok (web_sessions d)"

text \<open>
  The life of the session table: time passes, a login creates a session, a request checks one,
  a logout revokes one. A state is the clock and the database.
\<close>

inductive session_step :: "instant \<times> db \<Rightarrow> instant \<times> db \<Rightarrow> bool" where
  tick: "now \<le> now' \<Longrightarrow> session_step (now, d) (now', d)"
| login: "create_session now token username role auth_method actor_id client_ip d = Inr d' \<Longrightarrow>
    session_step (now, d) (now, d')"
| check: "require_session now rq cookie d = (d', r) \<Longrightarrow> session_step (now, d) (now, d')"
| logout: "revoke_session token d = (d', b) \<Longrightarrow> session_step (now, d) (now, d')"

inductive_cases session_stepE: "session_step s s'"

inductive session_reachable :: "instant \<times> db \<Rightarrow> bool" where
  start: "web_sessions d = [] \<Longrightarrow> session_reachable (now, d)"
| step: "session_reachable s \<Longrightarrow> session_step s s' \<Longrightarrow> session_reachable s'"

lemma get_web_session_Some:
  "get_web_session d token = Some w \<Longrightarrow> w \<in> set (web_sessions d) \<and> ws_token w = token"
  unfolding get_web_session_def by (drule find_Some_in) simp

lemma slide_fields [simp]:
  "ws_token (slide now w) = ws_token w" "ws_auth_method (slide now w) = ws_auth_method w"
  "ws_role (slide now w) = ws_role w" "ws_created_at (slide now w) = ws_created_at w"
  "hard_expires_at (slide now w) = hard_expires_at w"
  by (simp_all add: slide_def)

lemma session_times_tick: "session_times_ok now w \<Longrightarrow> now \<le> now' \<Longrightarrow> session_times_ok now' w"
  by (auto simp: session_times_ok_def)

lemma session_times_slide: "session_times_ok now w \<Longrightarrow> session_times_ok now (slide now w)"
  by (auto simp: session_times_ok_def slide_def)

lemma sessions_ok_delete: "sessions_ok now d \<Longrightarrow> sessions_ok now (delete_web_session token d)"
  by (auto simp: sessions_ok_def delete_web_session_def list_all_iff distinct_map_filter)

lemma sessions_ok_create:
  "create_session now token un ro am ai ip d = Inr d' \<Longrightarrow> sessions_ok now d \<Longrightarrow> sessions_ok now d'"
  by (auto simp: create_session_def insert_web_session_def new_session_row_def sessions_ok_def
      session_times_ok_def SESSION_SLIDING_LIFETIME_def SESSION_HARD_LIFETIME_def split: if_splits)

lemma sessions_ok_slide:
  "sessions_ok now d \<Longrightarrow>
     sessions_ok now (d\<lparr>web_sessions := map (\<lambda>w. if ws_token w = t then slide now w else w)
       (web_sessions d)\<rparr>)"
  by (auto simp: sessions_ok_def list_all_iff session_times_slide web_session_ok_def
      map_key_update simp del: map_map)

lemma load_active_sessionD:
  "load_active_session token now d = (d', r) \<Longrightarrow>
     (case r of
        None \<Rightarrow> d' = d \<or> d' = delete_web_session token d
      | Some w \<Rightarrow> d' = d \<and> get_web_session d token = Some w \<and>
          now < hard_expires_at w \<and> now < ws_expires_at w)"
  by (auto simp: load_active_session_def split: option.splits if_splits)

lemma sessions_ok_require:
  "require_session now rq cookie d = (d', r) \<Longrightarrow> sessions_ok now d \<Longrightarrow> sessions_ok now d'"
  by (auto simp: require_session_def sessions_ok_delete sessions_ok_slide
      split: if_splits prod.splits option.splits dest!: load_active_sessionD)

lemma session_step_keeps: "session_step (t, d) (t', d') \<Longrightarrow> sessions_ok t d \<Longrightarrow> sessions_ok t' d'"
  by (erule session_stepE)
     (auto simp: revoke_session_def sessions_ok_delete split: option.splits
       intro: sessions_ok_create sessions_ok_require,
      auto simp: sessions_ok_def list_all_iff intro: session_times_tick)

lemma session_reachable_ok: "session_reachable s \<Longrightarrow> sessions_ok (fst s) (snd s)"
proof (induction rule: session_reachable.induct)
  case (start d now)
  then show ?case by (simp add: sessions_ok_def)
next
  case (step s s')
  then show ?case using session_step_keeps [of "fst s" "snd s" "fst s'" "snd s'"] by simp
qed

lemma require_session_accepts:
  assumes "require_session now rq cookie d = (d', Inr ctx)"
  shows "\<exists>w. cookie = Some (sc_token ctx) \<and> get_web_session d (sc_token ctx) = Some w \<and>
    now < hard_expires_at w \<and> now < ws_expires_at w \<and> ctx = context_of rq w"
proof -
  from assms obtain token d1 where c: "cookie = Some token"
    and "load_active_session token now d = (d1, None) \<or>
      (\<exists>w. load_active_session token now d = (d1, Some w) \<and> ctx = context_of rq w)"
    and n: "load_active_session token now d \<noteq> (d1, None)"
    by (cases cookie) (auto simp: require_session_def split: if_splits prod.splits option.splits)
  then obtain w where l: "load_active_session token now d = (d1, Some w)"
    and ctx: "ctx = context_of rq w" by blast
  from load_active_sessionD [OF l] have w: "get_web_session d token = Some w"
    "now < hard_expires_at w" "now < ws_expires_at w" by auto
  moreover from get_web_session_Some [OF w(1)] ctx have "sc_token ctx = token"
    by (simp add: context_of_def)
  ultimately show ?thesis using c ctx by auto
qed

lemma get_web_session_unique:
  "sessions_ok t d \<Longrightarrow> w \<in> set (web_sessions d) \<Longrightarrow> get_web_session d (ws_token w) = Some w"
  unfolding get_web_session_def sessions_ok_def by (rule find_distinct_key) simp_all

lemma get_web_session_deleted: "get_web_session (delete_web_session token d) token = None"
  by (auto simp: get_web_session_def delete_web_session_def find_None_all)

section \<open>Properties\<close>

text \<open>
  C25: In every reachable state a request is let through only with the token of a stored session
  that was created less than 24 hours ago and last used less than eight hours ago; the caller's
  name and role are the ones stored with that session.
\<close>

theorem accepted_session_is_alive:
  assumes "session_reachable (now, d)"
    and "require_session now rq cookie d = (d', Inr ctx)"
  shows "\<exists>w\<in>set (web_sessions d). cookie = Some (ws_token w) \<and>
    sc_username ctx = username_snapshot w \<and> sc_role ctx = ws_role w \<and>
    now < ws_created_at w + seconds (24 * 3600) \<and> now < ws_last_seen_at w + seconds (8 * 3600)"
proof -
  from require_session_accepts [OF assms(2)] obtain w where
    w: "cookie = Some (sc_token ctx)" "get_web_session d (sc_token ctx) = Some w"
      "now < hard_expires_at w" "now < ws_expires_at w" "ctx = context_of rq w" by blast
  then have mem: "w \<in> set (web_sessions d)" "ws_token w = sc_token ctx"
    by (auto dest: get_web_session_Some)
  have "sessions_ok now d" using session_reachable_ok [OF assms(1)] by simp
  with mem have "session_times_ok now w" by (simp add: sessions_ok_def list_all_iff)
  with w(3,4) have "now < ws_created_at w + seconds (24 * 3600)"
    "now < ws_last_seen_at w + seconds (8 * 3600)"
    by (simp_all add: session_times_ok_def SESSION_SLIDING_LIFETIME_def SESSION_HARD_LIFETIME_def)
  moreover from w(5) have "sc_username ctx = username_snapshot w" "sc_role ctx = ws_role w"
    by (simp_all add: context_of_def)
  ultimately show ?thesis using w(1) mem by metis
qed

definition ex_rq :: request_info where
  "ex_rq = \<lparr>rq_client_ip = Some ''10.0.0.9'', rq_user_agent = None\<rparr>"

definition ex_session_db :: db where
  "ex_session_db = empty_db\<lparr>web_sessions :=
     [new_session_row 5 ''tok'' ''admin'' ''admin'' ''saml'' None None]\<rparr>"

lemma ex_session_created:
  "create_session 5 ''tok'' ''admin'' ''admin'' ''saml'' None None empty_db = Inr ex_session_db"
  by (simp add: create_session_def insert_web_session_def new_session_row_def web_session_ok_def
      ex_session_db_def empty_db_def)

lemma ex_session_reachable: "session_reachable (5, ex_session_db)"
  by (rule session_reachable.step [OF session_reachable.start session_step.login
        [OF ex_session_created]]) (simp add: empty_db_def)

lemma ex_session_accepted:
  "require_session 5 ex_rq (Some ''tok'') ex_session_db =
     (ex_session_db, Inr (context_of ex_rq
        (new_session_row 5 ''tok'' ''admin'' ''admin'' ''saml'' None None)))"
  by (simp add: require_session_def load_active_session_def get_web_session_def ex_session_db_def
      new_session_row_def slide_def SESSION_SLIDING_LIFETIME_def SESSION_HARD_LIFETIME_def)

theorem accepted_session_is_alive_witness:
  "\<exists>w\<in>set (web_sessions ex_session_db). Some ''tok'' = Some (ws_token w)"
  using accepted_session_is_alive [OF ex_session_reachable ex_session_accepted] by blast

text \<open>
  A session that is alive is accepted, and the request slides its expiry to eight hours from
  now, but never past the end of its 24 hours.
\<close>

theorem live_session_is_accepted_and_slides:
  assumes "sessions_ok now d" and "w \<in> set (web_sessions d)" and "ws_token w \<noteq> []"
    and "now < hard_expires_at w" and "now < ws_expires_at w"
  shows "\<exists>d'. require_session now rq (Some (ws_token w)) d = (d', Inr (context_of rq w)) \<and>
    get_web_session d' (ws_token w) = Some (slide now w) \<and>
    ws_expires_at (slide now w) = min (now + seconds (8 * 3600)) (ws_created_at w + seconds (24 * 3600)) \<and>
    sessions_ok now d'"
proof -
  let ?d = "d\<lparr>web_sessions := map (\<lambda>v. if ws_token v = ws_token w then slide now v else v)
    (web_sessions d)\<rparr>"
  have ok: "sessions_ok now ?d" by (rule sessions_ok_slide [OF assms(1)])
  have "slide now w \<in> set (web_sessions ?d)" using assms(2) by force
  from get_web_session_unique [OF ok this] have "get_web_session ?d (ws_token w) = Some (slide now w)"
    by simp
  moreover have "require_session now rq (Some (ws_token w)) d = (?d, Inr (context_of rq w))"
    using assms(3-5) get_web_session_unique [OF assms(1,2)]
    by (simp add: require_session_def load_active_session_def)
  moreover have "hard_expires_at w = ws_created_at w + SESSION_HARD_LIFETIME"
    using assms(1,2) by (simp add: sessions_ok_def list_all_iff session_times_ok_def)
  ultimately show ?thesis using ok
    by (intro exI [of _ ?d])
       (simp add: slide_def SESSION_SLIDING_LIFETIME_def SESSION_HARD_LIFETIME_def)
qed

theorem live_session_is_accepted_and_slides_witness:
  "\<exists>d'. require_session 5 ex_rq (Some ''tok'') ex_session_db = (d', Inr (context_of ex_rq
      (new_session_row 5 ''tok'' ''admin'' ''admin'' ''saml'' None None)))"
  using live_session_is_accepted_and_slides [of 5 ex_session_db
      "new_session_row 5 ''tok'' ''admin'' ''admin'' ''saml'' None None" ex_rq]
    session_reachable_ok [OF ex_session_reachable]
  by (auto simp: ex_session_db_def new_session_row_def SESSION_SLIDING_LIFETIME_def
      SESSION_HARD_LIFETIME_def)

text \<open>After a session is revoked its token gets 401, whenever it is presented.\<close>

theorem revoked_session_is_refused:
  "snd (require_session now rq (Some token) (fst (revoke_session token d))) =
     Inl (HTTPException 401 (if token = [] then ''no_session'' else ''session_expired''))"
proof -
  have "get_web_session (fst (revoke_session token d)) token = None"
    by (simp add: revoke_session_def get_web_session_deleted split: option.split)
  then show ?thesis by (simp add: require_session_def load_active_session_def)
qed

lemma require_admin_eq:
  assumes "require_session now rq cookie d = (d', Inr ctx)"
  shows "require_admin now rq cookie d =
    (if sc_role ctx = ''admin'' then (d', Inr ctx)
     else (d', Inl (HTTPException 403 ''admin_required'')))"
  using assms by (simp add: require_admin_def)

end
