(* ===== verification/Auth_Local.thy ===== *)
theory Auth_Local
  imports Sessions Ip_Address
begin

text \<open>
  \<open>app/api/auth_local.py\<close> and \<open>app/auth/password.py\<close>: the break-glass login. The Argon2 library
  is a parameter: \<open>argon2_verify h p\<close> is \<open>Some True\<close> when \<open>p\<close> matches the hash, \<open>Some False\<close>
  when it raises \<open>VerifyMismatchError\<close>, \<open>None\<close> when it raises anything else.
\<close>

type_synonym argon2_verifier = "string \<Rightarrow> string \<Rightarrow> bool option"

definition hash_password :: "(string \<Rightarrow> string) \<Rightarrow> string \<Rightarrow> string exn" where
  "hash_password argon2_hash plain =
     (if plain = [] then Inl ''ValueError: password must not be empty'' else Inr (argon2_hash plain))"

definition verify_password :: "argon2_verifier \<Rightarrow> string \<Rightarrow> string \<Rightarrow> bool exn" where
  "verify_password argon2_verify stored_hash plain =
     (if plain = [] \<or> stored_hash = [] then Inr False
      else (case argon2_verify stored_hash plain of
              None \<Rightarrow> Inl ''argon2 error'' | Some ok \<Rightarrow> Inr ok))"

definition cidr_allows :: "string option \<Rightarrow> string option \<Rightarrow> bool" where
  "cidr_allows cidr client_ip =
     (if \<not> truthy cidr then True
      else if \<not> truthy client_ip then False
      else (case (ip_address (the client_ip), ip_network (the cidr)) of
              (Some a, Some n) \<Rightarrow> ip_in a n | _ \<Rightarrow> False))"

record login_request =
  lr_username :: string
  lr_password :: string

definition login_request_valid :: "login_request \<Rightarrow> bool" where
  "login_request_valid p \<longleftrightarrow>
     1 \<le> length (lr_username p) \<and> length (lr_username p) \<le> 64 \<and>
     1 \<le> length (lr_password p) \<and> length (lr_password p) \<le> 1024"

text \<open>The response, with the session cookie it sets: token and \<open>max_age\<close> in seconds.\<close>

record login_response =
  lo_username :: string
  lo_role :: string
  lo_auth_method :: string
  lo_cookie :: "string \<times> int"

definition login_failed_entry :: "login_request \<Rightarrow> request_info \<Rightarrow> bool \<Rightarrow> audit_entry" where
  "login_failed_entry payload rq accepted =
     (audit_args (lr_username payload) ''unknown'' ''local'' AUTH_LOGIN_FAILED)
       \<lparr>ae_summary := Some (if \<not> accepted then ''bad_password'' else ''cidr_denied''),
        ae_client_ip := rq_client_ip rq, ae_user_agent := rq_user_agent rq\<rparr>"

definition login_ok_entry :: "local_admin_row \<Rightarrow> request_info \<Rightarrow> audit_entry" where
  "login_ok_entry admin rq =
     (audit_args (la_username admin) ''admin'' ''local'' AUTH_LOGIN_SUCCEEDED)
       \<lparr>ae_actor_id := Some (la_id admin), ae_client_ip := rq_client_ip rq,
        ae_user_agent := rq_user_agent rq\<rparr>"

definition set_last_login :: "instant \<Rightarrow> local_admin_row \<Rightarrow> db \<Rightarrow> db" where
  "set_last_login now admin d =
     d\<lparr>local_admins := map (\<lambda>a. if la_id a = la_id admin then a\<lparr>last_login_at := Some now\<rparr> else a)
         (local_admins d)\<rparr>"

definition login_local ::
    "argon2_verifier \<Rightarrow> instant \<Rightarrow> string \<Rightarrow> request_info \<Rightarrow> login_request \<Rightarrow> db \<Rightarrow> login_response outcome"
where
  "login_local argon2_verify now token rq payload d =
     (if \<not> login_request_valid payload then (d, Inl (HTTPException 422 ''validation''))
      else
        or_500 d (scalar_one_or_none
            (filter (\<lambda>a. la_username a = lr_username payload) (local_admins d))) (\<lambda>admin.
        or_500 d (case admin of
            None \<Rightarrow> Inr False
          | Some a \<Rightarrow> verify_password argon2_verify (password_argon2_hash a) (lr_password payload))
          (\<lambda>accepted.
        (let cidr_ok = (case admin of
               None \<Rightarrow> True | Some a \<Rightarrow> cidr_allows (allowed_source_cidr a) (rq_client_ip rq)) in
         if \<not> accepted \<or> \<not> cidr_ok then
           or_500 d (audit_append now (login_failed_entry payload rq accepted) d) (\<lambda>d1.
             (d1, Inl (HTTPException 401 ''invalid_credentials'')))
         else
           (let a = the admin in
            or_500 d (create_session now token (la_username a) ''admin'' ''local'' (Some (la_id a))
                (rq_client_ip rq) d) (\<lambda>d1.
            or_500 d (audit_append now (login_ok_entry a rq) (set_last_login now a d1)) (\<lambda>d2.
            (d2, Inr \<lparr>lo_username = la_username a, lo_role = ''admin'', lo_auth_method = ''local'',
                      lo_cookie = (token, SESSION_SLIDING_LIFETIME div 1000000)\<rparr>))))))))"

definition logout_entry :: "session_context \<Rightarrow> audit_entry" where
  "logout_entry ctx =
     (audit_args (sc_username ctx) (sc_role ctx) (sc_auth_method ctx) AUTH_LOGOUT)
       \<lparr>ae_actor_id := sc_actor_id ctx, ae_client_ip := sc_client_ip ctx,
        ae_user_agent := sc_user_agent ctx\<rparr>"

definition logout :: "instant \<Rightarrow> request_info \<Rightarrow> string option \<Rightarrow> db \<Rightarrow> unit outcome" where
  "logout now rq cookie d =
     depends (require_session now rq cookie d) (\<lambda>d0 ctx.
       or_500 d0 (audit_append now (logout_entry ctx) (fst (revoke_session (sc_token ctx) d0)))
         (\<lambda>d1. (d1, Inr ())))"

definition me :: "instant \<Rightarrow> request_info \<Rightarrow> string option \<Rightarrow> db \<Rightarrow> (string \<times> string \<times> string) outcome" where
  "me now rq cookie d =
     depends (require_session now rq cookie d) (\<lambda>d0 ctx.
       (d0, Inr (sc_username ctx, sc_role ctx, sc_auth_method ctx)))"

section \<open>Facts\<close>

lemma login_entries [simp]:
  "ae_action (login_failed_entry p rq b) = action_code AUTH_LOGIN_FAILED"
  "ae_action (login_ok_entry a rq) = action_code AUTH_LOGIN_SUCCEEDED"
  "ae_action (logout_entry c) = action_code AUTH_LOGOUT"
  by (simp_all add: login_failed_entry_def login_ok_entry_def logout_entry_def)

lemma set_last_login_frame [simp]:
  "audit_log (set_last_login now a d) = audit_log d"
  "web_sessions (set_last_login now a d) = web_sessions d"
  "devices (set_last_login now a d) = devices d" "seqs (set_last_login now a d) = seqs d"
  by (simp_all add: set_last_login_def)

text \<open>The decision of the login on an admin row.\<close>

definition may_login :: "argon2_verifier \<Rightarrow> request_info \<Rightarrow> login_request \<Rightarrow> local_admin_row \<Rightarrow> bool" where
  "may_login argon2_verify rq payload a \<longleftrightarrow>
     la_username a = lr_username payload \<and>
     verify_password argon2_verify (password_argon2_hash a) (lr_password payload) = Inr True \<and>
     cidr_allows (allowed_source_cidr a) (rq_client_ip rq)"

lemma find_may_login:
  "distinct (map la_username as) \<Longrightarrow>
     find (may_login v rq payload) as =
       (case find (\<lambda>a. la_username a = lr_username payload) as of
          None \<Rightarrow> None | Some a \<Rightarrow> if may_login v rq payload a then Some a else None)"
proof (cases "find (\<lambda>a. la_username a = lr_username payload) as")
  case None
  then have "find (may_login v rq payload) as = None" by (auto simp: find_None_all may_login_def)
  with None show ?thesis by simp
next
  case (Some a)
  assume d: "distinct (map la_username as)"
  from Some have a: "a \<in> set as" "la_username a = lr_username payload" by (auto dest: find_Some_in)
  have only: "b = a" if "b \<in> set as" "may_login v rq payload b" for b
    using that a d by (simp add: may_login_def distinct_map inj_on_def)
  show ?thesis
  proof (cases "find (may_login v rq payload) as")
    case None
    with a Some show ?thesis by (auto simp: find_None_all)
  next
    case (Some b)
    with only find_Some_in [OF this] \<open>find (\<lambda>a. la_username a = lr_username payload) as = Some a\<close>
    show ?thesis by auto
  qed
qed

lemma filter_by_username:
  "distinct (map la_username as) \<Longrightarrow>
     filter (\<lambda>a. la_username a = n) as = (case find (\<lambda>a. la_username a = n) as of
       None \<Rightarrow> [] | Some a \<Rightarrow> [a])"
proof (cases "find (\<lambda>a. la_username a = n) as")
  case None
  then have "filter (\<lambda>a. la_username a = n) as = []" by (simp add: find_None_all filter_empty_conv)
  with None show ?thesis by simp
next
  case (Some a)
  assume "distinct (map la_username as)"
  moreover from find_Some_in [OF Some] have "a \<in> set as" "la_username a = n" by auto
  ultimately show ?thesis using filter_unique_key [of la_username as a] Some by simp
qed

section \<open>Properties\<close>


definition ex_admin :: local_admin_row where
  "ex_admin = \<lparr>la_id = 1, la_username = ''root'', password_argon2_hash = ''H:pw'',
     allowed_source_cidr = None, la_created_at = 0, last_login_at = None\<rparr>"

definition ex_verify :: argon2_verifier where
  "ex_verify h p = Some (h = ''H:'' @ p)"


text \<open>
  Logging out ends the session and is audited; the same cookie gets 401 afterwards.
\<close>

theorem logout_ends_session:
  assumes "logout now rq cookie d = (d', Inr ())"
  shows "snd (require_session now' rq' cookie d') = Inl (HTTPException 401 ''session_expired'') \<and>
    map al_action (audit_log d') = map al_action (audit_log d) @ [action_code AUTH_LOGOUT]"
proof -
  from assms obtain d0 ctx where rs: "require_session now rq cookie d = (d0, Inr ctx)"
    and d': "d' = with_audit now (logout_entry ctx) (fst (revoke_session (sc_token ctx) d0))"
    by (cases "require_session now rq cookie d"; cases "snd (require_session now rq cookie d)")
       (auto simp: logout_def)
  from require_session_accepts [OF rs] have c: "cookie = Some (sc_token ctx)" by blast
  with rs have ne: "sc_token ctx \<noteq> []" by (auto simp: require_session_def)
  have "get_web_session d' (sc_token ctx) = None"
    using get_web_session_deleted
    by (simp add: d' revoke_session_def get_web_session_def split: option.split)
  moreover have "audit_log d0 = audit_log d"
    using rs by (auto simp: require_session_def load_active_session_def delete_web_session_def
        split: if_splits option.splits)
  moreover have "audit_log (fst (revoke_session t e)) = audit_log e" for t e
    by (simp add: revoke_session_def delete_web_session_def split: option.split)
  ultimately show ?thesis using c ne
    by (simp add: require_session_def load_active_session_def d')
qed

lemma ex_logout:
  "logout 5 ex_rq (Some ''tok'') ex_session_db =
     (fst (logout 5 ex_rq (Some ''tok'') ex_session_db), Inr ())"
  by (simp add: logout_def ex_session_accepted)

theorem logout_ends_session_witness:
  "snd (require_session 6 ex_rq (Some ''tok'') (fst (logout 5 ex_rq (Some ''tok'') ex_session_db)))
     = Inl (HTTPException 401 ''session_expired'')"
  using logout_ends_session [OF ex_logout] by blast

end
