(* ===== verification/Ldap_Auth.thy ===== *)
theory Ldap_Auth
  imports Requests
begin

text \<open>
  \<open>app/auth/ldap_bind.py\<close>, \<open>ldap_config.py\<close> and \<open>mavis_authn.py\<close>: the live bind and the
  MAVIS verdict. The \<open>ldap3\<close> library is a parameter \<open>ldap_server\<close> that says how a bind with an
  endpoint, a DN and a password ends.
\<close>

record ldap_endpoint =
  le_url :: string
  le_use_tls :: bool
  le_receive_timeout :: int

text \<open>
  How a bind ends: the constructor \<open>Server\<close> raises, the connection raises an \<open>LDAPException\<close>,
  \<open>bind()\<close> is true, or it is false with the description of its result (empty when missing).
\<close>

datatype bind_end = Server_Raises string | Connection_Raises | Bind_True | Bind_False string

type_synonym ldap_server = "ldap_endpoint \<Rightarrow> string \<Rightarrow> string \<Rightarrow> bind_end"

datatype ldap_exc = LDAPBindError | Other_Exception string

definition verify_ldap_password ::
    "ldap_server \<Rightarrow> ldap_endpoint \<Rightarrow> string \<Rightarrow> string \<Rightarrow> ldap_exc + bool" where
  "verify_ldap_password ldap_server endpoint bind_dn password =
     (if password = [] then Inr False
      else
        (case ldap_server endpoint bind_dn password of
           Server_Raises e \<Rightarrow> Inl (Other_Exception e)
         | Connection_Raises \<Rightarrow> Inl LDAPBindError
         | Bind_True \<Rightarrow> Inr True
         | Bind_False description \<Rightarrow>
             if description = ''invalidCredentials'' \<or> description = ''invalidDNSyntax''
             then Inr False else Inl LDAPBindError))"

definition SETTING_LDAP_URL :: string where
  "SETTING_LDAP_URL = ''ldap.url''"

definition resolve_ldap_endpoint :: "db \<Rightarrow> ldap_endpoint option" where
  "resolve_ldap_endpoint d =
     (let row = system_settings d SETTING_LDAP_URL in
      if \<not> truthy row then None
      else
        (let url = py_strip (the row) in
         Some \<lparr>le_url = url, le_use_tls = startswith ''ldaps://'' (py_lower url),
               le_receive_timeout = 10\<rparr>))"

datatype auth_result = ACK | NAK | NFD | ERR

record auth_outcome =
  ao_result :: auth_result
  ao_reason :: "string option"

type_synonym verifier = "ldap_endpoint \<Rightarrow> string \<Rightarrow> string \<Rightarrow> ldap_exc + bool"

definition outcome_of :: "auth_result \<Rightarrow> string \<Rightarrow> auth_outcome" where
  "outcome_of r reason = \<lparr>ao_result = r, ao_reason = Some reason\<rparr>"

definition mavis_evaluate ::
    "verifier \<Rightarrow> 'a user_row_scheme option \<Rightarrow> ldap_endpoint option \<Rightarrow> string \<Rightarrow> auth_outcome exn" where
  "mavis_evaluate verifier user endpoint password =
     (case user of
        None \<Rightarrow> Inr (outcome_of NFD ''unknown_user'')
      | Some u \<Rightarrow>
          if \<not> u_enabled u then Inr (outcome_of NAK ''user_disabled'')
          else
            (case endpoint of
               None \<Rightarrow> Inr (outcome_of ERR ''ldap_not_configured'')
             | Some ep \<Rightarrow>
                 if u_distinguished_name u = [] then Inr (outcome_of ERR ''user_has_no_dn'')
                 else
                   (case verifier ep (u_distinguished_name u) password of
                      Inl LDAPBindError \<Rightarrow> Inr (outcome_of ERR ''ldap_unreachable'')
                    | Inl (Other_Exception e) \<Rightarrow> Inl e
                    | Inr True \<Rightarrow> Inr \<lparr>ao_result = ACK, ao_reason = None\<rparr>
                    | Inr False \<Rightarrow> Inr (outcome_of NAK ''wrong_password''))))"

lemma verify_true_iff:
  "verify_ldap_password ldap ep dn pw = Inr True \<longleftrightarrow> pw \<noteq> [] \<and> ldap ep dn pw = Bind_True"
  by (auto simp: verify_ldap_password_def split: bind_end.split)

section \<open>Properties\<close>

text \<open>
  The verdict on a login is ACK exactly when the user is known and enabled, an endpoint is
  configured, the user has a DN, the password is not empty and the directory accepts the bind;
  everything short of that is a refusal or an error, never an ACK.
\<close>

theorem ack_iff_directory_accepts:
  "mavis_evaluate (verify_ldap_password ldap) user endpoint password = Inr out \<and> ao_result out = ACK
   \<longleftrightarrow> out = \<lparr>ao_result = ACK, ao_reason = None\<rparr> \<and>
       (\<exists>u ep. user = Some u \<and> u_enabled u \<and> endpoint = Some ep \<and> u_distinguished_name u \<noteq> [] \<and>
          password \<noteq> [] \<and> ldap ep (u_distinguished_name u) password = Bind_True)"
  by (auto simp: mavis_evaluate_def outcome_of_def verify_ldap_password_def
      split: option.splits bind_end.splits if_splits)


definition ex_user_row :: user_row where
  "ex_user_row = \<lparr>u_id = 7, u_sam_account_name = ''Alice'', u_ad_object_guid = None,
     u_distinguished_name = ''CN=alice'', u_upn = None, u_display_name = None,
     u_enabled = True, u_last_seen_in_sync_at = None\<rparr>"


end
