(* ===== verification/Internal_Mavis.thy ===== *)
theory Internal_Mavis
  imports Audit_Trail Ldap_Auth Policy Device_Resolution Profile_Render
begin

text \<open>
  \<open>app/api/internal_mavis.py\<close>: the two routes the MAVIS child calls. The SQL function
  \<open>lower\<close> is a parameter \<open>sql_lower\<close>; the unique index on \<open>lower(sam_account_name)\<close> of the
  last migration is the predicate \<open>sam_lower_unique\<close>.
\<close>

definition sam_lower_unique :: "(string \<Rightarrow> string) \<Rightarrow> db \<Rightarrow> bool" where
  "sam_lower_unique sql_lower d \<longleftrightarrow>
     distinct (map (\<lambda>u. sql_lower (u_sam_account_name u)) (users d))"

definition find_user_by_sam :: "(string \<Rightarrow> string) \<Rightarrow> string \<Rightarrow> db \<Rightarrow> user_row option exn" where
  "find_user_by_sam sql_lower username d =
     scalar_one_or_none
       (filter (\<lambda>u. sql_lower (u_sam_account_name u) = py_lower username) (users d))"

record auth_request =
  aq_username :: string
  aq_password :: string
  aq_nas_ip :: "string option"

record info_request =
  iq_username :: string
  iq_nas_ip :: string

record auth_response =
  as_result :: auth_result
  as_reason :: "string option"

record info_response =
  is_result :: auth_result
  is_reason :: "string option"
  is_profile :: "string option"

definition auth_request_valid :: "auth_request \<Rightarrow> bool" where
  "auth_request_valid q \<longleftrightarrow>
     1 \<le> length (aq_username q) \<and> length (aq_username q) \<le> 256 \<and> length (aq_password q) \<le> 1024 \<and>
     (case aq_nas_ip q of None \<Rightarrow> True | Some ip \<Rightarrow> length ip \<le> 64)"

definition info_request_valid :: "info_request \<Rightarrow> bool" where
  "info_request_valid q \<longleftrightarrow>
     1 \<le> length (iq_username q) \<and> length (iq_username q) \<le> 256 \<and>
     1 \<le> length (iq_nas_ip q) \<and> length (iq_nas_ip q) \<le> 64"

definition authn_entry :: "auth_request \<Rightarrow> user_row option \<Rightarrow> auth_outcome \<Rightarrow> audit_entry" where
  "authn_entry req user out =
     (audit_args (aq_username req) ''tacacs_user'' ''tacacs''
        (if ao_result out = ACK then TACACS_AUTHN_SUCCEEDED else TACACS_AUTHN_FAILED))
       \<lparr>ae_target_type := Some ''nas'',
        ae_summary := (if ao_result out \<noteq> ACK then ao_reason out else None),
        ae_client_ip := aq_nas_ip req, ae_actor_id := map_option u_id user\<rparr>"

definition mavis_auth ::
    "(string \<Rightarrow> string) \<Rightarrow> ldap_server \<Rightarrow> instant \<Rightarrow> auth_request \<Rightarrow> db \<Rightarrow> auth_response outcome" where
  "mavis_auth sql_lower ldap now req d =
     (if \<not> auth_request_valid req then (d, Inl (HTTPException 422 ''validation''))
      else
        or_500 d (find_user_by_sam sql_lower (aq_username req) d) (\<lambda>user.
        or_500 d (mavis_evaluate (verify_ldap_password ldap) user (resolve_ldap_endpoint d)
            (aq_password req)) (\<lambda>out.
        or_500 d (audit_append now (authn_entry req user out) d) (\<lambda>d1.
        (d1, Inr \<lparr>as_result = ao_result out, as_reason = ao_reason out\<rparr>)))))"

text \<open>Response, reason and target of the audit row, summary on ACK.\<close>

type_synonym info_resolution = "info_response \<times> string option \<times> int option \<times> string option"

definition refused :: "auth_result \<Rightarrow> string \<Rightarrow> int option \<Rightarrow> info_resolution" where
  "refused r reason target =
     (\<lparr>is_result = r, is_reason = Some reason, is_profile = None\<rparr>, Some reason, target, None)"

definition resolve_info :: "db \<Rightarrow> info_request \<Rightarrow> user_row option \<Rightarrow> info_resolution" where
  "resolve_info d req user =
     (case user of
        None \<Rightarrow> refused NFD ''unknown_user'' None
      | Some u \<Rightarrow>
          if \<not> u_enabled u then refused NAK ''user_disabled'' None
          else
            (case resolve_device_for_ip (iq_nas_ip req) (devices d) of
               None \<Rightarrow> refused NAK ''unknown_nas'' None
             | Some device \<Rightarrow>
                 (let dg = d_device_group_id device;
                      auths = load_authorizations d (\<lambda>a. a_device_group_id a = dg);
                      out = evaluate_for_user (load_user d u) dg auths
                  in case effective_profile out of
                       None \<Rightarrow> refused NAK ''no_authorization'' (Some (d_id device))
                     | Some profile \<Rightarrow>
                         (\<lparr>is_result = ACK, is_reason = None,
                           is_profile = Some (render_tacprofile profile)\<rparr>,
                          None, Some (d_id device),
                          Some (''device='' @ d_name device @ '', profile='' @ pp_name profile)))))"

definition authz_entry :: "info_request \<Rightarrow> user_row option \<Rightarrow> info_resolution \<Rightarrow> audit_entry" where
  "authz_entry req user res =
     (case res of (response, reason, tid, summary) \<Rightarrow>
       (audit_args (iq_username req) ''tacacs_user'' ''tacacs''
          (if is_result response = ACK then TACACS_AUTHZ_SUCCEEDED else TACACS_AUTHZ_FAILED))
         \<lparr>ae_target_type := Some (if tid \<noteq> None then ''device'' else ''nas''), ae_target_id := tid,
          ae_summary := (if is_result response = ACK then summary else reason),
          ae_client_ip := Some (iq_nas_ip req), ae_actor_id := map_option u_id user\<rparr>)"

definition mavis_info ::
    "(string \<Rightarrow> string) \<Rightarrow> instant \<Rightarrow> info_request \<Rightarrow> db \<Rightarrow> info_response outcome" where
  "mavis_info sql_lower now req d =
     (if \<not> info_request_valid req then (d, Inl (HTTPException 422 ''validation''))
      else
        or_500 d (find_user_by_sam sql_lower (iq_username req) d) (\<lambda>user.
        (let res = resolve_info d req user in
         or_500 d (audit_append now (authz_entry req user res) d) (\<lambda>d1. (d1, Inr (fst res))))))"

section \<open>Facts\<close>

lemma mavis_entries [simp]:
  "ae_action (authn_entry req user out) =
     action_code (if ao_result out = ACK then TACACS_AUTHN_SUCCEEDED else TACACS_AUTHN_FAILED)"
  "ae_action (authz_entry q user res) =
     action_code (if is_result (fst res) = ACK then TACACS_AUTHZ_SUCCEEDED else TACACS_AUTHZ_FAILED)"
  by (simp_all add: authn_entry_def authz_entry_def split: prod.split)

lemma entry_registered [simp]:
  "ae_action (authn_entry req user out) \<in> set ALL_ACTIONS"
  "ae_action (authz_entry q user res) \<in> set ALL_ACTIONS"
  by (simp_all only: mavis_entries action_registered)

text \<open>The users the SQL comparison finds.\<close>

definition named_user :: "(string \<Rightarrow> string) \<Rightarrow> string \<Rightarrow> db \<Rightarrow> user_row option" where
  "named_user sql_lower username d =
     find (\<lambda>u. sql_lower (u_sam_account_name u) = py_lower username) (users d)"

lemma find_user_by_sam_unique:
  assumes "sam_lower_unique sql_lower d"
  shows "find_user_by_sam sql_lower username d = Inr (named_user sql_lower username d)"
proof (cases "named_user sql_lower username d")
  case None
  then have "filter (\<lambda>u. sql_lower (u_sam_account_name u) = py_lower username) (users d) = []"
    by (simp add: named_user_def find_None_all filter_empty_conv)
  with None show ?thesis by (simp add: find_user_by_sam_def scalar_one_or_none_def)
next
  case (Some u)
  then have u: "u \<in> set (users d)" "sql_lower (u_sam_account_name u) = py_lower username"
    unfolding named_user_def by (auto dest: find_Some_in)
  from filter_unique_key [of "\<lambda>u. sql_lower (u_sam_account_name u)", OF _ u(1)] assms
  have "filter (\<lambda>v. sql_lower (u_sam_account_name v) = py_lower username) (users d) = [u]"
    by (simp add: sam_lower_unique_def u(2))
  with Some show ?thesis by (simp add: find_user_by_sam_def scalar_one_or_none_def)
qed

lemma mavis_auth_ok:
  "auth_request_valid req \<Longrightarrow> find_user_by_sam sql_lower (aq_username req) d = Inr user \<Longrightarrow>
   mavis_evaluate (verify_ldap_password ldap) user (resolve_ldap_endpoint d) (aq_password req) = Inr out \<Longrightarrow>
   mavis_auth sql_lower ldap now req d =
     (with_audit now (authn_entry req user out) d, Inr \<lparr>as_result = ao_result out, as_reason = ao_reason out\<rparr>)"
  by (simp add: mavis_auth_def del: mavis_entries)

lemma mavis_info_ok:
  "info_request_valid req \<Longrightarrow> find_user_by_sam sql_lower (iq_username req) d = Inr user \<Longrightarrow>
   mavis_info sql_lower now req d =
     (with_audit now (authz_entry req user (resolve_info d req user)) d,
      Inr (fst (resolve_info d req user)))"
  by (simp add: mavis_info_def Let_def del: mavis_entries)

lemma resolve_info_ack:
  "is_result (fst (resolve_info d req user)) = ACK \<longleftrightarrow>
     (\<exists>u dev a. user = Some u \<and> u_enabled u \<and>
        resolve_device_for_ip (iq_nas_ip req) (devices d) = Some dev \<and>
        winning (evaluate_for_user (load_user d u) (d_device_group_id dev)
          (load_authorizations d (\<lambda>a. a_device_group_id a = d_device_group_id dev))) = Some a \<and>
        is_profile (fst (resolve_info d req user)) = Some (render_tacprofile (privilege_profile a)))"
  by (auto simp: resolve_info_def refused_def effective_profile_def Let_def split: option.split)

text \<open>A row of the table whose profile exists is loaded with its own fields.\<close>

lemma load_authorizations_row:
  "a \<in> set (load_authorizations d P) \<Longrightarrow>
     \<exists>r\<in>set (authorizations d). P r \<and> load_authorization d r = Some a"
  by (simp add: load_authorizations_mem)

lemma config_ok_loads:
  assumes "config_ok d" and "r \<in> set (authorizations d)"
  shows "\<exists>a. load_authorization d r = Some a"
proof -
  from assms have "privilege_profile_id r \<in> set (map pp_id (privilege_profiles d))"
    by (simp add: config_ok_def authorizations_ok_def authz_refs_ok_def list_all_iff)
  then obtain p where "get_profile d (privilege_profile_id r) = Some p"
    unfolding get_profile_def by (cases "find (\<lambda>p. pp_id p = privilege_profile_id r) (privilege_profiles d)")
      (auto simp: find_None_all)
  then show ?thesis by (simp add: load_authorization_def)
qed

text \<open>\<open>user\<close> holds the row \<open>r\<close>, directly or through one of the user's groups.\<close>

definition holds :: "db \<Rightarrow> user_row \<Rightarrow> authorization_row \<Rightarrow> bool" where
  "holds d u r \<longleftrightarrow>
     principal_user_id r = Some (u_id u) \<or>
     (\<exists>g\<in>set (groups_of d (u_id u)). principal_ad_group_id r = Some (g_id g))"

lemma matches_load:
  "load_authorization d r = Some a \<Longrightarrow>
     authz_matches (load_user d u) dg a \<longleftrightarrow> a_device_group_id r = dg \<and> holds d u r"
  by (auto simp: authz_matches_def holds_def image_iff dest!: load_authorization_fields
      split: option.splits) metis+

text \<open>The winner among the loaded rows is a row the user holds, and a direct one if any is.\<close>

lemma winning_row:
  assumes "config_ok d"
    and "winning (evaluate_for_user (load_user d u) dg
      (load_authorizations d (\<lambda>a. a_device_group_id a = dg))) = Some a"
  shows "\<exists>r\<in>set (authorizations d). load_authorization d r = Some a \<and> a_device_group_id r = dg \<and>
    holds d u r \<and>
    (\<forall>b\<in>set (authorizations d). a_device_group_id b = dg \<and> principal_user_id b = Some (u_id u) \<longrightarrow>
       principal_user_id r = Some (u_id u))"
proof -
  let ?as = "load_authorizations d (\<lambda>a. a_device_group_id a = dg)"
  from assms(2) have w: "adr6_choice (load_user d u) dg ?as = Some a" by (simp add: adr6_choice_def)
  from adr6.chosen_mem [OF w] obtain r where r: "r \<in> set (authorizations d)"
    "a_device_group_id r = dg" "load_authorization d r = Some a"
    by (auto dest: load_authorizations_row)
  from adr6.chosen_eligible [OF w] have m: "authz_matches (load_user d u) dg a"
    by (simp add: authz_score_def split: if_splits)
  have h: "holds d u r" using m matches_load [OF r(3)] by simp
  have "principal_user_id r = Some (u_id u)"
    if b: "b \<in> set (authorizations d)" "a_device_group_id b = dg" "principal_user_id b = Some (u_id u)" for b
  proof -
    from config_ok_loads [OF assms(1) b(1)] obtain c where c: "load_authorization d b = Some c" by blast
    have "c \<in> set ?as" using b c by (auto simp: load_authorizations_mem)
    moreover have "authz_matches (load_user d u) dg c"
      using b matches_load [OF c] by (simp add: holds_def)
    ultimately have "(is_direct c, tacacs_priv_lvl (privilege_profile c), - a_id c) \<le>
        (is_direct a, tacacs_priv_lvl (privilege_profile a), - a_id a)"
      using adr6.chosen_unbeaten [OF w, of c] m by (simp add: authz_score_def)
    moreover have "is_direct c" using load_authorization_fields [OF c] b by (simp add: is_direct_def)
    ultimately have "is_direct a" by (auto simp: less_eq_prod_def)
    then have direct: "principal_user_id r \<noteq> None"
      using load_authorization_fields [OF r(3)] by (simp add: is_direct_def)
    from assms(1) r(1) have "one_principal r"
      by (simp add: config_ok_def authorizations_ok_def list_all_iff)
    with direct h show ?thesis by (auto simp: one_principal_def holds_def)
  qed
  with r h show ?thesis by blast
qed

section \<open>Properties\<close>

text \<open>
  C8: A TACACS+ login is accepted exactly when the name denotes an enabled user with a DN, an
  LDAP endpoint is configured, the password is not empty and the directory accepts the bind.
\<close>

theorem auth_ack_iff_bind_succeeds:
  assumes "auth_request_valid req" and "sam_lower_unique sql_lower d"
  shows "(\<exists>d' resp. mavis_auth sql_lower ldap now req d = (d', Inr resp) \<and> as_result resp = ACK) \<longleftrightarrow>
    (\<exists>u ep. named_user sql_lower (aq_username req) d = Some u \<and> u_enabled u \<and>
       resolve_ldap_endpoint d = Some ep \<and> u_distinguished_name u \<noteq> [] \<and> aq_password req \<noteq> [] \<and>
       ldap ep (u_distinguished_name u) (aq_password req) = Bind_True)"
proof (cases "mavis_evaluate (verify_ldap_password ldap) (named_user sql_lower (aq_username req) d)
    (resolve_ldap_endpoint d) (aq_password req)")
  case (Inl e)
  then have "mavis_auth sql_lower ldap now req d = (d, Inl (Unhandled e))"
    using assms by (simp add: mavis_auth_def find_user_by_sam_unique)
  moreover have "\<not> (\<exists>u ep. named_user sql_lower (aq_username req) d = Some u \<and> u_enabled u \<and>
       resolve_ldap_endpoint d = Some ep \<and> u_distinguished_name u \<noteq> [] \<and> aq_password req \<noteq> [] \<and>
       ldap ep (u_distinguished_name u) (aq_password req) = Bind_True)"
    using Inl by (auto simp: mavis_evaluate_def verify_ldap_password_def)
  ultimately show ?thesis by simp
next
  case (Inr out)
  from mavis_auth_ok [OF assms(1) find_user_by_sam_unique [OF assms(2)] Inr]
  have "(\<exists>d' resp. mavis_auth sql_lower ldap now req d = (d', Inr resp) \<and> as_result resp = ACK) \<longleftrightarrow>
      ao_result out = ACK" by simp
  also have "\<dots> \<longleftrightarrow> (\<exists>u ep. named_user sql_lower (aq_username req) d = Some u \<and> u_enabled u \<and>
       resolve_ldap_endpoint d = Some ep \<and> u_distinguished_name u \<noteq> [] \<and> aq_password req \<noteq> [] \<and>
       ldap ep (u_distinguished_name u) (aq_password req) = Bind_True)"
    using Inr by (auto simp: mavis_evaluate_def verify_ldap_password_def outcome_of_def
        split: option.splits bind_end.splits if_splits)
  finally show ?thesis .
qed

definition ex_mavis_db :: db where
  "ex_mavis_db = empty_db\<lparr>users := [ex_user_row],
     system_settings := (\<lambda>_. None)(''ldap.url'' := Some ''ldaps://dc'')\<rparr>"

theorem auth_ack_iff_bind_succeeds_witness:
  "\<exists>d' resp. mavis_auth py_lower (\<lambda>_ _ _. Bind_True) 0
     \<lparr>aq_username = ''ALICE'', aq_password = ''pw'', aq_nas_ip = None\<rparr> ex_mavis_db = (d', Inr resp) \<and>
     as_result resp = ACK"
  using auth_ack_iff_bind_succeeds [of
      "\<lparr>aq_username = ''ALICE'', aq_password = ''pw'', aq_nas_ip = None\<rparr>" py_lower ex_mavis_db
      "\<lambda>_ _ _. Bind_True" 0]
  by (simp add: auth_request_valid_def sam_lower_unique_def ex_mavis_db_def empty_db_def
      named_user_def ex_user_row_def resolve_ldap_endpoint_def SETTING_LDAP_URL_def
      py_lower_char_def Let_def char_eval)

text \<open>
  C27: Every answered MAVIS request writes exactly one audit row, a success row exactly for ACK,
  under the name the device sent, and changes nothing else in the database.
\<close>

theorem mavis_requests_audited_once:
  assumes "mavis_auth sql_lower ldap now req d = (d1, Inr resp)"
    and "mavis_info sql_lower now ireq d = (d2, Inr iresp)"
  shows "(\<exists>row. audit_log d1 = audit_log d @ [row] \<and> actor_username_snapshot row = aq_username req \<and>
      (al_action row = action_code TACACS_AUTHN_SUCCEEDED \<longleftrightarrow> as_result resp = ACK) \<and>
      d1\<lparr>audit_log := audit_log d, seqs := seqs d\<rparr> = d) \<and>
    (\<exists>row. audit_log d2 = audit_log d @ [row] \<and> actor_username_snapshot row = iq_username ireq \<and>
      (al_action row = action_code TACACS_AUTHZ_SUCCEEDED \<longleftrightarrow> is_result iresp = ACK) \<and>
      d2\<lparr>audit_log := audit_log d, seqs := seqs d\<rparr> = d)"
proof -
  have frame: "(with_audit ts e x)\<lparr>audit_log := audit_log x, seqs := seqs x\<rparr> = x" for ts e and x :: db
    by (simp add: with_audit_def bump_seq_def)
  have v: "auth_request_valid req" "info_request_valid ireq"
    using assms by (auto simp: mavis_auth_def mavis_info_def split: if_splits)
  from assms(1) v obtain user where u: "find_user_by_sam sql_lower (aq_username req) d = Inr user"
    by (cases "find_user_by_sam sql_lower (aq_username req) d") (auto simp: mavis_auth_def)
  with assms(1) v obtain out where o: "mavis_evaluate (verify_ldap_password ldap) user
      (resolve_ldap_endpoint d) (aq_password req) = Inr out"
    by (cases "mavis_evaluate (verify_ldap_password ldap) user (resolve_ldap_endpoint d) (aq_password req)")
       (auto simp: mavis_auth_def)
  from assms(1) mavis_auth_ok [OF v(1) u o, of now] have
    d1: "d1 = with_audit now (authn_entry req user out) d" "as_result resp = ao_result out" by auto
  from assms(2) v obtain iuser where iu: "find_user_by_sam sql_lower (iq_username ireq) d = Inr iuser"
    by (cases "find_user_by_sam sql_lower (iq_username ireq) d") (auto simp: mavis_info_def)
  from assms(2) mavis_info_ok [OF v(2) iu, of now] have
    d2: "d2 = with_audit now (authz_entry ireq iuser (resolve_info d ireq iuser)) d"
      "iresp = fst (resolve_info d ireq iuser)" by auto
  have "ae_actor_username (authn_entry req user out) = aq_username req"
    "ae_actor_username (authz_entry ireq iuser r) = iq_username ireq" for r
    by (simp_all add: authn_entry_def authz_entry_def split: prod.split)
  then show ?thesis using frame by (simp add: d1 d2)
qed

theorem mavis_requests_audited_once_witness:
  "\<exists>row. audit_log (fst (mavis_auth py_lower (\<lambda>_ _ _. Bind_True) 0
     \<lparr>aq_username = ''bob'', aq_password = ''pw'', aq_nas_ip = None\<rparr> empty_db)) = [row]"
proof -
  let ?q = "\<lparr>aq_username = ''bob'', aq_password = ''pw'', aq_nas_ip = None\<rparr>"
  let ?i = "\<lparr>iq_username = ''bob'', iq_nas_ip = ''10.0.0.1''\<rparr>"
  have u: "find_user_by_sam py_lower ''bob'' empty_db = Inr None"
    by (simp add: find_user_by_sam_def empty_db_def scalar_one_or_none_def)
  have 1: "mavis_auth py_lower (\<lambda>_ _ _. Bind_True) 0 ?q empty_db =
      (with_audit 0 (authn_entry ?q None (outcome_of NFD ''unknown_user'')) empty_db,
       Inr \<lparr>as_result = NFD, as_reason = Some ''unknown_user''\<rparr>)"
    using mavis_auth_ok [of ?q py_lower empty_db None "\<lambda>_ _ _. Bind_True"
        "outcome_of NFD ''unknown_user''" 0] u
    by (simp add: auth_request_valid_def mavis_evaluate_def outcome_of_def)
  have 2: "mavis_info py_lower 0 ?i empty_db =
      (with_audit 0 (authz_entry ?i None (resolve_info empty_db ?i None)) empty_db,
       Inr (fst (resolve_info empty_db ?i None)))"
    using mavis_info_ok [of ?i py_lower empty_db None 0] u by (simp add: info_request_valid_def)
  from mavis_requests_audited_once [OF 1 2] show ?thesis
    unfolding 1 by (simp add: empty_db_def)
qed

text \<open>
  C6: The profile sent to the daemon is the profile of an authorization row the user holds for
  the group of the device at that address, and of a personal row whenever there is one.
\<close>

theorem info_profile_is_effective:
  assumes "mavis_info sql_lower now req d = (d', Inr resp)" and "is_result resp = ACK"
    and "config_ok d" and "sam_lower_unique sql_lower d"
  shows "\<exists>u dev r p. named_user sql_lower (iq_username req) d = Some u \<and> u_enabled u \<and>
    resolve_device_for_ip (iq_nas_ip req) (devices d) = Some dev \<and>
    r \<in> set (authorizations d) \<and> a_device_group_id r = d_device_group_id dev \<and> holds d u r \<and>
    get_profile d (privilege_profile_id r) = Some p \<and> is_profile resp = Some (render_tacprofile p) \<and>
    (\<forall>b\<in>set (authorizations d).
       a_device_group_id b = d_device_group_id dev \<and> principal_user_id b = Some (u_id u) \<longrightarrow>
       principal_user_id r = Some (u_id u))"
proof -
  have v: "info_request_valid req" using assms(1) by (auto simp: mavis_info_def split: if_splits)
  from assms(1) mavis_info_ok [OF v find_user_by_sam_unique [OF assms(4)], of now]
  have r: "resp = fst (resolve_info d req (named_user sql_lower (iq_username req) d))" by simp
  with assms(2) resolve_info_ack [of d req] obtain u dev a where
    u: "named_user sql_lower (iq_username req) d = Some u" "u_enabled u"
      "resolve_device_for_ip (iq_nas_ip req) (devices d) = Some dev"
    and a: "winning (evaluate_for_user (load_user d u) (d_device_group_id dev)
          (load_authorizations d (\<lambda>a. a_device_group_id a = d_device_group_id dev))) = Some a"
    and p: "is_profile resp = Some (render_tacprofile (privilege_profile a))" by auto
  from winning_row [OF assms(3) a] obtain row where
    row: "row \<in> set (authorizations d)" "load_authorization d row = Some a"
      "a_device_group_id row = d_device_group_id dev" "holds d u row"
      "\<forall>b\<in>set (authorizations d). a_device_group_id b = d_device_group_id dev \<and>
         principal_user_id b = Some (u_id u) \<longrightarrow> principal_user_id row = Some (u_id u)" by blast
  from load_authorization_fields [OF row(2)]
  have "get_profile d (privilege_profile_id row) = Some (privilege_profile a)" by simp
  with u p row show ?thesis by blast
qed

definition ex_info_db :: db where
  "ex_info_db = empty_db\<lparr>users := [ex_user_row],
     device_groups := [\<lparr>dg_id = 1, dg_name = ''core'', dg_description = None, dg_created_at = 0\<rparr>],
     privilege_profiles := [ex_profile 1 15], devices := [ex_device 1 ''10.0.0.0/8''],
     authorizations := [\<lparr>a_id = 1, principal_user_id = Some 7, principal_ad_group_id = None,
       a_device_group_id = 1, privilege_profile_id = 1, a_created_at = 0\<rparr>],
     seqs := (\<lambda>_. 2)\<rparr>"

lemma ex_info_config_ok: "config_ok ex_info_db"
  by (simp add: config_ok_def ex_info_db_def empty_db_def keys_ok_def device_groups_ok_def
      profiles_ok_def profile_ok_def devices_ok_def authorizations_ok_def one_principal_def
      authz_refs_ok_def ex_user_row_def ex_profile_def ex_device_def authz_user_key_def
      authz_group_key_def List.map_filter_def)

lemma ex_info_user:
  "find_user_by_sam py_lower ''alice'' ex_info_db = Inr (Some ex_user_row)"
  by (simp add: find_user_by_sam_def ex_info_db_def ex_user_row_def scalar_one_or_none_def
      py_lower_char_def Let_def char_eval)

lemma ex_info_device:
  "resolve_device_for_ip ''10.0.5.9'' (devices ex_info_db) = Some (ex_device 1 ''10.0.0.0/8'')"
  by (simp add: ex_info_db_def resolve_device_for_ip_def ex_addr resolve_loop_Cons covers_def
      ex_device_def ex_net8 ip_in_def netmask_of_def)

lemma ex_info_ack:
  "is_result (fst (resolve_info ex_info_db \<lparr>iq_username = ''alice'', iq_nas_ip = ''10.0.5.9''\<rparr>
     (Some ex_user_row))) = ACK"
  unfolding resolve_info_def by (simp add: ex_info_device Let_def effective_profile_def)
    (simp add: ex_user_row_def ex_info_db_def empty_db_def ex_device_def evaluate_for_user_def
      load_authorizations_def load_authorization_def get_profile_def List.map_filter_def
      ex_profile_def authz_matches_def load_user_def user_row.defs authorization_row.defs is_direct_def)

theorem info_profile_is_effective_witness:
  "\<exists>p. get_profile ex_info_db 1 = Some p \<and>
     is_profile (fst (resolve_info ex_info_db \<lparr>iq_username = ''alice'', iq_nas_ip = ''10.0.5.9''\<rparr>
       (Some ex_user_row))) = Some (render_tacprofile p)"
proof -
  let ?q = "\<lparr>iq_username = ''alice'', iq_nas_ip = ''10.0.5.9''\<rparr>"
  have run: "mavis_info py_lower 0 ?q ex_info_db =
      (with_audit 0 (authz_entry ?q (Some ex_user_row) (resolve_info ex_info_db ?q (Some ex_user_row)))
        ex_info_db, Inr (fst (resolve_info ex_info_db ?q (Some ex_user_row))))"
    using mavis_info_ok [of ?q py_lower ex_info_db "Some ex_user_row" 0] ex_info_user
    by (simp add: info_request_valid_def)
  have "sam_lower_unique py_lower ex_info_db" by (simp add: sam_lower_unique_def ex_info_db_def)
  from info_profile_is_effective [OF run ex_info_ack ex_info_config_ok this]
  show ?thesis by (auto simp: ex_info_db_def)
qed

end
