(* ===== verification/Mavis_Child.thy ===== *)
theory Mavis_Child
  imports Py_Base "HOL-Library.AList"
begin

text \<open>
  \<open>docker/tac_plus-ng/mavis_child.py\<close>: the child of the daemon that turns MAVIS packets into
  calls of the backend. Standard input is the list of its lines (without the newline; the last
  one may be unterminated), standard output the text written. A packet is an association list,
  the HTTP backend a state-passing parameter. A raise that ends the child is \<open>None\<close>.
\<close>

abbreviation AV_USER :: int where "AV_USER \<equiv> 4"
abbreviation AV_RESULT :: int where "AV_RESULT \<equiv> 6"
abbreviation AV_PASSWORD :: int where "AV_PASSWORD \<equiv> 8"
abbreviation AV_SERVERIP :: int where "AV_SERVERIP \<equiv> 25"
abbreviation AV_TACPROFILE :: int where "AV_TACPROFILE \<equiv> 48"
abbreviation AV_TACTYPE :: int where "AV_TACTYPE \<equiv> 49"

type_synonym packet = "(int \<times> string) list"

section \<open>Framing\<close>

definition stdin_lines :: "string \<Rightarrow> string list" where
  "stdin_lines text =
     (let ps = py_split nl text in if last ps = [] then butlast ps else ps)"

text \<open>The loop of \<open>read_request\<close>: the packet and the lines left, \<open>None\<close> at end of file.\<close>

fun read_loop :: "packet \<Rightarrow> string list \<Rightarrow> (packet \<times> string list) option" where
  "read_loop req [] = None"
| "read_loop req (line # rest) =
     (if line = ''='' then Some (req, rest)
      else
        (let (idx_str, _, value) = py_partition (CHR '' '') line in
         case py_int idx_str of
           None \<Rightarrow> read_loop req rest
         | Some idx \<Rightarrow> read_loop (AList.update idx value req) rest))"

definition read_request :: "string list \<Rightarrow> (packet \<times> string list) option" where
  "read_request input = read_loop [] input"

definition av_line :: "packet \<Rightarrow> int \<Rightarrow> string" where
  "av_line av idx = int_to_str idx @ '' '' @ py_replace nl [cr] (the (map_of av idx))"

definition write_response :: "packet \<Rightarrow> string" where
  "write_response av =
     concat (map (\<lambda>idx. av_line av idx @ [nl]) (sort (map fst av))) @ ''=0'' @ [nl]"

section \<open>Calling the backend\<close>

text \<open>
  A field of the JSON reply: a string, null or missing, another scalar, a list or an object
  (which is not hashable). The reply: an HTTP error status, another I/O or JSON error with the
  name of its class, a JSON value that is not an object, an object with its three fields.
\<close>

datatype json_field = J_str string | J_null | J_scalar | J_compound

datatype http_reply =
    Http_Error int
  | Http_Failure string
  | Json_Not_Object
  | Json_Object json_field json_field json_field

type_synonym 's backend = "'s \<Rightarrow> string \<Rightarrow> (string \<times> string) list \<Rightarrow> 's \<times> http_reply"

type_synonym backend_answer = "string \<times> string option \<times> string option"

fun json_str :: "json_field \<Rightarrow> string option" where
  "json_str (J_str s) = Some s"
| "json_str _ = None"

definition RESULTS :: "string list" where
  "RESULTS = [''ACK'', ''NAK'', ''NFD'', ''ERR'']"

definition read_reply :: "http_reply \<Rightarrow> backend_answer option" where
  "read_reply reply =
     (case reply of
        Http_Error code \<Rightarrow> Some (''ERR'', Some (''backend_http_'' @ int_to_str code), None)
      | Http_Failure cls \<Rightarrow> Some (''ERR'', Some (''backend_unreachable: '' @ cls), None)
      | Json_Not_Object \<Rightarrow> None
      | Json_Object result reason profile \<Rightarrow>
          (case result of
             J_compound \<Rightarrow> None
           | J_str r \<Rightarrow>
               if r \<in> set RESULTS then Some (r, json_str reason, json_str profile)
               else Some (''ERR'', Some ''backend_bad_response'', None)
           | _ \<Rightarrow> Some (''ERR'', Some ''backend_bad_response'', None)))"

definition post_json ::
    "'s backend \<Rightarrow> 's \<Rightarrow> string \<Rightarrow> (string \<times> string) list \<Rightarrow> 's \<times> backend_answer option" where
  "post_json backend s path payload =
     (let (s', reply) = backend s path payload in (s', read_reply reply))"

definition call_backend_auth ::
    "'s backend \<Rightarrow> 's \<Rightarrow> string \<Rightarrow> string \<Rightarrow> string \<Rightarrow> 's \<times> (string \<times> string option) option" where
  "call_backend_auth backend s username password nas_ip =
     (let payload = [(''username'', username), (''password'', password)]
            @ (if nas_ip \<noteq> [] then [(''nas_ip'', nas_ip)] else []);
          (s', answer) = post_json backend s ''/internal/mavis/auth'' payload
      in (s', map_option (\<lambda>(result, reason, _). (result, reason)) answer))"

definition call_backend_info ::
    "'s backend \<Rightarrow> 's \<Rightarrow> string \<Rightarrow> string \<Rightarrow> 's \<times> backend_answer option" where
  "call_backend_info backend s username nas_ip =
     post_json backend s ''/internal/mavis/info'' [(''username'', username), (''nas_ip'', nas_ip)]"

section \<open>Handling a packet\<close>

definition av_get :: "packet \<Rightarrow> int \<Rightarrow> string" where
  "av_get req idx = (case map_of req idx of None \<Rightarrow> [] | Some v \<Rightarrow> v)"

definition with_profile :: "packet \<Rightarrow> string \<Rightarrow> string option \<Rightarrow> packet" where
  "with_profile req result profile =
     (case profile of
        Some p \<Rightarrow> if result = ''ACK'' then AList.update AV_TACPROFILE p req else req
      | None \<Rightarrow> req)"

text \<open>The packet the child answers with.\<close>

definition handle_packet :: "'s backend \<Rightarrow> 's \<Rightarrow> packet \<Rightarrow> 's \<times> packet option" where
  "handle_packet backend s req =
     (let tactype = av_get req AV_TACTYPE;
          username = av_get req AV_USER;
          nas_ip = av_get req AV_SERVERIP in
      if tactype = ''AUTH'' then
        (case call_backend_auth backend s username (av_get req AV_PASSWORD) nas_ip of
           (s1, None) \<Rightarrow> (s1, None)
         | (s1, Some (result, _)) \<Rightarrow>
             (let req1 = AList.update AV_RESULT result req in
              if result = ''ACK'' \<and> nas_ip \<noteq> [] then
                (case call_backend_info backend s1 username nas_ip of
                   (s2, None) \<Rightarrow> (s2, None)
                 | (s2, Some (info_result, _, profile)) \<Rightarrow>
                     (s2, Some (with_profile req1 info_result profile)))
              else (s1, Some req1)))
      else if tactype = ''INFO'' then
        (case call_backend_info backend s username nas_ip of
           (s1, None) \<Rightarrow> (s1, None)
         | (s1, Some (result, _, profile)) \<Rightarrow>
             (s1, Some (with_profile (AList.update AV_RESULT result req) result profile)))
      else if tactype = ''CHPW'' then (s, Some (AList.update AV_RESULT ''NAK'' req))
      else if tactype = ''HOST'' then (s, Some (AList.update AV_RESULT ''ACK'' req))
      else (s, Some (AList.update AV_RESULT ''NAK'' req)))"

definition handle :: "'s backend \<Rightarrow> 's \<Rightarrow> packet \<Rightarrow> 's \<times> string option" where
  "handle backend s req =
     (let (s', resp) = handle_packet backend s req in (s', map_option write_response resp))"

lemma read_loop_shorter: "read_loop req ls = Some (r, rest) \<Longrightarrow> length rest < length ls"
  by (induction ls arbitrary: req) (fastforce split: if_splits option.splits prod.splits)+

text \<open>\<open>main\<close>: the output, and whether the child ended by returning 0.\<close>

function mavis_main :: "'s backend \<Rightarrow> 's \<Rightarrow> string list \<Rightarrow> 's \<times> string \<times> bool" where
  "mavis_main backend s input =
     (case read_request input of
        None \<Rightarrow> (s, [], True)
      | Some (req, rest) \<Rightarrow>
          (case handle backend s req of
             (s1, None) \<Rightarrow> (s1, [], False)
           | (s1, Some text) \<Rightarrow>
               (let (s2, out, ok) = mavis_main backend s1 rest in (s2, text @ out, ok))))"
  by pat_completeness auto
termination
  by (relation "measure (\<lambda>(_, _, input). length input)")
     (auto simp: read_request_def dest: read_loop_shorter)

declare mavis_main.simps [simp del]

section \<open>Facts\<close>

lemma stdin_lines_line: "nl \<notin> set p \<Longrightarrow> stdin_lines (p @ nl # s) = p # stdin_lines s"
  by (simp add: stdin_lines_def py_split_append Let_def)

text \<open>The text of a packet on the wire, as the daemon writes it.\<close>

definition wire_line :: "int \<times> string \<Rightarrow> string" where
  "wire_line e = int_to_str (fst e) @ '' '' @ snd e"

definition wire_packet :: "packet \<Rightarrow> string" where
  "wire_packet av = concat (map (\<lambda>e. wire_line e @ [nl]) av) @ ''='' @ [nl]"

lemma digits_no_sep:
  assumes "list_all is_ascii_digit s"
  shows "nl \<notin> set s" "CHR '' '' \<notin> set s"
  using assms by (auto simp: list_all_iff is_ascii_digit_def nl_def)

lemma int_to_str_no_sep [simp]: "nl \<notin> set (int_to_str i)" "CHR '' '' \<notin> set (int_to_str i)"
  using digits_no_sep [OF nat_to_str_digits] by (auto simp: int_to_str_def nl_def)

lemma int_to_str_hd: "int_to_str i @ s \<noteq> ''=''"
proof
  assume "int_to_str i @ s = ''=''"
  then have "int_to_str i = ''=''" by (cases "int_to_str i") auto
  then have "py_int ''='' = Some i" by (metis py_int_int_to_str)
  moreover have "py_int ''='' = None"
    by (simp add: py_int_def py_strip_def py_isspace_char_def is_ascii_digit_def Let_def)
  ultimately show False by simp
qed

lemma wire_line_no_nl: "nl \<notin> set (snd e) \<Longrightarrow> nl \<notin> set (wire_line e)"
  by (simp add: wire_line_def)

lemma read_loop_wire_line:
  "read_loop req (wire_line e # ls) = read_loop (AList.update (fst e) (snd e) req) ls"
  using py_partition_append [of "CHR '' ''" "int_to_str (fst e)" "snd e"] int_to_str_hd [of "fst e"]
  by (simp add: wire_line_def)

lemma read_loop_wire:
  "list_all (\<lambda>e. nl \<notin> set (snd e)) av \<Longrightarrow>
     read_loop req (stdin_lines (wire_packet av @ more)) =
       Some (fold (\<lambda>e r. AList.update (fst e) (snd e) r) av req, stdin_lines more)"
proof (induction av arbitrary: req)
  case Nil
  have "stdin_lines (''='' @ nl # more) = ''='' # stdin_lines more"
    by (rule stdin_lines_line) (simp add: nl_def)
  then show ?case by (simp add: wire_packet_def)
next
  case (Cons e av)
  then have "stdin_lines (wire_packet (e # av) @ more) =
      wire_line e # stdin_lines (wire_packet av @ more)"
    using stdin_lines_line [OF wire_line_no_nl [of e]] by (simp add: wire_packet_def)
  with Cons show ?case by (simp add: read_loop_wire_line del: read_loop.simps(2))
qed

lemma map_of_fold_update:
  "map_of (fold (\<lambda>e r. AList.update (fst e) (snd e) r) av req) k =
     (case map_of (rev av) k of None \<Rightarrow> map_of req k | Some v \<Rightarrow> Some v)"
  by (induction av arbitrary: req) (auto simp: update_conv' map_add_def split: option.split)

lemma map_of_with_profile:
  "map_of (with_profile req result profile) k =
     (if k = AV_TACPROFILE \<and> result = ''ACK'' \<and> profile \<noteq> None then profile else map_of req k)"
  by (auto simp: with_profile_def update_conv' split: option.split)

lemma read_reply_result: "read_reply reply = Some (r, x, p) \<Longrightarrow> r \<in> set RESULTS"
  by (auto simp: read_reply_def RESULTS_def split: http_reply.splits json_field.splits if_splits)

lemma read_reply_profile:
  "read_reply reply = Some (''ACK'', x, Some p) \<Longrightarrow>
     \<exists>reason. reply = Json_Object (J_str ''ACK'') reason (J_str p)"
  by (auto simp: read_reply_def elim!: json_str.elims split: http_reply.splits json_field.splits if_splits)

section \<open>Properties\<close>

text \<open>
  A packet written by the daemon is read back with every attribute, a repeated attribute
  keeping its last value, and the input after the packet is left for the next one.
\<close>

theorem packet_reads_back:
  assumes "list_all (\<lambda>e. nl \<notin> set (snd e)) av"
  shows "\<exists>req. read_request (stdin_lines (wire_packet av @ more)) = Some (req, stdin_lines more) \<and>
    map_of req = map_of (rev av)"
  using read_loop_wire [OF assms, of "[]" more]
  by (auto simp: read_request_def fun_eq_iff map_of_fold_update split: option.split)

theorem packet_reads_back_witness:
  "\<exists>req. read_request (stdin_lines (wire_packet [(4, ''bob''), (49, ''AUTH'')] @ ''junk'')) =
      Some (req, stdin_lines ''junk'') \<and> map_of req = map_of (rev [(4, ''bob''), (49, ''AUTH'')])"
  by (rule packet_reads_back) (simp add: nl_def)

text \<open>
  Whatever the attributes hold, a response is exactly one line per attribute followed by the
  final line: no value can add a line to the answer or end it early.
\<close>

theorem response_is_one_frame:
  "py_split nl (write_response av) = map (av_line av) (sort (map fst av)) @ [''=0'', []]"
proof -
  have line: "nl \<notin> set (av_line av i)" for i
    using py_replace_removes [of nl "[cr]"] by (simp add: av_line_def)
  have "py_split nl (concat (map (\<lambda>i. av_line av i @ [nl]) is) @ ''=0'' @ [nl]) =
      map (av_line av) is @ [''=0'', []]" for "is"
  proof (induction "is")
    case Nil
    have "py_split nl (''=0'' @ nl # []) = ''=0'' # py_split nl []"
      by (rule py_split_append) (simp add: nl_def)
    then show ?case by simp
  next
    case (Cons i js)
    then show ?case using py_split_append [OF line [of i]] by simp
  qed
  then show ?thesis by (simp add: write_response_def)
qed

text \<open>
  C28: Every answered packet carries one of the four verdicts, keeps the attributes of the
  request, and gets a profile only together with an ACK verdict and only the profile of an ACK
  reply of the backend.
\<close>

theorem answer_is_fail_closed:
  assumes "handle_packet backend s req = (s', Some resp)" and "map_of req AV_TACPROFILE = None"
  shows "(\<exists>r\<in>set RESULTS. map_of resp AV_RESULT = Some r) \<and>
    (\<forall>k. k \<noteq> AV_RESULT \<and> k \<noteq> AV_TACPROFILE \<longrightarrow> map_of resp k = map_of req k) \<and>
    (\<forall>p. map_of resp AV_TACPROFILE = Some p \<longrightarrow>
       map_of resp AV_RESULT = Some ''ACK'' \<and>
       (\<exists>s1 s2 reason. backend s1 ''/internal/mavis/info''
          [(''username'', av_get req AV_USER), (''nas_ip'', av_get req AV_SERVERIP)] =
          (s2, Json_Object (J_str ''ACK'') reason (J_str p))))"
proof -
  consider (auth) s1 r x where "call_backend_auth backend s (av_get req AV_USER)
        (av_get req AV_PASSWORD) (av_get req AV_SERVERIP) = (s1, Some (r, x))"
      "resp = AList.update AV_RESULT r req"
    | (auth_info) s1 s2 r y p where "call_backend_info backend s1 (av_get req AV_USER)
        (av_get req AV_SERVERIP) = (s2, Some (r, y, p))"
      "resp = with_profile (AList.update AV_RESULT ''ACK'' req) r p"
    | (info) s1 r y p where "call_backend_info backend s (av_get req AV_USER)
        (av_get req AV_SERVERIP) = (s1, Some (r, y, p))"
      "resp = with_profile (AList.update AV_RESULT r req) r p"
    | (fixed) r where "resp = AList.update AV_RESULT r req" "r = ''NAK'' \<or> r = ''ACK''"
    using assms(1)
    by (auto simp: handle_packet_def Let_def split: if_splits prod.splits option.splits)
  then show ?thesis
  proof cases
    case auth
    then have "r \<in> set RESULTS"
      by (auto simp: call_backend_auth_def post_json_def Let_def split: prod.splits
          dest!: read_reply_result)
    with auth assms(2) show ?thesis by (auto simp: update_conv')
  next
    case auth_info
    then obtain reply where "backend s1 ''/internal/mavis/info''
        [(''username'', av_get req AV_USER), (''nas_ip'', av_get req AV_SERVERIP)] = (s2, reply)"
      "read_reply reply = Some (r, y, p)"
      by (auto simp: call_backend_info_def post_json_def split: prod.splits)
    with auth_info assms(2) show ?thesis
      by (auto simp: map_of_with_profile update_conv' RESULTS_def dest!: read_reply_profile)
  next
    case info
    then obtain reply where *: "backend s ''/internal/mavis/info''
        [(''username'', av_get req AV_USER), (''nas_ip'', av_get req AV_SERVERIP)] = (s1, reply)"
      "read_reply reply = Some (r, y, p)"
      by (auto simp: call_backend_info_def post_json_def split: prod.splits)
    with info assms(2) read_reply_result [OF *(2)] show ?thesis
      by (auto simp: map_of_with_profile update_conv' dest!: read_reply_profile)
  next
    case fixed
    with assms(2) show ?thesis by (auto simp: update_conv' RESULTS_def)
  qed
qed

theorem answer_is_fail_closed_witness:
  "\<exists>r\<in>set RESULTS. map_of [(49, ''HOST''), (6, ''ACK'')] AV_RESULT = Some r"
  using answer_is_fail_closed [of "\<lambda>s _ _. (s, Json_Not_Object)" "()" "[(49, ''HOST'')]" "()"
      "[(49, ''HOST''), (6, ''ACK'')]"]
  by (simp add: handle_packet_def av_get_def Let_def)

end
