(* ===== verification/Ldap_Sync.thy ===== *)
theory Ldap_Sync
  imports Models
begin

text \<open>
  \<open>app/ldap_sync/sync.py\<close>: applying one fetch of the directory to the user and group tables.
  The SQL function \<open>lower\<close> is the parameter \<open>sql_lower\<close>. A violated unique constraint or an
  ambiguous query ends the run with an exception; the session is then rolled back, so the
  result of a failed run is the exception alone.
\<close>

record ad_group_record =
  gr_sid :: string
  gr_distinguished_name :: string
  gr_name :: "string option"

record ad_user_record =
  ur_sam_account_name :: string
  ur_distinguished_name :: string
  ur_ad_object_guid :: "string option"
  ur_upn :: "string option"
  ur_display_name :: "string option"
  ur_groups :: "ad_group_record list"

record sync_result =
  sr_users_seen :: nat
  sr_users_inserted :: nat
  sr_users_updated :: nat
  sr_users_disabled :: nat
  sr_groups_seen :: nat
  sr_groups_inserted :: nat
  sr_edges_total :: nat
  sr_started_at :: instant
  sr_finished_at :: "instant option"

definition new_sync_result :: "instant \<Rightarrow> sync_result" where
  "new_sync_result now = \<lparr>sr_users_seen = 0, sr_users_inserted = 0, sr_users_updated = 0,
     sr_users_disabled = 0, sr_groups_seen = 0, sr_groups_inserted = 0, sr_edges_total = 0,
     sr_started_at = now, sr_finished_at = None\<rparr>"

section \<open>Users\<close>

definition find_existing_user ::
    "(string \<Rightarrow> string) \<Rightarrow> db \<Rightarrow> ad_user_record \<Rightarrow> user_row option exn" where
  "find_existing_user sql_lower d rec =
     (let by_guid = (if truthy (ur_ad_object_guid rec)
            then scalar_one_or_none (filter (\<lambda>u. u_ad_object_guid u = ur_ad_object_guid rec) (users d))
            else Inr None) in
      case by_guid of
        Inl e \<Rightarrow> Inl e
      | Inr (Some u) \<Rightarrow> Inr (Some u)
      | Inr None \<Rightarrow>
          (let candidates = sort_key u_id (filter
                 (\<lambda>u. sql_lower (u_sam_account_name u) = py_lower (ur_sam_account_name rec)) (users d)) in
           if candidates = [] then Inr None
           else
             (case find (\<lambda>c. u_sam_account_name c = ur_sam_account_name rec) candidates of
                Some c \<Rightarrow> Inr (Some c)
              | None \<Rightarrow> Inr (Some (hd candidates)))))"

definition new_user_row :: "instant \<Rightarrow> int \<Rightarrow> ad_user_record \<Rightarrow> user_row" where
  "new_user_row now i rec =
     \<lparr>u_id = i, u_sam_account_name = ur_sam_account_name rec,
      u_ad_object_guid = ur_ad_object_guid rec,
      u_distinguished_name = ur_distinguished_name rec, u_upn = ur_upn rec,
      u_display_name = ur_display_name rec, u_enabled = True,
      u_last_seen_in_sync_at = Some now\<rparr>"

definition updated_user_row :: "instant \<Rightarrow> ad_user_record \<Rightarrow> user_row \<Rightarrow> user_row" where
  "updated_user_row now rec u =
     u\<lparr>u_sam_account_name := ur_sam_account_name rec,
       u_ad_object_guid := (if truthy (ur_ad_object_guid rec) then ur_ad_object_guid rec
                            else u_ad_object_guid u),
       u_distinguished_name := ur_distinguished_name rec, u_upn := ur_upn rec,
       u_display_name := ur_display_name rec, u_enabled := True,
       u_last_seen_in_sync_at := Some now\<rparr>"

text \<open>The user's id, whether the row is new, and the table; before the flush.\<close>

definition upsert_user ::
    "(string \<Rightarrow> string) \<Rightarrow> instant \<Rightarrow> ad_user_record \<Rightarrow> db \<Rightarrow> (db \<times> int \<times> bool) exn" where
  "upsert_user sql_lower now rec d =
     (case find_existing_user sql_lower d rec of
        Inl e \<Rightarrow> Inl e
      | Inr None \<Rightarrow>
          (let i = seqs d T_user in
           Inr (bump_seq T_user (d\<lparr>users := users d @ [new_user_row now i rec]\<rparr>), i, True))
      | Inr (Some u) \<Rightarrow>
          Inr (d\<lparr>users := map (\<lambda>v. if u_id v = u_id u then updated_user_row now rec v else v)
                (users d)\<rparr>, u_id u, False))"

text \<open>The unique constraints a flush of the user table checks.\<close>

definition users_flush_ok :: "(string \<Rightarrow> string) \<Rightarrow> db \<Rightarrow> bool" where
  "users_flush_ok sql_lower d \<longleftrightarrow>
     user_uniques_ok (users d) \<and> distinct (map (\<lambda>u. sql_lower (u_sam_account_name u)) (users d))"

section \<open>Groups\<close>

definition new_group_row :: "instant \<Rightarrow> int \<Rightarrow> ad_group_record \<Rightarrow> ad_group_row" where
  "new_group_row now i gr =
     \<lparr>g_id = i, g_sid = gr_sid gr, g_distinguished_name = gr_distinguished_name gr,
      g_name = gr_name gr, g_last_seen_in_sync_at = Some now\<rparr>"

definition updated_group_row :: "instant \<Rightarrow> ad_group_record \<Rightarrow> ad_group_row \<Rightarrow> ad_group_row" where
  "updated_group_row now gr g =
     g\<lparr>g_distinguished_name := gr_distinguished_name gr, g_name := gr_name gr,
       g_last_seen_in_sync_at := Some now\<rparr>"

type_synonym group_cache = "(string \<times> int) list"

text \<open>The id of the group of a record, through the cache of this run.\<close>

definition resolve_group ::
    "instant \<Rightarrow> ad_group_record \<Rightarrow> db \<times> group_cache \<Rightarrow> ((db \<times> group_cache) \<times> int) exn" where
  "resolve_group now gr = (\<lambda>(d, groups_by_sid).
     case map_of groups_by_sid (gr_sid gr) of
       Some i \<Rightarrow> Inr ((d, groups_by_sid), i)
     | None \<Rightarrow>
         (case scalar_one_or_none (filter (\<lambda>g. g_sid g = gr_sid gr) (ad_groups d)) of
            Inl e \<Rightarrow> Inl e
          | Inr None \<Rightarrow>
              (let i = seqs d T_ad_group in
               Inr ((bump_seq T_ad_group (d\<lparr>ad_groups := ad_groups d @ [new_group_row now i gr]\<rparr>),
                     (gr_sid gr, i) # groups_by_sid), i))
          | Inr (Some g) \<Rightarrow>
              Inr ((d\<lparr>ad_groups := map (\<lambda>h. if g_id h = g_id g then updated_group_row now gr h else h)
                      (ad_groups d)\<rparr>,
                    (gr_sid gr, g_id g) # groups_by_sid), g_id g)))"

text \<open>A second join row for the same pair violates the primary key.\<close>

definition add_edge :: "int \<Rightarrow> int \<Rightarrow> db \<Rightarrow> db exn" where
  "add_edge uid gid d =
     (if (uid, gid) \<in> set (user_ad_group d) then Inl ''IntegrityError''
      else Inr (d\<lparr>user_ad_group := user_ad_group d @ [(uid, gid)]\<rparr>))"

fun add_groups ::
    "instant \<Rightarrow> int \<Rightarrow> ad_group_record list \<Rightarrow> db \<times> group_cache \<Rightarrow> (db \<times> group_cache) exn" where
  "add_groups now uid [] st = Inr st"
| "add_groups now uid (gr # rest) st =
     (case resolve_group now gr st of
        Inl e \<Rightarrow> Inl e
      | Inr ((d, cache), gid) \<Rightarrow>
          (case add_edge uid gid d of
             Inl e \<Rightarrow> Inl e
           | Inr d' \<Rightarrow> add_groups now uid rest (d', cache)))"

definition drop_edges :: "int \<Rightarrow> db \<Rightarrow> db" where
  "drop_edges uid d = d\<lparr>user_ad_group := filter (\<lambda>e. fst e \<noteq> uid) (user_ad_group d)\<rparr>"

definition replace_user_groups ::
    "instant \<Rightarrow> int \<Rightarrow> ad_group_record list \<Rightarrow> db \<times> group_cache \<Rightarrow> ((db \<times> group_cache) \<times> nat) exn" where
  "replace_user_groups now uid grs st =
     (case add_groups now uid grs (drop_edges uid (fst st), snd st) of
        Inl e \<Rightarrow> Inl e
      | Inr st' \<Rightarrow> Inr (st', length grs))"

section \<open>One run\<close>

record sync_state =
  ss_db :: db
  ss_cache :: group_cache
  ss_seen :: "int list"
  ss_result :: sync_result

definition sync_one ::
    "(string \<Rightarrow> string) \<Rightarrow> instant \<Rightarrow> ad_user_record \<Rightarrow> sync_state \<Rightarrow> sync_state exn" where
  "sync_one sql_lower now rec s =
     (case upsert_user sql_lower now rec (ss_db s) of
        Inl e \<Rightarrow> Inl e
      | Inr (d1, uid, inserted) \<Rightarrow>
          if \<not> users_flush_ok sql_lower d1 then Inl ''IntegrityError''
          else
            (case replace_user_groups now uid (ur_groups rec) (d1, ss_cache s) of
               Inl e \<Rightarrow> Inl e
             | Inr ((d2, cache), edges) \<Rightarrow>
                 (let r = ss_result s in
                  Inr \<lparr>ss_db = d2, ss_cache = cache, ss_seen = uid # ss_seen s,
                    ss_result = r\<lparr>sr_users_seen := sr_users_seen r + 1,
                      sr_users_inserted := sr_users_inserted r + (if inserted then 1 else 0),
                      sr_users_updated := sr_users_updated r + (if inserted then 0 else 1),
                      sr_edges_total := sr_edges_total r + edges\<rparr>\<rparr>)))"

fun sync_loop ::
    "(string \<Rightarrow> string) \<Rightarrow> instant \<Rightarrow> ad_user_record list \<Rightarrow> sync_state \<Rightarrow> sync_state exn" where
  "sync_loop sql_lower now [] s = Inr s"
| "sync_loop sql_lower now (rec # rest) s =
     (case sync_one sql_lower now rec s of
        Inl e \<Rightarrow> Inl e
      | Inr s' \<Rightarrow> sync_loop sql_lower now rest s')"

definition stale_user :: "int list \<Rightarrow> user_row \<Rightarrow> bool" where
  "stale_user seen u \<longleftrightarrow> seen \<noteq> [] \<and> u_id u \<notin> set seen \<and> u_enabled u"

definition disable_stale :: "int list \<Rightarrow> db \<Rightarrow> db" where
  "disable_stale seen d =
     d\<lparr>users := map (\<lambda>u. if stale_user seen u then u\<lparr>u_enabled := False\<rparr> else u) (users d)\<rparr>"

definition run_sync ::
    "(string \<Rightarrow> string) \<Rightarrow> instant \<Rightarrow> ad_user_record list \<Rightarrow> db \<Rightarrow> (db \<times> sync_result) exn" where
  "run_sync sql_lower now records d =
     (case sync_loop sql_lower now records
          \<lparr>ss_db = d, ss_cache = [], ss_seen = [], ss_result = new_sync_result now\<rparr> of
        Inl e \<Rightarrow> Inl e
      | Inr s \<Rightarrow>
          Inr (disable_stale (ss_seen s) (ss_db s),
               (ss_result s)\<lparr>sr_groups_seen := length (ss_cache s),
                 sr_groups_inserted := length (ss_cache s),
                 sr_users_disabled := length (filter (stale_user (ss_seen s)) (users (ss_db s))),
                 sr_finished_at := Some now\<rparr>))"

section \<open>Facts\<close>

text \<open>Everything but the identity tables and their sequences.\<close>

definition outside_sync :: "db \<Rightarrow> db" where
  "outside_sync d = d\<lparr>users := [], ad_groups := [], user_ad_group := [], seqs := (\<lambda>_. 1)\<rparr>"

lemma outside_sync_simps [simp]:
  "outside_sync (d\<lparr>users := us\<rparr>) = outside_sync d"
  "outside_sync (d\<lparr>ad_groups := gs\<rparr>) = outside_sync d"
  "outside_sync (d\<lparr>user_ad_group := es\<rparr>) = outside_sync d"
  "outside_sync (bump_seq t d) = outside_sync d"
  by (simp_all add: outside_sync_def bump_seq_def)

definition user_keys_ok :: "db \<Rightarrow> bool" where
  "user_keys_ok d \<longleftrightarrow> keys_ok (seqs d T_user) (map u_id (users d)) \<and> 0 < seqs d T_user"

lemma find_existing_in:
  assumes "find_existing_user sql_lower d rec = Inr (Some u)"
  shows "u \<in> set (users d)"
proof -
  let ?cs = "sort_key u_id (filter
    (\<lambda>u. sql_lower (u_sam_account_name u) = py_lower (ur_sam_account_name rec)) (users d))"
  consider "filter (\<lambda>u. u_ad_object_guid u = ur_ad_object_guid rec) (users d) = [u]"
    | "find (\<lambda>c. u_sam_account_name c = ur_sam_account_name rec) ?cs = Some u"
    | "?cs \<noteq> []" "u = hd ?cs"
    using assms
    by (auto simp: find_existing_user_def Let_def scalar_one_or_none_Some
        split: sum.splits option.splits if_splits)
  then show ?thesis
  proof cases
    case 1
    then have "u \<in> set (filter (\<lambda>u. u_ad_object_guid u = ur_ad_object_guid rec) (users d))" by simp
    then show ?thesis by simp
  next
    case 2
    then show ?thesis by (auto dest: find_Some_in)
  next
    case 3
    from hd_in_set [OF 3(1)] have "u \<in> set ?cs" unfolding 3(2) .
    then show ?thesis by simp
  qed
qed

text \<open>The row of a record, as written by this run.\<close>

definition written_by :: "instant \<Rightarrow> ad_user_record \<Rightarrow> user_row \<Rightarrow> bool" where
  "written_by now rec u \<longleftrightarrow>
     u_sam_account_name u = ur_sam_account_name rec \<and>
     u_distinguished_name u = ur_distinguished_name rec \<and> u_upn u = ur_upn rec \<and>
     u_display_name u = ur_display_name rec \<and> u_enabled u \<and> u_last_seen_in_sync_at u = Some now \<and>
     (truthy (ur_ad_object_guid rec) \<longrightarrow> u_ad_object_guid u = ur_ad_object_guid rec)"

lemma upsert_user_effect:
  assumes "upsert_user sql_lower now rec d = Inr (d', uid, inserted)" and "user_keys_ok d"
  shows "user_keys_ok d' \<and> uid \<in> set (map u_id (users d')) \<and> outside_sync d' = outside_sync d \<and>
    ad_groups d' = ad_groups d \<and> user_ad_group d' = user_ad_group d \<and>
    seqs d' T_ad_group = seqs d T_ad_group \<and>
    (\<forall>u\<in>set (users d'). if u_id u = uid then written_by now rec u else u \<in> set (users d)) \<and>
    map u_id (users d') = map u_id (users d) @ (if inserted then [uid] else []) \<and>
    (inserted \<longleftrightarrow> uid \<notin> set (map u_id (users d)))"
proof (cases "find_existing_user sql_lower d rec")
  case (Inl e)
  with assms show ?thesis by (simp add: upsert_user_def)
next
  case (Inr found)
  show ?thesis
  proof (cases found)
    case None
    with Inr assms have *: "uid = seqs d T_user" "inserted"
      "d' = bump_seq T_user (d\<lparr>users := users d @ [new_user_row now uid rec]\<rparr>)"
      by (auto simp: upsert_user_def Let_def)
    have "seqs d T_user \<notin> set (map u_id (users d))"
      using assms(2) by (intro keys_ok_fresh) (simp add: user_keys_ok_def)
    moreover from this have "\<forall>u\<in>set (users d). u_id u \<noteq> seqs d T_user" by (auto simp: image_iff)
    ultimately show ?thesis using assms(2) keys_ok_snoc [of "seqs d T_user" "map u_id (users d)"]
      by (auto simp: * user_keys_ok_def new_user_row_def written_by_def)
  next
    case (Some u)
    with Inr have u: "u \<in> set (users d)" by (simp add: find_existing_in)
    from Some Inr assms have *: "uid = u_id u" "\<not> inserted"
      "d' = d\<lparr>users := map (\<lambda>v. if u_id v = u_id u then updated_user_row now rec v else v) (users d)\<rparr>"
      by (auto simp: upsert_user_def)
    have ids: "map u_id (users d') = map u_id (users d)"
      unfolding * by (simp add: updated_user_row_def comp_def)
    have "seqs d' = seqs d" by (simp add: *)
    with ids assms(2) have "user_keys_ok d'" by (simp only: user_keys_ok_def)
    moreover have "uid \<in> set (map u_id (users d))" using u by (simp add: *)
    moreover have "\<forall>v\<in>set (users d'). if u_id v = uid then written_by now rec v else v \<in> set (users d)"
      by (auto simp: * written_by_def updated_user_row_def)
    ultimately show ?thesis using ids *(2) by (simp add: *(3) del: set_map map_map)
  qed
qed

lemma resolve_group_users:
  "resolve_group now gr (d, c) = Inr ((d', c'), i) \<Longrightarrow>
     users d' = users d \<and> seqs d' T_user = seqs d T_user \<and> outside_sync d' = outside_sync d \<and>
     user_ad_group d' = user_ad_group d"
  by (auto simp: resolve_group_def Let_def split: option.splits sum.splits)

lemma add_groups_users:
  "add_groups now uid grs (d, c) = Inr (d', c') \<Longrightarrow>
     users d' = users d \<and> seqs d' T_user = seqs d T_user \<and> outside_sync d' = outside_sync d \<and>
     filter (\<lambda>e. fst e \<noteq> uid) (user_ad_group d') = filter (\<lambda>e. fst e \<noteq> uid) (user_ad_group d)"
proof (induction grs arbitrary: d c)
  case Nil
  then show ?case by simp
next
  case (Cons gr grs)
  from Cons.prems obtain d1 c1 i d2 where s: "resolve_group now gr (d, c) = Inr ((d1, c1), i)"
    "add_edge uid i d1 = Inr d2" "add_groups now uid grs (d2, c1) = Inr (d', c')"
    by (auto split: sum.splits)
  from s(2) have "d2 = d1\<lparr>user_ad_group := user_ad_group d1 @ [(uid, i)]\<rparr>"
    by (simp add: add_edge_def split: if_splits)
  with Cons.IH [OF s(3)] resolve_group_users [OF s(1)] show ?case by simp
qed

lemma drop_edges_fields [simp]:
  "users (drop_edges uid d) = users d" "ad_groups (drop_edges uid d) = ad_groups d"
  "seqs (drop_edges uid d) = seqs d" "outside_sync (drop_edges uid d) = outside_sync d"
  "user_ad_group (drop_edges uid d) = filter (\<lambda>e. fst e \<noteq> uid) (user_ad_group d)"
  by (simp_all add: drop_edges_def)

text \<open>What one record does to the users, and the counters.\<close>

lemma sync_one_users:
  assumes "sync_one sql_lower now rec s = Inr s'" and "user_keys_ok (ss_db s)"
  shows "\<exists>uid inserted. ss_seen s' = uid # ss_seen s \<and> user_keys_ok (ss_db s') \<and>
    uid \<in> set (map u_id (users (ss_db s'))) \<and>
    outside_sync (ss_db s') = outside_sync (ss_db s) \<and>
    (\<forall>u\<in>set (users (ss_db s')).
       if u_id u = uid then written_by now rec u else u \<in> set (users (ss_db s))) \<and>
    map u_id (users (ss_db s')) = map u_id (users (ss_db s)) @ (if inserted then [uid] else []) \<and>
    sr_users_seen (ss_result s') = sr_users_seen (ss_result s) + 1 \<and>
    sr_users_inserted (ss_result s') = sr_users_inserted (ss_result s) + (if inserted then 1 else 0) \<and>
    sr_users_updated (ss_result s') = sr_users_updated (ss_result s) + (if inserted then 0 else 1)"
proof -
  from assms(1) obtain d1 uid inserted d2 c2 n where
    up: "upsert_user sql_lower now rec (ss_db s) = Inr (d1, uid, inserted)"
    and gr: "add_groups now uid (ur_groups rec) (drop_edges uid d1, ss_cache s) = Inr (d2, c2)"
    and s': "s' = \<lparr>ss_db = d2, ss_cache = c2, ss_seen = uid # ss_seen s,
       ss_result = (ss_result s)\<lparr>sr_users_seen := sr_users_seen (ss_result s) + 1,
         sr_users_inserted := sr_users_inserted (ss_result s) + (if inserted then 1 else 0),
         sr_users_updated := sr_users_updated (ss_result s) + (if inserted then 0 else 1),
         sr_edges_total := sr_edges_total (ss_result s) + n\<rparr>\<rparr>"
    by (auto simp: sync_one_def replace_user_groups_def Let_def split: sum.splits if_splits)
  have u: "users d2 = users d1" "seqs d2 T_user = seqs d1 T_user" "outside_sync d2 = outside_sync d1"
    using add_groups_users [OF gr] by simp_all
  note e = upsert_user_effect [OF up assms(2)]
  then have "user_keys_ok d1" by blast
  with u have "user_keys_ok d2" by (simp only: user_keys_ok_def)
  with e u show ?thesis
    by (intro exI [of _ uid] exI [of _ inserted]) (simp add: s' del: set_map)
qed

text \<open>The invariant of the loop over the records, from the state \<open>s0\<close> on.\<close>

definition sync_inv :: "instant \<Rightarrow> nat \<Rightarrow> sync_state \<Rightarrow> sync_state \<Rightarrow> bool" where
  "sync_inv now n s0 s \<longleftrightarrow>
     user_keys_ok (ss_db s) \<and> outside_sync (ss_db s) = outside_sync (ss_db s0) \<and>
     set (ss_seen s) \<subseteq> set (map u_id (users (ss_db s))) \<and>
     (\<forall>u\<in>set (users (ss_db s)).
        if u_id u \<in> set (ss_seen s)
        then u_enabled u \<and> u_last_seen_in_sync_at u = Some now
        else u \<in> set (users (ss_db s0))) \<and>
     (\<exists>new. map u_id (users (ss_db s)) = map u_id (users (ss_db s0)) @ new \<and>
        sr_users_inserted (ss_result s) = length new) \<and>
     sr_users_seen (ss_result s) = n \<and>
     sr_users_inserted (ss_result s) + sr_users_updated (ss_result s) = n"

lemma sync_inv_step:
  assumes "sync_inv now n s0 s" and "sync_one sql_lower now rec s = Inr s'"
  shows "sync_inv now (n + 1) s0 s'"
proof -
  from assms(1) have keys: "user_keys_ok (ss_db s)" by (simp add: sync_inv_def)
  from sync_one_users [OF assms(2) keys] obtain uid inserted where
    *: "ss_seen s' = uid # ss_seen s" "user_keys_ok (ss_db s')"
      "uid \<in> set (map u_id (users (ss_db s')))" "outside_sync (ss_db s') = outside_sync (ss_db s)"
      "sr_users_seen (ss_result s') = sr_users_seen (ss_result s) + 1"
      "sr_users_inserted (ss_result s') = sr_users_inserted (ss_result s) + (if inserted then 1 else 0)"
      "sr_users_updated (ss_result s') = sr_users_updated (ss_result s) + (if inserted then 0 else 1)"
    and rows: "\<forall>u\<in>set (users (ss_db s')).
       if u_id u = uid then written_by now rec u else u \<in> set (users (ss_db s))"
    and ids: "map u_id (users (ss_db s')) = map u_id (users (ss_db s)) @ (if inserted then [uid] else [])"
    by blast
  from assms(1) obtain new where new: "map u_id (users (ss_db s)) = map u_id (users (ss_db s0)) @ new"
    "sr_users_inserted (ss_result s) = length new" by (auto simp: sync_inv_def)
  have "set (map u_id (users (ss_db s))) \<subseteq> set (map u_id (users (ss_db s')))"
    unfolding ids by auto
  moreover from assms(1) have "set (ss_seen s) \<subseteq> set (map u_id (users (ss_db s)))"
    unfolding sync_inv_def by blast
  ultimately have seen: "set (ss_seen s') \<subseteq> set (map u_id (users (ss_db s')))"
    using *(1,3) by (simp only: list.set) blast
  have states: "\<forall>u\<in>set (users (ss_db s')). if u_id u \<in> set (ss_seen s')
      then u_enabled u \<and> u_last_seen_in_sync_at u = Some now else u \<in> set (users (ss_db s0))"
  proof
    fix u
    assume "u \<in> set (users (ss_db s'))"
    with rows assms(1) show "if u_id u \<in> set (ss_seen s')
        then u_enabled u \<and> u_last_seen_in_sync_at u = Some now else u \<in> set (users (ss_db s0))"
      by (cases "u_id u = uid") (auto simp: *(1) sync_inv_def written_by_def)
  qed
  have new': "map u_id (users (ss_db s')) =
      map u_id (users (ss_db s0)) @ new @ (if inserted then [uid] else [])"
    "sr_users_inserted (ss_result s') = length (new @ (if inserted then [uid] else []))"
    using ids new *(6) by simp_all
  have counts: "sr_users_seen (ss_result s') = n + 1"
    "sr_users_inserted (ss_result s') + sr_users_updated (ss_result s') = n + 1"
    "outside_sync (ss_db s') = outside_sync (ss_db s0)"
    using assms(1) * by (auto simp: sync_inv_def)
  show ?thesis unfolding sync_inv_def using *(2) seen states new' counts by blast
qed

lemma sync_loop_inv:
  "sync_loop sql_lower now recs s = Inr s' \<Longrightarrow> sync_inv now n s0 s \<Longrightarrow>
     sync_inv now (n + length recs) s0 s'"
proof (induction recs arbitrary: s n)
  case Nil
  then show ?case by simp
next
  case (Cons rec recs)
  from Cons.prems(1) obtain s1 where s1: "sync_one sql_lower now rec s = Inr s1"
    "sync_loop sql_lower now recs s1 = Inr s'" by (auto split: sum.splits)
  from Cons.IH [OF s1(2) sync_inv_step [OF Cons.prems(2) s1(1)]] show ?case by simp
qed

lemma sync_loop_seen:
  "sync_loop sql_lower now recs s = Inr s' \<Longrightarrow> user_keys_ok (ss_db s) \<Longrightarrow>
     length (ss_seen s') = length (ss_seen s) + length recs"
proof (induction recs arbitrary: s)
  case Nil
  then show ?case by simp
next
  case (Cons rec recs)
  from Cons.prems(1) obtain s1 where s1: "sync_one sql_lower now rec s = Inr s1"
    "sync_loop sql_lower now recs s1 = Inr s'" by (auto split: sum.splits)
  with sync_one_users [OF s1(1) Cons.prems(2)] Cons.IH [OF s1(2)] show ?case by auto
qed

lemma run_sync_start:
  "user_keys_ok d \<Longrightarrow> sync_inv now 0
     \<lparr>ss_db = d, ss_cache = [], ss_seen = [], ss_result = new_sync_result now\<rparr>
     \<lparr>ss_db = d, ss_cache = [], ss_seen = [], ss_result = new_sync_result now\<rparr>"
  by (simp add: sync_inv_def new_sync_result_def)

lemma disable_stale_frame [simp]:
  "outside_sync (disable_stale seen d) = outside_sync d"
  "map u_id (users (disable_stale seen d)) = map u_id (users d)"
  by (simp_all add: disable_stale_def comp_def)

subsection \<open>Group memberships\<close>

definition gkeys :: "db \<Rightarrow> (int \<times> string) list" where
  "gkeys d = map (\<lambda>g. (g_id g, g_sid g)) (ad_groups d)"

definition sids_of :: "db \<Rightarrow> int \<Rightarrow> string list" where
  "sids_of d uid = map g_sid (groups_of d uid)"

definition group_tables_ok :: "db \<Rightarrow> bool" where
  "group_tables_ok d \<longleftrightarrow>
     keys_ok (seqs d T_ad_group) (map fst (gkeys d)) \<and> 0 < seqs d T_ad_group \<and>
     distinct (map snd (gkeys d)) \<and> list_all (\<lambda>e. snd e \<in> set (map fst (gkeys d))) (user_ad_group d)"

definition cache_ok :: "db \<Rightarrow> group_cache \<Rightarrow> bool" where
  "cache_ok d c \<longleftrightarrow> (\<forall>sid i. map_of c sid = Some i \<longrightarrow> (i, sid) \<in> set (gkeys d))"

lemma groups_with_id:
  "distinct (map g_id gs) \<Longrightarrow> i \<in> set (map g_id gs) \<Longrightarrow>
     map g_sid (filter (\<lambda>g. g_id g = i) gs) =
       [the (map_of (map (\<lambda>g. (g_id g, g_sid g)) gs) i)]"
proof (induction gs)
  case (Cons g gs)
  show ?case
  proof (cases "g_id g = i")
    case True
    with Cons.prems have "filter (\<lambda>g. g_id g = i) gs = []" by (auto simp: filter_empty_conv image_iff)
    with True show ?thesis by simp
  next
    case False
    with Cons show ?thesis by simp
  qed
qed simp

lemma sids_of_edges:
  assumes "group_tables_ok d"
  shows "sids_of d uid = map (\<lambda>e. the (map_of (gkeys d) (snd e)))
    (filter (\<lambda>e. fst e = uid) (user_ad_group d))"
proof -
  have d: "distinct (map g_id (ad_groups d))"
    using assms by (simp add: group_tables_ok_def keys_ok_def gkeys_def comp_def)
  have "list_all (\<lambda>e. snd e \<in> set (map g_id (ad_groups d))) es \<Longrightarrow>
      map g_sid (concat (map (\<lambda>(u, g). if u = uid then filter (\<lambda>r. g_id r = g) (ad_groups d) else []) es)) =
      map (\<lambda>e. the (map_of (gkeys d) (snd e))) (filter (\<lambda>e. fst e = uid) es)" for es
    using groups_with_id [OF d] by (induction es) (auto simp: gkeys_def)
  moreover have "list_all (\<lambda>e. snd e \<in> set (map g_id (ad_groups d))) (user_ad_group d)"
    using assms by (simp add: group_tables_ok_def gkeys_def comp_def)
  ultimately show ?thesis by (simp add: sids_of_def groups_of_def)
qed

lemma gkeys_upd [simp]:
  "gkeys (d\<lparr>users := us\<rparr>) = gkeys d" "gkeys (d\<lparr>user_ad_group := es\<rparr>) = gkeys d"
  "gkeys (bump_seq t d) = gkeys d" "gkeys (drop_edges uid d) = gkeys d"
  "gkeys (d\<lparr>ad_groups := ad_groups d @ [g]\<rparr>) = gkeys d @ [(g_id g, g_sid g)]"
  by (simp_all add: gkeys_def drop_edges_def)

lemma gkeys_update_group [simp]:
  "gkeys (d\<lparr>ad_groups := map (\<lambda>h. if g_id h = i then updated_group_row now gr h else h) (ad_groups d)\<rparr>)
     = gkeys d"
  by (auto simp: gkeys_def updated_group_row_def)

lemma resolve_group_effect:
  assumes "resolve_group now gr (d, c) = Inr ((d', c'), i)" and "group_tables_ok d" and "cache_ok d c"
  shows "group_tables_ok d' \<and> cache_ok d' c' \<and> (i, gr_sid gr) \<in> set (gkeys d') \<and>
    (\<exists>new. gkeys d' = gkeys d @ new) \<and> user_ad_group d' = user_ad_group d"
proof -
  let ?hits = "filter (\<lambda>g. g_sid g = gr_sid gr) (ad_groups d)"
  let ?upd = "\<lambda>g. d\<lparr>ad_groups := map (\<lambda>h. if g_id h = g_id g then updated_group_row now gr h else h)
    (ad_groups d)\<rparr>"
  consider (cached) "map_of c (gr_sid gr) = Some i" "d' = d" "c' = c"
    | (known) g where "?hits = [g]" "i = g_id g" "d' = ?upd g" "c' = (gr_sid gr, g_id g) # c"
    | (fresh) "?hits = []" "i = seqs d T_ad_group"
        "d' = bump_seq T_ad_group (d\<lparr>ad_groups := ad_groups d @ [new_group_row now i gr]\<rparr>)"
        "c' = (gr_sid gr, i) # c"
  proof (cases "map_of c (gr_sid gr)")
    case None
    note none = this
    show thesis
    proof (cases "scalar_one_or_none ?hits")
      case (Inl e)
      with none assms(1) show thesis by (simp add: resolve_group_def)
    next
      case (Inr o')
      show thesis
      proof (cases o')
        case None
        with Inr have h: "?hits = []" by (simp add: scalar_one_or_none_None)
        from Inr None none assms(1) have "i = seqs d T_ad_group"
          "d' = bump_seq T_ad_group (d\<lparr>ad_groups := ad_groups d @ [new_group_row now i gr]\<rparr>)"
          "c' = (gr_sid gr, i) # c" by (auto simp: resolve_group_def Let_def)
        with h show thesis by (rule that(3))
      next
        case (Some g)
        with Inr have h: "?hits = [g]" by (simp add: scalar_one_or_none_Some)
        from Inr Some none assms(1) have "i = g_id g" "d' = ?upd g" "c' = (gr_sid gr, g_id g) # c"
          by (auto simp: resolve_group_def)
        with h show thesis by (rule that(2))
      qed
    qed
  next
    case (Some j)
    with assms(1) have "map_of c (gr_sid gr) = Some i" "d' = d" "c' = c"
      by (auto simp: resolve_group_def)
    then show thesis by (rule that(1))
  qed
  then show ?thesis
  proof cases
    case cached
    with assms show ?thesis by (auto simp: cache_ok_def)
  next
    case known
    then have "g \<in> set (filter (\<lambda>g. g_sid g = gr_sid gr) (ad_groups d))" by simp
    then have m: "(i, gr_sid gr) \<in> set (gkeys d)" by (auto simp: known(2) gkeys_def)
    with assms known show ?thesis by (auto simp: cache_ok_def group_tables_ok_def)
  next
    case fresh
    have k: "gkeys d' = gkeys d @ [(i, gr_sid gr)]" by (simp add: fresh(3) new_group_row_def)
    have n: "gr_sid gr \<notin> set (map snd (gkeys d))"
      using fresh(1) by (auto simp: gkeys_def filter_empty_conv)
    have "keys_ok (i + 1) (map fst (gkeys d) @ [i])"
      using assms(2) unfolding fresh(2) by (intro keys_ok_snoc) (simp_all add: group_tables_ok_def)
    moreover have e: "user_ad_group d' = user_ad_group d" "seqs d' T_ad_group = i + 1"
      by (simp_all add: fresh(2,3))
    moreover have "list_all (\<lambda>e. snd e \<in> set (map fst (gkeys d) @ [i])) (user_ad_group d)"
      using assms(2) unfolding group_tables_ok_def list_all_iff by (metis UnI1 set_append)
    moreover have "0 < i + 1" using assms(2) by (simp add: group_tables_ok_def fresh(2))
    ultimately have "group_tables_ok d'"
      using assms(2) n unfolding group_tables_ok_def k by simp
    moreover have "cache_ok d' c'" using assms(3) by (auto simp: cache_ok_def k fresh(4))
    ultimately show ?thesis using k e by simp
  qed
qed

lemma add_groups_effect:
  "add_groups now uid grs (d, c) = Inr (d', c') \<Longrightarrow> group_tables_ok d \<Longrightarrow> cache_ok d c \<Longrightarrow>
     group_tables_ok d' \<and> cache_ok d' c' \<and> (\<exists>new. gkeys d' = gkeys d @ new) \<and>
     (\<exists>is. user_ad_group d' = user_ad_group d @ map (Pair uid) is \<and>
        list_all2 (\<lambda>i gr. (i, gr_sid gr) \<in> set (gkeys d')) is grs)"
proof (induction grs arbitrary: d c)
  case Nil
  then show ?case by simp
next
  case (Cons gr grs)
  from Cons.prems(1) obtain d1 c1 i d2 where s: "resolve_group now gr (d, c) = Inr ((d1, c1), i)"
    "add_edge uid i d1 = Inr d2" "add_groups now uid grs (d2, c1) = Inr (d', c')"
    by (auto split: sum.splits)
  note r = resolve_group_effect [OF s(1) Cons.prems(2,3)]
  from s(2) have d2: "d2 = d1\<lparr>user_ad_group := user_ad_group d1 @ [(uid, i)]\<rparr>"
    by (simp add: add_edge_def split: if_splits)
  from r have "i \<in> set (map fst (gkeys d1))" by (force simp: image_iff)
  moreover from r have "group_tables_ok d1" "cache_ok d1 c1" by blast+
  ultimately have "group_tables_ok d2" "cache_ok d2 c1"
    unfolding d2 group_tables_ok_def cache_ok_def by simp_all
  from Cons.IH [OF s(3) this] obtain new "is" where ih: "group_tables_ok d'" "cache_ok d' c'"
    "gkeys d' = gkeys d2 @ new" "user_ad_group d' = user_ad_group d2 @ map (Pair uid) is"
    "list_all2 (\<lambda>i gr. (i, gr_sid gr) \<in> set (gkeys d')) is grs" by blast
  from r obtain new1 where "gkeys d1 = gkeys d @ new1" by blast
  with ih(3) d2 have "gkeys d' = gkeys d @ (new1 @ new)" by simp
  moreover have "user_ad_group d' = user_ad_group d @ map (Pair uid) (i # is)"
    using ih(4) d2 r by simp
  moreover have "list_all2 (\<lambda>i gr. (i, gr_sid gr) \<in> set (gkeys d')) (i # is) (gr # grs)"
    using ih(3,5) d2 r by auto
  ultimately show ?case using ih(1,2) by blast
qed

lemma lookup_sids:
  "list_all2 (\<lambda>i gr. (i, gr_sid gr) \<in> set ks) is grs \<Longrightarrow> distinct (map fst ks) \<Longrightarrow>
     map (\<lambda>i. the (map_of ks i)) is = map gr_sid grs"
  by (induction "is" grs rule: list_all2_induct) auto

text \<open>The memberships written for one user.\<close>

lemma replace_user_groups_effect:
  assumes "replace_user_groups now uid grs (d, c) = Inr ((d', c'), n)"
    and "group_tables_ok d" and "cache_ok d c"
  shows "sids_of d' uid = map gr_sid grs \<and> group_tables_ok d' \<and> cache_ok d' c' \<and>
    (\<forall>v. v \<noteq> uid \<longrightarrow> sids_of d' v = sids_of d v)"
proof -
  let ?d = "drop_edges uid d"
  have ok: "group_tables_ok ?d" using assms(2)
    by (auto simp: group_tables_ok_def list_all_iff)
  have "cache_ok ?d c" using assms(3) by (simp add: cache_ok_def)
  moreover from assms(1) have "add_groups now uid grs (?d, c) = Inr (d', c')"
    by (auto simp: replace_user_groups_def split: sum.splits)
  ultimately obtain new "is" where *: "group_tables_ok d'" "cache_ok d' c'"
    "gkeys d' = gkeys ?d @ new" "user_ad_group d' = user_ad_group ?d @ map (Pair uid) is"
    "list_all2 (\<lambda>i gr. (i, gr_sid gr) \<in> set (gkeys d')) is grs"
    using add_groups_effect [OF _ ok] by blast
  have d: "distinct (map fst (gkeys d'))" using *(1) by (simp add: group_tables_ok_def keys_ok_def)
  have "filter (\<lambda>e. fst e = uid) (user_ad_group d') = map (Pair uid) is" by (simp add: *(4))
  then have "sids_of d' uid = map gr_sid grs"
    using lookup_sids [OF *(5) d] by (simp add: sids_of_edges [OF *(1)] comp_def)
  moreover have "sids_of d' v = sids_of d v" if v: "v \<noteq> uid" for v
  proof -
    have "filter (\<lambda>e. fst e = v) (user_ad_group d') = filter (\<lambda>e. fst e = v) (user_ad_group d)"
      using v by (auto simp: *(4) filter_empty_conv intro: filter_cong)
    moreover have "the (map_of (gkeys d') (snd e)) = the (map_of (gkeys d) (snd e))"
      if "e \<in> set (user_ad_group d)" for e
    proof -
      have "snd e \<in> fst ` set (gkeys d)" using assms(2) that
        by (simp add: group_tables_ok_def list_all_iff)
      then obtain s where "map_of (gkeys d) (snd e) = Some s"
        by (metis map_of_eq_None_iff not_None_eq)
      then show ?thesis by (simp add: *(3) map_add_def)
    qed
    ultimately show ?thesis
      by (auto simp: sids_of_edges [OF *(1)] sids_of_edges [OF assms(2)] intro!: map_cong)
  qed
  ultimately show ?thesis using * by blast
qed

text \<open>The rows after a run.\<close>

lemma synced_rows:
  assumes "run_sync sql_lower now records d = Inr (d', r)" and "records \<noteq> []"
    and "user_keys_ok d"
  shows "\<forall>u\<in>set (users d').
    (u_enabled u \<and> u_last_seen_in_sync_at u = Some now) \<or>
    (\<not> u_enabled u \<and> (\<exists>v\<in>set (users d). u = v\<lparr>u_enabled := False\<rparr>))"
proof -
  let ?s0 = "\<lparr>ss_db = d, ss_cache = [], ss_seen = [], ss_result = new_sync_result now\<rparr>"
  from assms(1) obtain s where s: "sync_loop sql_lower now records ?s0 = Inr s"
    "d' = disable_stale (ss_seen s) (ss_db s)" by (auto simp: run_sync_def split: sum.splits)
  from sync_loop_inv [OF s(1) run_sync_start [OF assms(3)]]
  have inv: "\<forall>u\<in>set (users (ss_db s)). if u_id u \<in> set (ss_seen s)
      then u_enabled u \<and> u_last_seen_in_sync_at u = Some now else u \<in> set (users d)"
    unfolding sync_inv_def by (simp cong: if_cong)
  from sync_loop_seen [OF s(1)] assms(2,3) have ne: "ss_seen s \<noteq> []" by auto
  show ?thesis
  proof
    fix u
    assume "u \<in> set (users d')"
    then obtain v where v: "v \<in> set (users (ss_db s))"
      "u = (if stale_user (ss_seen s) v then v\<lparr>u_enabled := False\<rparr> else v)"
      by (auto simp: s(2) disable_stale_def)
    show "(u_enabled u \<and> u_last_seen_in_sync_at u = Some now) \<or>
        (\<not> u_enabled u \<and> (\<exists>v\<in>set (users d). u = v\<lparr>u_enabled := False\<rparr>))"
    proof (cases "u_id v \<in> set (ss_seen s)")
      case True
      with v have "u = v" by (simp add: stale_user_def)
      with inv v True show ?thesis by simp
    next
      case False
      with v ne have "u = v\<lparr>u_enabled := False\<rparr>" by (cases "u_enabled v") (simp_all add: stale_user_def)
      moreover have "v \<in> set (users d)" using inv v(1) False by simp
      ultimately show ?thesis by auto
    qed
  qed
qed

section \<open>Properties\<close>


definition ex_record :: ad_user_record where
  "ex_record = \<lparr>ur_sam_account_name = ''bob'', ur_distinguished_name = ''CN=bob'',
     ur_ad_object_guid = Some ''g1'', ur_upn = None, ur_display_name = None, ur_groups = []\<rparr>"

definition ex_old_user :: user_row where
  "ex_old_user = \<lparr>u_id = 1, u_sam_account_name = ''eve'', u_ad_object_guid = None,
     u_distinguished_name = ''CN=eve'', u_upn = None, u_display_name = None, u_enabled = True,
     u_last_seen_in_sync_at = Some 1\<rparr>"

definition ex_sync_db :: db where
  "ex_sync_db = empty_db\<lparr>users := [ex_old_user], seqs := (\<lambda>_. 2)\<rparr>"

lemma ex_sync_keys: "user_keys_ok ex_sync_db"
  by (simp add: user_keys_ok_def keys_ok_def ex_sync_db_def ex_old_user_def)

lemma ex_sync_run:
  "run_sync py_lower 9 [ex_record] ex_sync_db =
     Inr (fst (projr (run_sync py_lower 9 [ex_record] ex_sync_db)),
          snd (projr (run_sync py_lower 9 [ex_record] ex_sync_db)))"
  by (simp add: run_sync_def sync_one_def upsert_user_def find_existing_user_def ex_record_def
      ex_sync_db_def ex_old_user_def empty_db_def scalar_one_or_none_def py_lower_char_def char_eval
      users_flush_ok_def user_uniques_ok_def new_user_row_def List.map_filter_def
      replace_user_groups_def drop_edges_def Let_def)


text \<open>
  A run never removes a user row and touches nothing but the identity tables; it counts
  every record once, as inserted or updated, and adds exactly the inserted rows.
\<close>

theorem sync_counters_and_frame:
  assumes "run_sync sql_lower now records d = Inr (d', r)" and "user_keys_ok d"
  shows "outside_sync d' = outside_sync d \<and>
    (\<exists>new. map u_id (users d') = map u_id (users d) @ new \<and> length new = sr_users_inserted r) \<and>
    sr_users_seen r = length records \<and>
    sr_users_inserted r + sr_users_updated r = length records"
proof -
  let ?s0 = "\<lparr>ss_db = d, ss_cache = [], ss_seen = [], ss_result = new_sync_result now\<rparr>"
  from assms(1) obtain s where s: "sync_loop sql_lower now records ?s0 = Inr s"
    "d' = disable_stale (ss_seen s) (ss_db s)" "sr_users_seen r = sr_users_seen (ss_result s)"
    "sr_users_inserted r = sr_users_inserted (ss_result s)"
    "sr_users_updated r = sr_users_updated (ss_result s)"
    by (auto simp: run_sync_def split: sum.splits)
  from sync_loop_inv [OF s(1) run_sync_start [OF assms(2)]] show ?thesis
    by (auto simp: sync_inv_def s)
qed

theorem sync_counters_and_frame_witness:
  "sr_users_seen (snd (projr (run_sync py_lower 9 [ex_record] ex_sync_db))) = length [ex_record]"
  using sync_counters_and_frame [OF ex_sync_run ex_sync_keys] by blast

text \<open>
  A fetch that returns no users changes nothing: no user is disabled.
\<close>

theorem empty_fetch_changes_nothing:
  "\<exists>r. run_sync sql_lower now [] d = Inr (d, r) \<and> sr_users_disabled r = 0 \<and> sr_users_seen r = 0"
  by (simp add: run_sync_def new_sync_result_def disable_stale_def stale_user_def)

text \<open>
  After one record is applied, its user row carries the directory's data and exactly the
  record's groups, in order; the other users keep their rows and their groups.
\<close>

theorem record_replaces_memberships:
  assumes "sync_one sql_lower now rec s = Inr s'" and "user_keys_ok (ss_db s)"
    and "group_tables_ok (ss_db s)" and "cache_ok (ss_db s) (ss_cache s)"
  shows "\<exists>u\<in>set (users (ss_db s')). ss_seen s' = u_id u # ss_seen s \<and> written_by now rec u \<and>
    map g_sid (groups_of (ss_db s') (u_id u)) = map gr_sid (ur_groups rec) \<and>
    (\<forall>v. v \<noteq> u_id u \<longrightarrow>
       map g_sid (groups_of (ss_db s') v) = map g_sid (groups_of (ss_db s) v)) \<and>
    (\<forall>v\<in>set (users (ss_db s')). u_id v \<noteq> u_id u \<longrightarrow> v \<in> set (users (ss_db s)))"
proof -
  from assms(1) obtain d1 uid inserted d2 c2 n where
    up: "upsert_user sql_lower now rec (ss_db s) = Inr (d1, uid, inserted)"
    and rg: "replace_user_groups now uid (ur_groups rec) (d1, ss_cache s) = Inr ((d2, c2), n)"
    and s': "ss_db s' = d2" "ss_seen s' = uid # ss_seen s"
    by (auto simp: sync_one_def Let_def split: sum.splits if_splits)
  note e = upsert_user_effect [OF up assms(2)]
  then have tables: "ad_groups d1 = ad_groups (ss_db s)" "user_ad_group d1 = user_ad_group (ss_db s)"
    "seqs d1 T_ad_group = seqs (ss_db s) T_ad_group" by blast+
  then have "group_tables_ok d1" "cache_ok d1 (ss_cache s)"
    using assms(3,4) by (simp_all add: group_tables_ok_def cache_ok_def gkeys_def)
  from replace_user_groups_effect [OF rg this] have g: "sids_of d2 uid = map gr_sid (ur_groups rec)"
    "\<And>v. v \<noteq> uid \<Longrightarrow> sids_of d2 v = sids_of d1 v" by blast+
  have "sids_of d1 v = sids_of (ss_db s) v" for v
    unfolding sids_of_def groups_of_def tables ..
  moreover from sync_one_users [OF assms(1,2)] s' have
    rows: "uid \<in> set (map u_id (users d2))"
      "\<forall>u\<in>set (users d2). if u_id u = uid then written_by now rec u else u \<in> set (users (ss_db s))"
    by auto
  then obtain u where u: "u \<in> set (users d2)" "u_id u = uid" by auto
  ultimately show ?thesis
    using g rows s' by (intro bexI [of _ u]) (auto simp: sids_of_def)
qed

definition ex_state :: sync_state where
  "ex_state = \<lparr>ss_db = ex_sync_db, ss_cache = [], ss_seen = [], ss_result = new_sync_result 9\<rparr>"

definition ex_member :: ad_user_record where
  "ex_member = ex_record\<lparr>ur_groups := [\<lparr>gr_sid = ''S-1'', gr_distinguished_name = ''CN=g'',
     gr_name = None\<rparr>]\<rparr>"

lemma ex_sync_one:
  "sync_one py_lower 9 ex_member ex_state = Inr (projr (sync_one py_lower 9 ex_member ex_state))"
  by (simp add: sync_one_def upsert_user_def find_existing_user_def ex_member_def ex_record_def
      ex_state_def ex_sync_db_def ex_old_user_def empty_db_def scalar_one_or_none_def py_lower_char_def
      char_eval users_flush_ok_def user_uniques_ok_def new_user_row_def List.map_filter_def
      replace_user_groups_def drop_edges_def resolve_group_def add_edge_def Let_def)

theorem record_replaces_memberships_witness:
  "\<exists>u\<in>set (users (ss_db (projr (sync_one py_lower 9 ex_member ex_state)))).
     map g_sid (groups_of (ss_db (projr (sync_one py_lower 9 ex_member ex_state))) (u_id u)) = [''S-1'']"
proof -
  have "user_keys_ok (ss_db ex_state)" "group_tables_ok (ss_db ex_state)"
    "cache_ok (ss_db ex_state) (ss_cache ex_state)"
    using ex_sync_keys
    by (simp_all add: ex_state_def group_tables_ok_def gkeys_def cache_ok_def ex_sync_db_def
        empty_db_def keys_ok_def)
  from record_replaces_memberships [OF ex_sync_one this] obtain u where
    "u \<in> set (users (ss_db (projr (sync_one py_lower 9 ex_member ex_state))))"
    "map g_sid (groups_of (ss_db (projr (sync_one py_lower 9 ex_member ex_state))) (u_id u)) =
       map gr_sid (ur_groups ex_member)" by blast
  then show ?thesis by (intro bexI [of _ u]) (simp_all add: ex_member_def)
qed

text \<open>
  A user renamed in the directory is recognised by its GUID: the row keeps its id, so its
  authorizations stay with it, and takes the new name.
\<close>

theorem rename_keeps_the_row:
  assumes "ur_ad_object_guid rec = Some g" and "g \<noteq> []" and "u \<in> set (users d)"
    and "u_ad_object_guid u = Some g" and "distinct (List.map_filter u_ad_object_guid (users d))"
  shows "upsert_user sql_lower now rec d =
    Inr (d\<lparr>users := map (\<lambda>v. if u_id v = u_id u then updated_user_row now rec v else v) (users d)\<rparr>,
         u_id u, False) \<and>
    u_sam_account_name (updated_user_row now rec u) = ur_sam_account_name rec \<and>
    u_id (updated_user_row now rec u) = u_id u"
proof -
  have "filter (\<lambda>v. u_ad_object_guid v = Some g) us = [u]"
    if "distinct (List.map_filter u_ad_object_guid us)" "u \<in> set us" for us
    using that
  proof (induction us)
    case (Cons v us)
    show ?case
    proof (cases "u_ad_object_guid v = Some g")
      case True
      with Cons.prems(1) have "g \<notin> set (List.map_filter u_ad_object_guid us)"
        by (simp add: List.map_filter_simps)
      then have none: "filter (\<lambda>v. u_ad_object_guid v = Some g) us = []"
        by (force simp: filter_empty_conv List.map_filter_def)
      moreover have "u \<notin> set us" using none assms(4) by (auto simp: filter_empty_conv)
      ultimately show ?thesis using True Cons.prems(2) by auto
    next
      case False
      with Cons assms(4) show ?thesis
        by (auto simp: List.map_filter_simps split: option.splits)
    qed
  qed simp
  then have "find_existing_user sql_lower d rec = Inr (Some u)"
    using assms by (simp add: find_existing_user_def scalar_one_or_none_def)
  then show ?thesis by (simp add: upsert_user_def updated_user_row_def)
qed

theorem rename_keeps_the_row_witness:
  "\<exists>d'. upsert_user py_lower 9 ex_record
      (ex_sync_db\<lparr>users := [ex_old_user\<lparr>u_ad_object_guid := Some ''g1''\<rparr>]\<rparr>) = Inr (d', 1, False)"
  using rename_keeps_the_row [of ex_record "''g1''" "ex_old_user\<lparr>u_ad_object_guid := Some ''g1''\<rparr>"
      "ex_sync_db\<lparr>users := [ex_old_user\<lparr>u_ad_object_guid := Some ''g1''\<rparr>]\<rparr>" py_lower 9]
  by (simp add: ex_record_def ex_old_user_def List.map_filter_def)

end
