(* ===== verification/Bytes.thy ===== *)
theory Bytes
  imports Py_Base "HOL-Library.Word"
begin

text \<open>
  Python \<open>bytes\<close> as lists of 8-bit words, and the UTF-8 encoding of a string whose characters
  are the code points U+0000 to U+00FF: one byte below U+0080, two bytes above.
\<close>

type_synonym byte = "8 word"

definition utf8_char :: "char \<Rightarrow> byte list" where
  "utf8_char c =
     (let n = ord_c c in
      if n < 128 then [word_of_nat n] else [word_of_nat (192 + n div 64), word_of_nat (128 + n mod 64)])"

definition utf8_encode :: "string \<Rightarrow> byte list" where
  "utf8_encode s = concat (map utf8_char s)"

lemma utf8_Nil [simp]: "utf8_encode [] = []"
  by (simp add: utf8_encode_def)

lemma utf8_append: "utf8_encode (s @ t) = utf8_encode s @ utf8_encode t"
  by (simp add: utf8_encode_def)

definition is_digit_byte :: "byte \<Rightarrow> bool" where
  "is_digit_byte b \<longleftrightarrow> 48 \<le> unat b \<and> unat b \<le> 57"

lemma unat_word_of_nat [simp]: "n < 256 \<Longrightarrow> unat (word_of_nat n :: byte) = n"
  by (simp add: unat_of_nat take_bit_nat_eq_self)

lemma utf8_digits:
  assumes "list_all is_ascii_digit s"
  shows "utf8_encode s = map (\<lambda>c. word_of_nat (ord_c c)) s \<and> list_all is_digit_byte (utf8_encode s)"
  using assms
proof (induction s)
  case Nil
  then show ?case by simp
next
  case (Cons c s)
  then have "48 \<le> ord_c c" "ord_c c \<le> 57" by (simp_all add: is_ascii_digit_def)
  with Cons show ?case by (auto simp: utf8_encode_def utf8_char_def is_digit_byte_def Let_def)
qed

definition bytes_val :: "byte list \<Rightarrow> nat" where
  "bytes_val bs = foldl (\<lambda>a b. 10 * a + (unat b - 48)) 0 bs"

lemma foldl_digits:
  "list_all is_ascii_digit s \<Longrightarrow>
     foldl (\<lambda>a b. 10 * a + (unat b - 48)) a (map (\<lambda>c. word_of_nat (ord_c c) :: byte) s) =
       foldl (\<lambda>a c. 10 * a + digit_val c) a s"
  by (induction s arbitrary: a) (simp_all add: digit_val_def is_ascii_digit_def)

lemma bytes_val_decimal: "bytes_val (utf8_encode (nat_to_str n)) = n"
proof -
  note d = nat_to_str_digits [of n]
  have "bytes_val (utf8_encode (nat_to_str n)) = digits_val (nat_to_str n)"
    using utf8_digits [OF d] foldl_digits [OF d, of 0] by (simp add: bytes_val_def digits_val_def)
  then show ?thesis by simp
qed

end
