(* ===== verification/Ldap_Client.thy ===== *)
theory Ldap_Client
  imports Ldap_Sync Bytes
begin

text \<open>
  \<open>app/ldap_sync/ldap3_client.py\<close>: fetching users and their groups. The paged search of
  \<open>ldap3\<close> is the parameter \<open>search\<close>, from base DN, filter and attributes to the response
  entries, \<open>None\<close> when it raises an \<open>LDAPException\<close>. Binary attributes are lists of bytes.
\<close>

datatype ldap_attr = A_str string | A_list "string list" | A_other
datatype ldap_raw = R_bytes "byte list" | R_list "byte list list" | R_other

record ldap_item =
  li_type :: string
  li_dn :: string
  li_attributes :: "(string \<times> ldap_attr) list"
  li_raw_attributes :: "(string \<times> ldap_raw) list"

type_synonym ldap_search = "string \<Rightarrow> string \<Rightarrow> string list \<Rightarrow> ldap_item list option"

definition USER_ATTRS :: "string list" where
  "USER_ATTRS = [''sAMAccountName'', ''objectGUID'', ''userPrincipalName'', ''distinguishedName'',
     ''displayName'']"

definition GROUP_ATTRS :: "string list" where
  "GROUP_ATTRS = [''objectSid'', ''distinguishedName'', ''name'']"

definition DEFAULT_USER_FILTER :: string where
  "DEFAULT_USER_FILTER = ''(&(objectCategory=person)(objectClass=user)'' @
     ''(!(userAccountControl:1.2.840.113556.1.4.803:=2)))''"

definition TRANSITIVE_MEMBER_RULE :: string where
  "TRANSITIVE_MEMBER_RULE = ''1.2.840.113556.1.4.1941''"

section \<open>Values\<close>

definition attr_str :: "ldap_item \<Rightarrow> string \<Rightarrow> string option" where
  "attr_str entry name =
     (case map_of (li_attributes entry) name of
        Some (A_str s) \<Rightarrow> Some s
      | Some (A_list (s # _)) \<Rightarrow> Some s
      | _ \<Rightarrow> None)"

definition attr_raw :: "ldap_item \<Rightarrow> string \<Rightarrow> byte list option" where
  "attr_raw entry name =
     (case map_of (li_raw_attributes entry) name of
        Some (R_bytes b) \<Rightarrow> Some b
      | Some (R_list (b # _)) \<Rightarrow> Some b
      | _ \<Rightarrow> None)"

definition hex_digit :: "nat \<Rightarrow> char" where
  "hex_digit n = (if n < 10 then char_of (n + 48) else char_of (n + 87))"

definition hex2 :: "byte \<Rightarrow> string" where
  "hex2 b = [hex_digit (unat b div 16), hex_digit (unat b mod 16)]"

definition hex_bytes :: "byte list \<Rightarrow> string" where
  "hex_bytes bs = concat (map hex2 bs)"

text \<open>\<open>str(uuid.UUID(bytes_le=...))\<close>: the first three fields are little-endian.\<close>

definition format_guid :: "byte list option \<Rightarrow> string option" where
  "format_guid blob =
     (case blob of
        None \<Rightarrow> None
      | Some b \<Rightarrow>
          if length b \<noteq> 16 then None
          else Some (hex_bytes [b ! 3, b ! 2, b ! 1, b ! 0] @ ''-'' @ hex_bytes [b ! 5, b ! 4] @ ''-'' @
                 hex_bytes [b ! 7, b ! 6] @ ''-'' @ hex_bytes [b ! 8, b ! 9] @ ''-'' @
                 hex_bytes [b ! 10, b ! 11, b ! 12, b ! 13, b ! 14, b ! 15]))"

definition from_bytes_big :: "byte list \<Rightarrow> nat" where
  "from_bytes_big bs = foldl (\<lambda>a b. a * 256 + unat b) 0 bs"

definition from_bytes_little :: "byte list \<Rightarrow> nat" where
  "from_bytes_little bs = foldr (\<lambda>b a. unat b + 256 * a) bs 0"

text \<open>The loop over the sub-authorities; \<open>None\<close> when one does not fit in the blob.\<close>

fun sid_parts :: "byte list \<Rightarrow> nat \<Rightarrow> nat \<Rightarrow> string list option" where
  "sid_parts blob i 0 = Some []"
| "sid_parts blob i (Suc n) =
     (let offset = 8 + i * 4 in
      if length blob < offset + 4 then None
      else map_option ((#) (nat_to_str (from_bytes_little (take 4 (drop offset blob)))))
             (sid_parts blob (i + 1) n))"

definition format_sid :: "byte list option \<Rightarrow> string option" where
  "format_sid blob =
     (case blob of
        None \<Rightarrow> None
      | Some b \<Rightarrow>
          if length b < 8 then None
          else map_option (\<lambda>parts. py_join ''-''
                 ((''S-'' @ nat_to_str (unat (b ! 0)) @ ''-'' @
                   nat_to_str (from_bytes_big (take 6 (drop 2 b)))) # parts))
                 (sid_parts b 0 (unat (b ! 1))))"

text \<open>The five replacements of the source, in its order.\<close>

definition escape_filter_value :: "string \<Rightarrow> string" where
  "escape_filter_value value =
     py_replace (CHR ''*'') (bslash # ''2a'')
       (py_replace (CHR 0x00) (bslash # ''00'')
         (py_replace (CHR '')'') (bslash # ''29'')
           (py_replace (CHR ''('') (bslash # ''28'')
             (py_replace bslash (bslash # ''5c'') value))))"

section \<open>Searching\<close>

definition paged_search :: "ldap_search \<Rightarrow> string \<Rightarrow> string \<Rightarrow> string list \<Rightarrow> ldap_item list option" where
  "paged_search search base_dn filt attrs =
     map_option (filter (\<lambda>e. li_type e = ''searchResEntry'')) (search base_dn filt attrs)"

definition member_filter :: "string \<Rightarrow> string" where
  "member_filter user_dn =
     ''(member:'' @ TRANSITIVE_MEMBER_RULE @ '':='' @ escape_filter_value user_dn @ '')''"

definition group_record_of :: "ldap_item \<Rightarrow> ad_group_record option" where
  "group_record_of entry =
     map_option (\<lambda>sid. \<lparr>gr_sid = sid, gr_distinguished_name = li_dn entry,
         gr_name = attr_str entry ''name''\<rparr>)
       (format_sid (attr_raw entry ''objectSid''))"

type_synonym dn_cache = "(string \<times> ad_group_record) list"

fun collect_groups :: "ldap_item list \<Rightarrow> dn_cache \<Rightarrow> ad_group_record list \<times> dn_cache" where
  "collect_groups [] cache = ([], cache)"
| "collect_groups (entry # rest) cache =
     (case map_of cache (li_dn entry) of
        Some r \<Rightarrow> (let (gs, c) = collect_groups rest cache in (r # gs, c))
      | None \<Rightarrow>
          (case group_record_of entry of
             None \<Rightarrow> collect_groups rest cache
           | Some r \<Rightarrow> (let (gs, c) = collect_groups rest ((li_dn entry, r) # cache) in (r # gs, c))))"

definition resolve_groups_for_user ::
    "ldap_search \<Rightarrow> string \<Rightarrow> string \<Rightarrow> dn_cache \<Rightarrow> (ad_group_record list \<times> dn_cache) option" where
  "resolve_groups_for_user search base_dn user_dn cache =
     map_option (\<lambda>entries. collect_groups entries cache)
       (paged_search search base_dn (member_filter user_dn) GROUP_ATTRS)"

definition user_record_of :: "ldap_item \<Rightarrow> string \<Rightarrow> ad_group_record list \<Rightarrow> ad_user_record" where
  "user_record_of entry sam groups =
     \<lparr>ur_sam_account_name = sam, ur_distinguished_name = li_dn entry,
      ur_ad_object_guid = format_guid (attr_raw entry ''objectGUID''),
      ur_upn = attr_str entry ''userPrincipalName'', ur_display_name = attr_str entry ''displayName'',
      ur_groups = groups\<rparr>"

fun fetch_entries ::
    "ldap_search \<Rightarrow> string \<Rightarrow> ldap_item list \<Rightarrow> dn_cache \<Rightarrow> (ad_user_record list \<times> dn_cache) option" where
  "fetch_entries search base_dn [] cache = Some ([], cache)"
| "fetch_entries search base_dn (entry # rest) cache =
     (case attr_str entry ''sAMAccountName'' of
        None \<Rightarrow> fetch_entries search base_dn rest cache
      | Some sam \<Rightarrow>
          (case resolve_groups_for_user search base_dn (li_dn entry) cache of
             None \<Rightarrow> None
           | Some (groups, c1) \<Rightarrow>
               map_option (\<lambda>(rs, c2). (user_record_of entry sam groups # rs, c2))
                 (fetch_entries search base_dn rest c1)))"

fun fetch_bases ::
    "ldap_search \<Rightarrow> string \<Rightarrow> string list \<Rightarrow> dn_cache \<Rightarrow> ad_user_record list option" where
  "fetch_bases search user_filter [] cache = Some []"
| "fetch_bases search user_filter (base_dn # rest) cache =
     (case paged_search search base_dn user_filter USER_ATTRS of
        None \<Rightarrow> None
      | Some entries \<Rightarrow>
          (case fetch_entries search base_dn entries cache of
             None \<Rightarrow> None
           | Some (rs, c1) \<Rightarrow> map_option ((@) rs) (fetch_bases search user_filter rest c1)))"

definition fetch_users :: "ldap_search \<Rightarrow> string list \<Rightarrow> string \<Rightarrow> ad_user_record list option" where
  "fetch_users search base_dns user_filter = fetch_bases search user_filter base_dns []"

section \<open>The fetch without its cache\<close>

fun spec_entries :: "ldap_search \<Rightarrow> string \<Rightarrow> ldap_item list \<Rightarrow> ad_user_record list option" where
  "spec_entries search base_dn [] = Some []"
| "spec_entries search base_dn (entry # rest) =
     (case attr_str entry ''sAMAccountName'' of
        None \<Rightarrow> spec_entries search base_dn rest
      | Some sam \<Rightarrow>
          (case paged_search search base_dn (member_filter (li_dn entry)) GROUP_ATTRS of
             None \<Rightarrow> None
           | Some es \<Rightarrow>
               map_option ((#) (user_record_of entry sam (List.map_filter group_record_of es)))
                 (spec_entries search base_dn rest)))"

fun spec_fetch :: "ldap_search \<Rightarrow> string \<Rightarrow> string list \<Rightarrow> ad_user_record list option" where
  "spec_fetch search user_filter [] = Some []"
| "spec_fetch search user_filter (base_dn # rest) =
     (case paged_search search base_dn user_filter USER_ATTRS of
        None \<Rightarrow> None
      | Some entries \<Rightarrow>
          (case spec_entries search base_dn entries of
             None \<Rightarrow> None
           | Some rs \<Rightarrow> map_option ((@) rs) (spec_fetch search user_filter rest)))"

text \<open>The cache holds what the directory says of each DN.\<close>

definition dn_cache_ok :: "(string \<Rightarrow> ad_group_record option) \<Rightarrow> dn_cache \<Rightarrow> bool" where
  "dn_cache_ok dir c \<longleftrightarrow> (\<forall>dn r. map_of c dn = Some r \<longrightarrow> dir dn = Some r)"

lemma collect_groups_spec:
  "list_all (\<lambda>e. group_record_of e = dir (li_dn e)) es \<Longrightarrow> dn_cache_ok dir c \<Longrightarrow>
     fst (collect_groups es c) = List.map_filter group_record_of es \<and>
     dn_cache_ok dir (snd (collect_groups es c))"
proof (induction es arbitrary: c)
  case Nil
  then show ?case by (simp add: List.map_filter_simps)
next
  case (Cons entry es)
  from Cons.prems have e: "group_record_of entry = dir (li_dn entry)" and
    es: "list_all (\<lambda>e. group_record_of e = dir (li_dn e)) es" by simp_all
  show ?case
  proof (cases "map_of c (li_dn entry)")
    case (Some r)
    then have "group_record_of entry = Some r" using Cons.prems(2) e by (simp add: dn_cache_ok_def)
    with Some Cons.IH [OF es Cons.prems(2)] show ?thesis
      by (simp add: List.map_filter_simps Let_def split_beta)
  next
    case None
    show ?thesis
    proof (cases "group_record_of entry")
      case None
      with \<open>map_of c (li_dn entry) = None\<close> Cons.IH [OF es Cons.prems(2)] show ?thesis
        by (simp add: List.map_filter_simps)
    next
      case (Some r)
      then have "dn_cache_ok dir ((li_dn entry, r) # c)"
        using Cons.prems(2) e by (simp add: dn_cache_ok_def)
      from Cons.IH [OF es this] Some \<open>map_of c (li_dn entry) = None\<close> show ?thesis
        by (simp add: List.map_filter_simps Let_def split_beta)
    qed
  qed
qed

text \<open>A directory that describes a group the same way in every answer.\<close>

definition groups_consistent :: "ldap_search \<Rightarrow> (string \<Rightarrow> ad_group_record option) \<Rightarrow> bool" where
  "groups_consistent search dir \<longleftrightarrow>
     (\<forall>base filt es. search base filt GROUP_ATTRS = Some es \<longrightarrow>
        list_all (\<lambda>e. group_record_of e = dir (li_dn e)) es)"

lemma fetch_entries_spec:
  assumes dir: "groups_consistent search dir"
  shows "dn_cache_ok dir c \<Longrightarrow>
     (case fetch_entries search base es c of
        None \<Rightarrow> spec_entries search base es = None
      | Some (rs, c') \<Rightarrow> spec_entries search base es = Some rs \<and> dn_cache_ok dir c')"
proof (induction es arbitrary: c)
  case Nil
  then show ?case by simp
next
  case (Cons entry es)
  show ?case
  proof (cases "attr_str entry ''sAMAccountName''")
    case None
    with Cons.IH [OF Cons.prems] show ?thesis by (auto split: option.split)
  next
    case (Some sam)
    note sam = this
    show ?thesis
    proof (cases "paged_search search base (member_filter (li_dn entry)) GROUP_ATTRS")
      case None
      with sam show ?thesis by (simp add: resolve_groups_for_user_def)
    next
      case (Some gs)
      then have "list_all (\<lambda>e. group_record_of e = dir (li_dn e)) gs"
        using dir by (auto simp: paged_search_def groups_consistent_def list_all_iff)
      from collect_groups_spec [OF this Cons.prems] obtain c1 where
        c1: "collect_groups gs c = (List.map_filter group_record_of gs, c1)" "dn_cache_ok dir c1"
        by (metis prod.collapse)
      with Cons.IH [OF c1(2)] sam Some show ?thesis
        by (auto simp: resolve_groups_for_user_def split: option.splits)
    qed
  qed
qed

lemma fetch_bases_spec:
  assumes dir: "groups_consistent search dir"
  shows "dn_cache_ok dir c \<Longrightarrow> fetch_bases search filt bases c = spec_fetch search filt bases"
proof (induction bases arbitrary: c)
  case Nil
  then show ?case by simp
next
  case (Cons base bases)
  show ?case
  proof (cases "paged_search search base filt USER_ATTRS")
    case None
    then show ?thesis by simp
  next
    case (Some es)
    with fetch_entries_spec [OF dir Cons.prems, of base es] Cons.IH show ?thesis
      by (auto split: option.splits)
  qed
qed

section \<open>Facts\<close>

definition filter_char :: "char \<Rightarrow> string" where
  "filter_char c =
     (if c = bslash then bslash # ''5c'' else if c = CHR ''('' then bslash # ''28''
      else if c = CHR '')'' then bslash # ''29'' else if c = CHR 0x00 then bslash # ''00''
      else if c = CHR ''*'' then bslash # ''2a'' else [c])"

lemma escape_filter_by_char: "escape_filter_value s = concat (map filter_char s)"
  by (induction s) (simp_all add: escape_filter_value_def filter_char_def py_simps bslash_def)

text \<open>The reader of RFC 4515: a backslash and two hex digits stand for a character.\<close>

definition hex_value :: "char \<Rightarrow> nat" where
  "hex_value c = (if is_ascii_digit c then ord_c c - 48 else ord_c c - 87)"

fun unescape_filter :: "string \<Rightarrow> string" where
  "unescape_filter [] = []"
| "unescape_filter (c # s) =
     (if c = bslash
      then (case s of a # b # t \<Rightarrow> char_of (16 * hex_value a + hex_value b) # unescape_filter t
            | _ \<Rightarrow> [])
      else c # unescape_filter s)"

lemma unescape_filter_char: "unescape_filter (filter_char c @ s) = c # unescape_filter s"
  by (cases "c \<in> {bslash, CHR ''('', CHR '')'', CHR 0x00, CHR ''*''}")
     (auto simp: filter_char_def hex_value_def is_ascii_digit_def char_eval bslash_def)

lemma ord_hex_digit: "n < 16 \<Longrightarrow> ord_c (hex_digit n) = (if n < 10 then n + 48 else n + 87)"
  by (simp add: hex_digit_def)

lemma hex_digit_inj:
  assumes "m < 16" and "n < 16" and "hex_digit m = hex_digit n"
  shows "m = n"
proof -
  have "ord_c (hex_digit m) = ord_c (hex_digit n)" using assms(3) by simp
  then show ?thesis
    unfolding ord_hex_digit [OF assms(1)] ord_hex_digit [OF assms(2)] by (auto split: if_splits)
qed

lemma hex2_inj: "hex2 a = hex2 b \<longleftrightarrow> a = b"
proof
  assume "hex2 a = hex2 b"
  moreover have "unat w div 16 < 16" for w :: byte
  proof -
    have "unat w < 2 ^ LENGTH(8)" by (rule unsigned_less)
    then show ?thesis by simp
  qed
  moreover have "unat w mod 16 < 16" for w :: byte by simp
  ultimately have "unat a div 16 = unat b div 16" "unat a mod 16 = unat b mod 16"
    by (auto simp: hex2_def intro: hex_digit_inj)
  then have "unat a = unat b" by (metis div_mult_mod_eq)
  then show "a = b" by (rule unsigned_word_eqI)
qed simp

lemma hex2_append: "hex2 a @ s = hex2 b @ t \<longleftrightarrow> a = b \<and> s = t"
  using hex2_inj [of a b] by (auto simp: hex2_def)

lemma hex_bytes_append:
  "length as = length bs \<Longrightarrow> hex_bytes as @ s = hex_bytes bs @ t \<longleftrightarrow> as = bs \<and> s = t"
  by (induction as bs rule: list_induct2) (auto simp: hex_bytes_def hex2_append)

text \<open>The binary form of a SID: revision, count, six bytes of authority, four bytes each.\<close>

definition sid_wire :: "byte \<Rightarrow> byte list \<Rightarrow> byte list list \<Rightarrow> byte list" where
  "sid_wire rv auth subs = rv # word_of_nat (length subs) # auth @ concat subs"

lemma sid_parts_wire:
  "length (pre :: byte list) = 8 + 4 * i \<Longrightarrow> list_all (\<lambda>s. length s = 4) subs \<Longrightarrow>
     sid_parts (pre @ concat subs @ post) i (length subs) =
       Some (map (\<lambda>s. nat_to_str (from_bytes_little s)) subs)"
proof (induction subs arbitrary: pre i)
  case Nil
  then show ?case by simp
next
  case (Cons s subs)
  have "sid_parts ((pre @ s) @ concat subs @ post) (i + 1) (length subs) =
      Some (map (\<lambda>s. nat_to_str (from_bytes_little s)) subs)"
    using Cons.prems by (intro Cons.IH) auto
  with Cons.prems show ?case by (simp add: Let_def)
qed

lemma sid_parts_short: "length blob < 8 + 4 * i + 4 * n \<Longrightarrow> 0 < n \<Longrightarrow> sid_parts blob i n = None"
proof (induction n arbitrary: i)
  case 0
  then show ?case by simp
next
  case (Suc n)
  show ?case
  proof (cases "length blob < 8 + i * 4 + 4")
    case False
    with Suc.prems have "sid_parts blob (i + 1) n = None" by (intro Suc.IH) auto
    then show ?thesis by (simp add: Let_def)
  qed (simp add: Let_def)
qed

section \<open>Properties\<close>

text \<open>
  A DN put into a search filter is read back by the server as it is, and the escaped text
  holds none of the characters that have a meaning in a filter.
\<close>

theorem filter_value_roundtrip:
  "unescape_filter (escape_filter_value s) = s \<and>
   set (escape_filter_value s) \<inter> {CHR ''('', CHR '')'', CHR ''*'', CHR 0x00} = {}"
proof
  show "unescape_filter (escape_filter_value s) = s"
    by (induction s) (simp_all add: escape_filter_by_char unescape_filter_char)
  have "set (filter_char c) \<inter> {CHR ''('', CHR '')'', CHR ''*'', CHR 0x00} = {}" for c
    by (simp add: filter_char_def bslash_def)
  then show "set (escape_filter_value s) \<inter> {CHR ''('', CHR '')'', CHR ''*'', CHR 0x00} = {}"
    by (simp add: escape_filter_by_char)
qed

text \<open>
  A binary SID is rendered as its revision, authority and sub-authorities; a blob that is
  cut short has no SID.
\<close>

theorem sid_is_decoded:
  assumes "length auth = 6" and "list_all (\<lambda>s. length s = 4) subs" and "length subs < 256"
  shows "format_sid (Some (sid_wire rv auth subs @ post)) =
      Some (py_join ''-'' ((''S-'' @ nat_to_str (unat rv) @ ''-'' @ nat_to_str (from_bytes_big auth))
        # map (\<lambda>s. nat_to_str (from_bytes_little s)) subs)) \<and>
    (n < length (sid_wire rv auth subs) \<longrightarrow>
       format_sid (Some (take n (sid_wire rv auth subs))) = None)"
proof
  have count: "unat (word_of_nat (length subs) :: byte) = length subs"
    using assms(3) by (simp add: unat_of_nat take_bit_nat_eq_self)
  have "sid_parts ((rv # word_of_nat (length subs) # auth) @ concat subs @ post) 0 (length subs) =
      Some (map (\<lambda>s. nat_to_str (from_bytes_little s)) subs)"
    using assms by (intro sid_parts_wire) simp_all
  then show "format_sid (Some (sid_wire rv auth subs @ post)) =
      Some (py_join ''-'' ((''S-'' @ nat_to_str (unat rv) @ ''-'' @ nat_to_str (from_bytes_big auth))
        # map (\<lambda>s. nat_to_str (from_bytes_little s)) subs))"
    using assms(1) count by (simp add: format_sid_def sid_wire_def)
  have "length (concat subs) = 4 * length subs" using assms(2) by (induction subs) auto
  then have len: "length (sid_wire rv auth subs) = 8 + 4 * length subs"
    using assms(1) by (simp add: sid_wire_def)
  show "n < length (sid_wire rv auth subs) \<longrightarrow>
       format_sid (Some (take n (sid_wire rv auth subs))) = None"
  proof
    assume n: "n < length (sid_wire rv auth subs)"
    show "format_sid (Some (take n (sid_wire rv auth subs))) = None"
    proof (cases "n < 8")
      case False
      then have "0 < length subs" using n len by linarith
      moreover have "sid_wire rv auth subs ! 1 = word_of_nat (length subs)"
        by (simp add: sid_wire_def)
      moreover have "take n (sid_wire rv auth subs) ! 1 = sid_wire rv auth subs ! 1"
        using False by simp
      moreover have "sid_parts (take n (sid_wire rv auth subs)) 0 (length subs) = None"
        using n len calculation by (intro sid_parts_short) simp_all
      ultimately show ?thesis using count by (simp add: format_sid_def)
    qed (simp add: format_sid_def min_def)
  qed
qed

theorem sid_is_decoded_witness:
  "format_sid (Some (sid_wire 1 [0, 0, 0, 0, 0, 5] [[18, 0, 0, 0]] @ [])) = Some ''S-1-5-18''"
  using sid_is_decoded [of "[0, 0, 0, 0, 0, 5]" "[[18, 0, 0, 0]]" 1 "[]"]
  by (simp add: from_bytes_big_def from_bytes_little_def nat_to_str.simps)

text \<open>
  Two different binary GUIDs never get the same text: the text identifies the account.
\<close>

theorem guid_text_is_injective:
  assumes "format_guid (Some a) = format_guid (Some b)" and "length a = 16" and "length b = 16"
  shows "a = b"
proof (rule nth_equalityI)
  show "length a = length b" using assms by simp
  fix i
  assume "i < length a"
  with assms(2) have "i \<in> {0..<16}" by simp
  then consider "i = 0" | "i = 1" | "i = 2" | "i = 3" | "i = 4" | "i = 5" | "i = 6" | "i = 7"
    | "i = 8" | "i = 9" | "i = 10" | "i = 11" | "i = 12" | "i = 13" | "i = 14" | "i = 15"
    by (auto simp: atLeast0_lessThan_Suc numeral_eq_Suc)
  moreover have "[a ! 3, a ! 2, a ! 1, a ! 0] = [b ! 3, b ! 2, b ! 1, b ! 0]"
    "[a ! 5, a ! 4] = [b ! 5, b ! 4]" "[a ! 7, a ! 6] = [b ! 7, b ! 6]"
    "[a ! 8, a ! 9] = [b ! 8, b ! 9]"
    "[a ! 10, a ! 11, a ! 12, a ! 13, a ! 14, a ! 15] = [b ! 10, b ! 11, b ! 12, b ! 13, b ! 14, b ! 15]"
    using assms hex_bytes_append [of "[a ! 10, a ! 11, a ! 12, a ! 13, a ! 14, a ! 15]"
        "[b ! 10, b ! 11, b ! 12, b ! 13, b ! 14, b ! 15]" "[]" "[]"]
    by (simp_all add: format_guid_def hex_bytes_append)
  ultimately show "a ! i = b ! i" by cases simp_all
qed

definition ex_guid :: "byte list" where
  "ex_guid = [1, 2, 3, 4, 5, 6, 7, 8, 9, 10, 11, 12, 13, 14, 15, 16]"

theorem guid_text_is_injective_witness: "ex_guid = ex_guid"
  by (rule guid_text_is_injective) (simp_all add: ex_guid_def)

text \<open>
  The cache of group records does not change the result of a fetch, when the directory
  describes a group in the same way each time it is found.
\<close>

theorem fetch_cache_is_transparent:
  assumes "groups_consistent search dir"
  shows "fetch_users search base_dns user_filter = spec_fetch search user_filter base_dns"
  unfolding fetch_users_def by (rule fetch_bases_spec [OF assms]) (simp add: dn_cache_ok_def)

definition ex_group_item :: ldap_item where
  "ex_group_item = \<lparr>li_type = ''searchResEntry'', li_dn = ''CN=g'', li_attributes = [],
     li_raw_attributes = [(''objectSid'', R_bytes [1, 0, 0, 0, 0, 0, 0, 5])]\<rparr>"

definition ex_search :: ldap_search where
  "ex_search base filt attrs = Some [ex_group_item]"

theorem fetch_cache_is_transparent_witness:
  "fetch_users ex_search [''DC=x''] DEFAULT_USER_FILTER =
     spec_fetch ex_search DEFAULT_USER_FILTER [''DC=x'']"
  by (rule fetch_cache_is_transparent [where dir = "\<lambda>_. group_record_of ex_group_item"])
     (simp add: groups_consistent_def ex_search_def)

end
