(* ===== verification/Settings_Store.thy ===== *)
theory Settings_Store
  imports Models
begin

text \<open>
  The two key/value tables and the helpers \<open>_read_setting\<close>, \<open>_write_setting\<close>,
  \<open>_read_secret\<close> and \<open>_write_secret\<close> that several modules of the source repeat. What their
  users rely on is the interface \<open>kv_store\<close>.
\<close>

locale kv_store =
  fixes rd :: "'d \<Rightarrow> string \<Rightarrow> string option" and wr :: "string \<Rightarrow> string option \<Rightarrow> 'd \<Rightarrow> 'd"
  assumes rd_wr_same: "rd (wr k v d) k = v"
    and rd_wr_other: "k \<noteq> k' \<Longrightarrow> rd (wr k v d) k' = rd d k'"
begin

text \<open>A sequence of writes: the last one to a key is what a reader sees.\<close>

definition wr_all :: "(string \<times> string option) list \<Rightarrow> 'd \<Rightarrow> 'd" where
  "wr_all kvs d = fold (\<lambda>(k, v). wr k v) kvs d"

lemma wr_all_Nil [simp]: "wr_all [] d = d"
  by (simp add: wr_all_def)

lemma wr_all_Cons [simp]: "wr_all ((k, v) # kvs) d = wr_all kvs (wr k v d)"
  by (simp add: wr_all_def)

lemma rd_wr: "rd (wr k v d) k' = (if k = k' then v else rd d k')"
  by (simp add: rd_wr_same rd_wr_other)

lemma rd_wr_all: "rd (wr_all kvs d) k = (case map_of (rev kvs) k of None \<Rightarrow> rd d k | Some v \<Rightarrow> v)"
  by (induction kvs arbitrary: d) (auto simp: rd_wr map_add_def split: option.split)

lemma rd_wr_all_frame: "k \<notin> set (map fst kvs) \<Longrightarrow> rd (wr_all kvs d) k = rd d k"
  by (induction kvs arbitrary: d) (auto simp: rd_wr)

lemma wr_wr_same: "rd (wr k v (wr k w d)) k' = rd (wr k v d) k'"
  by (simp add: rd_wr)

end

definition read_setting :: "db \<Rightarrow> string \<Rightarrow> string option" where
  "read_setting d key = system_settings d key"

definition write_setting :: "string \<Rightarrow> string option \<Rightarrow> db \<Rightarrow> db" where
  "write_setting key value d =
     (case value of
        None \<Rightarrow> if read_setting d key \<noteq> None then d\<lparr>system_settings := (system_settings d)(key := None)\<rparr> else d
      | Some v \<Rightarrow> d\<lparr>system_settings := (system_settings d)(key \<mapsto> v)\<rparr>)"

definition read_secret :: "db \<Rightarrow> string \<Rightarrow> string option" where
  "read_secret d key = system_secrets d key"

definition write_secret :: "string \<Rightarrow> string option \<Rightarrow> db \<Rightarrow> db" where
  "write_secret key value d =
     (case value of
        None \<Rightarrow> if read_secret d key \<noteq> None then d\<lparr>system_secrets := (system_secrets d)(key := None)\<rparr> else d
      | Some v \<Rightarrow> d\<lparr>system_secrets := (system_secrets d)(key \<mapsto> v)\<rparr>)"

interpretation settings: kv_store read_setting write_setting
  by unfold_locales (simp_all add: read_setting_def write_setting_def split: option.split)

interpretation secrets: kv_store read_secret write_secret
  by unfold_locales (simp_all add: read_secret_def write_secret_def split: option.split)

lemma write_setting_frame [simp]:
  "users (write_setting k v d) = users d" "ad_groups (write_setting k v d) = ad_groups d"
  "user_ad_group (write_setting k v d) = user_ad_group d"
  "device_groups (write_setting k v d) = device_groups d"
  "privilege_profiles (write_setting k v d) = privilege_profiles d"
  "devices (write_setting k v d) = devices d"
  "authorizations (write_setting k v d) = authorizations d"
  "local_admins (write_setting k v d) = local_admins d"
  "web_sessions (write_setting k v d) = web_sessions d"
  "audit_log (write_setting k v d) = audit_log d"
  "accounting_records (write_setting k v d) = accounting_records d"
  "system_secrets (write_setting k v d) = system_secrets d"
  "seqs (write_setting k v d) = seqs d" "read_secret (write_setting k v d) k2 = read_secret d k2"
  by (simp_all add: write_setting_def read_secret_def split: option.split)

lemma write_secret_frame [simp]:
  "users (write_secret k v d) = users d" "ad_groups (write_secret k v d) = ad_groups d"
  "user_ad_group (write_secret k v d) = user_ad_group d"
  "device_groups (write_secret k v d) = device_groups d"
  "privilege_profiles (write_secret k v d) = privilege_profiles d"
  "devices (write_secret k v d) = devices d"
  "authorizations (write_secret k v d) = authorizations d"
  "local_admins (write_secret k v d) = local_admins d"
  "web_sessions (write_secret k v d) = web_sessions d"
  "audit_log (write_secret k v d) = audit_log d"
  "accounting_records (write_secret k v d) = accounting_records d"
  "system_settings (write_secret k v d) = system_settings d"
  "seqs (write_secret k v d) = seqs d" "read_setting (write_secret k v d) k2 = read_setting d k2"
  by (simp_all add: write_secret_def read_setting_def split: option.split)

lemma config_ok_settings_frame:
  assumes "users d' = users d" "ad_groups d' = ad_groups d" "device_groups d' = device_groups d"
    "privilege_profiles d' = privilege_profiles d" "devices d' = devices d"
    "authorizations d' = authorizations d" "seqs d' = seqs d"
  shows "config_ok d' = config_ok d"
proof -
  have "authz_refs_ok d' = authz_refs_ok d"
    by (rule ext) (simp add: assms authz_refs_ok_def split: option.split)
  then show ?thesis by (simp add: assms config_ok_def authorizations_ok_def)
qed

lemma config_ok_write_setting [simp]: "config_ok (write_setting k v d) = config_ok d"
  by (rule config_ok_settings_frame) simp_all

lemma config_ok_write_secret [simp]: "config_ok (write_secret k v d) = config_ok d"
  by (rule config_ok_settings_frame) simp_all

end
