(* ===== verification/Py_Time.thy ===== *)
theory Py_Time
  imports Py_Base
begin

text \<open>
  The text of an instant: the civil date of a day count (proleptic Gregorian calendar, as
  \<open>datetime\<close> has it) and the two formats the code writes, \<open>strftime\<close> with milliseconds and
  \<open>isoformat\<close>, both in UTC. Years are written without padding, so the texts agree with
  CPython from the year 1000 on.
\<close>

definition civil_from_days :: "int \<Rightarrow> int \<times> int \<times> int" where
  "civil_from_days days =
     (let z = days + 719468;
          era = z div 146097;
          doe = z mod 146097;
          yoe = (doe - doe div 1460 + doe div 36524 - doe div 146096) div 365;
          doy = doe - (365 * yoe + yoe div 4 - yoe div 100);
          mp = (5 * doy + 2) div 153;
          d = doy - (153 * mp + 2) div 5 + 1;
          m = (if mp < 10 then mp + 3 else mp - 9);
          y = yoe + era * 400 + (if m \<le> 2 then 1 else 0)
      in (y, m, d))"

definition pad :: "nat \<Rightarrow> int \<Rightarrow> string" where
  "pad w i = (let s = int_to_str i in replicate (w - length s) (CHR ''0'') @ s)"

definition date_text :: "int \<Rightarrow> string" where
  "date_text days =
     (let (y, m, d) = civil_from_days days in int_to_str y @ ''-'' @ pad 2 m @ ''-'' @ pad 2 d)"

definition time_text :: "int \<Rightarrow> string" where
  "time_text secs =
     pad 2 (secs div 3600) @ '':'' @ pad 2 (secs div 60 mod 60) @ '':'' @ pad 2 (secs mod 60)"

text \<open>\<open>ts.strftime("%Y-%m-%dT%H:%M:%S.")\<close> followed by three digits of milliseconds and \<open>Z\<close>.\<close>

definition syslog_timestamp :: "int \<Rightarrow> string" where
  "syslog_timestamp t =
     (let secs = t div 1000000; us = t mod 1000000 in
      date_text (secs div 86400) @ ''T'' @ time_text (secs mod 86400) @ ''.'' @
      pad 3 (us div 1000) @ ''Z'')"

definition isoformat :: "int \<Rightarrow> string" where
  "isoformat t =
     (let secs = t div 1000000; us = t mod 1000000 in
      date_text (secs div 86400) @ ''T'' @ time_text (secs mod 86400) @
      (if us = 0 then [] else ''.'' @ pad 6 us) @ ''+00:00'')"

end
