(* ===== verification/Syslog.thy ===== *)
theory Syslog
  imports Audit_Trail Settings_Store Escaping Bytes Py_Time
begin

text \<open>
  \<open>app/syslog/forwarder.py\<close>: RFC 5424 messages for audit and accounting rows, RFC 6587 framing
  and UDP datagrams, and the forwarding of one batch. The network is a parameter: given the
  configuration and the byte strings to send, \<open>None\<close> when everything was written, or the text
  of the exception. TLS context and sockets are behind that parameter.
\<close>

abbreviation SYSLOG_ENABLED :: string where "SYSLOG_ENABLED \<equiv> ''syslog.enabled''"
abbreviation SYSLOG_HOST :: string where "SYSLOG_HOST \<equiv> ''syslog.host''"
abbreviation SYSLOG_PORT :: string where "SYSLOG_PORT \<equiv> ''syslog.port''"
abbreviation SYSLOG_PROTOCOL :: string where "SYSLOG_PROTOCOL \<equiv> ''syslog.protocol''"
abbreviation SYSLOG_FACILITY :: string where "SYSLOG_FACILITY \<equiv> ''syslog.facility''"
abbreviation SYSLOG_APP_NAME :: string where "SYSLOG_APP_NAME \<equiv> ''syslog.app_name''"
abbreviation SYSLOG_HOSTNAME :: string where "SYSLOG_HOSTNAME \<equiv> ''syslog.hostname''"
abbreviation SYSLOG_TLS_VERIFY :: string where "SYSLOG_TLS_VERIFY \<equiv> ''syslog.tls_verify''"
abbreviation SYSLOG_TLS_NAME :: string where "SYSLOG_TLS_NAME \<equiv> ''syslog.tls_server_name''"
abbreviation SYSLOG_LAST_ID :: string where "SYSLOG_LAST_ID \<equiv> ''syslog.last_forwarded_id''"
abbreviation SYSLOG_LAST_AUDIT :: string where "SYSLOG_LAST_AUDIT \<equiv> ''syslog.last_audit_id''"
abbreviation SYSLOG_LAST_ERROR :: string where "SYSLOG_LAST_ERROR \<equiv> ''syslog.last_error''"
abbreviation SYSLOG_LAST_ERROR_AT :: string where
  "SYSLOG_LAST_ERROR_AT \<equiv> ''syslog.last_error_at''"

section \<open>Configuration\<close>

datatype protocol = UDP | TCP | TLS

record syslog_config =
  sy_enabled :: bool
  sy_host :: string
  sy_port :: int
  sy_protocol :: protocol
  sy_facility :: int
  sy_app_name :: string
  sy_hostname :: string
  sy_tls_verify :: bool
  sy_tls_server_name :: "string option"
  sy_tls_ca_pem :: "string option"
  sy_tls_client_cert_pem :: "string option"
  sy_tls_client_key_pem :: "string option"

definition is_true :: "string \<Rightarrow> bool" where
  "is_true s \<longleftrightarrow> py_lower s = ''true''"

definition syslog_protocol :: "string \<Rightarrow> protocol" where
  "syslog_protocol raw = (if raw = ''tls'' then TLS else if raw = ''udp'' then UDP else TCP)"

definition clamp_facility :: "int \<Rightarrow> int" where
  "clamp_facility i = max 0 (min 23 i)"

definition syslog_load_config :: "db \<Rightarrow> syslog_config" where
  "syslog_load_config d =
     \<lparr>sy_enabled = is_true (or_default (read_setting d SYSLOG_ENABLED) ''false''),
      sy_host = or_default (read_setting d SYSLOG_HOST) [],
      sy_port = (case py_int (or_default (read_setting d SYSLOG_PORT) ''6514'') of
                   Some p \<Rightarrow> p | None \<Rightarrow> 6514),
      sy_protocol = syslog_protocol (py_lower (or_default (read_setting d SYSLOG_PROTOCOL) ''tls'')),
      sy_facility = (case py_int (or_default (read_setting d SYSLOG_FACILITY) (int_to_str 16)) of
                       Some i \<Rightarrow> clamp_facility i | None \<Rightarrow> 16),
      sy_app_name = or_default (read_setting d SYSLOG_APP_NAME) ''tacacs-web'',
      sy_hostname = or_default (read_setting d SYSLOG_HOSTNAME) ''tacacs-web'',
      sy_tls_verify = is_true (or_default (read_setting d SYSLOG_TLS_VERIFY) ''true''),
      sy_tls_server_name = read_setting d SYSLOG_TLS_NAME,
      sy_tls_ca_pem = read_secret d ''syslog.tls_ca_pem'',
      sy_tls_client_cert_pem = read_secret d ''syslog.tls_client_cert_pem'',
      sy_tls_client_key_pem = read_secret d ''syslog.tls_client_key_pem''\<rparr>"

section \<open>Messages\<close>

definition WARNING_ACTIONS :: "string list" where
  "WARNING_ACTIONS = [''auth.login_failed'', ''auth.session_expired'', ''tacacs.authn_failed'',
     ''tacacs.authz_failed'', ''ldap_sync.test_failed'', ''ldap_sync.run_failed'',
     ''syslog.test_failed'']"

definition sd_escape :: "string \<Rightarrow> string" where
  "sd_escape value =
     py_replace (CHR '']'') [bslash, CHR '']'']
       (py_replace dquote [bslash, dquote] (py_replace bslash [bslash, bslash] value))"

definition sd_param :: "string \<times> string \<Rightarrow> string" where
  "sd_param p = fst p @ ''='' @ [dquote] @ sd_escape (snd p) @ [dquote]"

text \<open>A parameter that is left out when the column is empty or null.\<close>

definition opt_param :: "string \<Rightarrow> string option \<Rightarrow> (string \<times> string) list" where
  "opt_param name v = (if truthy v then [(name, the v)] else [])"

definition opt_int_param :: "string \<Rightarrow> int option \<Rightarrow> (string \<times> string) list" where
  "opt_int_param name v = (case v of None \<Rightarrow> [] | Some i \<Rightarrow> [(name, int_to_str i)])"

definition acct_params :: "accounting_row \<Rightarrow> (string \<times> string) list" where
  "acct_params r =
     [(''action'', ar_action r)] @ opt_param ''user'' (ar_username r) @ opt_param ''nas'' (ar_nas_ip r) @
     opt_param ''nac'' (ar_nac_ip r) @ opt_param ''port'' (ar_port r) @
     opt_param ''service'' (ar_service r) @ opt_param ''cmd'' (ar_cmd r) @
     opt_int_param ''privlvl'' (ar_priv_lvl r) @ opt_int_param ''elapsed'' (ar_elapsed_seconds r) @
     opt_param ''task'' (ar_task_id r)"

definition audit_params :: "audit_row \<Rightarrow> (string \<times> string) list" where
  "audit_params r =
     [(''action'', al_action r)] @ opt_param ''actor'' (Some (actor_username_snapshot r)) @
     opt_param ''role'' (Some (actor_role r)) @ opt_param ''auth_method'' (Some (al_auth_method r)) @
     opt_param ''target_type'' (target_type r) @ opt_int_param ''target_id'' (target_id r) @
     opt_param ''client_ip'' (al_client_ip r)"

definition sd_element :: "string \<Rightarrow> (string \<times> string) list \<Rightarrow> string" where
  "sd_element sd_id params = ''['' @ sd_id @ '' '' @ py_join '' '' (map sd_param params) @ '']''"

definition syslog_header :: "syslog_config \<Rightarrow> int \<Rightarrow> instant \<Rightarrow> string \<Rightarrow> string" where
  "syslog_header cfg pri ts msgid =
     ''<'' @ int_to_str pri @ ''>1 '' @ syslog_timestamp ts @ '' '' @ sy_hostname cfg @ '' '' @
     sy_app_name cfg @ '' - '' @ msgid"

definition acct_msg :: "accounting_row \<Rightarrow> string" where
  "acct_msg r =
     (let msg = or_default (ar_cmd r) (''action='' @ ar_action r) in
      if truthy (ar_username r) then the (ar_username r) @ '': '' @ msg else msg)"

definition format_rfc5424 :: "accounting_row \<Rightarrow> syslog_config \<Rightarrow> string" where
  "format_rfc5424 r cfg =
     syslog_header cfg (sy_facility cfg * 8 + 6) (ar_ts r) ''acct'' @ '' '' @
     sd_element ''acct@tacacs-web'' (acct_params r) @ '' '' @ acct_msg r"

definition audit_severity :: "audit_row \<Rightarrow> int" where
  "audit_severity r = (if al_action r \<in> set WARNING_ACTIONS then 4 else 6)"

definition audit_msg :: "audit_row \<Rightarrow> string" where
  "audit_msg r =
     (let summary = or_default (al_summary r) (al_action r) in
      if actor_username_snapshot r \<noteq> [] then actor_username_snapshot r @ '': '' @ summary else summary)"

definition format_rfc5424_audit :: "audit_row \<Rightarrow> syslog_config \<Rightarrow> string" where
  "format_rfc5424_audit r cfg =
     syslog_header cfg (sy_facility cfg * 8 + audit_severity r) (al_ts r) ''audit'' @ '' '' @
     sd_element ''audit@tacacs-web'' (audit_params r) @ '' '' @ audit_msg r"

section \<open>Transport\<close>

definition octet_frame :: "string \<Rightarrow> byte list" where
  "octet_frame line =
     (let payload = utf8_encode line in utf8_encode (nat_to_str (length payload) @ '' '') @ payload)"

definition UDP_MAX_BYTES :: nat where
  "UDP_MAX_BYTES = 8000"

definition udp_datagram :: "string \<Rightarrow> byte list" where
  "udp_datagram line =
     (let payload = utf8_encode line in
      if UDP_MAX_BYTES < length payload
      then take (UDP_MAX_BYTES - 14) payload @ utf8_encode ''...[truncated]'' else payload)"

type_synonym network = "syslog_config \<Rightarrow> byte list list \<Rightarrow> string option"

definition send_lines :: "network \<Rightarrow> syslog_config \<Rightarrow> string list \<Rightarrow> string option" where
  "send_lines net cfg lines =
     (if sy_host cfg = [] then Some ''RuntimeError: syslog.host is not configured''
      else if sy_protocol cfg = UDP then net cfg (map udp_datagram lines)
      else net cfg (map octet_frame lines))"

definition syslog_test_line :: "instant \<Rightarrow> syslog_config \<Rightarrow> string" where
  "syslog_test_line now cfg =
     syslog_header cfg (sy_facility cfg * 8 + 6) now ''test'' @ '' '' @
     ''[acct@tacacs-web test='' @ [dquote] @ ''connectivity'' @ [dquote] @
     ''] tacacs-web syslog reachability test''"

definition send_test_message :: "network \<Rightarrow> instant \<Rightarrow> syslog_config \<Rightarrow> string option" where
  "send_test_message net now cfg = send_lines net cfg [syslog_test_line now cfg]"

text \<open>
  The TLS settings of a connection. Loading PEM data into the context is the parameter \<open>load_ca\<close> and
  \<open>load_chain\<close>: the error, if it is refused.
\<close>

record ssl_context =
  tx_check_hostname :: bool
  tx_cert_required :: bool
  tx_extra_ca :: "string option"
  tx_client_chain :: "(string \<times> string) option"

definition build_ssl_context ::
    "(string \<Rightarrow> string option) \<Rightarrow> (string \<Rightarrow> string \<Rightarrow> string option) \<Rightarrow> syslog_config \<Rightarrow> ssl_context exn" where
  "build_ssl_context load_ca load_chain cfg =
     (let ca = (if truthy (sy_tls_ca_pem cfg) then sy_tls_ca_pem cfg else None);
          ctx = \<lparr>tx_check_hostname = sy_tls_verify cfg, tx_cert_required = sy_tls_verify cfg,
            tx_extra_ca = ca, tx_client_chain = None\<rparr> in
      case Option.bind ca load_ca of
        Some e \<Rightarrow> Inl e
      | None \<Rightarrow>
          if truthy (sy_tls_client_cert_pem cfg) \<and> truthy (sy_tls_client_key_pem cfg) then
            (let cert = the (sy_tls_client_cert_pem cfg); key = the (sy_tls_client_key_pem cfg) in
             case load_chain cert key of
               Some e \<Rightarrow> Inl e | None \<Rightarrow> Inr (ctx\<lparr>tx_client_chain := Some (cert, key)\<rparr>))
          else Inr ctx)"

section \<open>One batch\<close>

definition BATCH_SIZE :: nat where
  "BATCH_SIZE = 200"

text \<open>
  A stored offset that is not all digits counts as 0; \<open>isdigit\<close> also accepts superscript
  digits, on which \<open>int\<close> raises (\<open>offset_readable\<close> is false).
\<close>

definition stored_offset :: "db \<Rightarrow> string \<Rightarrow> int" where
  "stored_offset d key =
     (let raw = or_default (read_setting d key) ''0'' in
      if py_isdigit raw then (case py_int raw of Some i \<Rightarrow> i | None \<Rightarrow> 0) else 0)"

definition offset_readable :: "db \<Rightarrow> string \<Rightarrow> bool" where
  "offset_readable d key \<longleftrightarrow>
     (let raw = or_default (read_setting d key) ''0'' in py_isdigit raw \<longrightarrow> py_int raw \<noteq> None)"

definition next_rows :: "('r \<Rightarrow> int) \<Rightarrow> int \<Rightarrow> 'r list \<Rightarrow> 'r list" where
  "next_rows row_id last_id rows =
     take BATCH_SIZE (sort_key row_id (filter (\<lambda>r. last_id < row_id r) rows))"

definition batch_audit :: "db \<Rightarrow> audit_row list" where
  "batch_audit d = next_rows al_id (stored_offset d SYSLOG_LAST_AUDIT) (audit_log d)"

definition batch_acct :: "db \<Rightarrow> accounting_row list" where
  "batch_acct d = next_rows ar_id (stored_offset d SYSLOG_LAST_ID) (accounting_records d)"

definition batch_lines :: "db \<Rightarrow> string list" where
  "batch_lines d =
     (let cfg = syslog_load_config d in
      map (\<lambda>r. format_rfc5424_audit r cfg) (batch_audit d) @ map (\<lambda>r. format_rfc5424 r cfg) (batch_acct d))"

definition advance :: "string \<Rightarrow> ('r \<Rightarrow> int) \<Rightarrow> 'r list \<Rightarrow> db \<Rightarrow> db" where
  "advance key row_id rows d =
     (if rows = [] then d else write_setting key (Some (int_to_str (row_id (last rows)))) d)"

definition process_one_batch :: "network \<Rightarrow> db \<Rightarrow> db \<times> (string + nat)" where
  "process_one_batch net d =
     (let cfg = syslog_load_config d in
      if \<not> sy_enabled cfg \<or> sy_host cfg = [] then (d, Inr 0)
      else if \<not> offset_readable d SYSLOG_LAST_ID \<or> \<not> offset_readable d SYSLOG_LAST_AUDIT
      then (d, Inl ''ValueError: invalid literal for int()'')
      else if batch_audit d = [] \<and> batch_acct d = [] then (d, Inr 0)
      else
        (case send_lines net cfg (batch_lines d) of
           Some e \<Rightarrow> (d, Inl e)
         | None \<Rightarrow>
             (advance SYSLOG_LAST_ID ar_id (batch_acct d)
                (advance SYSLOG_LAST_AUDIT al_id (batch_audit d) d),
              Inr (length (batch_lines d)))))"

definition record_error :: "instant \<Rightarrow> string \<Rightarrow> db \<Rightarrow> db" where
  "record_error now e d =
     write_setting SYSLOG_LAST_ERROR_AT (Some (isoformat now))
       (write_setting SYSLOG_LAST_ERROR (Some e) d)"

definition clear_error :: "db \<Rightarrow> db" where
  "clear_error d = write_setting SYSLOG_LAST_ERROR_AT None (write_setting SYSLOG_LAST_ERROR None d)"

text \<open>One turn of \<open>_forwarder_loop\<close>, without the sleep.\<close>

definition forwarder_turn :: "network \<Rightarrow> instant \<Rightarrow> db \<Rightarrow> db" where
  "forwarder_turn net now d =
     (case process_one_batch net d of
        (d', Inr n) \<Rightarrow> if 0 < n then clear_error d' else d'
      | (d', Inl e) \<Rightarrow> record_error now e d')"

interpretation sd_literal: bs_literal sd_escape "[bslash, dquote, CHR '']'']"
  by unfold_locales (simp_all add: sd_escape_def replace_chain3)

section \<open>Facts\<close>

subsection \<open>Reading messages back\<close>

text \<open>The reader of an RFC 5424 structured-data element, after its id; the fuel is the text.\<close>

fun read_params :: "nat \<Rightarrow> string \<Rightarrow> ((string \<times> string) list \<times> string) option" where
  "read_params 0 s = None"
| "read_params (Suc n) s =
     (case py_partition (CHR ''='') s of
        (name, True, q # t) \<Rightarrow>
          if q \<noteq> dquote then None
          else
            (case read_literal dquote t of
               Some (v, c # r) \<Rightarrow>
                 if c = CHR '']'' then Some ([(name, v)], r)
                 else if c = CHR '' '' then map_option (\<lambda>(ps, r'). ((name, v) # ps, r')) (read_params n r)
                 else None
             | _ \<Rightarrow> None)
      | _ \<Rightarrow> None)"

definition plain_name :: "string \<Rightarrow> bool" where
  "plain_name n \<longleftrightarrow> CHR ''='' \<notin> set n"

lemma read_params_element:
  "ps \<noteq> [] \<Longrightarrow> list_all (\<lambda>p. plain_name (fst p)) ps \<Longrightarrow> length ps \<le> n \<Longrightarrow>
     read_params n (py_join '' '' (map sd_param ps) @ CHR '']'' # rest) = Some (ps, rest)"
proof (induction ps arbitrary: n)
  case Nil
  then show ?case by simp
next
  case (Cons p ps)
  from Cons.prems(3) obtain m where m: "n = Suc m" by (cases n) auto
  have part: "py_partition (CHR ''='') (sd_param p @ t) = (fst p, True, dquote # sd_escape (snd p) @ dquote # t)" for t
    using Cons.prems(2) by (simp add: sd_param_def plain_name_def)
  have lit: "read_literal dquote (sd_escape (snd p) @ dquote # t) = Some (snd p, t)" for t
    by (rule sd_literal.esc_read) simp_all
  show ?case
  proof (cases "ps = []")
    case True
    then show ?thesis by (simp add: m part lit)
  next
    case False
    with Cons have "read_params m (py_join '' '' (map sd_param ps) @ CHR '']'' # rest) = Some (ps, rest)"
      by (simp add: m)
    moreover have "py_join '' '' (map sd_param (p # ps)) @ CHR '']'' # rest =
        sd_param p @ CHR '' '' # py_join '' '' (map sd_param ps) @ CHR '']'' # rest"
      using False by (simp add: py_join_Cons)
    ultimately show ?thesis by (simp add: m part lit)
  qed
qed

lemma opt_param_names: "list_all (\<lambda>p. plain_name (fst p)) (opt_param n v) \<longleftrightarrow> plain_name n \<or> \<not> truthy v"
  by (simp add: opt_param_def)

lemma params_plain:
  "list_all (\<lambda>p. plain_name (fst p)) (acct_params r)"
  "list_all (\<lambda>p. plain_name (fst p)) (audit_params a)"
  by (simp_all add: acct_params_def audit_params_def opt_param_def opt_int_param_def plain_name_def
      split: option.split)

text \<open>The reader of a stream of octet-counted frames; the fuel is the number of frames.\<close>

fun take_digits :: "byte list \<Rightarrow> byte list \<times> byte list" where
  "take_digits [] = ([], [])"
| "take_digits (b # bs) =
     (if is_digit_byte b then (case take_digits bs of (ds, r) \<Rightarrow> (b # ds, r)) else ([], b # bs))"

fun deframe :: "nat \<Rightarrow> byte list \<Rightarrow> byte list list option" where
  "deframe n [] = Some []"
| "deframe 0 (b # bs) = None"
| "deframe (Suc n) (b # bs) =
     (case take_digits (b # bs) of
        (ds, sp # r) \<Rightarrow>
          if sp = 32 \<and> bytes_val ds \<le> length r
          then map_option ((#) (take (bytes_val ds) r)) (deframe n (drop (bytes_val ds) r))
          else None
      | _ \<Rightarrow> None)"

lemma take_digits_append:
  "list_all is_digit_byte ds \<Longrightarrow> \<not> is_digit_byte b \<Longrightarrow> take_digits (ds @ b # r) = (ds, b # r)"
  by (induction ds) auto

lemma deframe_step:
  "s \<noteq> [] \<Longrightarrow> take_digits s = (ds, 32 # r) \<Longrightarrow> bytes_val ds \<le> length r \<Longrightarrow>
     deframe (Suc n) s = map_option ((#) (take (bytes_val ds) r)) (deframe n (drop (bytes_val ds) r))"
  by (cases s) (simp_all del: take_digits.simps)

lemma deframe_frames: "deframe (length ls) (concat (map octet_frame ls)) = Some (map utf8_encode ls)"
proof (induction ls)
  case Nil
  then show ?case by simp
next
  case (Cons l ls)
  let ?n = "length (utf8_encode l)"
  have d: "list_all is_digit_byte (utf8_encode (nat_to_str ?n))"
    using utf8_digits [OF nat_to_str_digits] by blast
  have sp: "utf8_encode '' '' = [32]" "\<not> is_digit_byte 32"
    by (simp_all add: utf8_encode_def utf8_char_def is_digit_byte_def)
  have frame: "octet_frame l @ t = utf8_encode (nat_to_str ?n) @ 32 # utf8_encode l @ t" for t
    by (simp add: octet_frame_def Let_def utf8_append sp(1))
  have ne: "octet_frame l @ t \<noteq> []" for t by (simp add: frame)
  have "take_digits (octet_frame l @ t) = (utf8_encode (nat_to_str ?n), 32 # utf8_encode l @ t)" for t
    unfolding frame by (rule take_digits_append [OF d sp(2)])
  from deframe_step [OF ne this, of "concat (map octet_frame ls)" "length ls"] Cons show ?case
    by (simp add: bytes_val_decimal)
qed

subsection \<open>Batches\<close>

lemma next_rows_sub: "r \<in> set (next_rows row_id l rows) \<Longrightarrow> r \<in> set rows \<and> l < row_id r"
  by (auto simp: next_rows_def dest: in_set_takeD)

lemma sorted_take_drop_le:
  assumes "sorted (map f xs)" and "x \<in> set (take n xs)" and "y \<in> set (drop n xs)"
  shows "f x \<le> f y"
proof -
  have "sorted (map f (take n xs) @ map f (drop n xs))"
    using assms(1) by (metis append_take_drop_id map_append)
  then show ?thesis using assms(2,3) unfolding sorted_append by simp
qed

lemma next_rows_complete:
  assumes "r \<in> set rows" and "l < row_id r" and "distinct (map row_id rows)"
    and "next_rows row_id l rows \<noteq> []" and "row_id r \<le> row_id (last (next_rows row_id l rows))"
  shows "r \<in> set (next_rows row_id l rows)"
proof -
  let ?L = "sort_key row_id (filter (\<lambda>r. l < row_id r) rows)"
  let ?T = "take BATCH_SIZE ?L" and ?D = "drop BATCH_SIZE ?L"
  have split: "?L = ?T @ ?D" by simp
  have "r \<in> set ?L" using assms(1,2) by simp
  then have "r \<in> set ?T \<or> r \<in> set ?D" by (metis Un_iff set_append split)
  moreover have "r \<in> set ?T" if d: "r \<in> set ?D"
  proof -
    have t: "last ?T \<in> set ?T" using assms(4) unfolding next_rows_def by (rule last_in_set)
    from sorted_take_drop_le [OF sorted_sort_key t d] have "row_id (last ?T) \<le> row_id r" .
    with assms(5) have "row_id (last ?T) = row_id r" by (simp add: next_rows_def)
    moreover have "last ?T \<in> set rows" using t by (auto dest: in_set_takeD)
    ultimately have "last ?T = r" using assms(1,3) by (auto simp: distinct_map dest: inj_onD)
    with t show ?thesis by simp
  qed
  ultimately show ?thesis by (auto simp: next_rows_def)
qed

lemma next_rows_last_gt: "next_rows row_id l rows \<noteq> [] \<Longrightarrow> l < row_id (last (next_rows row_id l rows))"
  using next_rows_sub last_in_set by metis

lemma stored_offset_advance:
  "rows \<noteq> [] \<Longrightarrow> 0 < row_id (last rows) \<Longrightarrow> stored_offset (advance key row_id rows d) key = row_id (last rows)"
  by (simp add: stored_offset_def advance_def settings.rd_wr_same Let_def int_to_str_def)

lemma stored_offset_other: "k \<noteq> key \<Longrightarrow> stored_offset (write_setting k v d) key = stored_offset d key"
  by (simp add: stored_offset_def settings.rd_wr_other)

lemma stored_offset_advance_other:
  "k \<noteq> key \<Longrightarrow> stored_offset (advance k row_id rows d) key = stored_offset d key"
  by (simp add: advance_def stored_offset_other)

lemma advance_frame [simp]:
  "audit_log (advance key row_id rows d) = audit_log d"
  "accounting_records (advance key row_id rows d) = accounting_records d"
  "seqs (advance key row_id rows d) = seqs d"
  by (simp_all add: advance_def)

lemma stored_offset_nonneg: "0 \<le> stored_offset d key"
proof -
  have "0 \<le> i" if "py_isdigit s" "py_int s = Some i" for s i
  proof -
    from that(1) have "list_all py_isdigit_char s" "s \<noteq> []" by (auto simp: py_isdigit_def)
    moreover have "\<not> py_isspace_char c" if "py_isdigit_char c" for c
      using that by (auto simp: py_isdigit_char_def py_isspace_char_def is_ascii_digit_def)
    ultimately have "py_strip s = s" by (intro py_strip_clean) (auto simp: list_all_iff)
    moreover have "hd s \<noteq> CHR ''-''"
      using \<open>list_all py_isdigit_char s\<close> \<open>s \<noteq> []\<close>
      by (cases s) (auto simp: py_isdigit_char_def is_ascii_digit_def)
    ultimately show ?thesis using that(2) \<open>s \<noteq> []\<close>
      by (cases s) (auto simp: py_int_def Let_def split: if_splits)
  qed
  then show ?thesis by (simp add: stored_offset_def Let_def split: option.split)
qed

section \<open>The forwarder as a system\<close>

text \<open>
  The database, and the rows of each stream the collector has received. Rows are written with
  the next id of their table; a turn of the loop sends a batch or fails; a crash after the send
  loses the new offset.
\<close>

record forward_state =
  fw_db :: db
  fw_audit_sent :: "audit_row list"
  fw_acct_sent :: "accounting_row list"

definition insert_accounting :: "accounting_row \<Rightarrow> db \<Rightarrow> db" where
  "insert_accounting row d = bump_seq T_accounting_record
     (d\<lparr>accounting_records := accounting_records d @ [row\<lparr>ar_id := seqs d T_accounting_record\<rparr>]\<rparr>)"

inductive forward_step :: "forward_state \<Rightarrow> forward_state \<Rightarrow> bool" where
  audited: "forward_step s (s\<lparr>fw_db := with_audit now e (fw_db s)\<rparr>)"
| accounted: "forward_step s (s\<lparr>fw_db := insert_accounting row (fw_db s)\<rparr>)"
| configured: "k \<noteq> SYSLOG_LAST_ID \<Longrightarrow> k \<noteq> SYSLOG_LAST_AUDIT \<Longrightarrow>
    forward_step s (s\<lparr>fw_db := write_setting k v (fw_db s)\<rparr>)"
| failed: "process_one_batch net (fw_db s) = (d', Inl e) \<Longrightarrow>
    forward_step s (s\<lparr>fw_db := forwarder_turn net now (fw_db s)\<rparr>)"
| idle: "process_one_batch net (fw_db s) = (d', Inr 0) \<Longrightarrow>
    forward_step s (s\<lparr>fw_db := forwarder_turn net now (fw_db s)\<rparr>)"
| sent: "process_one_batch net (fw_db s) = (d', Inr (Suc n)) \<Longrightarrow>
    forward_step s \<lparr>fw_db = forwarder_turn net now (fw_db s),
      fw_audit_sent = fw_audit_sent s @ batch_audit (fw_db s),
      fw_acct_sent = fw_acct_sent s @ batch_acct (fw_db s)\<rparr>"
| crashed: "process_one_batch net (fw_db s) = (d', Inr (Suc n)) \<Longrightarrow>
    forward_step s (s\<lparr>fw_audit_sent := fw_audit_sent s @ batch_audit (fw_db s),
      fw_acct_sent := fw_acct_sent s @ batch_acct (fw_db s)\<rparr>)"

inductive forward_reachable :: "forward_state \<Rightarrow> bool" where
  start: "audit_log d = [] \<Longrightarrow> accounting_records d = [] \<Longrightarrow>
    stored_offset d SYSLOG_LAST_AUDIT < seqs d T_audit_log \<Longrightarrow>
    stored_offset d SYSLOG_LAST_ID < seqs d T_accounting_record \<Longrightarrow>
    forward_reachable \<lparr>fw_db = d, fw_audit_sent = [], fw_acct_sent = []\<rparr>"
| step: "forward_reachable s \<Longrightarrow> forward_step s s' \<Longrightarrow> forward_reachable s'"

inductive_cases forward_stepE: "forward_step s s'"

text \<open>One stream: unique ids below the sequence, everything up to the offset was sent.\<close>

definition stream_ok :: "('r \<Rightarrow> int) \<Rightarrow> int \<Rightarrow> int \<Rightarrow> 'r list \<Rightarrow> 'r list \<Rightarrow> bool" where
  "stream_ok row_id nxt off rows sent \<longleftrightarrow>
     distinct (map row_id rows) \<and> (\<forall>r\<in>set rows. row_id r < nxt) \<and> off < nxt \<and>
     (\<forall>r\<in>set rows. row_id r \<le> off \<longrightarrow> r \<in> set sent)"

lemma stream_ok_insert:
  "stream_ok row_id nxt off rows sent \<Longrightarrow> row_id r = nxt \<Longrightarrow>
     stream_ok row_id (nxt + 1) off (rows @ [r]) sent"
  by (force simp: stream_ok_def)

lemma stream_ok_more: "stream_ok row_id nxt off rows sent \<Longrightarrow> stream_ok row_id nxt off rows (sent @ extra)"
  by (auto simp: stream_ok_def)

lemma stream_ok_batch:
  assumes "stream_ok row_id nxt off rows sent" and "next_rows row_id off rows \<noteq> []"
  shows "stream_ok row_id nxt (row_id (last (next_rows row_id off rows))) rows
    (sent @ next_rows row_id off rows)"
proof -
  let ?B = "next_rows row_id off rows"
  from assms(2) have "last ?B \<in> set ?B" by simp
  then have "last ?B \<in> set rows" using next_rows_sub by metis
  then have "row_id (last ?B) < nxt" using assms(1) by (simp add: stream_ok_def)
  moreover have "r \<in> set sent \<or> r \<in> set ?B"
    if "r \<in> set rows" "row_id r \<le> row_id (last ?B)" for r
    using that assms next_rows_complete [of r rows off row_id]
    by (cases "row_id r \<le> off") (auto simp: stream_ok_def)
  ultimately show ?thesis using assms(1) by (auto simp: stream_ok_def)
qed

definition forward_inv :: "forward_state \<Rightarrow> bool" where
  "forward_inv s \<longleftrightarrow>
     stream_ok al_id (seqs (fw_db s) T_audit_log) (stored_offset (fw_db s) SYSLOG_LAST_AUDIT)
       (audit_log (fw_db s)) (fw_audit_sent s) \<and>
     stream_ok ar_id (seqs (fw_db s) T_accounting_record) (stored_offset (fw_db s) SYSLOG_LAST_ID)
       (accounting_records (fw_db s)) (fw_acct_sent s)"

lemma stored_offset_with_audit [simp]: "stored_offset (with_audit now e d) k = stored_offset d k"
  by (simp add: stored_offset_def read_setting_def)

lemma stored_offset_insert_acct [simp]: "stored_offset (insert_accounting r d) k = stored_offset d k"
  by (simp add: stored_offset_def read_setting_def insert_accounting_def)

lemma error_markers_frame [simp]:
  "audit_log (record_error now e d) = audit_log d" "audit_log (clear_error d) = audit_log d"
  "accounting_records (record_error now e d) = accounting_records d"
  "accounting_records (clear_error d) = accounting_records d"
  "seqs (record_error now e d) = seqs d" "seqs (clear_error d) = seqs d"
  "stored_offset (record_error now e d) SYSLOG_LAST_ID = stored_offset d SYSLOG_LAST_ID"
  "stored_offset (clear_error d) SYSLOG_LAST_ID = stored_offset d SYSLOG_LAST_ID"
  "stored_offset (record_error now e d) SYSLOG_LAST_AUDIT = stored_offset d SYSLOG_LAST_AUDIT"
  "stored_offset (clear_error d) SYSLOG_LAST_AUDIT = stored_offset d SYSLOG_LAST_AUDIT"
  by (simp_all add: record_error_def clear_error_def stored_offset_other)

lemma process_failed: "process_one_batch net d = (d', Inl e) \<Longrightarrow> d' = d"
  by (auto simp: process_one_batch_def Let_def split: if_splits option.splits)

lemma process_idle: "process_one_batch net d = (d', Inr 0) \<Longrightarrow> d' = d"
  by (auto simp: process_one_batch_def Let_def batch_lines_def split: if_splits option.splits)

lemma process_sent: "process_one_batch net d = (d', Inr (Suc n)) \<Longrightarrow>
    d' = advance SYSLOG_LAST_ID ar_id (batch_acct d) (advance SYSLOG_LAST_AUDIT al_id (batch_audit d) d)"
  by (auto simp: process_one_batch_def Let_def split: if_splits option.splits)

lemma offset_after_advance:
  "rows = next_rows row_id (stored_offset d key) tbl \<Longrightarrow>
     stored_offset (advance key row_id rows d) key =
       (if rows = [] then stored_offset d key else row_id (last rows))"
proof (cases "rows = []")
  case True
  then show ?thesis by (simp add: advance_def)
next
  case False
  assume rows: "rows = next_rows row_id (stored_offset d key) tbl"
  with False next_rows_last_gt [of row_id "stored_offset d key" tbl] stored_offset_nonneg [of d key]
  have "0 < row_id (last rows)" by simp
  with False show ?thesis by (simp add: stored_offset_advance)
qed

lemma forward_inv_sent:
  assumes "forward_inv s"
  shows "forward_inv \<lparr>fw_db = clear_error (advance SYSLOG_LAST_ID ar_id (batch_acct (fw_db s))
      (advance SYSLOG_LAST_AUDIT al_id (batch_audit (fw_db s)) (fw_db s))),
    fw_audit_sent = fw_audit_sent s @ batch_audit (fw_db s),
    fw_acct_sent = fw_acct_sent s @ batch_acct (fw_db s)\<rparr>"
proof -
  let ?d = "fw_db s"
  let ?d1 = "advance SYSLOG_LAST_AUDIT al_id (batch_audit ?d) ?d"
  have "stored_offset (advance SYSLOG_LAST_ID ar_id (batch_acct ?d) ?d1) SYSLOG_LAST_AUDIT =
      (if batch_audit ?d = [] then stored_offset ?d SYSLOG_LAST_AUDIT else al_id (last (batch_audit ?d)))"
    by (simp add: stored_offset_advance_other offset_after_advance [OF batch_audit_def])
  moreover have "stored_offset (advance SYSLOG_LAST_ID ar_id (batch_acct ?d) ?d1) SYSLOG_LAST_ID =
      (if batch_acct ?d = [] then stored_offset ?d SYSLOG_LAST_ID else ar_id (last (batch_acct ?d)))"
  proof -
    have "batch_acct ?d = next_rows ar_id (stored_offset ?d1 SYSLOG_LAST_ID) (accounting_records ?d)"
      by (simp add: batch_acct_def stored_offset_advance_other)
    from offset_after_advance [OF this] show ?thesis by (simp add: stored_offset_advance_other)
  qed
  ultimately show ?thesis
    using assms stream_ok_batch [of al_id "seqs ?d T_audit_log" "stored_offset ?d SYSLOG_LAST_AUDIT"
        "audit_log ?d" "fw_audit_sent s"]
      stream_ok_batch [of ar_id "seqs ?d T_accounting_record" "stored_offset ?d SYSLOG_LAST_ID"
        "accounting_records ?d" "fw_acct_sent s"]
    by (simp add: forward_inv_def batch_audit_def [symmetric] batch_acct_def [symmetric])
qed

lemma forward_inv_step: "forward_step s s' \<Longrightarrow> forward_inv s \<Longrightarrow> forward_inv s'"
proof (erule forward_stepE, goal_cases)
  case (1 now e)
  then show ?case by (auto simp: forward_inv_def with_audit_seq intro: stream_ok_insert)
next
  case (2 row)
  moreover have "accounting_records (insert_accounting row (fw_db s)) = accounting_records (fw_db s) @
      [row\<lparr>ar_id := seqs (fw_db s) T_accounting_record\<rparr>]"
    "audit_log (insert_accounting row (fw_db s)) = audit_log (fw_db s)"
    "seqs (insert_accounting row (fw_db s)) T_accounting_record = seqs (fw_db s) T_accounting_record + 1"
    "seqs (insert_accounting row (fw_db s)) T_audit_log = seqs (fw_db s) T_audit_log"
    by (simp_all add: insert_accounting_def)
  ultimately show ?case by (auto simp: forward_inv_def intro: stream_ok_insert)
next
  case (3 k v)
  then show ?case by (simp add: forward_inv_def stored_offset_other)
next
  case (4 net d' e now)
  then show ?case using process_failed [OF 4(3)] by (simp add: forward_inv_def forwarder_turn_def)
next
  case (5 net d' now)
  then show ?case using process_idle [OF 5(3)] by (simp add: forward_inv_def forwarder_turn_def)
next
  case (6 net d' n now)
  then show ?case using process_sent [OF 6(3)] forward_inv_sent [OF 6(1)] by (simp add: forwarder_turn_def)
next
  case (7 net d' n)
  then show ?case by (simp add: forward_inv_def stream_ok_more)
qed

lemma forward_reachable_inv: "forward_reachable s \<Longrightarrow> forward_inv s"
proof (induction rule: forward_reachable.induct)
  case (start d)
  then show ?case by (simp add: forward_inv_def stream_ok_def)
next
  case (step s s')
  then show ?case by (blast intro: forward_inv_step)
qed

section \<open>Properties\<close>


definition ex_fw_start :: db where
  "ex_fw_start = empty_db\<lparr>system_settings := [SYSLOG_ENABLED \<mapsto> ''true'', SYSLOG_HOST \<mapsto> ''siem'']\<rparr>"

definition ex_fw_db :: db where
  "ex_fw_db = with_audit 0 (audit_args ''a'' ''r'' ''m'' AUTH_LOGIN_FAILED) ex_fw_start"

lemma ex_fw_offset: "k \<noteq> SYSLOG_ENABLED \<Longrightarrow> k \<noteq> SYSLOG_HOST \<Longrightarrow> stored_offset ex_fw_start k = 0"
  by (simp add: stored_offset_def read_setting_def ex_fw_start_def empty_db_def py_isdigit_def
      py_isdigit_char_def is_ascii_digit_def py_int_def py_strip_def py_isspace_char_def
      digits_val_def digit_val_def)

lemma ex_fw_log: "audit_log ex_fw_db = [audit_row_of 0 1 (audit_args ''a'' ''r'' ''m'' AUTH_LOGIN_FAILED)]"
  "accounting_records ex_fw_db = []"
  by (simp_all add: ex_fw_db_def with_audit_def audit_append_def ex_fw_start_def empty_db_def)

lemma ex_fw_batch: "batch_audit ex_fw_db = audit_log ex_fw_db" "batch_acct ex_fw_db = []"
  "length (audit_log ex_fw_db) = 1"
proof -
  have "stored_offset ex_fw_db SYSLOG_LAST_AUDIT = 0" by (simp add: ex_fw_db_def ex_fw_offset)
  then show "batch_audit ex_fw_db = audit_log ex_fw_db"
    by (simp add: batch_audit_def next_rows_def ex_fw_log BATCH_SIZE_def audit_row_of_def)
  show "batch_acct ex_fw_db = []" by (simp add: batch_acct_def next_rows_def ex_fw_log)
  show "length (audit_log ex_fw_db) = 1" by (simp add: ex_fw_log)
qed

lemma ex_fw_sent: "process_one_batch (\<lambda>_ _. None) ex_fw_db =
    (fst (process_one_batch (\<lambda>_ _. None) ex_fw_db), Inr (Suc 0))"
proof -
  have "offset_readable ex_fw_db k" if "k \<noteq> SYSLOG_ENABLED" "k \<noteq> SYSLOG_HOST" for k
    using that by (simp add: offset_readable_def read_setting_def ex_fw_db_def ex_fw_start_def
        py_int_def py_strip_def py_isspace_char_def is_ascii_digit_def empty_db_def)
  moreover have "sy_host (syslog_load_config ex_fw_db) = ''siem''"
    "sy_enabled (syslog_load_config ex_fw_db)"
    by (simp_all add: syslog_load_config_def read_setting_def ex_fw_db_def ex_fw_start_def is_true_def
        py_lower_char_def char_eval empty_db_def)
  moreover have "audit_log ex_fw_db \<noteq> []" using ex_fw_batch(3) by auto
  ultimately show ?thesis using ex_fw_batch(3)
    by (simp add: process_one_batch_def Let_def batch_lines_def ex_fw_batch(1,2) send_lines_def)
qed

lemma ex_fw_reachable: "forward_reachable \<lparr>fw_db = forwarder_turn (\<lambda>_ _. None) 0 ex_fw_db,
    fw_audit_sent = audit_log ex_fw_db, fw_acct_sent = []\<rparr>"
proof -
  have "forward_reachable \<lparr>fw_db = ex_fw_start, fw_audit_sent = [], fw_acct_sent = []\<rparr>"
    by (intro forward_reachable.start) (simp_all add: ex_fw_offset, simp_all add: ex_fw_start_def empty_db_def)
  from forward_reachable.step [OF this forward_step.audited]
  have r: "forward_reachable \<lparr>fw_db = ex_fw_db, fw_audit_sent = [], fw_acct_sent = []\<rparr>"
    by (simp add: ex_fw_db_def)
  from forward_step.sent [of "\<lambda>_ _. None" "\<lparr>fw_db = ex_fw_db, fw_audit_sent = [], fw_acct_sent = []\<rparr>"]
  show ?thesis using forward_reachable.step [OF r] ex_fw_sent by (simp add: ex_fw_batch(1,2))
qed

lemma ex_fw_offset_after:
  "stored_offset (forwarder_turn (\<lambda>_ _. None) 0 ex_fw_db) SYSLOG_LAST_AUDIT = al_id (hd (audit_log ex_fw_db))"
  "audit_log (forwarder_turn (\<lambda>_ _. None) 0 ex_fw_db) = audit_log ex_fw_db"
proof -
  obtain r where r: "audit_log ex_fw_db = [r]"
    using ex_fw_batch(3) by (auto simp: length_Suc_conv)
  note p = process_sent [OF ex_fw_sent]
  from r show "stored_offset (forwarder_turn (\<lambda>_ _. None) 0 ex_fw_db) SYSLOG_LAST_AUDIT
      = al_id (hd (audit_log ex_fw_db))"
    using offset_after_advance [OF batch_audit_def, of ex_fw_db] p ex_fw_sent
    by (simp add: forwarder_turn_def ex_fw_batch(1,2) stored_offset_advance_other split: prod.split)
  show "audit_log (forwarder_turn (\<lambda>_ _. None) 0 ex_fw_db) = audit_log ex_fw_db"
    using p ex_fw_sent by (simp add: forwarder_turn_def split: prod.split)
qed


text \<open>
  A batch only moves the offset to the last id it saw. A row with a smaller id that becomes
  visible after that - its transaction took its id first and committed last - is never sent.
\<close>

theorem late_commit_is_never_sent:
  assumes "al_id r \<le> stored_offset d SYSLOG_LAST_AUDIT"
  shows "r \<notin> set (batch_audit d)"
  using assms next_rows_sub unfolding batch_audit_def by fastforce

definition ex_audit_row :: "int \<Rightarrow> audit_row" where
  "ex_audit_row i = audit_row_of 0 i (audit_args ''a'' ''r'' ''m'' AUTH_LOGIN_FAILED)"

definition ex_forward_db :: db where
  "ex_forward_db = empty_db\<lparr>audit_log := [ex_audit_row 6],
     system_settings := [SYSLOG_ENABLED \<mapsto> ''true'', SYSLOG_HOST \<mapsto> ''siem'']\<rparr>"

definition ex_late_db :: db where
  "ex_late_db = (write_setting SYSLOG_LAST_AUDIT (Some ''6'') ex_forward_db)
     \<lparr>audit_log := [ex_audit_row 6, ex_audit_row 5]\<rparr>"

theorem late_commit_is_never_sent_witness:
  "ex_audit_row 5 \<in> set (audit_log ex_late_db) \<and> ex_audit_row 5 \<notin> set (batch_audit ex_late_db)"
proof -
  have "stored_offset ex_late_db SYSLOG_LAST_AUDIT = 6"
    by (simp add: ex_late_db_def stored_offset_def read_setting_def write_setting_def py_isdigit_def
        py_isdigit_char_def is_ascii_digit_def py_int_def py_strip_def py_isspace_char_def
        digits_val_def digit_val_def Let_def)
  then have "al_id (ex_audit_row 5) \<le> stored_offset ex_late_db SYSLOG_LAST_AUDIT"
    by (simp add: ex_audit_row_def)
  from late_commit_is_never_sent [OF this] show ?thesis by (simp add: ex_late_db_def)
qed

text \<open>
  C29: The structured data of every message reads back as exactly the parameters of its row,
  whatever user names, commands and other values contain, and ends where the message begins.
\<close>

theorem structured_data_reads_back:
  "(\<exists>header. format_rfc5424 r cfg = header @ '' [acct@tacacs-web '' @
      py_join '' '' (map sd_param (acct_params r)) @ CHR '']'' # CHR '' '' # acct_msg r) \<and>
   read_params 12 (py_join '' '' (map sd_param (acct_params r)) @ CHR '']'' # CHR '' '' # acct_msg r) =
     Some (acct_params r, CHR '' '' # acct_msg r) \<and>
   (\<exists>header. format_rfc5424_audit a cfg = header @ '' [audit@tacacs-web '' @
      py_join '' '' (map sd_param (audit_params a)) @ CHR '']'' # CHR '' '' # audit_msg a) \<and>
   read_params 12 (py_join '' '' (map sd_param (audit_params a)) @ CHR '']'' # CHR '' '' # audit_msg a) =
     Some (audit_params a, CHR '' '' # audit_msg a)"
proof -
  have "length (acct_params r) \<le> 12" "length (audit_params a) \<le> 12"
    by (simp_all add: acct_params_def audit_params_def opt_param_def opt_int_param_def split: option.split)
  moreover have "acct_params r \<noteq> []" "audit_params a \<noteq> []"
    by (simp_all add: acct_params_def audit_params_def)
  ultimately show ?thesis
    by (simp add: read_params_element params_plain format_rfc5424_def format_rfc5424_audit_def sd_element_def)
qed

text \<open>
  A stream of octet-counted frames splits back into exactly the lines that were sent.
\<close>

theorem frames_split_back:
  "deframe (length lines) (concat (map octet_frame lines)) = Some (map utf8_encode lines)"
  by (rule deframe_frames)

text \<open>
  C31: A UDP datagram never exceeds 8000 bytes: a longer line is cut and ends in the mark, and a
  line that fits is sent unchanged.
\<close>

theorem datagram_is_bounded:
  "length (udp_datagram line) \<le> 8000 \<and>
   (length (utf8_encode line) \<le> 8000 \<longrightarrow> udp_datagram line = utf8_encode line) \<and>
   (8000 < length (utf8_encode line) \<longrightarrow> length (udp_datagram line) = 8000 \<and>
      udp_datagram line = take 7986 (utf8_encode line) @ utf8_encode ''...[truncated]'')"
  by (simp add: udp_datagram_def UDP_MAX_BYTES_def Let_def utf8_encode_def utf8_char_def)

theorem datagram_is_bounded_witness:
  "udp_datagram ''ok'' = utf8_encode ''ok''"
  using datagram_is_bounded [of "''ok''"] by (simp add: utf8_encode_def utf8_char_def)

text \<open>
  Whatever is stored in the settings, the priority of a message is between 0 and 191 and
  encodes the facility in use and a severity of 4 or 6.
\<close>

theorem priority_in_range:
  "0 \<le> sy_facility (syslog_load_config d) * 8 + audit_severity r \<and>
   sy_facility (syslog_load_config d) * 8 + audit_severity r \<le> 191 \<and>
   (sy_facility (syslog_load_config d) * 8 + audit_severity r) div 8 =
     sy_facility (syslog_load_config d) \<and>
   (sy_facility (syslog_load_config d) * 8 + audit_severity r) mod 8 \<in> {4, 6}"
proof -
  have "0 \<le> sy_facility (syslog_load_config d)" "sy_facility (syslog_load_config d) \<le> 23"
    by (simp_all add: syslog_load_config_def clamp_facility_def split: option.split)
  moreover have "audit_severity r = 4 \<or> audit_severity r = 6" by (simp add: audit_severity_def)
  ultimately show ?thesis by auto
qed

text \<open>
  Exactly the actions whose code says that something failed, and the expiry of a session,
  are forwarded as warnings.
\<close>

theorem failures_are_warnings:
  "audit_severity (audit_row_of ts i (audit_args u role m a)) =
     (if suffix ''_failed'' (action_code a) \<or> a = AUTH_SESSION_EXPIRED then 4 else 6)"
  by (cases a) (simp_all add: audit_severity_def WARNING_ACTIONS_def action_code.simps suffix_def)


lemma ex_batch: "batch_audit ex_forward_db = [ex_audit_row 6]"
  by (simp add: batch_audit_def next_rows_def stored_offset_def read_setting_def ex_forward_db_def
      ex_audit_row_def BATCH_SIZE_def empty_db_def py_isdigit_def py_isdigit_char_def
      is_ascii_digit_def py_int_def py_strip_def py_isspace_char_def digits_val_def digit_val_def)

lemma ex_sent: "process_one_batch (\<lambda>_ _. None) ex_forward_db =
    (fst (process_one_batch (\<lambda>_ _. None) ex_forward_db), Inr (Suc 0))"
proof -
  have "batch_acct ex_forward_db = []"
    by (simp add: batch_acct_def next_rows_def ex_forward_db_def empty_db_def)
  moreover have "offset_readable ex_forward_db k" if "k \<noteq> SYSLOG_ENABLED" "k \<noteq> SYSLOG_HOST" for k
    using that by (simp add: offset_readable_def read_setting_def ex_forward_db_def py_int_def
        py_strip_def py_isspace_char_def is_ascii_digit_def)
  moreover have "sy_host (syslog_load_config ex_forward_db) = ''siem''"
    "sy_enabled (syslog_load_config ex_forward_db)"
    by (simp_all add: syslog_load_config_def read_setting_def ex_forward_db_def is_true_def
        py_lower_char_def char_eval)
  ultimately show ?thesis
    by (simp add: process_one_batch_def Let_def batch_lines_def ex_batch send_lines_def)
qed


text \<open>
  The certificate of the collector goes unchecked only when an administrator stored it so: in every
  other state of the settings the connection requires a certificate for the host it names.
\<close>

theorem unverified_collector_is_opt_in:
  assumes "build_ssl_context load_ca load_chain (syslog_load_config d) = Inr c"
  shows "tx_cert_required c = tx_check_hostname c \<and>
    (tx_cert_required c \<or> (\<exists>v. read_setting d SYSLOG_TLS_VERIFY = Some v \<and> v \<noteq> [] \<and> \<not> is_true v))"
proof -
  from assms have "tx_cert_required c = sy_tls_verify (syslog_load_config d)"
    "tx_check_hostname c = sy_tls_verify (syslog_load_config d)"
    by (auto simp: build_ssl_context_def Let_def split: option.splits if_splits)
  moreover have "is_true ''true''" by code_simp
  ultimately show ?thesis
    by (auto simp: syslog_load_config_def or_default_def split: option.splits if_splits)
qed

theorem unverified_collector_is_opt_in_witness:
  "\<exists>c. build_ssl_context (\<lambda>_. None) (\<lambda>_ _. None) (syslog_load_config empty_db) = Inr c \<and> tx_cert_required c"
proof -
  have "\<exists>c. build_ssl_context (\<lambda>_. None) (\<lambda>_ _. None) (syslog_load_config empty_db) = Inr c"
    by (simp add: build_ssl_context_def Let_def syslog_load_config_def empty_db_def read_secret_def truthy_def)
  then obtain c where run: "build_ssl_context (\<lambda>_. None) (\<lambda>_ _. None) (syslog_load_config empty_db) = Inr c" by blast
  have "read_setting empty_db SYSLOG_TLS_VERIFY = None" by (simp add: read_setting_def empty_db_def)
  with unverified_collector_is_opt_in [OF run] run show ?thesis by auto
qed

end
