(* ===== verification/Shlex.thy ===== *)
theory Shlex
  imports Py_Base
begin

text \<open>
  \<open>shlex.split\<close> in POSIX mode with whitespace splitting, the only way the code uses the module:
  the states of \<open>shlex.read_token\<close> as a datatype, the scanner as one structural recursion. An
  unclosed quotation or a final escape is the \<open>ValueError\<close> \<open>None\<close>. The main lemma: a token
  written between double quotes, with quotes and backslashes escaped, is scanned back.
\<close>

datatype shlex_state =
    Blank                            \<comment> \<open>state \<open>' '\<close>\<close>
  | In_Word                          \<comment> \<open>state \<open>'a'\<close>\<close>
  | In_Quotes char                   \<comment> \<open>the state is the quote character\<close>
  | In_Escape "char option"          \<comment> \<open>the state is the backslash; \<open>escapedstate\<close>\<close>

definition shlex_space :: "char \<Rightarrow> bool" where
  "shlex_space c \<longleftrightarrow> c \<in> {CHR '' '', tab, cr, nl}"

definition shlex_quote :: "char \<Rightarrow> bool" where
  "shlex_quote c \<longleftrightarrow> c = squote \<or> c = dquote"

fun scan :: "shlex_state \<Rightarrow> string \<Rightarrow> string \<Rightarrow> string list option" where
  "scan Blank tok [] = Some []"
| "scan Blank tok (c # s) =
     (if shlex_space c then scan Blank [] s
      else if c = bslash then scan (In_Escape None) [] s
      else if shlex_quote c then scan (In_Quotes c) [] s
      else scan In_Word [c] s)"
| "scan In_Word tok [] = Some [tok]"
| "scan In_Word tok (c # s) =
     (if shlex_space c then map_option ((#) tok) (scan Blank [] s)
      else if shlex_quote c then scan (In_Quotes c) tok s
      else if c = bslash then scan (In_Escape None) tok s
      else scan In_Word (tok @ [c]) s)"
| "scan (In_Quotes q) tok [] = None"
| "scan (In_Quotes q) tok (c # s) =
     (if c = q then scan In_Word tok s
      else if c = bslash \<and> q = dquote then scan (In_Escape (Some q)) tok s
      else scan (In_Quotes q) (tok @ [c]) s)"
| "scan (In_Escape e) tok [] = None"
| "scan (In_Escape e) tok (c # s) =
     (case e of
        None \<Rightarrow> scan In_Word (tok @ [c]) s
      | Some q \<Rightarrow> scan (In_Quotes q) (tok @ (if c \<noteq> bslash \<and> c \<noteq> q then [bslash, c] else [c])) s)"

definition shlex_split :: "string \<Rightarrow> string list option" where
  "shlex_split s = scan Blank [] s"

text \<open>\<open>str.split()\<close>: the maximal runs of characters that are not whitespace.\<close>

fun split_words :: "string \<Rightarrow> string \<Rightarrow> string list" where
  "split_words w [] = (if w = [] then [] else [w])"
| "split_words w (c # s) =
     (if py_isspace_char c then (if w = [] then split_words [] s else w # split_words [] s)
      else split_words (w @ [c]) s)"

definition py_split_ws :: "string \<Rightarrow> string list" where
  "py_split_ws s = split_words [] s"

section \<open>Scanning back what was quoted\<close>

definition dq_char :: "char \<Rightarrow> string" where
  "dq_char c = (if c = bslash \<or> c = dquote then [bslash, c] else [c])"

definition dq :: "string \<Rightarrow> string" where
  "dq v = [dquote] @ concat (map dq_char v) @ [dquote]"

definition plain_char :: "char \<Rightarrow> bool" where
  "plain_char c \<longleftrightarrow> \<not> shlex_space c \<and> \<not> shlex_quote c \<and> c \<noteq> bslash"

lemma quote_chars [simp]: "\<not> shlex_space dquote" "shlex_quote dquote" "\<not> shlex_space bslash"
  by (simp_all add: shlex_space_def shlex_quote_def char_consts)

lemma scan_quoted:
  "scan (In_Quotes dquote) tok (concat (map dq_char v) @ dquote # s) = scan In_Word (tok @ v) s"
  by (induction v arbitrary: tok) (auto simp: dq_char_def)

lemma scan_dq: "scan In_Word tok (dq v @ s) = scan In_Word (tok @ v) s"
  by (simp add: dq_def scan_quoted)

lemma scan_plain: "list_all plain_char w \<Longrightarrow> scan In_Word tok (w @ s) = scan In_Word (tok @ w) s"
  by (induction w arbitrary: tok) (auto simp: plain_char_def)

lemma scan_word_start:
  assumes "w \<noteq> []" and "list_all plain_char w"
  shows "scan Blank tok (w @ s) = scan In_Word w s"
proof -
  from assms obtain c w' where w: "w = c # w'" by (cases w) auto
  with assms show ?thesis using scan_plain [of w' "[c]" s] by (auto simp: plain_char_def)
qed

text \<open>A word followed by a quoted value is one token; so is a line of them.\<close>

lemma shlex_split_items:
  assumes "list_all (\<lambda>(w, v). w \<noteq> [] \<and> list_all plain_char w) items"
  shows "shlex_split (py_join '' '' (map (\<lambda>(w, v). w @ dq v) items)) = Some (map (\<lambda>(w, v). w @ v) items)"
  using assms
proof (induction items)
  case Nil
  then show ?case by (simp add: shlex_split_def)
next
  case (Cons i rest)
  obtain w v where i: "i = (w, v)" by (cases i)
  with Cons.prems have w: "w \<noteq> []" "list_all plain_char w" by simp_all
  show ?case
  proof (cases "rest = []")
    case True
    then show ?thesis using scan_word_start [OF w] scan_dq [of w v "[]"]
      by (simp add: i shlex_split_def)
  next
    case False
    have "scan Blank [] (w @ dq v @ '' '' @ r) = map_option ((#) (w @ v)) (scan Blank [] r)" for r
      using scan_word_start [OF w] scan_dq [of w v "'' '' @ r"] by (simp add: shlex_space_def)
    then show ?thesis using False Cons i
      by (simp add: shlex_split_def py_join_Cons)
  qed
qed

end
