(* ===== verification/Strptime.thy ===== *)
theory Strptime
  imports Py_Time
begin

text \<open>
  \<open>datetime.strptime\<close> for the directives the code uses, in the C locale. A format is compiled
  to a list of directives; each directive matches a prefix of the text, and yields the matches
  in the order the regular expression of CPython's \<open>_strptime\<close> tries them, so that matching a
  format is a search with backtracking whose first result counts. Text left over, an impossible
  date and an offset of a day or more are the \<open>ValueError\<close> \<open>None\<close>.
\<close>

record time_fields =
  tf_year :: int
  tf_month :: int
  tf_day :: int
  tf_hour :: int
  tf_minute :: int
  tf_second :: int
  tf_offset :: "int option option"  \<comment> \<open>of \<open>%z\<close>: \<open>Some None\<close> for one that raises\<close>

definition no_fields :: time_fields where
  "no_fields = \<lparr>tf_year = 1900, tf_month = 1, tf_day = 1, tf_hour = 0, tf_minute = 0, tf_second = 0,
     tf_offset = None\<rparr>"

datatype directive = Lit char | Ws | Dir char

fun compile_format :: "string \<Rightarrow> directive list" where
  "compile_format [] = []"
| "compile_format [c] = [Lit c]"
| "compile_format (c # d # f) =
     (if c = CHR ''%'' then Dir d # compile_format f
      else (if py_isspace_char c then Ws else Lit c) # compile_format (d # f))"

section \<open>Matching one directive\<close>

type_synonym matches = "(int \<times> string) list"

definition one_digit :: "int \<Rightarrow> int \<Rightarrow> string \<Rightarrow> matches" where
  "one_digit lo hi s =
     (case s of
        a # r \<Rightarrow>
          (let v = int (digit_val a) in if is_ascii_digit a \<and> lo \<le> v \<and> v \<le> hi then [(v, r)] else [])
      | [] \<Rightarrow> [])"

definition two_digits :: "int \<Rightarrow> int \<Rightarrow> string \<Rightarrow> matches" where
  "two_digits lo hi s =
     (case s of
        a # b # r \<Rightarrow>
          (let v = int (10 * digit_val a + digit_val b) in
           if is_ascii_digit a \<and> is_ascii_digit b \<and> lo \<le> v \<and> v \<le> hi then [(v, r)] else [])
      | _ \<Rightarrow> [])"

definition four_digits :: "string \<Rightarrow> matches" where
  "four_digits s = concat (map (\<lambda>(v, r). map (\<lambda>(w, r'). (100 * v + w, r')) (two_digits 0 99 r)) (two_digits 0 99 s))"

definition name_match :: "string list \<Rightarrow> string \<Rightarrow> matches" where
  "name_match names s =
     map (\<lambda>(i, n). (int i, drop (length n) s))
       (filter (\<lambda>(i, n). n = py_lower (take (length n) s)) (enumerate 1 names))"

definition WEEKDAYS :: "string list" where
  "WEEKDAYS = [''mon'', ''tue'', ''wed'', ''thu'', ''fri'', ''sat'', ''sun'']"

definition MONTHS :: "string list" where
  "MONTHS = [''jan'', ''feb'', ''mar'', ''apr'', ''may'', ''jun'', ''jul'', ''aug'', ''sep'', ''oct'',
     ''nov'', ''dec'']"

text \<open>An optional colon, greedy.\<close>

definition opt_colon :: "string \<Rightarrow> (bool \<times> string) list" where
  "opt_colon s = (case s of c # r \<Rightarrow> if c = CHR '':'' then [(True, r), (False, s)] else [(False, s)] | [] \<Rightarrow> [(False, s)])"

text \<open>\<open>(\.\d{1,6})?\<close>, in microseconds: at most six digits, longest first.\<close>

definition opt_fraction :: "string \<Rightarrow> matches" where
  "opt_fraction s =
     (case s of
        c # r \<Rightarrow>
          (if c = CHR ''.'' then
             map (\<lambda>k. (int (digits_val (take k r)) * 10 ^ (6 - k), drop k r))
               (rev [1..<Suc (min 6 (length (takeWhile is_ascii_digit r)))])
           else []) @ [(0, s)]
      | [] \<Rightarrow> [(0, s)])"

text \<open>
  \<open>%z\<close>: the offset in microseconds. With seconds present the colons must be used twice or not
  at all, otherwise the conversion raises, \<open>None\<close>.
\<close>

definition offset_seconds :: "bool \<Rightarrow> string \<Rightarrow> (int option \<times> string) list" where
  "offset_seconds colon s =
     concat (map (\<lambda>(colon2, r).
         concat (map (\<lambda>(sec, r2).
             map (\<lambda>(us, r3). (if colon2 = colon then Some (sec * 1000000 + us) else None, r3)) (opt_fraction r2))
           (two_digits 0 59 r)))
       (opt_colon s)) @ [(Some 0, s)]"

definition match_offset :: "string \<Rightarrow> (int option \<times> string) list" where
  "match_offset s =
     (case s of
        c # r \<Rightarrow>
          (if c = CHR ''+'' \<or> c = CHR ''-'' then
             concat (map (\<lambda>(h, r1).
                 concat (map (\<lambda>(colon, r2).
                     concat (map (\<lambda>(m, r3).
                         map (\<lambda>(us, r4).
                             (map_option (\<lambda>u. (if c = CHR ''-'' then -1 else 1) * ((h * 3600 + m * 60) * 1000000 + u)) us, r4))
                           (offset_seconds colon r3))
                       (two_digits 0 59 r2)))
                   (opt_colon r1)))
               (two_digits 0 99 r))
           else if c = CHR ''Z'' then [(Some 0, r)] else [])
      | [] \<Rightarrow> [])"

definition match_directive :: "directive \<Rightarrow> time_fields \<times> string \<Rightarrow> (time_fields \<times> string) list" where
  "match_directive dir st =
     (let (f, s) = st in
      case dir of
        Lit c \<Rightarrow> (case s of x # r \<Rightarrow> if py_lower_char x = py_lower_char c then [(f, r)] else [] | [] \<Rightarrow> [])
      | Ws \<Rightarrow> map (\<lambda>k. (f, drop k s)) (rev [1..<Suc (length (takeWhile py_isspace_char s))])
      | Dir c \<Rightarrow>
          (if c = CHR ''Y'' then map (\<lambda>(v, r). (f\<lparr>tf_year := v\<rparr>, r)) (four_digits s)
           else if c = CHR ''m'' then
             map (\<lambda>(v, r). (f\<lparr>tf_month := v\<rparr>, r)) (two_digits 1 12 s @ one_digit 1 9 s)
           else if c = CHR ''d'' then
             map (\<lambda>(v, r). (f\<lparr>tf_day := v\<rparr>, r))
               (two_digits 1 31 s @ one_digit 1 9 s @
                (case s of x # r \<Rightarrow> if x = CHR '' '' then one_digit 1 9 r else [] | [] \<Rightarrow> []))
           else if c = CHR ''H'' then
             map (\<lambda>(v, r). (f\<lparr>tf_hour := v\<rparr>, r)) (two_digits 0 23 s @ one_digit 0 9 s)
           else if c = CHR ''M'' then
             map (\<lambda>(v, r). (f\<lparr>tf_minute := v\<rparr>, r)) (two_digits 0 59 s @ one_digit 0 9 s)
           else if c = CHR ''S'' then
             map (\<lambda>(v, r). (f\<lparr>tf_second := v\<rparr>, r)) (two_digits 0 61 s @ one_digit 0 9 s)
           else if c = CHR ''a'' then map (\<lambda>(v, r). (f, r)) (name_match WEEKDAYS s)
           else if c = CHR ''b'' then map (\<lambda>(v, r). (f\<lparr>tf_month := v\<rparr>, r)) (name_match MONTHS s)
           else if c = CHR ''z'' then map (\<lambda>(v, r). (f\<lparr>tf_offset := Some v\<rparr>, r)) (match_offset s)
           else []))"

fun match_format :: "directive list \<Rightarrow> time_fields \<times> string \<Rightarrow> (time_fields \<times> string) list" where
  "match_format [] st = [st]"
| "match_format (x # xs) st = concat (map (match_format xs) (match_directive x st))"

section \<open>The instant\<close>

definition days_from_civil :: "int \<Rightarrow> int \<Rightarrow> int \<Rightarrow> int" where
  "days_from_civil y m d =
     (let y' = (if m \<le> 2 then y - 1 else y);
          yoe = y' mod 400;
          doy = (153 * (if m > 2 then m - 3 else m + 9) + 2) div 5 + d - 1
      in (y' div 400) * 146097 + (yoe * 365 + yoe div 4 - yoe div 100 + doy) - 719468)"

definition is_leap :: "int \<Rightarrow> bool" where
  "is_leap y \<longleftrightarrow> y mod 4 = 0 \<and> (y mod 100 \<noteq> 0 \<or> y mod 400 = 0)"

definition days_in_month :: "int \<Rightarrow> int \<Rightarrow> int" where
  "days_in_month y m =
     (if m = 2 then if is_leap y then 29 else 28 else if m \<in> {4, 6, 9, 11} then 30 else 31)"

definition day_microseconds :: int where
  "day_microseconds = 86400000000"

definition fields_instant :: "time_fields \<Rightarrow> int" where
  "fields_instant f =
     days_from_civil (tf_year f) (tf_month f) (tf_day f) * day_microseconds +
     (tf_hour f * 3600 + tf_minute f * 60 + tf_second f) * 1000000"

definition fields_valid :: "time_fields \<Rightarrow> bool" where
  "fields_valid f \<longleftrightarrow>
     1 \<le> tf_year f \<and> tf_day f \<le> days_in_month (tf_year f) (tf_month f) \<and> tf_second f \<le> 59 \<and>
     (case tf_offset f of
        None \<Rightarrow> True
      | Some None \<Rightarrow> False
      | Some (Some z) \<Rightarrow> - day_microseconds < z \<and> z < day_microseconds)"

text \<open>\<open>strptime(s, fmt)\<close>, a date without zone taken as UTC.\<close>

definition strptime_utc :: "string \<Rightarrow> string \<Rightarrow> int option" where
  "strptime_utc fmt s =
     (case match_format (compile_format fmt) (no_fields, s) of
        [] \<Rightarrow> None
      | (f, r) # _ \<Rightarrow>
          if r \<noteq> [] \<or> \<not> fields_valid f then None
          else Some (fields_instant f - (case tf_offset f of Some (Some z) \<Rightarrow> z | _ \<Rightarrow> 0)))"

text \<open>\<open>datetime.fromtimestamp(n, tz=UTC)\<close> of a non-negative number: up to the end of 9999.\<close>

definition from_timestamp :: "int \<Rightarrow> int option" where
  "from_timestamp n = (if n \<le> 253402300799 then Some (n * 1000000) else None)"

end
