(* ===== verification/Accounting.thy ===== *)
theory Accounting
  imports Settings_Store Device_Resolution Shlex Strptime
begin

text \<open>
  \<open>app/accounting/ingestor.py\<close>: the parser of accounting lines, the rows they become and the
  loop that tails the daemon's log. Log text is ASCII with newline line ends, so positions in
  the file count characters. The reader is a state machine: the files and the path of the log,
  the open handle and the database; the daemon appends and log rotation replaces the file
  between any two steps of the ingestor, which may also die between any two steps. PostgreSQL
  refuses a row that does not fit its columns (\<open>row_fits\<close>).
\<close>

section \<open>Parsing (parse_record, _parse_args, _parse_ts)\<close>

definition av_key_char :: "char \<Rightarrow> bool" where
  "av_key_char c \<longleftrightarrow>
     (65 \<le> ord_c c \<and> ord_c c \<le> 90) \<or> (97 \<le> ord_c c \<and> ord_c c \<le> 122) \<or> is_ascii_digit c \<or>
     c \<in> {CHR ''.'', CHR ''_'', CHR ''-''}"

text \<open>
  \<open>_AV_TOKEN\<close>: a key, an equals sign and a value without newline; the dollar sign also matches
  before a final newline.
\<close>

definition av_token :: "string \<Rightarrow> (string \<times> string) option" where
  "av_token tok =
     (let key = takeWhile av_key_char tok; rest = drop (length key) tok in
      case rest of
        [] \<Rightarrow> None
      | c # value \<Rightarrow>
          if key = [] \<or> c \<noteq> CHR ''='' then None
          else
            (let v = takeWhile (\<lambda>x. x \<noteq> nl) value in
             if value = v \<or> value = v @ [nl] then Some (key, v) else None))"

fun collect_avs :: "string list \<Rightarrow> (string \<times> string) list \<Rightarrow> (string \<times> string) list" where
  "collect_avs [] out = out"
| "collect_avs (tok # toks) out =
     collect_avs toks (case av_token tok of Some (k, v) \<Rightarrow> AList.update k v out | None \<Rightarrow> out)"

definition parse_args :: "string \<Rightarrow> (string \<times> string) list" where
  "parse_args blob =
     (if blob = [] then []
      else
        (let blob' = py_strip (py_replace tab '' '' blob);
             tokens = (case shlex_split blob' of Some ts \<Rightarrow> ts | None \<Rightarrow> py_split_ws blob')
         in collect_avs tokens []))"

definition TS_FORMATS :: "string list" where
  "TS_FORMATS = [''%Y-%m-%dT%H:%M:%S%z'', ''%Y-%m-%d %H:%M:%S %z'', ''%Y-%m-%d %H:%M:%S'',
     ''%Y-%m-%dT%H:%M:%S'']"

fun first_format :: "string list \<Rightarrow> string \<Rightarrow> instant option" where
  "first_format [] raw = None"
| "first_format (fmt # fmts) raw =
     (case strptime_utc fmt raw of Some t \<Rightarrow> Some t | None \<Rightarrow> first_format fmts raw)"

definition parse_ts :: "instant \<Rightarrow> string \<Rightarrow> instant" where
  "parse_ts now raw0 =
     (let raw = py_strip raw0 in
      if raw = [] then now
      else
        (case (if py_isdigit raw then Option.bind (py_int raw) from_timestamp else None) of
           Some t \<Rightarrow> t
         | None \<Rightarrow>
             (case first_format TS_FORMATS raw of
                Some t \<Rightarrow> t
              | None \<Rightarrow>
                  (case strptime_utc ''%a %b %d %H:%M:%S %Y'' raw of Some t \<Rightarrow> t | None \<Rightarrow> now))))"

record parsed_record =
  pr_ts :: instant
  pr_nas_ip :: "string option"
  pr_username :: "string option"
  pr_port :: "string option"
  pr_nac_ip :: "string option"
  pr_task_id :: "string option"
  pr_action :: string
  pr_av_pairs :: "(string \<times> string) list"

definition FIELD_COUNT_MIN :: nat where
  "FIELD_COUNT_MIN = 8"

definition parse_record :: "instant \<Rightarrow> string \<Rightarrow> parsed_record option" where
  "parse_record now line0 =
     (let line = py_rstrip cr (py_rstrip nl line0) in
      if line = [] then None
      else
        (let parts = py_split tab line in
         if length parts < FIELD_COUNT_MIN then None
         else
           (let extras = drop 8 parts;
                args_blob = (if extras \<noteq> [] then py_join [tab] (parts ! 7 # extras) else parts ! 7)
            in Some \<lparr>pr_ts = parse_ts now (parts ! 0), pr_nas_ip = none_if_empty (parts ! 1),
                 pr_username = none_if_empty (parts ! 2), pr_port = none_if_empty (parts ! 3),
                 pr_nac_ip = none_if_empty (parts ! 4), pr_task_id = none_if_empty (parts ! 5),
                 pr_action = (if parts ! 6 = [] then ''unknown'' else parts ! 6),
                 pr_av_pairs = parse_args args_blob\<rparr>)))"

section \<open>Persisting (_resolve_device_id, _persist_one, the offset)\<close>

abbreviation SETTING_OFFSET :: string where
  "SETTING_OFFSET \<equiv> ''accounting.log_offset''"

definition load_offset :: "db \<Rightarrow> int exn" where
  "load_offset d =
     (case read_setting d SETTING_OFFSET of
        None \<Rightarrow> Inr 0
      | Some v \<Rightarrow>
          if \<not> py_isdigit v then Inr 0
          else (case py_int v of Some i \<Rightarrow> Inr i | None \<Rightarrow> Inl ''ValueError''))"

definition save_offset :: "int \<Rightarrow> db \<Rightarrow> db" where
  "save_offset offset d = write_setting SETTING_OFFSET (Some (int_to_str offset)) d"

definition resolve_device_id :: "string option \<Rightarrow> db \<Rightarrow> int option" where
  "resolve_device_id nas_ip d =
     (if \<not> truthy nas_ip then None
      else map_option d_id (resolve_device_for_ip (the nas_ip) (devices d)))"

definition int_arg :: "string \<Rightarrow> (string \<times> string) list \<Rightarrow> int option" where
  "int_arg key args = Option.bind (map_of args key) py_int"

definition accounting_row_of :: "int \<Rightarrow> int option \<Rightarrow> parsed_record \<Rightarrow> accounting_row" where
  "accounting_row_of i device rc =
     (let args = pr_av_pairs rc in
      \<lparr>ar_id = i, ar_ts = pr_ts rc, ar_nas_ip = pr_nas_ip rc, ar_username = pr_username rc,
       ar_port = pr_port rc, ar_nac_ip = pr_nac_ip rc, ar_action = pr_action rc,
       ar_service = map_of args ''service'', ar_cmd = map_of args ''cmd'',
       ar_priv_lvl = int_arg ''priv-lvl'' args, ar_elapsed_seconds = int_arg ''elapsed_time'' args,
       ar_task_id = pr_task_id rc, ar_device_id = device, ar_raw_av_pairs = args\<rparr>)"

text \<open>The columns of \<open>accounting_record\<close>: lengths, 32-bit integers, no NUL in text.\<close>

definition text_fits :: "nat \<Rightarrow> string option \<Rightarrow> bool" where
  "text_fits n v = (case v of None \<Rightarrow> True | Some s \<Rightarrow> length s \<le> n \<and> CHR 0x00 \<notin> set s)"

definition int_fits :: "int option \<Rightarrow> bool" where
  "int_fits v = (case v of None \<Rightarrow> True | Some i \<Rightarrow> - 2147483648 \<le> i \<and> i \<le> 2147483647)"

definition row_fits :: "accounting_row \<Rightarrow> bool" where
  "row_fits r \<longleftrightarrow>
     text_fits 64 (ar_nas_ip r) \<and> text_fits 256 (ar_username r) \<and> text_fits 64 (ar_port r) \<and>
     text_fits 64 (ar_nac_ip r) \<and> text_fits 16 (Some (ar_action r)) \<and> text_fits 32 (ar_service r) \<and>
     (case ar_cmd r of None \<Rightarrow> True | Some s \<Rightarrow> CHR 0x00 \<notin> set s) \<and>
     int_fits (ar_priv_lvl r) \<and> int_fits (ar_elapsed_seconds r) \<and> text_fits 64 (ar_task_id r)"

definition persist_one :: "parsed_record \<Rightarrow> db \<Rightarrow> db exn" where
  "persist_one rc d =
     (let row = accounting_row_of (seqs d T_accounting_record) (resolve_device_id (pr_nas_ip rc) d) rc in
      if row_fits row
      then Inr (bump_seq T_accounting_record (d\<lparr>accounting_records := accounting_records d @ [row]\<rparr>))
      else Inl ''DataError'')"

section \<open>Tailing (_consume_file, _tail_loop)\<close>

text \<open>\<open>f.readline()\<close> at a position: up to and including the next newline, or to the end.\<close>

definition read_line :: "string \<Rightarrow> string" where
  "read_line s = takeWhile (\<lambda>c. c \<noteq> nl) s @ take 1 (dropWhile (\<lambda>c. c \<noteq> nl) s)"

definition consume_start :: "string \<Rightarrow> db \<Rightarrow> (db \<times> nat) exn" where
  "consume_start content d =
     (case load_offset d of
        Inl e \<Rightarrow> Inl e
      | Inr offset \<Rightarrow>
          if int (length content) < offset then Inr (save_offset 0 d, 0) else Inr (d, nat offset))"

text \<open>One turn of the reading loop with a line to read; \<open>None\<close> at the end of the file.\<close>

definition consume_line :: "instant \<Rightarrow> string \<Rightarrow> nat \<Rightarrow> db \<Rightarrow> (db \<times> nat) exn option" where
  "consume_line now content pos d =
     (let line = read_line (drop pos content); pos' = pos + length line in
      if line = [] then None
      else Some
        (case parse_record now line of
           None \<Rightarrow> Inr (d, pos')
         | Some rc \<Rightarrow>
             (case persist_one rc d of
                Inl e \<Rightarrow> Inl e
              | Inr d' \<Rightarrow> Inr (save_offset (int pos') d', pos'))))"

lemma read_line_pos: "s \<noteq> [] \<Longrightarrow> 0 < length (read_line s)"
  by (cases s) (auto simp: read_line_def)

lemma read_line_empty [simp]: "read_line s = [] \<longleftrightarrow> s = []"
  using read_line_pos [of s] by (cases "s = []") (auto simp: read_line_def)

text \<open>The reading loop up to the end of the file: the position moves with every line.\<close>

function consume_to_eof :: "instant \<Rightarrow> string \<Rightarrow> nat \<Rightarrow> db \<Rightarrow> db \<times> (string + nat)" where
  "consume_to_eof now content pos d =
     (case consume_line now content pos d of
        None \<Rightarrow> (d, Inr pos)
      | Some (Inl e) \<Rightarrow> (d, Inl e)
      | Some (Inr (d', pos')) \<Rightarrow> consume_to_eof now content pos' d')"
  by pat_completeness auto

lemma consume_line_advances:
  "consume_line now content pos d = Some (Inr (d', pos')) \<Longrightarrow>
   pos' = pos + length (read_line (drop pos content)) \<and> pos < pos' \<and> pos < length content"
  using read_line_pos [of "drop pos content"]
  by (auto simp: consume_line_def Let_def split: if_splits option.splits sum.splits)

termination consume_to_eof
  by (relation "measure (\<lambda>(now, content, pos, d). length content - pos)")
     (auto, drule consume_line_advances, arith)

declare consume_to_eof.simps [simp del]

text \<open>At the end of the file: \<open>True\<close> if the file is still the one being read.\<close>

definition eof_keeps_reading :: "string option \<Rightarrow> nat \<Rightarrow> bool" where
  "eof_keeps_reading at_path pos = (case at_path of None \<Rightarrow> False | Some s \<Rightarrow> pos \<le> length s)"

section \<open>Lines, and the rows they should become\<close>

function file_lines :: "string \<Rightarrow> string list" where
  "file_lines s = (if s = [] then [] else read_line s # file_lines (drop (length (read_line s)) s))"
  by pat_completeness auto

termination file_lines
  by (relation "measure length") (auto simp: read_line_pos)

declare file_lines.simps [simp del]

definition whole_lines :: "string \<Rightarrow> bool" where
  "whole_lines s \<longleftrightarrow> s = [] \<or> last s = nl"

text \<open>The part of a row that its line determines: not the id, the clock's time, the device.\<close>

definition row_core :: "accounting_row \<Rightarrow> accounting_row" where
  "row_core r = r\<lparr>ar_id := 0, ar_ts := 0, ar_device_id := None\<rparr>"

definition line_core :: "string \<Rightarrow> accounting_row option" where
  "line_core l = map_option (\<lambda>rc. row_core (accounting_row_of 0 None rc)) (parse_record 0 l)"

definition expected_rows :: "string \<Rightarrow> accounting_row list" where
  "expected_rows s = List.map_filter line_core (file_lines s)"

definition stored_core :: "db \<Rightarrow> accounting_row list" where
  "stored_core d = map row_core (accounting_records d)"

lemma parse_record_clock:
  "parse_record now l = None \<longleftrightarrow> parse_record 0 l = None"
  "parse_record now l = Some rc \<Longrightarrow> line_core l = Some (row_core (accounting_row_of i dev rc))"
  by (auto simp: parse_record_def line_core_def row_core_def accounting_row_of_def Let_def
      split: if_splits)

lemma line_core_None: "parse_record now l = None \<Longrightarrow> line_core l = None"
  using parse_record_clock(1) [of now l] by (simp add: line_core_def)

lemma row_fits_core: "row_fits (accounting_row_of i dev rc) \<longleftrightarrow> row_fits (row_core (accounting_row_of i' dev' rc))"
  by (simp add: row_fits_def row_core_def accounting_row_of_def Let_def)

lemma file_lines_Nil [simp]: "file_lines [] = []"
  by (simp add: file_lines.simps)

lemma read_line_append:
  "s \<noteq> [] \<Longrightarrow> whole_lines s \<Longrightarrow> read_line (s @ t) = read_line s"
  by (induction s) (auto simp: read_line_def whole_lines_def split: if_splits)

lemma read_line_take: "read_line s = take (length (read_line s)) s"
  by (induction s) (auto simp: read_line_def)

lemma length_read_line: "length (read_line s) \<le> length s"
  by (metis length_take min.cobounded1 read_line_take)

lemma whole_lines_read_line: "whole_lines s \<Longrightarrow> whole_lines (read_line s)"
  by (induction s) (auto simp: read_line_def whole_lines_def split: if_splits)

lemma read_line_nl: "nl \<notin> set l \<Longrightarrow> read_line (l @ nl # s) = l @ [nl]"
  by (induction l) (auto simp: read_line_def)

lemma read_line_torn: "nl \<notin> set l \<Longrightarrow> read_line l = l"
  by (induction l) (auto simp: read_line_def)

lemma whole_lines_drop: "whole_lines s \<Longrightarrow> whole_lines (drop n s)"
  by (cases "n < length s") (auto simp: whole_lines_def last_drop)

lemma whole_lines_append: "whole_lines s \<Longrightarrow> whole_lines t \<Longrightarrow> whole_lines (s @ t)"
  by (auto simp: whole_lines_def last_append)

lemma file_lines_append: "whole_lines s \<Longrightarrow> file_lines (s @ t) = file_lines s @ file_lines t"
proof (induction s rule: file_lines.induct)
  case (1 s)
  show ?case
  proof (cases "s = []")
    case False
    with 1 have "file_lines (drop (length (read_line s)) s @ t) =
        file_lines (drop (length (read_line s)) s) @ file_lines t"
      by (simp add: whole_lines_drop)
    with False 1(2) show ?thesis
      by (subst file_lines.simps, subst (2) file_lines.simps)
         (simp add: read_line_append length_read_line)
  qed simp
qed

lemma expected_append: "whole_lines s \<Longrightarrow> expected_rows (s @ t) = expected_rows s @ expected_rows t"
  by (simp add: expected_rows_def file_lines_append List.map_filter_def)

lemma expected_line: "expected_rows (read_line s) = (case line_core (read_line s) of None \<Rightarrow> [] | Some r \<Rightarrow> [r])"
proof (cases "s = []")
  case True
  then show ?thesis
    by (simp add: expected_rows_def line_core_def parse_record_def py_rstrip_def read_line_def
        List.map_filter_def)
next
  case False
  have "read_line (read_line s) = read_line s"
    by (induction s) (auto simp: read_line_def)
  with False show ?thesis
    by (auto simp: expected_rows_def List.map_filter_def file_lines.simps [of "read_line s"]
        split: option.split)
qed

lemma take_line: "take (pos + length (read_line (drop pos s))) s = take pos s @ read_line (drop pos s)"
  by (metis read_line_take take_add)

section \<open>One line\<close>

lemma load_save_offset [simp]: "load_offset (save_offset (int n) d) = Inr (int n)"
  by (simp add: load_offset_def save_offset_def settings.rd_wr int_to_str_def)

lemma load_saved: "load_offset (save_offset (int m + int n) d) = Inr (int m + int n)"
  using load_save_offset [of "m + n" d] by simp

lemma stored_core_save [simp]: "stored_core (save_offset n d) = stored_core d"
  by (simp add: stored_core_def save_offset_def)

lemma persist_one_core:
  "persist_one rc d = Inr d' \<Longrightarrow> stored_core d' = stored_core d @ [row_core (accounting_row_of 0 None rc)]"
  by (auto simp: persist_one_def stored_core_def Let_def row_core_def accounting_row_of_def split: if_splits)

lemma consume_line_effect:
  assumes "consume_line now content pos d = Some (Inr (d', pos'))"
  shows "stored_core d' = stored_core d @ expected_rows (read_line (drop pos content))"
    "load_offset d' = Inr (int pos') \<or> (d' = d \<and> expected_rows (read_line (drop pos content)) = [])"
proof -
  let ?l = "read_line (drop pos content)"
  show "stored_core d' = stored_core d @ expected_rows ?l"
  proof (cases "parse_record now ?l")
    case None
    with assms show ?thesis
      by (auto simp: consume_line_def Let_def expected_line line_core_None split: if_splits)
  next
    case (Some rc)
    with assms show ?thesis
      using parse_record_clock(2) [OF Some, of 0 None]
      by (auto simp: consume_line_def Let_def expected_line persist_one_core
          split: if_splits sum.splits)
  qed
  show "load_offset d' = Inr (int pos') \<or> (d' = d \<and> expected_rows ?l = [])"
    using assms
    by (auto simp: consume_line_def Let_def expected_line line_core_None load_saved
        split: if_splits sum.splits option.splits)
qed

section \<open>The ingestor as a state machine\<close>

text \<open>
  \<open>lw_path\<close> is the file the log path names, \<open>lw_handle\<close> the open file with the position in it.
  The steps of the ingestor: open the log (\<open>_consume_file\<close> up to the loop), read a line, fail on
  a line, find the file rotated or gone at its end, die and start again. \<open>log_append\<close> is the
  daemon's step.
\<close>

record log_world =
  lw_files :: "nat \<Rightarrow> string"
  lw_path :: "nat option"
  lw_handle :: "(nat \<times> nat) option"
  lw_db :: db

inductive ingest_step :: "log_world \<Rightarrow> log_world \<Rightarrow> bool" where
  opened: "lw_handle w = None \<Longrightarrow> lw_path w = Some i \<Longrightarrow>
    consume_start (lw_files w i) (lw_db w) = Inr (d', pos) \<Longrightarrow>
    ingest_step w (w\<lparr>lw_handle := Some (i, pos), lw_db := d'\<rparr>)"
| line_read: "lw_handle w = Some (i, pos) \<Longrightarrow>
    consume_line now (lw_files w i) pos (lw_db w) = Some (Inr (d', pos')) \<Longrightarrow>
    ingest_step w (w\<lparr>lw_handle := Some (i, pos'), lw_db := d'\<rparr>)"
| line_failed: "lw_handle w = Some (i, pos) \<Longrightarrow>
    consume_line now (lw_files w i) pos (lw_db w) = Some (Inl e) \<Longrightarrow>
    ingest_step w (w\<lparr>lw_handle := None\<rparr>)"
| at_eof: "lw_handle w = Some (i, pos) \<Longrightarrow> consume_line now (lw_files w i) pos (lw_db w) = None \<Longrightarrow>
    \<not> eof_keeps_reading (map_option (lw_files w) (lw_path w)) pos \<Longrightarrow>
    ingest_step w (w\<lparr>lw_handle := None\<rparr>)"
| restarted: "ingest_step w (w\<lparr>lw_handle := None\<rparr>)"

inductive_cases ingest_stepE: "ingest_step w w'"

definition log_append :: "string \<Rightarrow> log_world \<Rightarrow> log_world" where
  "log_append s w =
     (case lw_path w of None \<Rightarrow> w | Some i \<Rightarrow> w\<lparr>lw_files := (lw_files w)(i := lw_files w i @ s)\<rparr>)"

text \<open>The runs in which the log grows by whole lines and is not rotated.\<close>

inductive tail_reachable :: "nat \<Rightarrow> log_world \<Rightarrow> bool" for i :: nat where
  start: "whole_lines (lw_files w i) \<Longrightarrow> lw_path w = Some i \<Longrightarrow> lw_handle w = None \<Longrightarrow>
    load_offset (lw_db w) = Inr 0 \<Longrightarrow> accounting_records (lw_db w) = [] \<Longrightarrow> tail_reachable i w"
| ingest: "tail_reachable i w \<Longrightarrow> ingest_step w w' \<Longrightarrow> tail_reachable i w'"
| append: "tail_reachable i w \<Longrightarrow> whole_lines s \<Longrightarrow> tail_reachable i (log_append s w)"

text \<open>
  The invariant: the stored offset is a line boundary, the rows are those of the lines before
  it, and the lines between it and the position of the open handle yield no rows.
\<close>

definition at_boundary :: "string \<Rightarrow> nat \<Rightarrow> bool" where
  "at_boundary s n \<longleftrightarrow> n \<le> length s \<and> whole_lines (take n s)"

definition tail_inv :: "nat \<Rightarrow> log_world \<Rightarrow> bool" where
  "tail_inv i w \<longleftrightarrow>
     lw_path w = Some i \<and> whole_lines (lw_files w i) \<and>
     (\<exists>off. load_offset (lw_db w) = Inr (int off) \<and> at_boundary (lw_files w i) off \<and>
        stored_core (lw_db w) = expected_rows (take off (lw_files w i)) \<and>
        (case lw_handle w of
           None \<Rightarrow> True
         | Some (j, pos) \<Rightarrow> j = i \<and> at_boundary (lw_files w i) pos \<and>
             stored_core (lw_db w) = expected_rows (take pos (lw_files w i))))"

lemma tail_invE:
  assumes "tail_inv i w"
  obtains off where "lw_path w = Some i" "whole_lines (lw_files w i)"
    "load_offset (lw_db w) = Inr (int off)" "at_boundary (lw_files w i) off"
    "stored_core (lw_db w) = expected_rows (take off (lw_files w i))"
    "\<And>j pos. lw_handle w = Some (j, pos) \<Longrightarrow> j = i \<and> at_boundary (lw_files w i) pos \<and>
       stored_core (lw_db w) = expected_rows (take pos (lw_files w i))"
proof -
  from assms obtain off where *: "lw_path w = Some i" "whole_lines (lw_files w i)"
    "load_offset (lw_db w) = Inr (int off)" "at_boundary (lw_files w i) off"
    "stored_core (lw_db w) = expected_rows (take off (lw_files w i))"
    "case lw_handle w of None \<Rightarrow> True
       | Some (j, pos) \<Rightarrow> j = i \<and> at_boundary (lw_files w i) pos \<and>
           stored_core (lw_db w) = expected_rows (take pos (lw_files w i))"
    unfolding tail_inv_def by blast
  show thesis
  proof (rule that [OF *(1-5)])
    fix j pos
    assume "lw_handle w = Some (j, pos)"
    with *(6) show "j = i \<and> at_boundary (lw_files w i) pos \<and>
       stored_core (lw_db w) = expected_rows (take pos (lw_files w i))" by simp
  qed
qed

lemma tail_inv_closed: "tail_inv i w \<Longrightarrow> tail_inv i (w\<lparr>lw_handle := None\<rparr>)"
  by (auto simp: tail_inv_def)

lemma boundary_append: "at_boundary s n \<Longrightarrow> at_boundary (s @ t) n"
  by (simp add: at_boundary_def)

lemma boundary_line:
  "at_boundary s n \<Longrightarrow> whole_lines s \<Longrightarrow> at_boundary s (n + length (read_line (drop n s)))"
  unfolding at_boundary_def take_line
  using length_read_line [of "drop n s"]
  by (auto simp: whole_lines_append whole_lines_read_line whole_lines_drop)

lemma consume_start_eq:
  "load_offset d = Inr (int off) \<Longrightarrow> off \<le> length s \<Longrightarrow> consume_start s d = Inr (d, off)"
  by (simp add: consume_start_def)

lemma tail_inv_step:
  assumes "ingest_step w w'" and "tail_inv i w"
  shows "tail_inv i w'"
  using assms(2)
proof (rule tail_invE)
  fix off
  assume inv: "lw_path w = Some i" "whole_lines (lw_files w i)"
    "load_offset (lw_db w) = Inr (int off)" "at_boundary (lw_files w i) off"
    "stored_core (lw_db w) = expected_rows (take off (lw_files w i))"
    and handle: "\<And>j pos. lw_handle w = Some (j, pos) \<Longrightarrow> j = i \<and> at_boundary (lw_files w i) pos \<and>
       stored_core (lw_db w) = expected_rows (take pos (lw_files w i))"
  show ?thesis
    using assms(1)
  proof (cases rule: ingest_step.cases)
    case (opened j d' pos)
    with inv have "j = i" "d' = lw_db w" "pos = off"
      using consume_start_eq [OF inv(3), of "lw_files w i"] by (auto simp: at_boundary_def)
    with opened inv show ?thesis by (simp add: tail_inv_def)
  next
    case (line_read j pos now d' pos')
    from handle [OF line_read(2)] have j: "j = i" "at_boundary (lw_files w i) pos"
      "stored_core (lw_db w) = expected_rows (take pos (lw_files w i))" by simp_all
    let ?l = "read_line (drop pos (lw_files w i))"
    from line_read(3) j(1) have pos': "pos' = pos + length ?l"
      by (auto dest: consume_line_advances)
    note eff = consume_line_effect [OF line_read(3) [unfolded j(1)]]
    have "expected_rows (take pos' (lw_files w i)) = expected_rows (take pos (lw_files w i)) @ expected_rows ?l"
      using j(2) by (simp add: pos' take_line expected_append at_boundary_def del: take_add)
    with eff(1) j(3) have core: "stored_core d' = expected_rows (take pos' (lw_files w i))" by simp
    from boundary_line [OF j(2) inv(2)] pos' have b: "at_boundary (lw_files w i) pos'" by simp
    from eff(2) show ?thesis
    proof
      assume "load_offset d' = Inr (int pos')"
      with line_read(1) j inv core b show ?thesis unfolding tail_inv_def
        by (intro conjI exI [of _ pos']) simp_all
    next
      assume "d' = lw_db w \<and> expected_rows ?l = []"
      with line_read(1) j inv core b show ?thesis unfolding tail_inv_def
        by (intro conjI exI [of _ off]) simp_all
    qed
  qed (use assms(2) in \<open>simp_all add: tail_inv_closed\<close>)
qed

lemma tail_inv_append: "tail_inv i w \<Longrightarrow> whole_lines s \<Longrightarrow> tail_inv i (log_append s w)"
proof (erule tail_invE)
  fix off
  assume *: "whole_lines s" "lw_path w = Some i" "whole_lines (lw_files w i)"
    "load_offset (lw_db w) = Inr (int off)" "at_boundary (lw_files w i) off"
    "stored_core (lw_db w) = expected_rows (take off (lw_files w i))"
    "\<And>j pos. lw_handle w = Some (j, pos) \<Longrightarrow> j = i \<and> at_boundary (lw_files w i) pos \<and>
       stored_core (lw_db w) = expected_rows (take pos (lw_files w i))"
  show "tail_inv i (log_append s w)" unfolding tail_inv_def
    using * by (auto simp: log_append_def whole_lines_append boundary_append at_boundary_def
        intro!: exI [of _ off] split: option.split)
qed

lemma tail_reachable_inv: "tail_reachable i w \<Longrightarrow> tail_inv i w"
proof (induction rule: tail_reachable.induct)
  case (start w)
  then show ?case
    by (auto simp: tail_inv_def at_boundary_def stored_core_def expected_rows_def whole_lines_def
        List.map_filter_def intro!: exI [of _ 0])
next
  case (ingest w w')
  then show ?case by (blast intro: tail_inv_step)
next
  case (append w s)
  then show ?case by (simp add: tail_inv_append)
qed

section \<open>Catching up\<close>

definition line_fits :: "string \<Rightarrow> bool" where
  "line_fits l = (case line_core l of None \<Rightarrow> True | Some r \<Rightarrow> row_fits r)"

lemma persist_one_fits:
  "parse_record now l = Some rc \<Longrightarrow> line_fits l \<longleftrightarrow> (\<exists>d'. persist_one rc d = Inr d')"
  "parse_record now l = Some rc \<Longrightarrow> \<not> line_fits l \<Longrightarrow> persist_one rc d = Inl ''DataError''"
  using parse_record_clock(2) [of now l rc 0 None]
  by (simp_all add: line_fits_def persist_one_def Let_def
      row_fits_core [of "seqs d T_accounting_record" "resolve_device_id (pr_nas_ip rc) d" rc 0 None])

lemma consume_line_fits:
  assumes "line_fits (read_line (drop pos content))"
  shows "consume_line now content pos d = None \<and> length content \<le> pos \<or>
    (\<exists>d'. consume_line now content pos d = Some (Inr (d', pos + length (read_line (drop pos content)))))"
proof (cases "length content \<le> pos")
  case True
  then show ?thesis by (simp add: consume_line_def)
next
  case False
  then show ?thesis
    using assms persist_one_fits(1) [of now "read_line (drop pos content)" _ d]
    by (cases "parse_record now (read_line (drop pos content))") (auto simp: consume_line_def Let_def)
qed

lemma consume_line_unfit:
  assumes "\<not> line_fits (read_line (drop pos content))"
  shows "consume_line now content pos d = Some (Inl ''DataError'')"
proof (cases "parse_record now (read_line (drop pos content))")
  case None
  then show ?thesis using assms by (simp add: line_fits_def line_core_None)
next
  case (Some rc)
  from assms have "drop pos content \<noteq> []"
    by (auto simp: line_fits_def line_core_def parse_record_def py_rstrip_def read_line_def)
  then show ?thesis using Some persist_one_fits(2) [OF Some assms]
    by (simp add: consume_line_def Let_def del: drop_eq_Nil drop_eq_Nil2)
qed

lemma file_lines_at:
  assumes "at_boundary s n" and "n < length s"
  shows "read_line (drop n s) \<in> set (file_lines s)"
proof -
  from assms(1) have "file_lines s = file_lines (take n s) @ file_lines (drop n s)"
    using file_lines_append [of "take n s" "drop n s"] by (simp add: at_boundary_def)
  moreover have "drop n s \<noteq> []" using assms(2) by simp
  ultimately show ?thesis by (simp add: file_lines.simps [of "drop n s"])
qed

lemma consume_to_eof_all:
  "whole_lines content \<Longrightarrow> at_boundary content pos \<Longrightarrow> stored_core d = expected_rows (take pos content) \<Longrightarrow>
   list_all line_fits (file_lines content) \<Longrightarrow>
   \<exists>d'. consume_to_eof now content pos d = (d', Inr (length content)) \<and> stored_core d' = expected_rows content"
proof (induction now content pos d rule: consume_to_eof.induct)
  case (1 now content pos d)
  let ?l = "read_line (drop pos content)"
  show ?case
  proof (cases "pos < length content")
    case False
    then have "consume_to_eof now content pos d = (d, Inr pos)"
      by (subst consume_to_eof.simps) (simp add: consume_line_def)
    with False 1(3,4) show ?thesis by (simp add: at_boundary_def)
  next
    case True
    have "line_fits ?l" using file_lines_at [OF 1(3) True] 1(5) by (simp add: list_all_iff)
    from consume_line_fits [OF this] True obtain d' where
      d': "consume_line now content pos d = Some (Inr (d', pos + length ?l))"
      by (metis not_le)
    have "expected_rows (take (pos + length ?l) content) = expected_rows (take pos content) @ expected_rows ?l"
      using 1(3) by (simp add: take_line expected_append at_boundary_def del: take_add)
    with consume_line_effect(1) [OF d'] 1(4)
    have "stored_core d' = expected_rows (take (pos + length ?l) content)" by simp
    from 1(1) [OF d' refl refl 1(2) boundary_line [OF 1(3,2)] this 1(5)] d' show ?thesis
      by (simp add: consume_to_eof.simps [of now content pos])
  qed
qed

section \<open>Properties\<close>

text \<open>
  C15: While the log grows by whole lines, the rows stored at any moment are exactly those of the
  lines before the stored offset, each once and in order, however the ingestor is interrupted.
\<close>

theorem lines_ingested_exactly_once:
  assumes "tail_reachable i w"
  shows "\<exists>off. load_offset (lw_db w) = Inr (int off) \<and> off \<le> length (lw_files w i) \<and>
    map row_core (accounting_records (lw_db w)) = expected_rows (take off (lw_files w i))"
  using tail_reachable_inv [OF assms] by (elim tail_invE) (auto simp: at_boundary_def stored_core_def)

text \<open>
  C32: From every such state, if all lines fit the columns, reopening the log and reading to its
  end ends, and leaves the rows of the whole file.
\<close>

theorem catching_up_ingests_everything:
  assumes "tail_reachable i w" and "list_all line_fits (file_lines (lw_files w i))"
  shows "\<exists>off d'. consume_start (lw_files w i) (lw_db w) = Inr (lw_db w, off) \<and>
    consume_to_eof now (lw_files w i) off (lw_db w) = (d', Inr (length (lw_files w i))) \<and>
    map row_core (accounting_records d') = expected_rows (lw_files w i)"
proof (rule tail_invE [OF tail_reachable_inv [OF assms(1)]])
  fix off
  assume inv: "whole_lines (lw_files w i)" "load_offset (lw_db w) = Inr (int off)"
    "at_boundary (lw_files w i) off" "stored_core (lw_db w) = expected_rows (take off (lw_files w i))"
  from consume_start_eq [OF inv(2), of "lw_files w i"] consume_to_eof_all [OF inv(1,3,4) assms(2), of now]
    inv(3) show ?thesis by (auto simp: at_boundary_def stored_core_def)
qed

text \<open>
  A line whose row does not fit its columns stops the ingestor for good: every attempt ends
  in the same error with nothing stored, whatever the daemon has written after it.
\<close>

theorem unfit_line_blocks_the_log:
  assumes "load_offset d = Inr (int off)" and "off \<le> length content"
    and "drop off content = line @ [nl] @ later" and "nl \<notin> set line" and "\<not> line_fits (line @ [nl])"
  shows "consume_start content d = Inr (d, off) \<and> consume_to_eof now content off d = (d, Inl ''DataError'')"
proof -
  have "read_line (drop off content) = line @ [nl]"
    using assms(3,4) by (simp add: read_line_nl)
  with consume_line_unfit [of off content now d] assms(5) consume_start_eq [OF assms(1,2)] show ?thesis
    by (simp add: consume_to_eof.simps [of now content off])
qed

text \<open>
  A line the daemon has only half written is taken for a record, and the offset moves into
  the middle of it.
\<close>

theorem torn_line_is_ingested:
  assumes "drop pos content = torn" and "nl \<notin> set torn" and "parse_record now torn = Some rc"
    and "persist_one rc d = Inr d'"
  shows "consume_line now content pos d = Some (Inr (save_offset (int (length content)) d', length content))"
proof -
  from assms(2) have "read_line torn = torn" by (rule read_line_torn)
  moreover from assms(3) have "torn \<noteq> []" by (auto simp: parse_record_def py_rstrip_def)
  moreover from this assms(1) have "pos + length torn = length content" by auto
  ultimately show ?thesis using assms
    by (simp add: consume_line_def Let_def flip: of_nat_add)
qed

definition ex_fields :: "string \<Rightarrow> string" where
  "ex_fields action = py_join [tab] ['''', '''', ''jan'', '''', '''', ''7'', action, '''']"

definition ex_log_db :: db where
  "ex_log_db = save_offset 0 empty_db"

definition ex_world :: log_world where
  "ex_world = \<lparr>lw_files = (\<lambda>_. ex_fields ''start'' @ [nl]), lw_path = Some 1, lw_handle = None, lw_db = ex_log_db\<rparr>"

definition ex_parsed :: "string \<Rightarrow> parsed_record" where
  "ex_parsed action = \<lparr>pr_ts = 0, pr_nas_ip = None, pr_username = Some ''jan'', pr_port = None, pr_nac_ip = None,
     pr_task_id = Some ''7'', pr_action = action, pr_av_pairs = []\<rparr>"

lemma ex_parse:
  "parse_record 0 (ex_fields ''start'' @ [nl]) = Some (ex_parsed ''start'')"
  "parse_record 0 (ex_fields ''start'') = Some (ex_parsed ''start'')"
  "parse_record 0 (ex_fields ''an-overlong-action'' @ [nl]) = Some (ex_parsed ''an-overlong-action'')"
  by (simp_all add: parse_record_def ex_parsed_def ex_fields_def py_rstrip_def nl_def cr_def tab_def
      FIELD_COUNT_MIN_def parse_ts_def py_strip_def parse_args_def)

lemma ex_no_nl: "nl \<notin> set (ex_fields ''start'')" "nl \<notin> set (ex_fields ''an-overlong-action'')"
  by (simp_all add: ex_fields_def nl_def tab_def)

lemma ex_file_lines: "file_lines (ex_fields ''start'' @ [nl]) = [ex_fields ''start'' @ [nl]]"
  using read_line_nl [OF ex_no_nl(1), of "[]"] by (simp add: file_lines.simps)

lemma ex_fits: "line_fits (ex_fields ''start'' @ [nl])" "\<not> line_fits (ex_fields ''an-overlong-action'' @ [nl])"
  by (simp_all add: line_fits_def line_core_def ex_parse row_fits_def row_core_def accounting_row_of_def
      ex_parsed_def text_fits_def int_fits_def int_arg_def)

lemma ex_offset: "load_offset ex_log_db = Inr 0" "accounting_records ex_log_db = []"
  using load_save_offset [of 0 empty_db] by (simp_all add: ex_log_db_def save_offset_def, simp add: empty_db_def)

lemma ex_reachable: "tail_reachable 1 ex_world"
  by (rule tail_reachable.start) (simp_all add: ex_world_def ex_offset whole_lines_def)

theorem catching_up_ingests_everything_witness:
  "\<exists>off d'. consume_to_eof 0 (ex_fields ''start'' @ [nl]) off ex_log_db =
       (d', Inr (length (ex_fields ''start'' @ [nl]))) \<and>
     map row_core (accounting_records d') = [row_core (accounting_row_of 0 None (ex_parsed ''start''))]"
proof -
  have "expected_rows (ex_fields ''start'' @ [nl]) = [row_core (accounting_row_of 0 None (ex_parsed ''start''))]"
    by (simp add: ex_file_lines expected_rows_def List.map_filter_def line_core_def ex_parse)
  moreover have "lw_files ex_world 1 = ex_fields ''start'' @ [nl]" "lw_db ex_world = ex_log_db"
    by (simp_all add: ex_world_def)
  moreover have "list_all line_fits (file_lines (ex_fields ''start'' @ [nl]))"
    by (simp add: ex_file_lines ex_fits)
  ultimately show ?thesis using catching_up_ingests_everything [OF ex_reachable, of 0] by metis
qed

theorem unfit_line_blocks_the_log_witness:
  "consume_to_eof 0 ((ex_fields ''an-overlong-action'' @ [nl]) @ ex_fields ''start'' @ [nl]) 0 ex_log_db =
     (ex_log_db, Inl ''DataError'')"
  using unfit_line_blocks_the_log [of ex_log_db 0 "(ex_fields ''an-overlong-action'' @ [nl]) @ ex_fields ''start'' @ [nl]"
      "ex_fields ''an-overlong-action''" "ex_fields ''start'' @ [nl]" 0] ex_fits(2) ex_no_nl(2)
    load_save_offset [of 0 empty_db]
  by (simp add: ex_log_db_def)

theorem lines_ingested_exactly_once_witness:
  "map row_core (accounting_records (lw_db (log_append (ex_fields ''start'' @ [nl]) ex_world))) = expected_rows []"
proof -
  have "tail_reachable 1 (log_append (ex_fields ''start'' @ [nl]) ex_world)"
    using ex_reachable by (rule tail_reachable.append) (simp add: whole_lines_def)
  from lines_ingested_exactly_once [OF this] show ?thesis
    using load_save_offset [of 0 empty_db] by (auto simp: log_append_def ex_world_def ex_log_db_def)
qed

theorem torn_line_is_ingested_witness:
  "\<exists>d'. consume_line 0 (ex_fields ''start'') 0 ex_log_db = Some (Inr (d', length (ex_fields ''start'')))"
proof -
  have "persist_one (ex_parsed ''start'') ex_log_db = Inr (projr (persist_one (ex_parsed ''start'') ex_log_db))"
    using persist_one_fits(1) [OF ex_parse(2), of ex_log_db] ex_fits(1)
    by (auto simp: line_fits_def line_core_def ex_parse)
  from torn_line_is_ingested [OF _ ex_no_nl(1) ex_parse(2) this, of 0] show ?thesis by auto
qed

section \<open>A written line is read back\<close>

definition av_item_ok :: "string \<times> string \<Rightarrow> bool" where
  "av_item_ok i \<longleftrightarrow> fst i \<noteq> [] \<and> list_all av_key_char (fst i) \<and> nl \<notin> set (snd i) \<and> tab \<notin> set (snd i)"

definition av_text :: "(string \<times> string) list \<Rightarrow> string" where
  "av_text items = py_join '' '' (map (\<lambda>(k, v). (k @ ''='') @ dq v) items)"

lemma key_char_props: "av_key_char c \<Longrightarrow> plain_char c \<and> c \<noteq> CHR ''='' \<and> \<not> py_isspace_char c \<and> c \<noteq> tab"
  by (auto simp: av_key_char_def plain_char_def shlex_space_def shlex_quote_def py_isspace_char_def
      is_ascii_digit_def char_consts)

lemma plain_word: "list_all av_key_char k \<Longrightarrow> list_all plain_char k"
  by (auto simp: list_all_iff dest: key_char_props)

lemma equals_plain: "plain_char (CHR ''='')"
  by (simp add: plain_char_def shlex_space_def shlex_quote_def char_consts)

lemma key_not_tab: "list_all av_key_char k \<Longrightarrow> tab \<notin> set k"
  by (auto simp: list_all_iff dest: key_char_props)

lemma av_token_item:
  "av_item_ok (k, v) \<Longrightarrow> av_token ((k @ ''='') @ v) = Some (k, v)"
proof -
  assume ok: "av_item_ok (k, v)"
  have "\<not> av_key_char (CHR ''='')" using key_char_props by blast
  with ok have "takeWhile av_key_char ((k @ ''='') @ v) = k"
    by (simp add: av_item_ok_def list_all_iff takeWhile_append2)
  moreover from ok have "takeWhile (\<lambda>x. x \<noteq> nl) v = v"
    by (induction v) (auto simp: av_item_ok_def)
  ultimately show ?thesis using ok by (simp add: av_token_def av_item_ok_def Let_def del: takeWhile_eq_all_conv)
qed

lemma collect_avs_items:
  "list_all av_item_ok items \<Longrightarrow> distinct (map fst (out @ items)) \<Longrightarrow>
   collect_avs (map (\<lambda>(k, v). (k @ ''='') @ v) items) out = out @ items"
proof (induction items arbitrary: out)
  case (Cons i items)
  obtain k v where i: "i = (k, v)" by (cases i)
  with Cons.prems have "AList.update k v out = out @ [(k, v)]"
    by (induction out) auto
  with Cons i show ?case by (simp add: av_token_item del: append_assoc)
qed simp

lemma dq_no_tab: "tab \<notin> set v \<Longrightarrow> tab \<notin> set (dq v)"
  by (auto simp: dq_def dq_char_def char_consts split: if_splits)

lemma av_text_no_tab: "list_all av_item_ok items \<Longrightarrow> tab \<notin> set (av_text items)"
proof (induction items)
  case (Cons i items)
  obtain k v where i: "i = (k, v)" by (cases i)
  with Cons.prems have "tab \<notin> set ((k @ ''='') @ dq v)"
    using key_not_tab [of k] dq_no_tab [of v] by (simp add: av_item_ok_def tab_def)
  with Cons i show ?case by (cases "items = []") (simp_all add: av_text_def py_join_Cons tab_def)
qed (simp add: av_text_def)

lemma av_text_ends:
  assumes "items \<noteq> []" and "list_all av_item_ok items"
  shows "av_text items \<noteq> [] \<and> \<not> py_isspace_char (hd (av_text items)) \<and> last (av_text items) = dquote"
  using assms
proof (induction items)
  case (Cons i items)
  obtain k v where i: "i = (k, v)" by (cases i)
  with Cons.prems have k: "k \<noteq> []" "\<not> py_isspace_char (hd k)"
    by (cases k; simp add: av_item_ok_def key_char_props)+
  show ?case
  proof (cases "items = []")
    case True
    then show ?thesis using i k by (simp add: av_text_def dq_def)
  next
    case False
    with Cons have "av_text items \<noteq> []" "last (av_text items) = dquote" by simp_all
    with False i k show ?thesis by (simp add: av_text_def py_join_Cons)
  qed
qed simp

lemma py_rstrip_clean: "s \<noteq> [] \<Longrightarrow> last s \<noteq> a \<Longrightarrow> py_rstrip a s = s"
  by (cases s rule: rev_cases) (simp_all add: py_rstrip_def)

lemma py_strip_trimmed:
  "s \<noteq> [] \<Longrightarrow> \<not> py_isspace_char (hd s) \<Longrightarrow> \<not> py_isspace_char (last s) \<Longrightarrow> py_strip s = s"
proof -
  assume s: "s \<noteq> []" "\<not> py_isspace_char (hd s)" "\<not> py_isspace_char (last s)"
  then have "dropWhile py_isspace_char s = s" by (cases s) auto
  moreover from s have "dropWhile py_isspace_char (rev s) = rev s"
    by (cases "rev s") (auto simp: hd_rev [symmetric])
  ultimately show ?thesis by (simp add: py_strip_def)
qed

lemma parse_args_av_text:
  assumes "list_all av_item_ok items" and "distinct (map fst items)"
  shows "parse_args (av_text items) = items"
proof (cases "items = []")
  case True
  then show ?thesis by (simp add: av_text_def parse_args_def)
next
  case False
  note ends = av_text_ends [OF False assms(1)]
  from ends have "py_strip (py_replace tab '' '' (av_text items)) = av_text items"
    using av_text_no_tab [OF assms(1)] by (simp add: py_strip_trimmed py_isspace_char_def dquote_def)
  moreover have "shlex_split (av_text items) = Some (map (\<lambda>(k, v). (k @ ''='') @ v) items)"
  proof -
    have "list_all (\<lambda>(w, v). w \<noteq> [] \<and> list_all plain_char w) (map (\<lambda>(k, v). (k @ ''='', v)) items)"
      using assms(1) by (induction items) (auto simp: av_item_ok_def equals_plain plain_word)
    from shlex_split_items [OF this] show ?thesis
      by (simp add: av_text_def case_prod_beta' comp_def)
  qed
  ultimately show ?thesis using ends collect_avs_items [of items "[]"] assms
    by (simp add: parse_args_def Let_def)
qed

definition clean_field :: "string \<Rightarrow> bool" where
  "clean_field s \<longleftrightarrow> tab \<notin> set s"

definition written_line :: "string list \<Rightarrow> (string \<times> string) list \<Rightarrow> string" where
  "written_line parts items = py_join [tab] (parts @ [av_text items]) @ [nl]"

text \<open>
  C34: A line written with seven fields free of tabs and with attributes in shell quotes is read
  back: every field in its place, and every attribute with its value, whatever quotes,
  backslashes and spaces the values contain.
\<close>

theorem written_line_reads_back:
  assumes "list_all clean_field [ts, nas, user, port, nac, task, action]"
    and "list_all av_item_ok items" and "distinct (map fst items)"
  shows "parse_record now (written_line [ts, nas, user, port, nac, task, action] items) =
    Some \<lparr>pr_ts = parse_ts now ts, pr_nas_ip = none_if_empty nas, pr_username = none_if_empty user,
      pr_port = none_if_empty port, pr_nac_ip = none_if_empty nac, pr_task_id = none_if_empty task,
      pr_action = (if action = [] then ''unknown'' else action), pr_av_pairs = items\<rparr>"
proof -
  let ?parts = "[ts, nas, user, port, nac, task, action, av_text items]"
  let ?line = "py_join [tab] ?parts"
  have last: "?line \<noteq> [] \<and> last ?line \<noteq> nl \<and> last ?line \<noteq> cr"
    using av_text_ends [OF _ assms(2)]
    by (cases "items = []") (simp_all add: av_text_def char_consts)
  have strip: "py_rstrip a ?line = ?line" if "last ?line \<noteq> a" for a
    using that last py_rstrip_clean by blast
  have strip_nl: "py_rstrip nl (?line @ [nl]) = py_rstrip nl ?line"
    by (simp add: py_rstrip_def)
  have split: "py_split tab ?line = ?parts"
    by (rule py_split_join) (use assms(1) av_text_no_tab [OF assms(2)] in \<open>simp_all add: clean_field_def\<close>)
  show ?thesis
    unfolding parse_record_def written_line_def Let_def append.simps strip_nl
    using last strip [of nl] strip [of cr] split parse_args_av_text [OF assms(2,3)]
    by (simp add: FIELD_COUNT_MIN_def del: py_join.simps)
qed

theorem written_line_reads_back_witness:
  "pr_av_pairs (the (parse_record 0 (written_line [''1716224400'', ''10.0.0.1'', ''jan'', ''vty0'', '''', ''7'', ''stop'']
     [(''cmd'', ''show log'')]))) = [(''cmd'', ''show log'')]"
proof -
  have "list_all clean_field [''1716224400'', ''10.0.0.1'', ''jan'', ''vty0'', '''', ''7'', ''stop'']"
    by (simp add: clean_field_def tab_def)
  moreover have "list_all av_item_ok [(''cmd'', ''show log'')]"
    by (simp add: av_item_ok_def av_key_char_def tab_def nl_def)
  ultimately show ?thesis using written_line_reads_back by simp
qed

text \<open>
  A rotated log is noticed only by its length. If the new file is at least as long as the position
  reached in the old one, the open handle stays on the old file for ever, and a restart begins in
  the middle of the new one: its first lines are never read.
\<close>

lemma long_rotation_is_missed:
  assumes "lw_path w = Some j" and "pos \<le> length (lw_files w j)" and "load_offset (lw_db w) = Inr (int pos)"
  shows "eof_keeps_reading (map_option (lw_files w) (lw_path w)) pos \<and>
    consume_start (lw_files w j) (lw_db w) = Inr (lw_db w, pos)"
  using assms by (simp add: eof_keeps_reading_def consume_start_def)

end
