(* ===== verification/Json.thy ===== *)
theory Json
  imports Py_Base "HOL-Library.AList"
begin

text \<open>
  The functions of Python's \<open>json\<close> module the program calls: \<open>dumps\<close> with its defaults and
  \<open>loads\<close>, \<open>None\<close> where it raises a \<open>JSONDecodeError\<close>. A number with a fraction or an exponent
  is kept as its text. Code points from U+0100, which the strings of this development do not
  have, count as an error; so does nesting beyond the length of the text, which does not occur.
\<close>

datatype json =
    JNull | JBool bool | JInt int | JFloat string | JString string
  | JList "json list" | JDict "(string \<times> json) list"

section \<open>Writing\<close>

definition hex_char :: "nat \<Rightarrow> char" where
  "hex_char n = (if n < 10 then digit_char n else char_of (n + 87))"

definition json_char :: "char \<Rightarrow> string" where
  "json_char c =
     (if c = dquote \<or> c = bslash then [bslash, c]
      else if c = nl then [bslash, CHR ''n''] else if c = cr then [bslash, CHR ''r'']
      else if c = tab then [bslash, CHR ''t''] else if c = CHR 0x0C then [bslash, CHR ''f'']
      else if c = CHR 0x08 then [bslash, CHR ''b'']
      else if 32 \<le> ord_c c \<and> ord_c c \<le> 126 then [c]
      else bslash # ''u00'' @ [hex_char (ord_c c div 16), hex_char (ord_c c mod 16)])"

definition json_string :: "string \<Rightarrow> string" where
  "json_string s = dquote # concat (map json_char s) @ [dquote]"

fun dumps :: "json \<Rightarrow> string" where
  "dumps JNull = ''null''"
| "dumps (JBool b) = (if b then ''true'' else ''false'')"
| "dumps (JInt i) = int_to_str i"
| "dumps (JFloat t) = t"
| "dumps (JString s) = json_string s"
| "dumps (JList js) = ''['' @ py_join '', '' (map dumps js) @ '']''"
| "dumps (JDict ps) = ''{'' @ py_join '', '' (map (\<lambda>(k, j). json_string k @ '': '' @ dumps j) ps) @ ''}''"

section \<open>Reading\<close>

definition json_space :: "char \<Rightarrow> bool" where
  "json_space c \<longleftrightarrow> c = CHR '' '' \<or> c = tab \<or> c = nl \<or> c = cr"

abbreviation skip_ws :: "string \<Rightarrow> string" where
  "skip_ws \<equiv> dropWhile json_space"

definition hex4 :: "char \<Rightarrow> char \<Rightarrow> char \<Rightarrow> char \<Rightarrow> nat option" where
  "hex4 a b c d =
     (case (hex_val a, hex_val b, hex_val c, hex_val d) of
        (Some w, Some x, Some y, Some z) \<Rightarrow> Some (4096 * w + 256 * x + 16 * y + z)
      | _ \<Rightarrow> None)"

definition simple_escape :: "char \<Rightarrow> char option" where
  "simple_escape e =
     (if e = dquote \<or> e = bslash \<or> e = CHR ''/'' then Some e
      else if e = CHR ''b'' then Some (CHR 0x08) else if e = CHR ''f'' then Some (CHR 0x0C)
      else if e = CHR ''n'' then Some nl else if e = CHR ''r'' then Some cr
      else if e = CHR ''t'' then Some tab else None)"

definition push :: "char \<Rightarrow> (string \<times> string) option \<Rightarrow> (string \<times> string) option" where
  "push c r = map_option (\<lambda>(v, rest). (c # v, rest)) r"

text \<open>The text after an opening quote: the value and what follows the closing quote.\<close>

fun scan_string :: "string \<Rightarrow> (string \<times> string) option" where
  "scan_string [] = None"
| "scan_string (c # s) =
     (if c = dquote then Some ([], s)
      else if c = bslash then
        (case s of
           [] \<Rightarrow> None
         | e # t \<Rightarrow>
             if e = CHR ''u'' then
               (case t of
                  a1 # a2 # a3 # a4 # r \<Rightarrow>
                    (case hex4 a1 a2 a3 a4 of
                       None \<Rightarrow> None
                     | Some n \<Rightarrow> if n < 256 then push (char_of n) (scan_string r) else None)
                | _ \<Rightarrow> None)
             else (case simple_escape e of None \<Rightarrow> None | Some x \<Rightarrow> push x (scan_string t)))
      else if ord_c c < 32 then None
      else push c (scan_string s))"

definition digits_prefix :: "string \<Rightarrow> string \<times> string" where
  "digits_prefix s = (takeWhile is_ascii_digit s, dropWhile is_ascii_digit s)"

definition scan_frac :: "string \<Rightarrow> string \<times> string" where
  "scan_frac s =
     (case s of
        c # t \<Rightarrow> (let (ds, r) = digits_prefix t in
          if c = CHR ''.'' \<and> ds \<noteq> [] then (c # ds, r) else ([], s))
      | [] \<Rightarrow> ([], s))"

definition scan_exp :: "string \<Rightarrow> string \<times> string" where
  "scan_exp s =
     (case s of
        c # t \<Rightarrow>
          (let (sign, u) = (case t of x # u \<Rightarrow> if x = CHR ''+'' \<or> x = CHR ''-'' then ([x], u) else ([], t)
                            | [] \<Rightarrow> ([], t));
               (ds, r) = digits_prefix u in
           if (c = CHR ''e'' \<or> c = CHR ''E'') \<and> ds \<noteq> [] then (c # sign @ ds, r) else ([], s))
      | [] \<Rightarrow> ([], s))"

definition scan_number :: "string \<Rightarrow> (json \<times> string) option" where
  "scan_number s =
     (let (sign, s1) = (case s of c # t \<Rightarrow> if c = CHR ''-'' then ([c], t) else ([], s) | [] \<Rightarrow> ([], s));
          (ds, s2) = digits_prefix s1 in
      if ds = [] then None
      else
        (let (whole, s3) = (if hd ds = CHR ''0'' then ([hd ds], tl ds @ s2) else (ds, s2));
             (frac, s4) = scan_frac s3; (ex, s5) = scan_exp s4 in
         Some (if frac = [] \<and> ex = []
               then JInt ((if sign = [] then 1 else - 1) * int (digits_val whole))
               else JFloat (sign @ whole @ frac @ ex), s5)))"

definition strip_prefix :: "string \<Rightarrow> string \<Rightarrow> string option" where
  "strip_prefix p s = (if startswith p s then Some (drop (length p) s) else None)"

definition scan_atom :: "string \<Rightarrow> (json \<times> string) option" where
  "scan_atom s =
     (case strip_prefix ''null'' s of Some r \<Rightarrow> Some (JNull, r) | None \<Rightarrow>
      case strip_prefix ''true'' s of Some r \<Rightarrow> Some (JBool True, r) | None \<Rightarrow>
      case strip_prefix ''false'' s of Some r \<Rightarrow> Some (JBool False, r) | None \<Rightarrow>
      case scan_number s of Some r \<Rightarrow> Some r | None \<Rightarrow>
      case strip_prefix ''NaN'' s of Some r \<Rightarrow> Some (JFloat ''NaN'', r) | None \<Rightarrow>
      case strip_prefix ''Infinity'' s of Some r \<Rightarrow> Some (JFloat ''Infinity'', r) | None \<Rightarrow>
      case strip_prefix ''-Infinity'' s of Some r \<Rightarrow> Some (JFloat ''-Infinity'', r) | None \<Rightarrow> None)"

text \<open>A \<open>dict\<close> built from pairs: a repeated key keeps its place and takes the later value.\<close>

definition py_dict :: "('k \<times> 'v) list \<Rightarrow> ('k \<times> 'v) list" where
  "py_dict ps = fold (\<lambda>(k, v) acc. AList.update k v acc) ps []"

fun parse_value :: "nat \<Rightarrow> string \<Rightarrow> (json \<times> string) option"
  and parse_elements :: "nat \<Rightarrow> string \<Rightarrow> (json list \<times> string) option"
  and parse_members :: "nat \<Rightarrow> string \<Rightarrow> ((string \<times> json) list \<times> string) option" where
  "parse_value 0 s = None"
| "parse_value (Suc n) s =
     (case s of
        [] \<Rightarrow> None
      | c # t \<Rightarrow>
          if c = dquote then map_option (\<lambda>(v, r). (JString v, r)) (scan_string t)
          else if c = CHR ''['' then
            (case skip_ws t of
               [] \<Rightarrow> None
             | d # r \<Rightarrow> if d = CHR '']'' then Some (JList [], r)
                 else map_option (\<lambda>(js, q). (JList js, q)) (parse_elements n (d # r)))
          else if c = CHR ''{'' then
            (case skip_ws t of
               [] \<Rightarrow> None
             | d # r \<Rightarrow> if d = CHR ''}'' then Some (JDict [], r)
                 else map_option (\<lambda>(ps, q). (JDict (py_dict ps), q)) (parse_members n (d # r)))
          else scan_atom s)"
| "parse_elements 0 s = None"
| "parse_elements (Suc n) s =
     (case parse_value n s of
        None \<Rightarrow> None
      | Some (j, r) \<Rightarrow>
          (case skip_ws r of
             [] \<Rightarrow> None
           | c # t \<Rightarrow> if c = CHR '']'' then Some ([j], t)
               else if c = CHR '','' then map_option (\<lambda>(js, q). (j # js, q)) (parse_elements n (skip_ws t))
               else None))"
| "parse_members 0 s = None"
| "parse_members (Suc n) s =
     (case s of
        [] \<Rightarrow> None
      | c # t \<Rightarrow>
          if c \<noteq> dquote then None
          else
            (case scan_string t of
               None \<Rightarrow> None
             | Some (k, u) \<Rightarrow>
                 (case skip_ws u of
                    [] \<Rightarrow> None
                  | d # v \<Rightarrow>
                      if d \<noteq> CHR '':'' then None
                      else
                        (case parse_value n (skip_ws v) of
                           None \<Rightarrow> None
                         | Some (j, r) \<Rightarrow>
                             (case skip_ws r of
                                [] \<Rightarrow> None
                              | e # w \<Rightarrow>
                                  if e = CHR ''}'' then Some ([(k, j)], w)
                                  else if e = CHR '','' then
                                    map_option (\<lambda>(ps, q). ((k, j) # ps, q)) (parse_members n (skip_ws w))
                                  else None)))))"

definition loads :: "string \<Rightarrow> json option" where
  "loads s =
     (case parse_value (length s + 1) (skip_ws s) of
        None \<Rightarrow> None
      | Some (j, r) \<Rightarrow> if skip_ws r = [] then Some j else None)"

section \<open>What is written is read back\<close>

text \<open>The values the program writes: no fractions, and no key twice in an object.\<close>

fun json_plain :: "json \<Rightarrow> bool" where
  "json_plain (JFloat t) = False"
| "json_plain (JList js) = list_all json_plain js"
| "json_plain (JDict ps) = (distinct (map fst ps) \<and> list_all (\<lambda>p. json_plain (snd p)) ps)"
| "json_plain j = True"

fun needs :: "nat list \<Rightarrow> nat" where
  "needs [] = 0"
| "needs (n # ns) = Suc (max n (needs ns))"

fun jneed :: "json \<Rightarrow> nat" where
  "jneed (JList js) = Suc (needs (map jneed js))"
| "jneed (JDict ps) = Suc (needs (map (\<lambda>p. jneed (snd p)) ps))"
| "jneed j = 1"

lemma needs_join:
  "list_all2 (\<lambda>n s. n \<le> length s) ns ss \<Longrightarrow> needs ns \<le> length (py_join '', '' ss) + 1"
proof (induction ns ss rule: list_all2_induct)
  case (Cons n ns s ss)
  then show ?case by (cases ss) auto
qed simp

lemma int_to_str_length: "1 \<le> length (int_to_str i)"
  by (cases "int_to_str i") simp_all

lemma jneed_dumps: "json_plain j \<Longrightarrow> jneed j \<le> length (dumps j)"
proof (induction j)
  case (JInt i)
  then show ?case using int_to_str_length [of i] by simp
next
  case (JList js)
  then have "list_all2 (\<lambda>n s. n \<le> length s) (map jneed js) (map dumps js)"
    by (simp add: list_all2_conv_all_nth list_all_length)
  from needs_join [OF this] show ?case by simp
next
  case (JDict ps)
  then have "list_all2 (\<lambda>n s. n \<le> length s) (map (\<lambda>p. jneed (snd p)) ps)
      (map (\<lambda>(k, j). json_string k @ '': '' @ dumps j) ps)"
    by (force simp: list_all2_map1 list_all2_map2 split_beta list.rel_map list_all_iff
        intro!: list.rel_refl_strong trans_le_add2 intro: snds.intros)
  from needs_join [OF this] show ?case by simp
qed (simp_all add: json_string_def)

lemma ord_hex_char: "n < 16 \<Longrightarrow> ord_c (hex_char n) = (if n < 10 then n + 48 else n + 87)"
  by (simp add: hex_char_def)

lemma hex_val_hex_char [simp]: "n < 16 \<Longrightarrow> hex_val (hex_char n) = Some n"
  by (auto simp: hex_val_def ord_hex_char is_ascii_digit_def digit_val_def)

lemma hex_val_0 [simp]: "hex_val (CHR ''0'') = Some 0"
  by (simp add: hex_val_def is_ascii_digit_def digit_val_def)

lemma scan_json_char: "scan_string (json_char c @ s) = push c (scan_string s)"
proof -
  consider "c = dquote \<or> c = bslash \<or> c = nl \<or> c = cr \<or> c = tab \<or> c = CHR 0x0C \<or> c = CHR 0x08"
    | "c \<notin> {dquote, bslash, nl, cr, tab, CHR 0x0C, CHR 0x08}" by auto
  then show ?thesis
  proof cases
    case 1
    then show ?thesis
      by (elim disjE) (simp_all add: json_char_def simple_escape_def char_consts push_def)
  next
    case 2
    have "ord_c c < 16 * 16" using nat_of_char_less_256 [of c] by simp
    then have "ord_c c div 16 < 16" "ord_c c < 256" by (simp_all add: less_mult_imp_div_less)
    moreover have "char_of (ord_c c) = c" by simp
    ultimately show ?thesis
      using 2 \<open>ord_c c < 256\<close> by (simp add: json_char_def hex4_def push_def)
  qed
qed

lemma scan_json_string: "scan_string (concat (map json_char s) @ dquote # r) = Some (s, r)"
  by (induction s) (simp_all add: scan_json_char push_def)

text \<open>What follows a value inside a text the program wrote.\<close>

definition follows :: "string \<Rightarrow> bool" where
  "follows r \<longleftrightarrow> r = [] \<or> hd r \<in> {CHR '','', CHR '']'', CHR ''}''}"

lemma follows_simps [simp]: "follows []" "follows (CHR '','' # r)" "follows (CHR '']'' # r)" "follows (CHR ''}'' # r)"
  by (simp_all add: follows_def)

lemma followsE:
  "follows r \<Longrightarrow> (r = [] \<Longrightarrow> P) \<Longrightarrow>
     (\<And>c t. r = c # t \<Longrightarrow> c = CHR '','' \<or> c = CHR '']'' \<or> c = CHR ''}'' \<Longrightarrow> P) \<Longrightarrow> P"
  by (cases r) (auto simp: follows_def)

lemma digits_prefix_follows:
  "list_all is_ascii_digit ds \<Longrightarrow> follows r \<Longrightarrow> digits_prefix (ds @ r) = (ds, r)"
  by (induction ds) (auto simp: digits_prefix_def is_ascii_digit_def elim!: followsE)

lemma no_fraction: "follows r \<Longrightarrow> scan_frac r = ([], r)"
  by (auto simp: scan_frac_def split_beta Let_def elim!: followsE)

lemma no_exponent: "follows r \<Longrightarrow> scan_exp r = ([], r)"
  by (auto simp: scan_exp_def split_beta Let_def elim!: followsE)

lemma digit_char_0: "n < 10 \<Longrightarrow> digit_char n = CHR ''0'' \<longleftrightarrow> n = 0"
  using of_char_eq_iff [of "digit_char n" "CHR ''0''", where 'a = nat] by simp

lemma hd_nat_to_str: "hd (nat_to_str n) = CHR ''0'' \<longleftrightarrow> n = 0"
proof (induction n rule: nat_to_str.induct)
  case (1 n)
  then show ?case
    by (subst nat_to_str.simps) (auto simp: digit_char_0 hd_append)
qed

lemma scan_number_digits:
  "follows r \<Longrightarrow> sign = [] \<or> sign = ''-'' \<Longrightarrow>
   scan_number (sign @ nat_to_str n @ r) = Some (JInt ((if sign = [] then 1 else - 1) * int n), r)"
proof -
  assume f: "follows r" and sign: "sign = [] \<or> sign = ''-''"
  obtain c t where ct: "nat_to_str n = c # t" by (cases "nat_to_str n") auto
  have dig: "is_ascii_digit c" using nat_to_str_digits [of n] ct by simp
  then have "c \<noteq> CHR ''-''" by (auto dest: digit_not_sign)
  then have split: "(case sign @ nat_to_str n @ r of c # t \<Rightarrow> if c = CHR ''-'' then ([c], t) else ([], sign @ nat_to_str n @ r)
      | [] \<Rightarrow> ([], sign @ nat_to_str n @ r)) = (sign, nat_to_str n @ r)"
    using sign ct by auto
  have zero: "(if hd (nat_to_str n) = CHR ''0'' then ([hd (nat_to_str n)], tl (nat_to_str n) @ r)
      else (nat_to_str n, r)) = (nat_to_str n, r)"
  proof (cases "n = 0")
    case True
    then show ?thesis by (simp add: nat_to_str.simps digit_char_def char_eval)
  qed (simp add: hd_nat_to_str)
  show ?thesis
    unfolding scan_number_def split
    by (simp add: digits_prefix_follows [OF nat_to_str_digits f] zero no_fraction [OF f] no_exponent [OF f])
qed

lemma scan_number_int: "follows r \<Longrightarrow> scan_number (int_to_str i @ r) = Some (JInt i, r)"
  using scan_number_digits [of r "[]" "nat i"] scan_number_digits [of r "''-''" "nat (- i)"]
  by (simp add: int_to_str_def)

lemma json_int_hd:
  obtains c t where "int_to_str i = c # t" "is_ascii_digit c \<or> c = CHR ''-''"
proof -
  obtain c t where ct: "int_to_str i = c # t" by (cases "int_to_str i") auto
  moreover have "is_ascii_digit c \<or> c = CHR ''-''"
    using ct nat_to_str_digits [of "nat i"] by (auto simp: int_to_str_def split: if_splits)
  ultimately show ?thesis by (rule that)
qed

lemma numeral_start:
  "is_ascii_digit c \<or> c = CHR ''-'' \<Longrightarrow>
     c \<notin> {dquote, CHR ''['', CHR ''{'', CHR '']'', CHR ''}'', CHR '' '', CHR ''n'', CHR ''t'', CHR ''f'', tab, nl, cr}"
  by (auto simp: is_ascii_digit_def char_consts)

lemma scan_atom_int: "follows r \<Longrightarrow> scan_atom (int_to_str i @ r) = Some (JInt i, r)"
proof -
  assume f: "follows r"
  obtain c t where ct: "int_to_str i = c # t" "is_ascii_digit c \<or> c = CHR ''-''" by (rule json_int_hd)
  then have "strip_prefix ''null'' (int_to_str i @ r) = None" "strip_prefix ''true'' (int_to_str i @ r) = None"
    "strip_prefix ''false'' (int_to_str i @ r) = None"
    using numeral_start [OF ct(2)] by (auto simp: strip_prefix_def)
  with scan_number_int [OF f] show ?thesis by (simp add: scan_atom_def)
qed

section \<open>The round trip\<close>

lemma json_head:
  assumes "json_plain j"
  obtains c t where "dumps j = c # t" and "\<not> json_space c" and "c \<noteq> CHR '']''" and "c \<noteq> CHR ''}''"
proof (cases j)
  case (JInt i)
  obtain c t where "int_to_str i = c # t" "is_ascii_digit c \<or> c = CHR ''-''" by (rule json_int_hd)
  with JInt numeral_start [of c] that show ?thesis by (simp add: json_space_def)
next
  case (JBool b)
  with that show ?thesis by (cases b) (simp_all add: json_space_def char_consts)
qed (use assms that in \<open>auto simp: json_space_def json_string_def char_consts\<close>)

lemma skip_ws_dumps: "json_plain j \<Longrightarrow> skip_ws (dumps j @ r) = dumps j @ r"
  by (erule json_head [of j]) simp

lemma skip_ws_quote [simp]: "skip_ws (dquote # s) = dquote # s"
  by (simp add: json_space_def char_consts)

lemma skip_ws_space [simp]: "skip_ws (CHR '' '' # s) = skip_ws s"
  by (simp add: json_space_def)

lemma json_punctuation [simp]:
  "\<not> json_space (CHR '','')" "\<not> json_space (CHR '']'')" "\<not> json_space (CHR ''}'')" "\<not> json_space (CHR '':'')"
  "json_space (CHR '' '')" "\<not> json_space dquote" "dquote \<noteq> CHR ''}''" "dquote \<noteq> CHR '']''"
  "CHR '','' \<noteq> dquote" "CHR '']'' \<noteq> dquote" "CHR ''}'' \<noteq> dquote" "CHR ''['' \<noteq> dquote" "CHR ''{'' \<noteq> dquote"
  by (simp_all add: json_space_def char_consts)

lemma follows_skip [simp]: "follows r \<Longrightarrow> skip_ws r = r"
  by (auto elim!: followsE)

lemma py_dict_distinct: "distinct (map fst ps) \<Longrightarrow> py_dict ps = ps"
proof -
  have upd: "k \<notin> set (map fst acc) \<Longrightarrow> AList.update k v acc = acc @ [(k, v)]" for k v and acc :: "('a \<times> 'b) list"
    by (induction acc) auto
  have "distinct (map fst (acc @ ps)) \<Longrightarrow> fold (\<lambda>(k, v) acc. AList.update k v acc) ps acc = acc @ ps" for acc
  proof (induction ps arbitrary: acc)
    case (Cons p ps)
    then show ?case using upd [of "fst p" acc "snd p"] by (simp add: split_beta)
  qed simp
  from this [of "[]"] show "distinct (map fst ps) \<Longrightarrow> py_dict ps = ps" by (simp add: py_dict_def)
qed

lemma parse_elements_dumps:
  assumes "\<And>j n r. j \<in> set js \<Longrightarrow> jneed j \<le> n \<Longrightarrow> follows r \<Longrightarrow> parse_value n (dumps j @ r) = Some (j, r)"
    and "list_all json_plain js" and "js \<noteq> []" and "needs (map jneed js) \<le> n"
  shows "parse_elements n (py_join '', '' (map dumps js) @ '']'' @ r) = Some (js, r)"
  using assms
proof (induction js arbitrary: n)
  case (Cons j js)
  from Cons.prems(4) obtain m where n: "n = Suc m" and m: "jneed j \<le> m" "needs (map jneed js) \<le> m"
    by (cases n) auto
  show ?case
  proof (cases js)
    case Nil
    with n Cons.prems(1) [of j m "CHR '']'' # r"] m show ?thesis by simp
  next
    case (Cons j' js')
    let ?rest = "py_join '', '' (map dumps js) @ '']'' @ r"
    have plain: "json_plain j'" using Cons.prems(2) Cons by simp
    have "?rest = dumps j' @ (if js' = [] then [] else '', '' @ py_join '', '' (map dumps js')) @ '']'' @ r"
      using Cons by (cases js') simp_all
    then have skip: "skip_ws ?rest = ?rest" using skip_ws_dumps [OF plain] by metis
    have "parse_elements m ?rest = Some (js, r)"
      using Cons.IH [of m] Cons.prems Cons m(2) by simp
    moreover have "parse_value m (dumps j @ '', '' @ ?rest) = Some (j, '', '' @ ?rest)"
      using Cons.prems(1) [of j m] m(1) by simp
    ultimately show ?thesis using n Cons skip by simp
  qed
qed simp

lemma parse_members_dumps:
  assumes "\<And>p n r. p \<in> set ps \<Longrightarrow> jneed (snd p) \<le> n \<Longrightarrow> follows r \<Longrightarrow>
      parse_value n (dumps (snd p) @ r) = Some (snd p, r)"
    and "list_all (\<lambda>p. json_plain (snd p)) ps" and "ps \<noteq> []" and "needs (map (\<lambda>p. jneed (snd p)) ps) \<le> n"
  shows "parse_members n (py_join '', '' (map (\<lambda>(k, j). json_string k @ '': '' @ dumps j) ps) @ ''}'' @ r) =
    Some (ps, r)"
  using assms
proof (induction ps arbitrary: n)
  case (Cons p ps)
  obtain k j where p: "p = (k, j)" by (cases p)
  from Cons.prems(4) p obtain m where n: "n = Suc m" and m: "jneed j \<le> m" "needs (map (\<lambda>p. jneed (snd p)) ps) \<le> m"
    by (cases n) auto
  have plain: "json_plain j" using Cons.prems(2) p by simp
  let ?f = "\<lambda>(k, j). json_string k @ '': '' @ dumps j"
  show ?case
  proof (cases ps)
    case Nil
    with n p Cons.prems(1) [of p m "CHR ''}'' # r"] m skip_ws_dumps [OF plain] show ?thesis
      by (simp add: json_string_def scan_json_string)
  next
    case (Cons p' ps')
    let ?rest = "py_join '', '' (map ?f ps) @ ''}'' @ r"
    obtain t where t: "?rest = dquote # t"
      using Cons by (cases ps') (simp_all add: json_string_def split_beta)
    have "parse_members m ?rest = Some (ps, r)"
      using Cons.IH [of m] Cons.prems Cons m(2) by simp
    moreover have "parse_value m (dumps j @ '', '' @ ?rest) = Some (j, '', '' @ ?rest)"
      using Cons.prems(1) [of p m] p m(1) by simp
    ultimately show ?thesis
      using n p Cons t skip_ws_dumps [OF plain]
      by (simp add: json_string_def scan_json_string)
  qed
qed simp

lemma parse_dumps:
  "json_plain j \<Longrightarrow> jneed j \<le> n \<Longrightarrow> follows r \<Longrightarrow> parse_value n (dumps j @ r) = Some (j, r)"
proof (induction j arbitrary: n r)
  case (JInt i)
  then obtain m where n: "n = Suc m" by (cases n) auto
  obtain c t where ct: "int_to_str i = c # t" "is_ascii_digit c \<or> c = CHR ''-''" by (rule json_int_hd)
  with numeral_start [OF ct(2)] n scan_atom_int [OF JInt.prems(3), of i] show ?case by simp
next
  case (JString s)
  then show ?case by (cases n) (simp_all add: json_string_def scan_json_string)
next
  case (JList js)
  then obtain m where n: "n = Suc m" "needs (map jneed js) \<le> m" by (cases n) auto
  show ?case
  proof (cases "js = []")
    case False
    then obtain j js' where js: "js = j # js'" by (cases js) auto
    then have "json_plain j" using JList.prems(1) by simp
    then obtain c t where ct: "dumps j = c # t" "\<not> json_space c" "c \<noteq> CHR '']''" by (rule json_head)
    have "parse_elements m (py_join '', '' (map dumps js) @ '']'' @ r) = Some (js, r)"
      using JList.IH JList.prems(1) n(2) False by (intro parse_elements_dumps) (auto simp: list_all_iff)
    with n(1) js ct show ?thesis by (cases js') simp_all
  qed (use n in simp)
next
  case (JDict ps)
  then obtain m where n: "n = Suc m" "needs (map (\<lambda>p. jneed (snd p)) ps) \<le> m" by (cases n) auto
  show ?case
  proof (cases "ps = []")
    case False
    then obtain k j ps' where ps: "ps = (k, j) # ps'" by (cases ps) auto
    have "parse_members m (py_join '', '' (map (\<lambda>(k, j). json_string k @ '': '' @ dumps j) ps) @ ''}'' @ r) = Some (ps, r)"
      using JDict.IH JDict.prems(1) n(2) False
      by (intro parse_members_dumps) (auto simp: list_all_iff intro: snds.intros)
    with n(1) ps JDict.prems(1) show ?thesis
      by (cases ps') (simp_all add: json_string_def py_dict_distinct)
  qed (use n in simp)
next
  case JNull
  then show ?case by (cases n) (simp_all add: scan_atom_def strip_prefix_def char_consts)
next
  case (JBool b)
  then show ?case by (cases n; cases b) (simp_all add: scan_atom_def strip_prefix_def char_consts)
qed simp

lemma loads_dumps: "json_plain j \<Longrightarrow> loads (dumps j) = Some j"
  using parse_dumps [of j "length (dumps j) + 1" "[]"] jneed_dumps [of j] skip_ws_dumps [of j "[]"]
  by (simp add: loads_def)

end
