(* ===== verification/Api_Common.thy ===== *)
theory Api_Common
  imports Sessions Settings_Store Json
begin

text \<open>
  What the \<open>/api/v1\<close> routers share: the session dependency of \<open>main.py\<close> in front of every
  handler, the pydantic validation of bodies (422), the lookup of a row (404), the audit summary
  of an update with Python's \<open>repr\<close> of strings. Rolling a transaction back restores the database
  before it; a number it drew from a sequence is drawn again. Ids are within INTEGER.
\<close>

section \<open>Requests behind the session dependency (main.py)\<close>

definition with_session ::
    "instant \<Rightarrow> request_info \<Rightarrow> string option \<Rightarrow> (session_context \<Rightarrow> db \<Rightarrow> 'a outcome) \<Rightarrow> db \<Rightarrow> 'a outcome" where
  "with_session now rq cookie handler d = depends (require_session now rq cookie d) (\<lambda>d' ctx. handler ctx d')"

definition validated :: "bool \<Rightarrow> db \<Rightarrow> 'a outcome \<Rightarrow> 'a outcome" where
  "validated ok d r = (if ok then r else (d, Inl (HTTPException 422 ''validation_error'')))"

definition get_or_404 :: "'b option \<Rightarrow> db \<Rightarrow> ('b \<Rightarrow> 'a outcome) \<Rightarrow> 'a outcome" where
  "get_or_404 row d k = (case row of None \<Rightarrow> (d, Inl (HTTPException 404 ''Not Found'')) | Some r \<Rightarrow> k r)"

definition admin_only :: "session_context \<Rightarrow> db \<Rightarrow> 'a outcome \<Rightarrow> 'a outcome" where
  "admin_only ctx d r = (if sc_role ctx \<noteq> ''admin'' then (d, Inl (HTTPException 403 ''admin_required'')) else r)"

definition str_len :: "nat \<Rightarrow> nat \<Rightarrow> string \<Rightarrow> bool" where
  "str_len lo hi s \<longleftrightarrow> lo \<le> length s \<and> length s \<le> hi"

definition opt_len :: "nat \<Rightarrow> nat \<Rightarrow> string option \<Rightarrow> bool" where
  "opt_len lo hi v = (case v of None \<Rightarrow> True | Some s \<Rightarrow> str_len lo hi s)"

lemma validated_simps [simp]:
  "validated True d r = r" "validated False d r = (d, Inl (HTTPException 422 ''validation_error''))"
  by (simp_all add: validated_def)

lemma get_or_404_simps [simp]:
  "get_or_404 None d k = (d, Inl (HTTPException 404 ''Not Found''))" "get_or_404 (Some r) d k = k r"
  by (simp_all add: get_or_404_def)

section \<open>Summaries\<close>

text \<open>\<open>repr\<close> of a string.\<close>

definition repr_char :: "char \<Rightarrow> char \<Rightarrow> string" where
  "repr_char q c =
     (if c = q \<or> c = bslash then [bslash, c]
      else if c = nl then [bslash, CHR ''n'']
      else if c = cr then [bslash, CHR ''r'']
      else if c = tab then [bslash, CHR ''t'']
      else if ord_c c < 32 \<or> (127 \<le> ord_c c \<and> ord_c c \<le> 160) \<or> ord_c c = 173
        then [bslash, CHR ''x'', hex_char (ord_c c div 16), hex_char (ord_c c mod 16)]
      else [c])"

definition py_repr :: "string \<Rightarrow> string" where
  "py_repr s =
     (let q = (if squote \<in> set s \<and> dquote \<notin> set s then dquote else squote) in
      q # concat (map (repr_char q) s) @ [q])"

definition update_summary :: "string \<Rightarrow> string list \<Rightarrow> string" where
  "update_summary name changed =
     name @ '': '' @ (let s = py_join '', '' changed in if s = [] then ''no-op'' else s)"

definition arrow :: "string \<Rightarrow> string \<Rightarrow> string" where
  "arrow a b = a @ ''->'' @ b"

text \<open>One optional attribute of an update: the new row and what the summary lists.\<close>

definition upd :: "'v option \<Rightarrow> ('v \<Rightarrow> bool) \<Rightarrow> ('v \<Rightarrow> 'r \<Rightarrow> 'r) \<Rightarrow> ('v \<Rightarrow> string) \<Rightarrow> 'r \<times> string list \<Rightarrow> 'r \<times> string list" where
  "upd v differs put note s =
     (case v of None \<Rightarrow> s | Some x \<Rightarrow> if differs x then (put x (fst s), snd s @ [note x]) else s)"

lemma upd_key: "(\<And>v r. key (put v r) = key r) \<Longrightarrow> key (fst (upd v c put note s)) = key (fst s)"
  by (simp add: upd_def split: option.split)

section \<open>Audit entries of the settings routes\<close>

text \<open>The call of \<open>audit_append\<close> that the settings routes repeat, and the commit after it.\<close>

definition ctx_entry :: "session_context \<Rightarrow> audit_action \<Rightarrow> string \<Rightarrow> string option \<Rightarrow> audit_entry" where
  "ctx_entry ctx action ttype summary =
     (audit_args (sc_username ctx) (sc_role ctx) (sc_auth_method ctx) action)
       \<lparr>ae_actor_id := sc_actor_id ctx, ae_target_type := Some ttype, ae_summary := summary,
        ae_client_ip := sc_client_ip ctx, ae_user_agent := sc_user_agent ctx\<rparr>"

definition audit_commit ::
    "instant \<Rightarrow> audit_entry \<Rightarrow> db \<Rightarrow> db \<Rightarrow> (db \<Rightarrow> 'a outcome) \<Rightarrow> 'a outcome" where
  "audit_commit now e d0 d k = or_500 d0 (audit_append now e d) k"

lemma audit_commit_ctx [simp]:
  "audit_commit now (ctx_entry ctx a ty s) d0 d k = k (with_audit now (ctx_entry ctx a ty s) d)"
  by (simp add: audit_commit_def ctx_entry_def)

lemma py_lower_words [simp]:
  "py_lower_char (CHR ''t'') = CHR ''t''" "py_lower_char (CHR ''r'') = CHR ''r''"
  "py_lower_char (CHR ''u'') = CHR ''u''" "py_lower_char (CHR ''e'') = CHR ''e''"
  "py_lower_char (CHR ''f'') = CHR ''f''" "py_lower_char (CHR ''a'') = CHR ''a''"
  "py_lower_char (CHR ''l'') = CHR ''l''" "py_lower_char (CHR ''s'') = CHR ''s''"
  by (simp_all add: py_lower_char_def char_eval)

lemma read_with_audit [simp]:
  "read_setting (with_audit now e d) = read_setting d" "read_secret (with_audit now e d) = read_secret d"
  by (rule ext, simp add: read_setting_def read_secret_def)+

text \<open>\<open>f"{flag}"\<close>, and an administrator for the examples.\<close>

definition py_bool :: "bool \<Rightarrow> string" where
  "py_bool b = (if b then ''True'' else ''False'')"

definition ex_admin_ctx :: session_context where
  "ex_admin_ctx = \<lparr>sc_token = ''t'', sc_username = ''root'', sc_role = ''admin'', sc_auth_method = ''local'',
     sc_actor_id = Some 1, sc_client_ip = None, sc_user_agent = None\<rparr>"

section \<open>The contract of a handler\<close>

text \<open>
  Every handler that changes rows writes one audit row on success and nothing at all when it
  refuses: \<open>audited_or_unchanged\<close> relates the database before and after.
\<close>

definition audited :: "instant \<Rightarrow> session_context \<Rightarrow> audit_action list \<Rightarrow> db \<Rightarrow> db \<Rightarrow> bool" where
  "audited now ctx actions d d' \<longleftrightarrow>
     seqs d' T_audit_log = seqs d T_audit_log + 1 \<and>
     (\<exists>a\<in>set actions. \<exists>ty ti s. audit_log d' = audit_log d @
        [audit_row_of now (seqs d T_audit_log) ((ctx_entry ctx a ty s)\<lparr>ae_target_id := ti\<rparr>)])"

definition audited_or_unchanged ::
    "instant \<Rightarrow> session_context \<Rightarrow> audit_action list \<Rightarrow> db \<Rightarrow> 'a outcome \<Rightarrow> bool" where
  "audited_or_unchanged now ctx actions d r =
     (case r of (d', Inl e) \<Rightarrow> d' = d | (d', Inr x) \<Rightarrow> audited now ctx actions d d')"

lemma audited_or_unchanged_simps [simp]:
  "audited_or_unchanged now ctx acts d (d', Inl e) \<longleftrightarrow> d' = d"
  "audited_or_unchanged now ctx acts d (d', Inr x) \<longleftrightarrow> audited now ctx acts d d'"
  by (simp_all add: audited_or_unchanged_def)

lemma audited_or_unchanged_404 [intro!]:
  "(\<And>r. row = Some r \<Longrightarrow> audited_or_unchanged now ctx acts d (k r)) \<Longrightarrow>
   audited_or_unchanged now ctx acts d (get_or_404 row d k)"
  by (cases row) simp_all

lemma audited_or_unchanged_admin [intro!]:
  "(sc_role ctx = ''admin'' \<Longrightarrow> audited_or_unchanged now ctx' acts d r) \<Longrightarrow>
   audited_or_unchanged now ctx' acts d (admin_only ctx d r)"
  by (simp add: admin_only_def)

lemma audited_with_audit [intro!]:
  "audit_log d1 = audit_log d \<Longrightarrow> seqs d1 T_audit_log = seqs d T_audit_log \<Longrightarrow> a \<in> set acts \<Longrightarrow>
   audited now ctx acts d (with_audit now (crud_entry ctx a ty ti s) d1)"
  unfolding audited_def by (force simp: crud_entry_def ctx_entry_def audit_args_def with_audit_seq)

lemma audited_with_entry [intro!]:
  "audit_log d1 = audit_log d \<Longrightarrow> seqs d1 T_audit_log = seqs d T_audit_log \<Longrightarrow> a \<in> set acts \<Longrightarrow>
   audited now ctx acts d (with_audit now (ctx_entry ctx a ty s) d1)"
  unfolding audited_def by (force intro: exI [of _ None] simp: ctx_entry_def audit_args_def with_audit_seq)

section \<open>Rows of a table\<close>

text \<open>Replacing the row with a key, and the lookups of \<open>session.get\<close>.\<close>

definition put_row :: "('r \<Rightarrow> int) \<Rightarrow> 'r \<Rightarrow> 'r list \<Rightarrow> 'r list" where
  "put_row key row rows = map (\<lambda>r. if key r = key row then row else r) rows"

definition del_row :: "('r \<Rightarrow> int) \<Rightarrow> int \<Rightarrow> 'r list \<Rightarrow> 'r list" where
  "del_row key i rows = filter (\<lambda>r. key r \<noteq> i) rows"

lemma put_row_keys [simp]: "map key (put_row key row rows) = map key rows"
  by (induction rows) (simp_all add: put_row_def)

lemma put_row_keys_image [simp]: "key ` set (put_row key row rows) = key ` set rows"
  using arg_cong [OF put_row_keys, of set key row rows] by (simp del: put_row_keys)

lemma set_put_row: "r \<in> set (put_row key row rows) \<Longrightarrow> r = row \<or> r \<in> set rows"
  by (auto simp: put_row_def split: if_splits)

lemma put_row_mem: "row0 \<in> set rows \<Longrightarrow> key row0 = key row \<Longrightarrow> row \<in> set (put_row key row rows)"
  by (force simp: put_row_def)

lemma put_row_map: "(\<And>r. r \<in> set rows \<Longrightarrow> key r = key row \<Longrightarrow> f r = f row) \<Longrightarrow> map f (put_row key row rows) = map f rows"
  by (induction rows) (auto simp: put_row_def)

lemma get_row_mem:
  "find (\<lambda>r. key r = i) rows = Some row \<Longrightarrow> row \<in> set rows \<and> key row = i"
  by (drule find_Some_in) simp

lemma authz_refs_mono:
  "authz_refs_ok d a \<Longrightarrow> set (map u_id (users d)) \<subseteq> set (map u_id (users d')) \<Longrightarrow>
   set (map g_id (ad_groups d)) \<subseteq> set (map g_id (ad_groups d')) \<Longrightarrow>
   set (map dg_id (device_groups d)) \<subseteq> set (map dg_id (device_groups d')) \<Longrightarrow>
   set (map pp_id (privilege_profiles d)) \<subseteq> set (map pp_id (privilege_profiles d')) \<Longrightarrow> authz_refs_ok d' a"
  unfolding authz_refs_ok_def by (fastforce split: option.splits)

lemma authorizations_ok_sub:
  assumes "authorizations_ok d" and "authorizations d' = filter P (authorizations d)"
    and "\<And>a. a \<in> set (authorizations d) \<Longrightarrow> P a \<Longrightarrow> authz_refs_ok d a \<Longrightarrow> authz_refs_ok d' a"
  shows "authorizations_ok d'"
proof -
  have "distinct (List.map_filter f (filter P xs))" if "distinct (List.map_filter f xs)" for f :: "authorization_row \<Rightarrow> (int \<times> int \<times> int) option" and xs
    using that
  proof (induction xs)
    case (Cons x xs)
    have "set (List.map_filter f (filter P xs)) \<subseteq> set (List.map_filter f xs)"
      by (auto simp: List.map_filter_def)
    with Cons show ?case by (auto simp: List.map_filter_simps split: option.splits)
  qed simp
  with assms show ?thesis
    by (simp add: authorizations_ok_def list_all_iff)
qed

end
