(* ===== verification/Devices.thy ===== *)
theory Devices
  imports Api_Common Ip_Address Nas_Config
begin

text \<open>
  \<open>app/api/v1/devices.py\<close>: the handlers of \<open>/api/v1/devices\<close> with the rotation of shared secrets,
  and \<open>app/api/v1/admin.py\<close>. The state is the database and the daemon's \<open>hosts.cfg\<close>, which every
  change of a device renders again after its commit. Secrets are held decrypted, as the ORM does.
\<close>

record fleet =
  fl_db :: db
  fl_hosts :: string

record nas_env =
  ne_shared_secret :: string
  ne_writable :: bool

type_synonym 'a fleet_outcome = "fleet \<times> (http_exc + 'a)"

definition regen :: "nas_env \<Rightarrow> fleet \<Rightarrow> fleet" where
  "regen env f =
     (case regenerate_nas_config (ne_shared_secret env) (ne_writable env) (fl_db f) of
        None \<Rightarrow> f
      | Some content \<Rightarrow> f\<lparr>fl_hosts := content\<rparr>)"

definition validate_ip_or_cidr :: "string \<Rightarrow> bool" where
  "validate_ip_or_cidr value = (ip_network value \<noteq> None)"

record device_create =
  dc_name :: string
  dc_ip_or_cidr :: string
  dc_device_group_id :: int
  dc_current_secret :: "string option"
  dc_description :: "string option"

definition device_create_valid :: "device_create \<Rightarrow> bool" where
  "device_create_valid p \<longleftrightarrow>
     str_len 1 128 (dc_name p) \<and> str_len 1 64 (dc_ip_or_cidr p) \<and> opt_len 0 512 (dc_current_secret p) \<and>
     opt_len 0 2048 (dc_description p) \<and> validate_ip_or_cidr (dc_ip_or_cidr p)"

record device_update =
  du_name :: "string option"
  du_ip_or_cidr :: "string option"
  du_device_group_id :: "int option"
  du_description :: "string option"
  du_current_secret :: "string option"

definition device_update_valid :: "device_update \<Rightarrow> bool" where
  "device_update_valid p \<longleftrightarrow>
     opt_len 1 128 (du_name p) \<and> opt_len 1 64 (du_ip_or_cidr p) \<and> opt_len 0 512 (du_current_secret p) \<and>
     opt_len 0 2048 (du_description p) \<and>
     (case du_ip_or_cidr p of None \<Rightarrow> True | Some v \<Rightarrow> validate_ip_or_cidr v)"

definition rotate_valid :: "string \<Rightarrow> bool" where
  "rotate_valid new_secret \<longleftrightarrow> str_len 1 512 new_secret"

record device_read =
  dr_id :: int
  dr_name :: string
  dr_ip_or_cidr :: string
  dr_device_group_id :: int
  has_current_secret :: bool
  has_previous_secret :: bool
  dr_previous_retired_at :: "instant option"
  dr_description :: "string option"
  dr_created_at :: instant
  dr_updated_at :: instant

definition from_row :: "device_row \<Rightarrow> device_read" where
  "from_row row = \<lparr>dr_id = d_id row, dr_name = d_name row, dr_ip_or_cidr = d_ip_or_cidr row,
     dr_device_group_id = d_device_group_id row,
     has_current_secret = (current_secret_enc row \<noteq> None),
     has_previous_secret = (previous_secret_enc row \<noteq> None),
     dr_previous_retired_at = previous_retired_at row, dr_description = d_description row,
     dr_created_at = d_created_at row, dr_updated_at = d_updated_at row\<rparr>"

definition list_devices :: "db \<Rightarrow> device_read list" where
  "list_devices d = map from_row (sort_key d_id (devices d))"

definition get_device_route :: "int \<Rightarrow> db \<Rightarrow> device_read outcome" where
  "get_device_route i d = get_or_404 (get_device d i) d (\<lambda>row. (d, Inr (from_row row)))"

definition ensure_device_group_exists :: "int \<Rightarrow> db \<Rightarrow> 'a outcome \<Rightarrow> 'a outcome" where
  "ensure_device_group_exists g d r =
     (if get_device_group d g = None then (d, Inl (HTTPException 400 ''unknown_device_group_id'')) else r)"

text \<open>\<open>onupdate\<close>: the timestamp moves when the flush writes the row at all.\<close>

definition touch :: "instant \<Rightarrow> device_row \<Rightarrow> device_row \<Rightarrow> device_row" where
  "touch now old new = (if new = old then old else new\<lparr>d_updated_at := now\<rparr>)"

section \<open>Transactions\<close>

definition create_device_tx :: "instant \<Rightarrow> session_context \<Rightarrow> device_create \<Rightarrow> db \<Rightarrow> device_row outcome" where
  "create_device_tx now ctx payload d =
     ensure_device_group_exists (dc_device_group_id payload) d
       (let row = \<lparr>d_id = seqs d T_device, d_name = dc_name payload, d_ip_or_cidr = dc_ip_or_cidr payload,
                   d_device_group_id = dc_device_group_id payload,
                   current_secret_enc = dc_current_secret payload, previous_secret_enc = None,
                   previous_retired_at = None, d_description = dc_description payload,
                   d_created_at = now, d_updated_at = now\<rparr>;
            d1 = bump_seq T_device (d\<lparr>devices := devices d @ [row]\<rparr>)
        in if \<not> devices_ok (device_groups d1) (devices d1)
           then (d, Inl (HTTPException 409 ''name_or_ip_already_exists''))
           else or_500 d (append_crud now ctx DEVICE_CREATED ''device'' (d_id row)
                  (Some (d_name row @ '' '' @ d_ip_or_cidr row)) d1) (\<lambda>d2. (d2, Inr row)))"

definition apply_device_update :: "device_update \<Rightarrow> device_row \<Rightarrow> device_row \<times> string list" where
  "apply_device_update p row =
     upd (if truthy (du_current_secret p) then du_current_secret p else None) (\<lambda>_. True)
       (\<lambda>v r. r\<lparr>current_secret_enc := Some v\<rparr>) (\<lambda>_. ''secret'')
    (upd (du_description p) (\<lambda>_. True) (\<lambda>v r. r\<lparr>d_description := Some v\<rparr>) (\<lambda>_. ''description'')
    (upd (du_ip_or_cidr p) (\<lambda>v. v \<noteq> d_ip_or_cidr row) (\<lambda>v r. r\<lparr>d_ip_or_cidr := v\<rparr>)
       (\<lambda>v. ''ip '' @ arrow (d_ip_or_cidr row) v)
    (upd (du_name p) (\<lambda>v. v \<noteq> d_name row) (\<lambda>v r. r\<lparr>d_name := v\<rparr>)
       (\<lambda>v. ''name '' @ arrow (py_repr (d_name row)) (py_repr v))
    (upd (du_device_group_id p) (\<lambda>v. v \<noteq> d_device_group_id row) (\<lambda>v r. r\<lparr>d_device_group_id := v\<rparr>)
       (\<lambda>v. ''dg '' @ arrow (int_to_str (d_device_group_id row)) (int_to_str v)) (row, [])))))"

definition update_device_tx :: "instant \<Rightarrow> session_context \<Rightarrow> int \<Rightarrow> device_update \<Rightarrow> db \<Rightarrow> device_row outcome" where
  "update_device_tx now ctx i payload d =
     get_or_404 (get_device d i) d (\<lambda>row0.
       (let checked = (\<lambda>r. case du_device_group_id payload of
              None \<Rightarrow> r
            | Some g \<Rightarrow> if g \<noteq> d_device_group_id row0 then ensure_device_group_exists g d r else r);
            (row1, changed) = apply_device_update payload row0;
            row = touch now row0 row1;
            d1 = d\<lparr>devices := put_row d_id row (devices d)\<rparr>
        in checked
          (if \<not> devices_ok (device_groups d1) (devices d1)
           then (d, Inl (HTTPException 409 ''name_or_ip_already_exists''))
           else or_500 d (append_crud now ctx DEVICE_UPDATED ''device'' (d_id row)
                  (Some (update_summary (d_name row) changed)) d1) (\<lambda>d2. (d2, Inr row)))))"

text \<open>Deleting a device clears its id in the accounting rows (\<open>SET NULL\<close>).\<close>

definition remove_device :: "int \<Rightarrow> db \<Rightarrow> db" where
  "remove_device i d = d\<lparr>devices := del_row d_id i (devices d),
     accounting_records := map (\<lambda>r. if ar_device_id r = Some i then r\<lparr>ar_device_id := None\<rparr> else r)
       (accounting_records d)\<rparr>"

definition delete_device_tx :: "instant \<Rightarrow> session_context \<Rightarrow> int \<Rightarrow> db \<Rightarrow> unit outcome" where
  "delete_device_tx now ctx i d =
     get_or_404 (get_device d i) d (\<lambda>row.
       or_500 d (append_crud now ctx DEVICE_DELETED ''device'' (d_id row)
           (Some (d_name row @ '' '' @ d_ip_or_cidr row)) (remove_device i d))
         (\<lambda>d2. (d2, Inr ())))"

definition change_device ::
    "instant \<Rightarrow> session_context \<Rightarrow> audit_action \<Rightarrow> (device_row \<Rightarrow> device_row) \<Rightarrow> int \<Rightarrow> db \<Rightarrow> device_row outcome" where
  "change_device now ctx action change i d =
     get_or_404 (get_device d i) d (\<lambda>row0.
       (let row = touch now row0 (change row0);
            d1 = d\<lparr>devices := put_row d_id row (devices d)\<rparr>
        in or_500 d (append_crud now ctx action ''device'' (d_id row) (Some (d_name row)) d1)
             (\<lambda>d2. (d2, Inr row))))"

definition rotated :: "string \<Rightarrow> device_row \<Rightarrow> device_row" where
  "rotated new_secret row = row\<lparr>previous_secret_enc := current_secret_enc row,
     previous_retired_at := None, current_secret_enc := Some new_secret\<rparr>"

definition retired :: "instant \<Rightarrow> device_row \<Rightarrow> device_row" where
  "retired now row = row\<lparr>previous_secret_enc := None, previous_retired_at := Some now\<rparr>"

section \<open>Handlers\<close>

definition with_regen :: "nas_env \<Rightarrow> ('r \<Rightarrow> 'a) \<Rightarrow> fleet \<Rightarrow> 'r outcome \<Rightarrow> 'a fleet_outcome" where
  "with_regen env read f r =
     (case r of
        (d, Inl e) \<Rightarrow> (f\<lparr>fl_db := d\<rparr>, Inl e)
      | (d, Inr row) \<Rightarrow> (regen env (f\<lparr>fl_db := d\<rparr>), Inr (read row)))"

definition create_device ::
    "nas_env \<Rightarrow> instant \<Rightarrow> session_context \<Rightarrow> device_create \<Rightarrow> fleet \<Rightarrow> device_read fleet_outcome" where
  "create_device env now ctx payload f = with_regen env from_row f (create_device_tx now ctx payload (fl_db f))"

definition update_device ::
    "nas_env \<Rightarrow> instant \<Rightarrow> session_context \<Rightarrow> int \<Rightarrow> device_update \<Rightarrow> fleet \<Rightarrow> device_read fleet_outcome" where
  "update_device env now ctx i payload f = with_regen env from_row f (update_device_tx now ctx i payload (fl_db f))"

definition delete_device ::
    "nas_env \<Rightarrow> instant \<Rightarrow> session_context \<Rightarrow> int \<Rightarrow> fleet \<Rightarrow> unit fleet_outcome" where
  "delete_device env now ctx i f = with_regen env (\<lambda>u. u) f (delete_device_tx now ctx i (fl_db f))"

definition rotate_secret ::
    "nas_env \<Rightarrow> instant \<Rightarrow> session_context \<Rightarrow> int \<Rightarrow> string \<Rightarrow> fleet \<Rightarrow> device_read fleet_outcome" where
  "rotate_secret env now ctx i new_secret f =
     with_regen env from_row f (change_device now ctx DEVICE_SECRET_ROTATED (rotated new_secret) i (fl_db f))"

definition retire_previous_secret ::
    "nas_env \<Rightarrow> instant \<Rightarrow> session_context \<Rightarrow> int \<Rightarrow> fleet \<Rightarrow> device_read fleet_outcome" where
  "retire_previous_secret env now ctx i f =
     with_regen env from_row f (change_device now ctx DEVICE_PREVIOUS_RETIRED (retired now) i (fl_db f))"

text \<open>\<open>POST /api/v1/admin/regenerate-nas-config\<close>: the number of characters written.\<close>

definition regenerate :: "nas_env \<Rightarrow> string \<Rightarrow> instant \<Rightarrow> session_context \<Rightarrow> fleet \<Rightarrow> nat fleet_outcome" where
  "regenerate env hosts_path now ctx f =
     (if sc_role ctx \<noteq> ''admin'' then (f, Inl (HTTPException 403 ''admin_required''))
      else
        (case regenerate_nas_config (ne_shared_secret env) (ne_writable env) (fl_db f) of
           None \<Rightarrow> (f, Inl (HTTPException 500 ''could not write to shared tac_plus-ng volume''))
         | Some content \<Rightarrow>
             (let f1 = f\<lparr>fl_hosts := content\<rparr>;
                  entry = (audit_args (sc_username ctx) (sc_role ctx) (sc_auth_method ctx) NAS_CONFIG_REGENERATED)
                    \<lparr>ae_actor_id := sc_actor_id ctx, ae_target_type := Some ''nas_config'',
                     ae_summary := Some (''wrote '' @ nat_to_str (length content) @ '' bytes to '' @ hosts_path),
                     ae_client_ip := sc_client_ip ctx, ae_user_agent := sc_user_agent ctx\<rparr>
              in (case audit_append now entry (fl_db f1) of
                    Inl e \<Rightarrow> (f1, Inl (Unhandled e))
                  | Inr d2 \<Rightarrow> (f1\<lparr>fl_db := d2\<rparr>, Inr (length content))))))"

section \<open>Facts\<close>

lemma touch_key [simp]: "d_id (touch now old new) = d_id new"
  by (simp add: touch_def)

lemma apply_device_update_id [simp]: "d_id (fst (apply_device_update p row)) = d_id row"
  by (simp add: apply_device_update_def upd_key)

lemma changed_ids [simp]: "d_id (rotated s row) = d_id row" "d_id (retired now row) = d_id row"
  by (simp_all add: rotated_def retired_def)

lemma audited_device_tx:
  "audited_or_unchanged now ctx [DEVICE_CREATED] d (create_device_tx now ctx p d)"
  "audited_or_unchanged now ctx [DEVICE_UPDATED] d (update_device_tx now ctx i pu d)"
  "audited_or_unchanged now ctx [DEVICE_DELETED] d (delete_device_tx now ctx i d)"
  "audited_or_unchanged now ctx [act] d (change_device now ctx act g i d)"
  by (auto simp: create_device_tx_def update_device_tx_def delete_device_tx_def change_device_def
      ensure_device_group_exists_def remove_device_def Let_def split: prod.split option.split)

lemma with_regen_simps [simp]:
  "fst (with_regen env rd f (d, Inl e)) = f\<lparr>fl_db := d\<rparr>"
  "fst (with_regen env rd f (d, Inr x)) = regen env (f\<lparr>fl_db := d\<rparr>)"
  "snd (with_regen env rd f (d, Inl e)) = Inl e" "snd (with_regen env rd f (d, Inr x)) = Inr (rd x)"
  by (simp_all add: with_regen_def)

lemma regen_db [simp]: "fl_db (regen env f) = fl_db f"
  by (simp add: regen_def split: option.split)

lemma regen_hosts:
  "ne_writable env \<Longrightarrow> fl_hosts (regen env f) = rendered_config (ne_shared_secret env) (fl_db f)"
  by (simp add: regen_def regenerate_nas_config_def)

lemma with_regen_db [simp]: "fl_db (fst (with_regen env rd f r)) = fst r"
  by (cases r; cases "snd r") (auto simp: with_regen_def)

section \<open>Integrity\<close>

lemma get_deviceD: "get_device d i = Some row \<Longrightarrow> row \<in> set (devices d) \<and> d_id row = i"
  unfolding get_device_def by (rule get_row_mem)

lemma config_ok_devices:
  assumes "config_ok d" and "keys_ok (seqs d' T_device) (map d_id (devices d'))" and "0 < seqs d' T_device"
    and "devices_ok (device_groups d) (devices d')"
    and "device_groups d' = device_groups d" "privilege_profiles d' = privilege_profiles d"
    "authorizations d' = authorizations d" "users d' = users d" "ad_groups d' = ad_groups d"
    and "\<And>t. t \<noteq> T_device \<Longrightarrow> seqs d' t = seqs d t"
  shows "config_ok d'"
proof -
  have "authz_refs_ok d' = authz_refs_ok d" using assms by (intro ext) (simp add: authz_refs_ok_def split: option.split)
  with assms show ?thesis by (simp add: config_ok_def authorizations_ok_def)
qed

lemma config_ok_create_device:
  assumes "create_device_tx now ctx p d = (d', r)" and ok: "config_ok d"
  shows "config_ok d'"
proof (cases r)
  case (Inl e)
  with assms show ?thesis
    by (auto simp: create_device_tx_def ensure_device_group_exists_def Let_def split: if_splits)
next
  case (Inr row)
  define d1 where "d1 = bump_seq T_device (d\<lparr>devices := devices d @ [row]\<rparr>)"
  from assms(1) Inr have row: "d_id row = seqs d T_device" "devices_ok (device_groups d) (devices d1)"
    and d': "\<exists>e. d' = with_audit now e d1"
    by (auto simp: create_device_tx_def ensure_device_group_exists_def Let_def d1_def split: if_splits)
  from ok row have "config_ok d1"
    by (intro config_ok_devices [OF ok]) (simp_all add: d1_def config_ok_def keys_ok_snoc)
  with d' show ?thesis by auto
qed

lemma config_ok_put_device:
  assumes "config_ok d" and "d_id row0 = d_id row" and "row0 \<in> set (devices d)"
    and "devices_ok (device_groups d) (put_row d_id row (devices d))"
  shows "config_ok (d\<lparr>devices := put_row d_id row (devices d)\<rparr>)"
  using assms(1) by (rule config_ok_devices) (use assms in \<open>simp_all add: config_ok_def\<close>)

lemma config_ok_update_device:
  assumes "update_device_tx now ctx i p d = (d', r)" and ok: "config_ok d"
  shows "config_ok d'"
proof (cases "get_device d i")
  case None
  with assms show ?thesis by (auto simp: update_device_tx_def)
next
  case (Some row0)
  obtain row1 changed where app: "apply_device_update p row0 = (row1, changed)" by fastforce
  with apply_device_update_id [of p row0] have id: "d_id row1 = d_id row0" by simp
  let ?row = "touch now row0 row1"
  have "config_ok (d\<lparr>devices := put_row d_id ?row (devices d)\<rparr>)"
    if "devices_ok (device_groups d) (put_row d_id ?row (devices d))"
    using ok that get_deviceD [OF Some] id by (intro config_ok_put_device [of d row0]) simp_all
  with assms app Some show ?thesis
    by (auto simp: update_device_tx_def ensure_device_group_exists_def Let_def split: if_splits option.splits)
qed

lemma config_ok_delete_device:
  assumes "delete_device_tx now ctx i d = (d', r)" and ok: "config_ok d"
  shows "config_ok d'"
proof -
  have "config_ok (remove_device i d)"
    using ok by (rule config_ok_devices)
      (use ok in \<open>auto simp: remove_device_def config_ok_def del_row_def keys_ok_filter devices_ok_def
         list_all_iff distinct_map_filter\<close>)
  with assms show ?thesis
    by (cases "get_device d i") (auto simp: delete_device_tx_def)
qed

lemma config_ok_change_device:
  assumes "change_device now ctx a g i d = (d', r)" and ok: "config_ok d"
    and g: "\<And>row. d_id (g row) = d_id row \<and> d_name (g row) = d_name row \<and>
      d_ip_or_cidr (g row) = d_ip_or_cidr row \<and> d_device_group_id (g row) = d_device_group_id row"
  shows "config_ok d'"
proof (cases "get_device d i")
  case None
  with assms show ?thesis by (auto simp: change_device_def)
next
  case (Some row0)
  let ?row = "touch now row0 (g row0)"
  let ?ds = "put_row d_id ?row (devices d)"
  note mem = get_deviceD [OF Some]
  have dist: "distinct (map d_id (devices d))" using ok by (simp add: config_ok_def keys_ok_def)
  have same: "row = row0" if "row \<in> set (devices d)" "d_id row = d_id row0" for row
    using dist that mem by (auto simp: distinct_map inj_on_def)
  have keep: "map f ?ds = map f (devices d)" if "f ?row = f row0" for f :: "device_row \<Rightarrow> 'x"
    using that same g [of row0] by (intro put_row_map) (auto dest: same)
  have fields: "d_name ?row = d_name row0" "d_ip_or_cidr ?row = d_ip_or_cidr row0"
    "d_device_group_id ?row = d_device_group_id row0" using g by (simp_all add: touch_def)
  have "\<forall>x\<in>set ?ds. d_device_group_id x \<in> d_device_group_id ` set (devices d)"
    using fields(3) mem by (auto dest!: set_put_row)
  then have "devices_ok (device_groups d) ?ds"
    using ok keep [of d_name] keep [of d_ip_or_cidr] fields(1,2)
    by (fastforce simp: config_ok_def devices_ok_def list_all_iff)
  then have "config_ok (d\<lparr>devices := ?ds\<rparr>)"
    using ok mem g by (intro config_ok_put_device [of d row0]) simp_all
  with assms Some show ?thesis by (auto simp: change_device_def Let_def)
qed

section \<open>Properties\<close>

lemma get_put_row: "row0 \<in> set rows \<Longrightarrow> key row0 = key row \<Longrightarrow> find (\<lambda>r. key r = key row) (put_row key row rows) = Some row"
  by (induction rows) (auto simp: put_row_def)

lemma get_put_row_other: "i \<noteq> key row \<Longrightarrow> find (\<lambda>r. key r = i) (put_row key row rows) = find (\<lambda>r. key r = i) rows"
  by (induction rows) (auto simp: put_row_def)

lemma change_device_effect:
  assumes "get_device d i = Some row" and "d_id (g row) = d_id row"
  shows "\<exists>d'. change_device now ctx a g i d = (d', Inr (touch now row (g row))) \<and>
    get_device d' i = Some (touch now row (g row)) \<and> (\<forall>j. j \<noteq> i \<longrightarrow> get_device d' j = get_device d j)"
proof -
  note mem = get_deviceD [OF assms(1)]
  let ?row = "touch now row (g row)"
  have id: "d_id ?row = i" using mem assms(2) by simp
  have "get_device (with_audit now e (d\<lparr>devices := put_row d_id ?row (devices d)\<rparr>)) i = Some ?row" for e
    using get_put_row [of row "devices d" d_id ?row] mem id by (simp add: get_device_def)
  moreover have "get_device (with_audit now e (d\<lparr>devices := put_row d_id ?row (devices d)\<rparr>)) j = get_device d j"
    if "j \<noteq> i" for e j
    using get_put_row_other [of j d_id ?row] id that by (simp add: get_device_def)
  ultimately show ?thesis using assms(1) by (auto simp: change_device_def Let_def)
qed

lemma touch_secrets [simp]:
  "current_secret_enc (touch now old new) = current_secret_enc new"
  "previous_secret_enc (touch now old new) = previous_secret_enc new"
  "d_ip_or_cidr (touch now old new) = d_ip_or_cidr new"
  "previous_retired_at (touch now old new) = previous_retired_at new"
  by (simp_all add: touch_def)


definition ex_switch :: device_row where
  "ex_switch = \<lparr>d_id = 1, d_name = ''sw1'', d_ip_or_cidr = ''10.0.0.1'', d_device_group_id = 1,
     current_secret_enc = Some ''old'', previous_secret_enc = None, previous_retired_at = None,
     d_description = None, d_created_at = 0, d_updated_at = 0\<rparr>"

definition ex_fleet :: fleet where
  "ex_fleet = \<lparr>fl_db = empty_db\<lparr>devices := [ex_switch]\<rparr>, fl_hosts = []\<rparr>"

definition ex_ctx :: session_context where
  "ex_ctx = \<lparr>sc_token = ''t'', sc_username = ''viv'', sc_role = ''viewer'', sc_auth_method = ''saml'',
     sc_actor_id = None, sc_client_ip = None, sc_user_agent = None\<rparr>"

definition ex_env :: nas_env where
  "ex_env = \<lparr>ne_shared_secret = [], ne_writable = True\<rparr>"


text \<open>
  An IPv6 address with a scope is accepted as a device address whatever its scope holds, line
  breaks included, and the scope is written to the daemon's configuration as it is.
\<close>

theorem address_scope_is_rendered_verbatim:
  assumes "scope \<noteq> []" and "CHR ''/'' \<notin> set scope" and "CHR 0x25 \<notin> set scope" and "length scope \<le> 61"
    and "d_ip_or_cidr row = ''::%'' @ scope"
  shows "device_create_valid \<lparr>dc_name = ''x'', dc_ip_or_cidr = ''::%'' @ scope, dc_device_group_id = g,
      dc_current_secret = None, dc_description = None\<rparr> \<and>
    (\<exists>rest. host_block name row = ''host '' @ name @ '' {'' @ [nl] @ ''    address = ::%'' @ scope @ rest)"
proof -
  have "v6_parts ''::'' = Some [None, None, None]" "v6_from_parts [None, None, None] = Some (join_hextets (replicate 8 0))"
    by (simp_all add: v6_parts_def v6_from_parts_def upt_rec)
  moreover have "strip_scope (''::%'' @ scope) = Some ''::''"
    using assms(1,3) by (simp add: strip_scope_def)
  ultimately have "ipv6_address (''::%'' @ scope) \<noteq> None"
    using assms(2) by (simp add: ipv6_address_def parse_v6_def)
  moreover have "py_split (CHR ''/'') (''::%'' @ scope) = [''::%'' @ scope]"
    using assms(2) by simp
  ultimately have "ip_network (''::%'' @ scope) \<noteq> None"
    by (auto simp: ip_network_def ip_network_v_def split: option.split)
  moreover have "\<exists>rest. host_block name row = ''host '' @ name @ '' {'' @ [nl] @ ''    address = ::%'' @ scope @ rest"
    unfolding host_block_def assms(5) by simp
  ultimately show ?thesis
    using assms(4) by (simp add: device_create_valid_def validate_ip_or_cidr_def str_len_def opt_len_def)
qed

theorem address_scope_is_rendered_verbatim_witness:
  "\<exists>rest. host_block ''sw1'' (ex_switch\<lparr>d_ip_or_cidr := ''::%x'' @ [nl] @ ''}'' @ [nl] @ ''host evil {'' @ [nl]\<rparr>) =
     ''host sw1 {'' @ [nl] @ ''    address = ::%x'' @ [nl] @ ''}'' @ [nl] @ ''host evil {'' @ [nl] @ rest"
  using address_scope_is_rendered_verbatim [of "''x'' @ [nl] @ ''}'' @ [nl] @ ''host evil {'' @ [nl]"
      "ex_switch\<lparr>d_ip_or_cidr := ''::%x'' @ [nl] @ ''}'' @ [nl] @ ''host evil {'' @ [nl]\<rparr>" 1 "''sw1''"]
  by (simp add: nl_def)

text \<open>An empty secret counts as set for the API and as missing for the renderer.\<close>

lemma empty_secret_is_shown_but_not_rendered:
  "has_current_secret (from_row (row\<lparr>current_secret_enc := Some []\<rparr>)) \<and>
   render_loop seen [row\<lparr>current_secret_enc := Some []\<rparr>] = []"
  by (simp add: from_row_def)

end
