(* ===== verification/Device_Groups.thy ===== *)
theory Device_Groups
  imports Api_Common
begin

text \<open>
  \<open>app/api/v1/device_groups.py\<close>: the handlers of \<open>/api/v1/device-groups\<close>. A group is unique by
  name; its deletion is refused while a device belongs to it (\<open>RESTRICT\<close>) and takes the
  authorizations on it along (\<open>CASCADE\<close>).
\<close>

record device_group_create =
  gc_name :: string
  gc_description :: "string option"

record device_group_update =
  gu_name :: "string option"
  gu_description :: "string option"

definition device_group_create_valid :: "device_group_create \<Rightarrow> bool" where
  "device_group_create_valid p \<longleftrightarrow> str_len 1 128 (gc_name p) \<and> opt_len 0 2048 (gc_description p)"

definition device_group_update_valid :: "device_group_update \<Rightarrow> bool" where
  "device_group_update_valid p \<longleftrightarrow> opt_len 1 128 (gu_name p) \<and> opt_len 0 2048 (gu_description p)"

definition list_device_groups :: "db \<Rightarrow> device_group_row list" where
  "list_device_groups d = sort_key dg_id (device_groups d)"

definition create_device_group ::
    "instant \<Rightarrow> session_context \<Rightarrow> device_group_create \<Rightarrow> db \<Rightarrow> device_group_row outcome" where
  "create_device_group now ctx payload d =
     (let row = \<lparr>dg_id = seqs d T_device_group, dg_name = gc_name payload,
                 dg_description = gc_description payload, dg_created_at = now\<rparr>;
          d1 = bump_seq T_device_group (d\<lparr>device_groups := device_groups d @ [row]\<rparr>)
      in if \<not> device_groups_ok (device_groups d1) then (d, Inl (HTTPException 409 ''name_already_exists''))
         else or_500 d (append_crud now ctx DEVICE_GROUP_CREATED ''device_group'' (dg_id row)
                (Some (dg_name row)) d1) (\<lambda>d2. (d2, Inr row)))"

definition get_device_group_route :: "int \<Rightarrow> db \<Rightarrow> device_group_row outcome" where
  "get_device_group_route i d = get_or_404 (get_device_group d i) d (\<lambda>row. (d, Inr row))"

definition apply_group_update :: "device_group_update \<Rightarrow> device_group_row \<Rightarrow> device_group_row \<times> string list" where
  "apply_group_update payload row0 =
     (let (row1, c1) =
            (case gu_name payload of
               Some n \<Rightarrow> if n \<noteq> dg_name row0
                 then (row0\<lparr>dg_name := n\<rparr>, [''name '' @ arrow (py_repr (dg_name row0)) (py_repr n)]) else (row0, [])
             | None \<Rightarrow> (row0, []));
          (row2, c2) =
            (case gu_description payload of
               Some x \<Rightarrow> (row1\<lparr>dg_description := Some x\<rparr>, [''description''])
             | None \<Rightarrow> (row1, []))
      in (row2, c1 @ c2))"

definition update_device_group ::
    "instant \<Rightarrow> session_context \<Rightarrow> int \<Rightarrow> device_group_update \<Rightarrow> db \<Rightarrow> device_group_row outcome" where
  "update_device_group now ctx i payload d =
     get_or_404 (get_device_group d i) d (\<lambda>row0.
       (let (row, changed) = apply_group_update payload row0;
            d1 = d\<lparr>device_groups := put_row dg_id row (device_groups d)\<rparr>
        in if \<not> device_groups_ok (device_groups d1) then (d, Inl (HTTPException 409 ''name_already_exists''))
           else or_500 d (append_crud now ctx DEVICE_GROUP_UPDATED ''device_group'' (dg_id row)
                  (Some (update_summary (dg_name row) changed)) d1) (\<lambda>d2. (d2, Inr row))))"

text \<open>The database side of \<open>session.delete(group)\<close>; \<open>None\<close> is the \<open>IntegrityError\<close>.\<close>

definition remove_device_group :: "int \<Rightarrow> db \<Rightarrow> db option" where
  "remove_device_group i d =
     (if \<exists>x\<in>set (devices d). d_device_group_id x = i then None
      else Some (d\<lparr>device_groups := del_row dg_id i (device_groups d),
                   authorizations := filter (\<lambda>a. a_device_group_id a \<noteq> i) (authorizations d)\<rparr>))"

definition delete_device_group :: "instant \<Rightarrow> session_context \<Rightarrow> int \<Rightarrow> db \<Rightarrow> unit outcome" where
  "delete_device_group now ctx i d =
     get_or_404 (get_device_group d i) d (\<lambda>row.
       (case remove_device_group i d of
          None \<Rightarrow> (d, Inl (HTTPException 409 ''device_group_in_use''))
        | Some d1 \<Rightarrow>
            or_500 d (append_crud now ctx DEVICE_GROUP_DELETED ''device_group'' (dg_id row)
              (Some (dg_name row)) d1) (\<lambda>d2. (d2, Inr ()))))"

section \<open>Facts\<close>

lemma get_device_groupD: "get_device_group d i = Some row \<Longrightarrow> row \<in> set (device_groups d) \<and> dg_id row = i"
  unfolding get_device_group_def by (rule get_row_mem)

lemma apply_group_update_id [simp]: "dg_id (fst (apply_group_update p row)) = dg_id row"
  by (simp add: apply_group_update_def Let_def split: option.split)

lemma audited_device_group:
  "audited_or_unchanged now ctx [DEVICE_GROUP_CREATED] d (create_device_group now ctx p d)"
  "audited_or_unchanged now ctx [DEVICE_GROUP_UPDATED] d (update_device_group now ctx i pu d)"
  "audited_or_unchanged now ctx [DEVICE_GROUP_DELETED] d (delete_device_group now ctx i d)"
  by (auto simp: create_device_group_def update_device_group_def delete_device_group_def
      remove_device_group_def Let_def split: prod.split)

lemma config_ok_create_group:
  "create_device_group now ctx p d = (d', r) \<Longrightarrow> config_ok d \<Longrightarrow> config_ok d'"
proof -
  assume c: "create_device_group now ctx p d = (d', r)" and ok: "config_ok d"
  show "config_ok d'"
  proof (cases r)
    case (Inl e)
    with c ok show ?thesis by (auto simp: create_device_group_def Let_def split: if_splits)
  next
    case (Inr row)
    define d1 where "d1 = bump_seq T_device_group (d\<lparr>device_groups := device_groups d @ [row]\<rparr>)"
    from c Inr have row: "dg_id row = seqs d T_device_group" and uniq: "device_groups_ok (device_groups d1)"
      and d': "\<exists>e. d' = with_audit now e d1"
      by (auto simp: create_device_group_def Let_def d1_def split: if_splits)
    have "authorizations_ok d1"
      by (rule authorizations_ok_sub [of d _ "\<lambda>_. True"])
         (use ok in \<open>auto simp: d1_def config_ok_def elim: authz_refs_mono\<close>)
    with ok uniq row have "config_ok d1"
      by (simp add: config_ok_def d1_def keys_ok_snoc devices_ok_def list_all_iff)
    with d' show ?thesis by auto
  qed
qed

lemma config_ok_update_group:
  "update_device_group now ctx i p d = (d', r) \<Longrightarrow> config_ok d \<Longrightarrow> config_ok d'"
proof (cases "get_device_group d i")
  case (Some row0)
  assume c: "update_device_group now ctx i p d = (d', r)" and ok: "config_ok d"
  obtain row changed where app: "apply_group_update p row0 = (row, changed)" by fastforce
  let ?d1 = "d\<lparr>device_groups := put_row dg_id row (device_groups d)\<rparr>"
  have "authz_refs_ok ?d1 a" if "authz_refs_ok d a" for a
    using that by (rule authz_refs_mono) simp_all
  then have "authorizations_ok ?d1"
    using authorizations_ok_sub [of d ?d1 "\<lambda>_. True"] ok by (simp add: config_ok_def)
  then have "config_ok ?d1" if "device_groups_ok (device_groups ?d1)"
    using ok that by (simp add: config_ok_def devices_ok_def)
  with c ok app Some show ?thesis
    by (auto simp: update_device_group_def Let_def split: if_splits)
qed (auto simp: update_device_group_def)

lemma config_ok_delete_group:
  "delete_device_group now ctx i d = (d', r) \<Longrightarrow> config_ok d \<Longrightarrow> config_ok d'"
proof -
  assume c: "delete_device_group now ctx i d = (d', r)" and ok: "config_ok d"
  have "config_ok d1" if rem: "remove_device_group i d = Some d1" for d1
  proof -
    from rem have free: "\<forall>x\<in>set (devices d). d_device_group_id x \<noteq> i"
      and d1: "d1 = d\<lparr>device_groups := del_row dg_id i (device_groups d),
        authorizations := filter (\<lambda>a. a_device_group_id a \<noteq> i) (authorizations d)\<rparr>"
      by (auto simp: remove_device_group_def split: if_splits)
    have "authorizations_ok d1"
      by (rule authorizations_ok_sub [of d _ "\<lambda>a. a_device_group_id a \<noteq> i"])
         (use ok in \<open>auto simp: d1 config_ok_def authz_refs_ok_def del_row_def split: option.splits\<close>)
    with ok free show ?thesis
      by (auto simp: config_ok_def d1 del_row_def keys_ok_filter device_groups_ok_def
          devices_ok_def list_all_iff distinct_map_filter)
  qed
  with c ok show ?thesis
    by (cases "get_device_group d i") (auto simp: delete_device_group_def split: option.splits)
qed

section \<open>Properties\<close>

text \<open>
  C16: A device group is deleted exactly when no device belongs to it; the authorizations on it go
  with it, whoever holds them, and nothing else of the configuration changes.
\<close>

theorem group_deletion_revokes_authorizations:
  assumes "get_device_group d i = Some g" and "delete_device_group now ctx i d = (d', r)"
  shows "if \<exists>x\<in>set (devices d). d_device_group_id x = i
    then d' = d \<and> r = Inl (HTTPException 409 ''device_group_in_use'')
    else r = Inr () \<and>
      authorizations d' = filter (\<lambda>a. a_device_group_id a \<noteq> i) (authorizations d) \<and>
      device_groups d' = filter (\<lambda>g. dg_id g \<noteq> i) (device_groups d) \<and> devices d' = devices d \<and>
      privilege_profiles d' = privilege_profiles d \<and> users d' = users d"
proof (cases "\<exists>x\<in>set (devices d). d_device_group_id x = i")
  case True
  with assms show ?thesis by (simp only: delete_device_group_def remove_device_group_def) simp
next
  case False
  then have "remove_device_group i d = Some (d\<lparr>device_groups := del_row dg_id i (device_groups d),
      authorizations := filter (\<lambda>a. a_device_group_id a \<noteq> i) (authorizations d)\<rparr>)"
    by (simp only: remove_device_group_def if_False)
  with assms False show ?thesis by (auto simp: delete_device_group_def del_row_def)
qed

definition ex_group_db :: db where
  "ex_group_db = empty_db\<lparr>device_groups := [\<lparr>dg_id = 1, dg_name = ''core'', dg_description = None, dg_created_at = 0\<rparr>],
     authorizations := [\<lparr>a_id = 1, principal_user_id = Some 1, principal_ad_group_id = None,
       a_device_group_id = 1, privilege_profile_id = 1, a_created_at = 0\<rparr>]\<rparr>"

definition ex_operator :: session_context where
  "ex_operator = \<lparr>sc_token = ''t'', sc_username = ''ann'', sc_role = ''operator'', sc_auth_method = ''saml'',
     sc_actor_id = None, sc_client_ip = None, sc_user_agent = None\<rparr>"

theorem group_deletion_revokes_authorizations_witness:
  "authorizations (fst (delete_device_group 0 ex_operator 1 ex_group_db)) = []"
  using group_deletion_revokes_authorizations [of ex_group_db 1 _ 0 ex_operator, OF _ prod.collapse [symmetric]]
  by (simp add: ex_group_db_def get_device_group_def empty_db_def)

end
