(* ===== verification/Privilege_Profiles.thy ===== *)
theory Privilege_Profiles
  imports Api_Common
begin

text \<open>
  \<open>app/api/v1/privilege_profiles.py\<close>: the handlers of \<open>/api/v1/privilege-profiles\<close>. A profile is
  unique by name and is not deleted while an authorization refers to it (\<open>RESTRICT\<close>).
\<close>

record privilege_profile_create =
  pc_name :: string
  pc_tacacs_priv_lvl :: int
  pc_permit_commands_regex :: "string list"
  pc_deny_commands_regex :: "string list"
  pc_extra_av_pairs :: "(string \<times> string) list"
  pc_description :: "string option"

record privilege_profile_update =
  pu_name :: "string option"
  pu_tacacs_priv_lvl :: "int option"
  pu_permit_commands_regex :: "string list option"
  pu_deny_commands_regex :: "string list option"
  pu_extra_av_pairs :: "(string \<times> string) list option"
  pu_description :: "string option"

definition priv_lvl_valid :: "int \<Rightarrow> bool" where
  "priv_lvl_valid n \<longleftrightarrow> 0 \<le> n \<and> n \<le> 15"

definition profile_create_valid :: "privilege_profile_create \<Rightarrow> bool" where
  "profile_create_valid p \<longleftrightarrow>
     str_len 1 128 (pc_name p) \<and> priv_lvl_valid (pc_tacacs_priv_lvl p) \<and> opt_len 0 2048 (pc_description p)"

definition profile_update_valid :: "privilege_profile_update \<Rightarrow> bool" where
  "profile_update_valid p \<longleftrightarrow>
     opt_len 1 128 (pu_name p) \<and>
     (case pu_tacacs_priv_lvl p of None \<Rightarrow> True | Some n \<Rightarrow> priv_lvl_valid n) \<and>
     opt_len 0 2048 (pu_description p)"

definition list_privilege_profiles :: "db \<Rightarrow> privilege_profile_row list" where
  "list_privilege_profiles d = sort_key pp_id (privilege_profiles d)"

definition create_privilege_profile ::
    "instant \<Rightarrow> session_context \<Rightarrow> privilege_profile_create \<Rightarrow> db \<Rightarrow> privilege_profile_row outcome" where
  "create_privilege_profile now ctx payload d =
     (let row = \<lparr>pp_id = seqs d T_privilege_profile, pp_name = pc_name payload,
                 tacacs_priv_lvl = pc_tacacs_priv_lvl payload,
                 permit_commands_regex = pc_permit_commands_regex payload,
                 deny_commands_regex = pc_deny_commands_regex payload,
                 extra_av_pairs = pc_extra_av_pairs payload,
                 pp_description = pc_description payload, pp_created_at = now\<rparr>;
          d1 = bump_seq T_privilege_profile (d\<lparr>privilege_profiles := privilege_profiles d @ [row]\<rparr>)
      in if \<not> profiles_ok (privilege_profiles d1) then (d, Inl (HTTPException 409 ''name_already_exists''))
         else or_500 d (append_crud now ctx PRIVILEGE_PROFILE_CREATED ''privilege_profile'' (pp_id row)
                (Some (pp_name row @ '' priv-lvl='' @ int_to_str (tacacs_priv_lvl row))) d1) (\<lambda>d2. (d2, Inr row)))"

definition get_privilege_profile :: "int \<Rightarrow> db \<Rightarrow> privilege_profile_row outcome" where
  "get_privilege_profile i d = get_or_404 (get_profile d i) d (\<lambda>row. (d, Inr row))"

definition apply_profile_update ::
    "privilege_profile_update \<Rightarrow> privilege_profile_row \<Rightarrow> privilege_profile_row \<times> string list" where
  "apply_profile_update p row =
     upd (pu_description p) (\<lambda>_. True) (\<lambda>v r. r\<lparr>pp_description := Some v\<rparr>) (\<lambda>_. ''description'')
    (upd (pu_extra_av_pairs p) (\<lambda>_. True) (\<lambda>v r. r\<lparr>extra_av_pairs := v\<rparr>) (\<lambda>_. ''extra_av_pairs'')
    (upd (pu_deny_commands_regex p) (\<lambda>_. True) (\<lambda>v r. r\<lparr>deny_commands_regex := v\<rparr>) (\<lambda>_. ''deny_commands'')
    (upd (pu_permit_commands_regex p) (\<lambda>_. True) (\<lambda>v r. r\<lparr>permit_commands_regex := v\<rparr>) (\<lambda>_. ''permit_commands'')
    (upd (pu_tacacs_priv_lvl p) (\<lambda>v. v \<noteq> tacacs_priv_lvl row) (\<lambda>v r. r\<lparr>tacacs_priv_lvl := v\<rparr>)
       (\<lambda>v. ''priv-lvl '' @ arrow (int_to_str (tacacs_priv_lvl row)) (int_to_str v))
    (upd (pu_name p) (\<lambda>v. v \<noteq> pp_name row) (\<lambda>v r. r\<lparr>pp_name := v\<rparr>)
       (\<lambda>v. ''name '' @ arrow (py_repr (pp_name row)) (py_repr v)) (row, []))))))"

definition update_privilege_profile ::
    "instant \<Rightarrow> session_context \<Rightarrow> int \<Rightarrow> privilege_profile_update \<Rightarrow> db \<Rightarrow> privilege_profile_row outcome" where
  "update_privilege_profile now ctx i payload d =
     get_or_404 (get_profile d i) d (\<lambda>row0.
       (let (row, changed) = apply_profile_update payload row0;
            d1 = d\<lparr>privilege_profiles := put_row pp_id row (privilege_profiles d)\<rparr>
        in if \<not> profiles_ok (privilege_profiles d1) then (d, Inl (HTTPException 409 ''name_already_exists''))
           else or_500 d (append_crud now ctx PRIVILEGE_PROFILE_UPDATED ''privilege_profile'' (pp_id row)
                  (Some (update_summary (pp_name row) changed)) d1) (\<lambda>d2. (d2, Inr row))))"

definition remove_privilege_profile :: "int \<Rightarrow> db \<Rightarrow> db option" where
  "remove_privilege_profile i d =
     (if \<exists>a\<in>set (authorizations d). privilege_profile_id a = i then None
      else Some (d\<lparr>privilege_profiles := del_row pp_id i (privilege_profiles d)\<rparr>))"

definition delete_privilege_profile :: "instant \<Rightarrow> session_context \<Rightarrow> int \<Rightarrow> db \<Rightarrow> unit outcome" where
  "delete_privilege_profile now ctx i d =
     get_or_404 (get_profile d i) d (\<lambda>row.
       (case remove_privilege_profile i d of
          None \<Rightarrow> (d, Inl (HTTPException 409 ''profile_in_use''))
        | Some d1 \<Rightarrow>
            or_500 d (append_crud now ctx PRIVILEGE_PROFILE_DELETED ''privilege_profile'' (pp_id row)
              (Some (pp_name row)) d1) (\<lambda>d2. (d2, Inr ()))))"

section \<open>Facts\<close>

lemma apply_profile_update_id [simp]: "pp_id (fst (apply_profile_update p row)) = pp_id row"
  by (simp add: apply_profile_update_def upd_key [where key = pp_id])

lemma audited_profile:
  "audited_or_unchanged now ctx [PRIVILEGE_PROFILE_CREATED] d (create_privilege_profile now ctx p d)"
  "audited_or_unchanged now ctx [PRIVILEGE_PROFILE_UPDATED] d (update_privilege_profile now ctx i pu d)"
  "audited_or_unchanged now ctx [PRIVILEGE_PROFILE_DELETED] d (delete_privilege_profile now ctx i d)"
  by (auto simp: create_privilege_profile_def update_privilege_profile_def delete_privilege_profile_def
      remove_privilege_profile_def Let_def split: prod.split)

lemma config_ok_create_profile:
  assumes "create_privilege_profile now ctx p d = (d', r)" and ok: "config_ok d"
  shows "config_ok d'"
proof (cases r)
  case (Inl e)
  with assms show ?thesis by (auto simp: create_privilege_profile_def Let_def split: if_splits)
next
  case (Inr row)
  define d1 where "d1 = bump_seq T_privilege_profile (d\<lparr>privilege_profiles := privilege_profiles d @ [row]\<rparr>)"
  from assms(1) Inr have row: "pp_id row = seqs d T_privilege_profile"
    and uniq: "profiles_ok (privilege_profiles d1)" and d': "\<exists>e. d' = with_audit now e d1"
    by (auto simp: create_privilege_profile_def Let_def d1_def split: if_splits)
  have "authz_refs_ok d1 a" if "authz_refs_ok d a" for a
    using that by (rule authz_refs_mono) (auto simp: d1_def)
  then have "authorizations_ok d1"
    using authorizations_ok_sub [of d d1 "\<lambda>_. True"] ok by (simp add: config_ok_def d1_def)
  with ok uniq row have "config_ok d1"
    by (simp add: config_ok_def d1_def keys_ok_snoc)
  with d' show ?thesis by auto
qed

lemma config_ok_update_profile:
  assumes "update_privilege_profile now ctx i p d = (d', r)" and ok: "config_ok d"
  shows "config_ok d'"
proof (cases "get_profile d i")
  case None
  with assms show ?thesis by (auto simp: update_privilege_profile_def)
next
  case (Some row0)
  obtain row changed where app: "apply_profile_update p row0 = (row, changed)" by fastforce
  let ?d1 = "d\<lparr>privilege_profiles := put_row pp_id row (privilege_profiles d)\<rparr>"
  have "authz_refs_ok ?d1 a" if "authz_refs_ok d a" for a
    using that by (rule authz_refs_mono) simp_all
  then have "authorizations_ok ?d1"
    using authorizations_ok_sub [of d ?d1 "\<lambda>_. True"] ok by (simp add: config_ok_def)
  then have "config_ok ?d1" if "profiles_ok (privilege_profiles ?d1)"
    using ok that by (simp add: config_ok_def)
  with assms app Some show ?thesis
    by (auto simp: update_privilege_profile_def Let_def split: if_splits)
qed

lemma config_ok_delete_profile:
  assumes "delete_privilege_profile now ctx i d = (d', r)" and ok: "config_ok d"
  shows "config_ok d'"
proof -
  have "config_ok d1" if rem: "remove_privilege_profile i d = Some d1" for d1
  proof -
    from rem have free: "\<forall>a\<in>set (authorizations d). privilege_profile_id a \<noteq> i"
      and d1: "d1 = d\<lparr>privilege_profiles := del_row pp_id i (privilege_profiles d)\<rparr>"
      by (auto simp: remove_privilege_profile_def split: if_splits)
    have "authz_refs_ok d1 a" if "a \<in> set (authorizations d)" "authz_refs_ok d a" for a
      using that free by (auto simp: d1 authz_refs_ok_def del_row_def split: option.splits)
    then have "authorizations_ok d1"
      using authorizations_ok_sub [of d d1 "\<lambda>_. True"] ok by (simp add: config_ok_def d1)
    with ok show ?thesis
      by (auto simp: config_ok_def d1 del_row_def keys_ok_filter profiles_ok_def list_all_iff distinct_map_filter)
  qed
  with assms show ?thesis
    by (cases "get_profile d i") (auto simp: delete_privilege_profile_def split: option.splits)
qed

end
