(* ===== verification/Authorizations.thy ===== *)
theory Authorizations
  imports Api_Common
begin

text \<open>
  \<open>app/api/v1/authorizations.py\<close>: the handlers of \<open>/api/v1/authorizations\<close>. An authorization
  binds one user or one AD group to a device group and a profile; it is created and deleted,
  never changed.
\<close>

record authorization_create =
  ac_principal_user_id :: "int option"
  ac_principal_ad_group_id :: "int option"
  ac_device_group_id :: int
  ac_privilege_profile_id :: int

definition exactly_one_principal :: "authorization_create \<Rightarrow> bool" where
  "exactly_one_principal p \<longleftrightarrow> (ac_principal_user_id p = None) \<noteq> (ac_principal_ad_group_id p = None)"

definition list_authorizations :: "db \<Rightarrow> authorization_row list" where
  "list_authorizations d = sort_key a_id (authorizations d)"

definition principal_desc :: "int option \<Rightarrow> int option \<Rightarrow> string" where
  "principal_desc u g =
     (let show_id = (\<lambda>v. case v of Some i \<Rightarrow> int_to_str i | None \<Rightarrow> ''None'') in
      if u \<noteq> None then ''user#'' @ show_id u else ''ad_group#'' @ show_id g)"

definition authz_summary :: "int option \<Rightarrow> int option \<Rightarrow> int \<Rightarrow> int \<Rightarrow> string" where
  "authz_summary u g dg pp = principal_desc u g @ '' -> dg#'' @ int_to_str dg @ '' profile#'' @ int_to_str pp"

text \<open>The checks before the insert; \<open>Some\<close> is the detail of the 400.\<close>

definition unknown_reference :: "authorization_create \<Rightarrow> db \<Rightarrow> string option" where
  "unknown_reference p d =
     (if ac_principal_user_id p \<noteq> None \<and> get_user d (the (ac_principal_user_id p)) = None
        then Some ''unknown_user_id''
      else if ac_principal_user_id p = None \<and>
          (ac_principal_ad_group_id p = None \<or> get_ad_group d (the (ac_principal_ad_group_id p)) = None)
        then Some ''unknown_ad_group_id''
      else if get_device_group d (ac_device_group_id p) = None then Some ''unknown_device_group_id''
      else if get_profile d (ac_privilege_profile_id p) = None then Some ''unknown_privilege_profile_id''
      else None)"

definition create_authorization ::
    "instant \<Rightarrow> session_context \<Rightarrow> authorization_create \<Rightarrow> db \<Rightarrow> authorization_row outcome" where
  "create_authorization now ctx payload d =
     (case unknown_reference payload d of
        Some detail \<Rightarrow> (d, Inl (HTTPException 400 detail))
      | None \<Rightarrow>
          (let row = \<lparr>a_id = seqs d T_authorization, principal_user_id = ac_principal_user_id payload,
                      principal_ad_group_id = ac_principal_ad_group_id payload,
                      a_device_group_id = ac_device_group_id payload,
                      privilege_profile_id = ac_privilege_profile_id payload, a_created_at = now\<rparr>;
               d1 = bump_seq T_authorization (d\<lparr>authorizations := authorizations d @ [row]\<rparr>)
           in if \<not> authorizations_ok d1
              then (d, Inl (HTTPException 409 ''authorization_already_exists''))
              else or_500 d (append_crud now ctx AUTHORIZATION_CREATED ''authorization'' (a_id row)
                (Some (authz_summary (ac_principal_user_id payload) (ac_principal_ad_group_id payload)
                   (ac_device_group_id payload) (ac_privilege_profile_id payload))) d1)
                (\<lambda>d2. (d2, Inr row))))"

definition get_authorization_route :: "int \<Rightarrow> db \<Rightarrow> authorization_row outcome" where
  "get_authorization_route i d = get_or_404 (get_authorization d i) d (\<lambda>row. (d, Inr row))"

definition delete_authorization :: "instant \<Rightarrow> session_context \<Rightarrow> int \<Rightarrow> db \<Rightarrow> unit outcome" where
  "delete_authorization now ctx i d =
     get_or_404 (get_authorization d i) d (\<lambda>row.
       or_500 d (append_crud now ctx AUTHORIZATION_DELETED ''authorization'' (a_id row)
           (Some (authz_summary (principal_user_id row) (principal_ad_group_id row)
              (a_device_group_id row) (privilege_profile_id row)))
           (d\<lparr>authorizations := del_row a_id i (authorizations d)\<rparr>))
         (\<lambda>d2. (d2, Inr ())))"

section \<open>Facts\<close>

lemma audited_authorization:
  "audited_or_unchanged now ctx [AUTHORIZATION_CREATED] d (create_authorization now ctx p d)"
  "audited_or_unchanged now ctx [AUTHORIZATION_DELETED] d (delete_authorization now ctx i d)"
  by (auto simp: create_authorization_def delete_authorization_def Let_def split: option.split)

lemma config_ok_create_authorization:
  assumes "create_authorization now ctx p d = (d', r)" and ok: "config_ok d"
  shows "config_ok d'"
proof (cases r)
  case (Inl e)
  with assms show ?thesis by (auto simp: create_authorization_def Let_def split: if_splits option.splits)
next
  case (Inr row)
  define d1 where "d1 = bump_seq T_authorization (d\<lparr>authorizations := authorizations d @ [row]\<rparr>)"
  from assms(1) Inr have "a_id row = seqs d T_authorization" "authorizations_ok d1"
    and d': "\<exists>e. d' = with_audit now e d1"
    by (auto simp: create_authorization_def Let_def d1_def split: if_splits option.splits)
  with ok have "config_ok d1" by (simp add: config_ok_def d1_def keys_ok_snoc)
  with d' show ?thesis by auto
qed

lemma config_ok_delete_authorization:
  assumes "delete_authorization now ctx i d = (d', r)" and ok: "config_ok d"
  shows "config_ok d'"
proof -
  let ?d1 = "d\<lparr>authorizations := del_row a_id i (authorizations d)\<rparr>"
  have "authz_refs_ok ?d1 a" if "authz_refs_ok d a" for a
    using that by (rule authz_refs_mono) simp_all
  then have "authorizations_ok ?d1"
    using authorizations_ok_sub [of d ?d1 "\<lambda>a. a_id a \<noteq> i"] ok by (simp add: config_ok_def del_row_def)
  with ok have "config_ok ?d1" by (simp add: config_ok_def del_row_def keys_ok_filter)
  with assms show ?thesis
    by (cases "get_authorization d i") (auto simp: delete_authorization_def)
qed

section \<open>Properties\<close>

text \<open>
  Creating an authorization does not depend on the role of the session: any signed-in session
  grants any user or group any profile on any device group, with the same outcome.
\<close>

theorem grants_ignore_the_role:
  "snd (create_authorization now (ctx\<lparr>sc_role := role\<rparr>) p d) = snd (create_authorization now ctx p d) \<and>
   authorizations (fst (create_authorization now (ctx\<lparr>sc_role := role\<rparr>) p d)) =
     authorizations (fst (create_authorization now ctx p d))"
  by (simp add: create_authorization_def Let_def split: option.split)

lemma unknown_reference_None:
  "unknown_reference p d = None \<longleftrightarrow>
     (case ac_principal_user_id p of
        Some u \<Rightarrow> get_user d u \<noteq> None
      | None \<Rightarrow> (\<exists>g. ac_principal_ad_group_id p = Some g \<and> get_ad_group d g \<noteq> None)) \<and>
     get_device_group d (ac_device_group_id p) \<noteq> None \<and> get_profile d (ac_privilege_profile_id p) \<noteq> None"
  by (auto simp: unknown_reference_def split: option.split)

lemma distinct_map_filter_snoc:
  "distinct (List.map_filter f (xs @ [x])) \<longleftrightarrow>
   distinct (List.map_filter f xs) \<and> (\<forall>k. f x = Some k \<longrightarrow> (\<forall>y\<in>set xs. f y \<noteq> Some k))"
  by (cases "f x") (force simp: List.map_filter_def image_iff)+

lemma get_id_iff:
  "get_user d i \<noteq> None \<longleftrightarrow> i \<in> u_id ` set (users d)" "get_ad_group d i \<noteq> None \<longleftrightarrow> i \<in> g_id ` set (ad_groups d)"
  "get_device_group d i \<noteq> None \<longleftrightarrow> i \<in> dg_id ` set (device_groups d)"
  "get_profile d i \<noteq> None \<longleftrightarrow> i \<in> pp_id ` set (privilege_profiles d)"
  by (auto simp: get_user_def get_ad_group_def get_device_group_def get_profile_def find_None_all
      simp del: not_None_eq)

lemma authorizations_ok_snoc:
  assumes "authorizations_ok d" and "authorizations d1 = authorizations d @ [row]"
    and "users d1 = users d" "ad_groups d1 = ad_groups d" "device_groups d1 = device_groups d"
    "privilege_profiles d1 = privilege_profiles d"
  shows "authorizations_ok d1 \<longleftrightarrow> one_principal row \<and> authz_refs_ok d row \<and>
    (\<forall>a\<in>set (authorizations d). \<not> (principal_user_id a = principal_user_id row \<and>
       principal_ad_group_id a = principal_ad_group_id row \<and> a_device_group_id a = a_device_group_id row \<and>
       privilege_profile_id a = privilege_profile_id row))"
proof -
  have refs: "authz_refs_ok d1 = authz_refs_ok d"
    using assms by (intro ext) (simp add: authz_refs_ok_def split: option.split)
  have op: "one_principal a" if "a \<in> set (authorizations d)" for a
    using assms(1) that by (simp add: authorizations_ok_def list_all_iff)
  have "(\<forall>k. authz_user_key row = Some k \<longrightarrow> (\<forall>y\<in>set (authorizations d). authz_user_key y \<noteq> Some k)) \<and>
      (\<forall>k. authz_group_key row = Some k \<longrightarrow> (\<forall>y\<in>set (authorizations d). authz_group_key y \<noteq> Some k)) \<longleftrightarrow>
      (\<forall>a\<in>set (authorizations d). \<not> (principal_user_id a = principal_user_id row \<and>
       principal_ad_group_id a = principal_ad_group_id row \<and> a_device_group_id a = a_device_group_id row \<and>
       privilege_profile_id a = privilege_profile_id row))" if "one_principal row"
    using that op by (cases "principal_user_id row"; cases "principal_ad_group_id row")
      (fastforce simp: authz_user_key_def authz_group_key_def one_principal_def)+
  with assms(1,2) refs show ?thesis
    by (auto simp: authorizations_ok_def distinct_map_filter_snoc)
qed

text \<open>
  C36: An authorization is stored exactly when it names one principal that exists and a device
  group and a profile that exist, and the same edge is not stored already.
\<close>

theorem authorization_created_iff:
  assumes "config_ok d"
  shows "(\<exists>d' row. create_authorization now ctx p d = (d', Inr row)) \<longleftrightarrow>
    exactly_one_principal p \<and>
    (case ac_principal_user_id p of
        Some u \<Rightarrow> u \<in> u_id ` set (users d)
      | None \<Rightarrow> the (ac_principal_ad_group_id p) \<in> g_id ` set (ad_groups d)) \<and>
    ac_device_group_id p \<in> dg_id ` set (device_groups d) \<and>
    ac_privilege_profile_id p \<in> pp_id ` set (privilege_profiles d) \<and>
    \<not> (\<exists>a\<in>set (authorizations d). principal_user_id a = ac_principal_user_id p \<and>
       principal_ad_group_id a = ac_principal_ad_group_id p \<and> a_device_group_id a = ac_device_group_id p \<and>
       privilege_profile_id a = ac_privilege_profile_id p)"
proof -
  let ?row = "\<lparr>a_id = seqs d T_authorization, principal_user_id = ac_principal_user_id p,
      principal_ad_group_id = ac_principal_ad_group_id p, a_device_group_id = ac_device_group_id p,
      privilege_profile_id = ac_privilege_profile_id p, a_created_at = now\<rparr>"
  let ?d1 = "bump_seq T_authorization (d\<lparr>authorizations := authorizations d @ [?row]\<rparr>)"
  have "authorizations_ok d" using assms by (simp add: config_ok_def)
  note ok1 = authorizations_ok_snoc [OF this, of ?d1 ?row]
  have "(\<exists>d' row. create_authorization now ctx p d = (d', Inr row)) \<longleftrightarrow>
      unknown_reference p d = None \<and> authorizations_ok ?d1"
    by (auto simp: create_authorization_def Let_def split: option.split)
  also have "\<dots> \<longleftrightarrow> unknown_reference p d = None \<and> exactly_one_principal p \<and>
      \<not> (\<exists>a\<in>set (authorizations d). principal_user_id a = ac_principal_user_id p \<and>
       principal_ad_group_id a = ac_principal_ad_group_id p \<and> a_device_group_id a = ac_device_group_id p \<and>
       privilege_profile_id a = ac_privilege_profile_id p)"
    using ok1 unfolding unknown_reference_None get_id_iff
    by (auto simp: authz_refs_ok_def one_principal_def exactly_one_principal_def split: option.splits)
  finally show ?thesis unfolding unknown_reference_None get_id_iff
    by (auto simp: exactly_one_principal_def split: option.splits)
qed

definition ex_authz_db :: db where
  "ex_authz_db = empty_db\<lparr>
     users := [\<lparr>u_id = 7, u_sam_account_name = ''jan'', u_ad_object_guid = None, u_distinguished_name = ''CN=jan'',
       u_upn = None, u_display_name = None, u_enabled = True, u_last_seen_in_sync_at = None\<rparr>],
     device_groups := [\<lparr>dg_id = 1, dg_name = ''core'', dg_description = None, dg_created_at = 0\<rparr>],
     privilege_profiles := [\<lparr>pp_id = 1, pp_name = ''ro'', tacacs_priv_lvl = 1, permit_commands_regex = [],
       deny_commands_regex = [], extra_av_pairs = [], pp_description = None, pp_created_at = 0\<rparr>],
     seqs := (\<lambda>_. 2)\<rparr>"

definition ex_viewer :: session_context where
  "ex_viewer = \<lparr>sc_token = ''t'', sc_username = ''viv'', sc_role = ''viewer'', sc_auth_method = ''saml'',
     sc_actor_id = None, sc_client_ip = None, sc_user_agent = None\<rparr>"

lemma ex_authz_ok: "config_ok ex_authz_db"
  by (simp add: config_ok_def ex_authz_db_def empty_db_def keys_ok_def device_groups_ok_def profiles_ok_def
      profile_ok_def devices_ok_def authorizations_ok_def List.map_filter_def)

theorem authorization_created_iff_witness:
  "\<exists>d' row. create_authorization 5 ex_viewer \<lparr>ac_principal_user_id = Some 7, ac_principal_ad_group_id = None,
     ac_device_group_id = 1, ac_privilege_profile_id = 1\<rparr> ex_authz_db = (d', Inr row)"
  unfolding authorization_created_iff [OF ex_authz_ok]
  by (simp add: exactly_one_principal_def ex_authz_db_def empty_db_def)

end
