(* ===== verification/Queries.thy ===== *)
theory Queries
  imports Api_Common
begin

text \<open>
  The read-only listings: \<open>api/v1/audit_log.py\<close>, \<open>api/v1/accounting.py\<close> and
  \<open>api/v1/principals.py\<close>. \<open>ILIKE\<close> folds both sides with the database's \<open>lower\<close>, a parameter,
  and matches \<open>%\<close>, \<open>_\<close> and backslash escapes; a backslash at the end of a pattern is an error
  when the text reaches it. Pages are cut from the matching rows, newest first.
\<close>

section \<open>ILIKE\<close>

fun suffixes_of :: "'a list \<Rightarrow> 'a list list" where
  "suffixes_of [] = [[]]"
| "suffixes_of (x # xs) = (x # xs) # suffixes_of xs"

fun first_true :: "bool option list \<Rightarrow> bool option" where
  "first_true [] = Some False"
| "first_true (v # vs) = (case v of None \<Rightarrow> None | Some b \<Rightarrow> if b then Some True else first_true vs)"

fun like :: "string \<Rightarrow> string \<Rightarrow> bool option" where
  "like [] s = Some (s = [])"
| "like (p # ps) s =
     (if p = CHR 0x25 then first_true (map (like ps) (suffixes_of s))
      else
        (case s of
           [] \<Rightarrow> Some False
         | c # cs \<Rightarrow>
             if p = bslash then (case ps of [] \<Rightarrow> None | q # qs \<Rightarrow> if q = c then like qs cs else Some False)
             else if p = CHR ''_'' \<or> p = c then like ps cs
             else Some False))"

definition ilike :: "(string \<Rightarrow> string) \<Rightarrow> string \<Rightarrow> string \<Rightarrow> bool option" where
  "ilike sql_lower pattern s = like (sql_lower pattern) (sql_lower s)"

text \<open>A \<open>WHERE\<close> clause over a table: an error on any row is the statement's error.\<close>

definition where_rows :: "('r \<Rightarrow> bool option) \<Rightarrow> 'r list \<Rightarrow> 'r list exn" where
  "where_rows P rows =
     (if \<exists>r\<in>set rows. P r = None then Inl ''DataError: LIKE pattern must not end with escape character''
      else Inr (filter (\<lambda>r. P r = Some True) rows))"

definition all_of :: "bool option list \<Rightarrow> bool option" where
  "all_of vs = (if Some False \<in> set vs then Some False else if None \<in> set vs then None else Some True)"

text \<open>A filter that is only added when its parameter is truthy.\<close>

definition when_set :: "string option \<Rightarrow> (string \<Rightarrow> bool option) \<Rightarrow> bool option list" where
  "when_set v P = (if truthy v then [P (the v)] else [])"

definition contains_pattern :: "string \<Rightarrow> string" where
  "contains_pattern s = CHR 0x25 # s @ [CHR 0x25]"

section \<open>Pages\<close>

record 'r page =
  pg_total :: nat
  pg_limit :: nat
  pg_offset :: nat
  pg_entries :: "'r list"

definition page_of :: "('r \<Rightarrow> int) \<Rightarrow> nat \<Rightarrow> nat \<Rightarrow> 'r list \<Rightarrow> 'r page" where
  "page_of row_id limit offset rows =
     \<lparr>pg_total = length rows, pg_limit = limit, pg_offset = offset,
      pg_entries = take limit (drop offset (rev (sort_key row_id rows)))\<rparr>"

record audit_query =
  qa_limit :: nat
  qa_offset :: nat
  qa_action :: "string option"
  qa_username :: "string option"
  qa_auth_method :: "string option"
  qa_since :: "instant option"
  qa_until :: "instant option"

definition audit_query_valid :: "audit_query \<Rightarrow> bool" where
  "audit_query_valid q \<longleftrightarrow> 1 \<le> qa_limit q \<and> qa_limit q \<le> 500 \<and> opt_len 0 64 (qa_action q) \<and>
     opt_len 0 256 (qa_username q) \<and> opt_len 0 16 (qa_auth_method q)"

definition in_period :: "instant option \<Rightarrow> instant option \<Rightarrow> instant \<Rightarrow> bool" where
  "in_period since until t \<longleftrightarrow>
     (case since of None \<Rightarrow> True | Some s \<Rightarrow> s \<le> t) \<and> (case until of None \<Rightarrow> True | Some u \<Rightarrow> t < u)"

definition audit_filter :: "(string \<Rightarrow> string) \<Rightarrow> audit_query \<Rightarrow> audit_row \<Rightarrow> bool option" where
  "audit_filter sql_lower q r = all_of
     (when_set (qa_action q) (\<lambda>v. Some (al_action r = v)) @
      when_set (qa_username q) (\<lambda>v. ilike sql_lower (contains_pattern v) (actor_username_snapshot r)) @
      when_set (qa_auth_method q) (\<lambda>v. Some (al_auth_method r = v)) @
      [Some (in_period (qa_since q) (qa_until q) (al_ts r))])"

definition list_known_actions :: "string list" where
  "list_known_actions = sort (remdups ALL_ACTIONS)"

definition list_audit_log ::
    "(string \<Rightarrow> string) \<Rightarrow> session_context \<Rightarrow> audit_query \<Rightarrow> db \<Rightarrow> audit_row page outcome" where
  "list_audit_log sql_lower ctx q d =
     admin_only ctx d
       (or_500 d (where_rows (audit_filter sql_lower q) (audit_log d))
         (\<lambda>rows. (d, Inr (page_of al_id (qa_limit q) (qa_offset q) rows))))"

record accounting_query =
  qc_limit :: nat
  qc_offset :: nat
  qc_action :: "string option"
  qc_username :: "string option"
  qc_nas_ip :: "string option"
  qc_task_id :: "string option"
  qc_cmd :: "string option"
  qc_since :: "instant option"
  qc_until :: "instant option"

definition accounting_query_valid :: "accounting_query \<Rightarrow> bool" where
  "accounting_query_valid q \<longleftrightarrow> 1 \<le> qc_limit q \<and> qc_limit q \<le> 500 \<and> opt_len 0 16 (qc_action q) \<and>
     opt_len 0 256 (qc_username q) \<and> opt_len 0 64 (qc_nas_ip q) \<and> opt_len 0 64 (qc_task_id q) \<and>
     opt_len 0 512 (qc_cmd q)"

text \<open>A comparison with NULL is not true.\<close>

definition on_column :: "string option \<Rightarrow> (string \<Rightarrow> bool option) \<Rightarrow> bool option" where
  "on_column v P = (case v of None \<Rightarrow> Some False | Some s \<Rightarrow> P s)"

definition accounting_filter :: "(string \<Rightarrow> string) \<Rightarrow> accounting_query \<Rightarrow> accounting_row \<Rightarrow> bool option" where
  "accounting_filter sql_lower q r = all_of
     (when_set (qc_action q) (\<lambda>v. Some (ar_action r = v)) @
      when_set (qc_username q) (\<lambda>v. on_column (ar_username r) (ilike sql_lower (contains_pattern v))) @
      when_set (qc_nas_ip q) (\<lambda>v. on_column (ar_nas_ip r) (\<lambda>s. Some (s = v))) @
      when_set (qc_task_id q) (\<lambda>v. on_column (ar_task_id r) (\<lambda>s. Some (s = v))) @
      when_set (qc_cmd q) (\<lambda>v. on_column (ar_cmd r) (ilike sql_lower (contains_pattern v))) @
      [Some (in_period (qc_since q) (qc_until q) (ar_ts r))])"

definition list_accounting ::
    "(string \<Rightarrow> string) \<Rightarrow> session_context \<Rightarrow> accounting_query \<Rightarrow> db \<Rightarrow> accounting_row page outcome" where
  "list_accounting sql_lower ctx q d =
     admin_only ctx d
       (or_500 d (where_rows (accounting_filter sql_lower q) (accounting_records d))
         (\<lambda>rows. (d, Inr (page_of ar_id (qc_limit q) (qc_offset q) rows))))"

text \<open>Names sort by code point, NULL names last.\<close>

definition list_users :: "db \<Rightarrow> user_row list" where
  "list_users d = sort_key u_sam_account_name (users d)"

definition list_ad_groups :: "db \<Rightarrow> ad_group_row list" where
  "list_ad_groups d = sort_key (\<lambda>g. (g_name g = None, case g_name g of None \<Rightarrow> [] | Some n \<Rightarrow> n)) (ad_groups d)"

section \<open>Facts\<close>

lemma first_true_total: "None \<notin> set vs \<Longrightarrow> first_true vs = Some (Some True \<in> set vs)"
proof (induction vs)
  case (Cons v vs)
  then show ?case by (cases v) auto
qed simp

lemma set_suffixes_of: "set (suffixes_of s) = {t. suffix t s}"
  by (induction s) (auto simp: suffix_Cons)

text \<open>A pattern without special characters matches the text itself and nothing else.\<close>

definition plain_pattern :: "string \<Rightarrow> bool" where
  "plain_pattern p \<longleftrightarrow> list_all (\<lambda>c. c \<noteq> CHR 0x25 \<and> c \<noteq> CHR ''_'' \<and> c \<noteq> bslash) p"

lemma like_plain: "plain_pattern p \<Longrightarrow> like p s = Some (s = p)"
  by (induction p arbitrary: s) (auto simp: plain_pattern_def split: list.split)

lemma like_plain_percent: "plain_pattern p \<Longrightarrow> like (p @ [CHR 0x25]) s = Some (prefix p s)"
proof (induction p arbitrary: s)
  case Nil
  have "first_true (map (like []) (suffixes_of s)) = Some True"
    by (subst first_true_total) (auto simp: set_suffixes_of)
  then show ?case by simp
next
  case (Cons c p)
  then show ?case by (auto simp: plain_pattern_def split: list.split)
qed

lemma like_contains: "plain_pattern p \<Longrightarrow> like (contains_pattern p) s = Some (sublist p s)"
proof -
  assume p: "plain_pattern p"
  have "first_true (map (like (p @ [CHR 0x25])) (suffixes_of s)) = Some (\<exists>t. suffix t s \<and> prefix p t)"
    by (subst first_true_total) (auto simp: like_plain_percent [OF p] set_suffixes_of)
  also have "(\<exists>t. suffix t s \<and> prefix p t) \<longleftrightarrow> sublist p s"
    by (auto simp: suffix_def prefix_def sublist_def)
  finally show ?thesis by (simp add: contains_pattern_def)
qed

section \<open>Properties\<close>

fun pages :: "('r \<Rightarrow> int) \<Rightarrow> nat \<Rightarrow> nat \<Rightarrow> nat \<Rightarrow> 'r list \<Rightarrow> 'r list" where
  "pages row_id limit offset 0 rows = []"
| "pages row_id limit offset (Suc n) rows =
     pg_entries (page_of row_id limit offset rows) @ pages row_id limit (offset + limit) n rows"

lemma pages_take:
  "pages row_id limit offset n rows = take (n * limit) (drop offset (rev (sort_key row_id rows)))"
  by (induction n arbitrary: offset) (simp_all add: page_of_def take_add add.commute)

text \<open>
  Reading the audit log in consecutive pages yields every matching row exactly once, the
  newest first, and every page says how many rows match.
\<close>

theorem audit_pages_are_complete:
  assumes "sc_role ctx = ''admin''" and "list_audit_log sql_lower ctx q d = (d', Inr pg)"
    and "length (audit_log d) \<le> n * qa_limit q"
  shows "let rows = filter (\<lambda>r. audit_filter sql_lower q r = Some True) (audit_log d) in d' = d \<and>
    pg_total pg = length rows \<and> length (pg_entries pg) \<le> qa_limit q \<and>
    pages al_id (qa_limit q) 0 n rows = rev (sort_key al_id rows)"
proof -
  let ?rows = "filter (\<lambda>r. audit_filter sql_lower q r = Some True) (audit_log d)"
  have "length ?rows \<le> n * qa_limit q" using assms(3) length_filter_le order_trans by blast
  then have "pages al_id (qa_limit q) 0 n ?rows = rev (sort_key al_id ?rows)"
    by (simp add: pages_take)
  with assms(1,2) show ?thesis
    by (auto simp: list_audit_log_def admin_only_def where_rows_def page_of_def split: if_splits)
qed

definition ex_reader :: session_context where
  "ex_reader = \<lparr>sc_token = ''t'', sc_username = ''root'', sc_role = ''admin'', sc_auth_method = ''local'',
     sc_actor_id = Some 1, sc_client_ip = None, sc_user_agent = None\<rparr>"

definition ex_query :: audit_query where
  "ex_query = \<lparr>qa_limit = 1, qa_offset = 0, qa_action = None, qa_username = None, qa_auth_method = None,
     qa_since = None, qa_until = None\<rparr>"

definition ex_log :: db where
  "ex_log = empty_db\<lparr>audit_log := [audit_row_of 0 1 (audit_args ''a'' ''r'' ''m'' AUTH_LOGOUT),
     audit_row_of 5 2 (audit_args ''b'' ''r'' ''m'' AUTH_LOGOUT)]\<rparr>"

theorem audit_pages_are_complete_witness:
  "\<exists>rows :: audit_row list. pages al_id 1 0 2 rows = rev (sort_key al_id rows) \<and> map al_id rows = [1, 2]"
proof -
  have f: "audit_filter (\<lambda>s. s) ex_query r = Some True" for r
    by (simp add: audit_filter_def ex_query_def when_set_def all_of_def in_period_def)
  have "list_audit_log (\<lambda>s. s) ex_reader ex_query ex_log =
      (ex_log, Inr (page_of al_id 1 0 (audit_log ex_log)))"
    by (simp add: list_audit_log_def admin_only_def ex_reader_def where_rows_def f, simp add: ex_query_def)
  from audit_pages_are_complete [OF _ this, of 2]
  have "pages al_id 1 0 2 (audit_log ex_log) = rev (sort_key al_id (audit_log ex_log))"
    by (simp add: f Let_def) (simp add: ex_reader_def ex_query_def ex_log_def)
  then show ?thesis by (intro exI [of _ "audit_log ex_log"]) (simp add: ex_log_def)
qed

text \<open>
  A search for a user name without wildcards finds exactly the rows whose name contains it,
  up to the database's case folding.
\<close>

theorem plain_search_is_substring:
  assumes "plain_pattern (sql_lower v)" and "\<And>s. sql_lower (contains_pattern s) = contains_pattern (sql_lower s)"
  shows "ilike sql_lower (contains_pattern v) s = Some (sublist (sql_lower v) (sql_lower s))"
  using assms by (simp add: ilike_def like_contains)

theorem plain_search_is_substring_witness:
  "ilike py_lower (contains_pattern ''Jan'') ''DOM/JANE'' = Some True"
proof -
  have "py_lower (contains_pattern s) = contains_pattern (py_lower s)" for s
    by (simp add: contains_pattern_def py_lower_char_def)
  moreover have "plain_pattern (py_lower ''Jan'')"
    by (simp add: plain_pattern_def py_lower_char_def char_eval bslash_def)
  moreover have "sublist (py_lower ''Jan'') (py_lower ''DOM/JANE'')"
    by (simp add: py_lower_char_def char_eval sublist_code)
  ultimately show ?thesis using plain_search_is_substring [of py_lower "''Jan''" "''DOM/JANE''"] by simp
qed

end
