(* ===== verification/Effective_Permissions.thy ===== *)
theory Effective_Permissions
  imports Internal_Mavis Queries
begin

text \<open>
  \<open>app/api/v1/effective_permissions.py\<close>: what a user may do on each device group, and the same for
  the caller of \<open>/me/access\<close>. The main property: the view shows the authorization that the
  MAVIS backend applies.
\<close>

definition MY_ACCESS_DEVICE_PREVIEW :: nat where
  "MY_ACCESS_DEVICE_PREVIEW = 50"

record candidate_read =
  cr_authorization_id :: int
  cr_principal_user_id :: "int option"
  cr_principal_ad_group_id :: "int option"
  cr_privilege_profile_id :: int
  cr_tacacs_priv_lvl :: int

record effective_permission_read =
  ep_device_group_id :: int
  ep_device_group_name :: string
  ep_winning :: candidate_read
  ep_overridden :: "candidate_read list"

definition to_candidate :: "loaded_authorization \<Rightarrow> candidate_read" where
  "to_candidate a = \<lparr>cr_authorization_id = a_id a, cr_principal_user_id = principal_user_id a,
     cr_principal_ad_group_id = principal_ad_group_id a, cr_privilege_profile_id = privilege_profile_id a,
     cr_tacacs_priv_lvl = tacacs_priv_lvl (privilege_profile a)\<rparr>"

definition user_candidates :: "db \<Rightarrow> loaded_user \<Rightarrow> loaded_authorization list" where
  "user_candidates d user = load_authorizations d (\<lambda>a.
     principal_user_id a = Some (u_id user) \<or>
     (case principal_ad_group_id a of None \<Rightarrow> False | Some g \<Rightarrow> g \<in> set (map g_id (u_groups user))))"

text \<open>\<open>by_dg.setdefault(dg, []).append(auth)\<close>: a dict in insertion order.\<close>

fun setdefault_append :: "int \<Rightarrow> 'a \<Rightarrow> (int \<times> 'a list) list \<Rightarrow> (int \<times> 'a list) list" where
  "setdefault_append k x [] = [(k, [x])]"
| "setdefault_append k x ((k', xs) # m) =
     (if k = k' then (k', xs @ [x]) # m else (k', xs) # setdefault_append k x m)"

fun by_dg :: "loaded_authorization list \<Rightarrow> (int \<times> loaded_authorization list) list \<Rightarrow>
    (int \<times> loaded_authorization list) list" where
  "by_dg [] m = m"
| "by_dg (a # as) m = by_dg as (setdefault_append (a_device_group_id a) a m)"

definition group_name :: "db \<Rightarrow> int \<Rightarrow> string" where
  "group_name d g = (case get_device_group d g of Some r \<Rightarrow> dg_name r | None \<Rightarrow> [])"

definition permission_of ::
    "db \<Rightarrow> loaded_user \<Rightarrow> int \<times> loaded_authorization list \<Rightarrow> effective_permission_read option" where
  "permission_of d user e =
     (let out = evaluate_for_user user (fst e) (snd e) in
      case winning out of
        None \<Rightarrow> None
      | Some w \<Rightarrow> Some \<lparr>ep_device_group_id = fst e, ep_device_group_name = group_name d (fst e),
          ep_winning = to_candidate w, ep_overridden = map to_candidate (overridden out)\<rparr>)"

definition list_effective_permissions :: "int \<Rightarrow> db \<Rightarrow> effective_permission_read list outcome" where
  "list_effective_permissions uid d =
     (case get_user d uid of
        None \<Rightarrow> (d, Inl (HTTPException 404 ''unknown_user_id''))
      | Some u \<Rightarrow>
          (let user = load_user d u in
           (d, Inr (sort_key ep_device_group_id
             (List.map_filter (permission_of d user) (by_dg (user_candidates d user) []))))))"

section \<open>The caller's own access\<close>

record my_access_group =
  ma_device_group_id :: int
  ma_device_group_name :: string
  ma_tacacs_priv_lvl :: int
  ma_privilege_profile_name :: string
  ma_via_ad_group_name :: "string option"
  ma_devices :: "(int \<times> string \<times> string) list"
  ma_device_count :: nat

record my_access_read =
  my_tacacs_username :: "string option"
  my_display_name :: "string option"
  my_groups :: "my_access_group list"

definition find_me :: "(string \<Rightarrow> string) \<Rightarrow> string \<Rightarrow> db \<Rightarrow> user_row option exn" where
  "find_me sql_lower name d =
     (let username = py_strip name in
      if username = [] then Inr None
      else
        (case where_rows (\<lambda>u. ilike sql_lower username (u_sam_account_name u)) (users d) of
           Inl e \<Rightarrow> Inl e
         | Inr rows \<Rightarrow>
             (case scalar_one_or_none rows of
                Inl e \<Rightarrow> Inl e
              | Inr (Some u) \<Rightarrow> Inr (Some u)
              | Inr None \<Rightarrow>
                  if CHR ''@'' \<in> set username then
                    (case where_rows (\<lambda>u. on_column (u_upn u) (ilike sql_lower username)) (users d) of
                       Inl e \<Rightarrow> Inl e
                     | Inr rows2 \<Rightarrow> scalar_one_or_none rows2)
                  else Inr None)))"

definition my_group ::
    "db \<Rightarrow> loaded_user \<Rightarrow> int \<times> loaded_authorization list \<Rightarrow> my_access_group option" where
  "my_group d user e =
     (case winning (evaluate_for_user user (fst e) (snd e)) of
        None \<Rightarrow> None
      | Some w \<Rightarrow>
          (let prof = get_profile d (privilege_profile_id w);
               ds = sort_key d_name (filter (\<lambda>x. d_device_group_id x = fst e) (devices d));
               gid = (case principal_ad_group_id w of Some g \<Rightarrow> if g = 0 then -1 else g | None \<Rightarrow> -1)
           in Some \<lparr>ma_device_group_id = fst e, ma_device_group_name = group_name d (fst e),
               ma_tacacs_priv_lvl = (case prof of Some p \<Rightarrow> tacacs_priv_lvl p | None \<Rightarrow> -1),
               ma_privilege_profile_name = (case prof of Some p \<Rightarrow> pp_name p | None \<Rightarrow> []),
               ma_via_ad_group_name =
                 (if principal_user_id w \<noteq> Some (u_id user)
                  then Option.bind (find (\<lambda>g. g_id g = gid) (rev (u_groups user))) g_name else None),
               ma_devices = map (\<lambda>x. (d_id x, d_name x, d_ip_or_cidr x)) (take MY_ACCESS_DEVICE_PREVIEW ds),
               ma_device_count = length ds\<rparr>))"

definition my_access :: "(string \<Rightarrow> string) \<Rightarrow> session_context \<Rightarrow> db \<Rightarrow> my_access_read outcome" where
  "my_access sql_lower ctx d =
     or_500 d (find_me sql_lower (sc_username ctx) d) (\<lambda>me.
       (case me of
          None \<Rightarrow> (d, Inr \<lparr>my_tacacs_username = None, my_display_name = None, my_groups = []\<rparr>)
        | Some u \<Rightarrow>
            (let user = load_user d u in
             (d, Inr \<lparr>my_tacacs_username = Some (u_sam_account_name u), my_display_name = u_display_name u,
                my_groups = sort_key ma_device_group_name
                  (List.map_filter (my_group d user) (by_dg (user_candidates d user) []))\<rparr>))))"

section \<open>Facts\<close>

lemma map_of_setdefault_append:
  "map_of (setdefault_append k x m) k' =
     (if k' = k then Some ((case map_of m k of Some xs \<Rightarrow> xs | None \<Rightarrow> []) @ [x]) else map_of m k')"
  by (induction k x m rule: setdefault_append.induct) auto

lemma keys_setdefault_append: "distinct (map fst m) \<Longrightarrow> distinct (map fst (setdefault_append k x m))"
proof (induction k x m rule: setdefault_append.induct)
  case (2 k x k' xs m)
  have "set (map fst (setdefault_append k x m)) = insert k (set (map fst m))"
    by (induction k x m rule: setdefault_append.induct) auto
  with 2 show ?case by auto
qed simp

lemma map_of_by_dg:
  "map_of (by_dg as m) g =
     (let new = filter (\<lambda>a. a_device_group_id a = g) as in
      case map_of m g of Some xs \<Rightarrow> Some (xs @ new) | None \<Rightarrow> if new = [] then None else Some new)"
  by (induction as m rule: by_dg.induct) (auto simp: map_of_setdefault_append Let_def split: option.split)

lemma keys_by_dg: "distinct (map fst m) \<Longrightarrow> distinct (map fst (by_dg as m))"
  by (induction as m rule: by_dg.induct) (auto simp: keys_setdefault_append)

lemma set_map_filter: "set (List.map_filter f xs) = {y. \<exists>x\<in>set xs. f x = Some y}"
  by (induction xs) (auto simp: List.map_filter_simps split: option.splits)

lemma filter_map_filter: "(\<And>x y. f x = Some y \<Longrightarrow> P y = Q x) \<Longrightarrow>
  filter P (List.map_filter f xs) = List.map_filter f (filter Q xs)"
  by (induction xs) (auto simp: List.map_filter_simps split: option.split)

text \<open>Per device group, the query of the view and that of the MAVIS route select the same rows.\<close>

lemma matching_candidates:
  "filter (authz_matches user g) (filter (\<lambda>a. a_device_group_id a = g) (user_candidates d user)) =
   filter (authz_matches user g) (load_authorizations d (\<lambda>a. a_device_group_id a = g))"
proof -
  let ?m = "\<lambda>r :: authorization_row. authz_matches user g r"
  have row: "authz_matches user g a = ?m r \<and> (a_device_group_id a = g) = (a_device_group_id r = g)"
    if "load_authorization d r = Some a" for r a
    using load_authorization_fields [OF that] by (simp add: authz_matches_def)
  have sub: "filter Q (filter P rs) = filter Q rs" if "\<And>r. Q r \<Longrightarrow> P r" for P Q :: "authorization_row \<Rightarrow> bool" and rs
    using that by (induction rs) auto
  have fm: "filter (authz_matches user g) (load_authorizations d P) =
      List.map_filter (load_authorization d) (filter ?m (filter P (authorizations d)))" for P
    unfolding load_authorizations_def using row by (intro filter_map_filter) blast
  have drop: "filter (authz_matches user g) (filter (\<lambda>a. a_device_group_id a = g) xs) = filter (authz_matches user g) xs"
    for xs :: "loaded_authorization list" by (induction xs) (auto simp: authz_matches_def)
  have "filter (authz_matches user g) (user_candidates d user) =
      List.map_filter (load_authorization d) (filter ?m (authorizations d))"
    unfolding user_candidates_def fm by (subst sub) (auto simp: authz_matches_def)
  moreover have "filter (authz_matches user g) (load_authorizations d (\<lambda>a. a_device_group_id a = g)) =
      List.map_filter (load_authorization d) (filter ?m (authorizations d))"
    unfolding fm by (subst sub) (auto simp: authz_matches_def)
  ultimately show ?thesis by (simp only: drop)
qed

lemma evaluate_matching:
  "filter (authz_matches user g) xs = filter (authz_matches user g) ys \<Longrightarrow>
   evaluate_for_user user g xs = evaluate_for_user user g ys"
  by (simp add: evaluate_for_user_def)

section \<open>Properties\<close>

lemma by_dg_entry:
  "(g, xs) \<in> set (by_dg as []) \<Longrightarrow> xs = filter (\<lambda>a. a_device_group_id a = g) as"
  using map_of_by_dg [of as "[]" g] keys_by_dg [of "[]" as]
  by (auto simp: Let_def split: if_splits)

lemma by_dg_has:
  "a \<in> set as \<Longrightarrow> a_device_group_id a = g \<Longrightarrow> (g, filter (\<lambda>a. a_device_group_id a = g) as) \<in> set (by_dg as [])"
  using map_of_by_dg [of as "[]" g] by (auto simp: Let_def filter_empty_conv split: if_splits dest: map_of_SomeD)

text \<open>What \<open>evaluate_for_user\<close> gives the MAVIS route on a group.\<close>

definition enforced :: "db \<Rightarrow> user_row \<Rightarrow> int \<Rightarrow> loaded_authorization option" where
  "enforced d u g = winning (evaluate_for_user (load_user d u) g (load_authorizations d (\<lambda>a. a_device_group_id a = g)))"

lemma evaluate_by_dg:
  "(g, xs) \<in> set (by_dg (user_candidates d user) []) \<Longrightarrow>
   evaluate_for_user user g xs = evaluate_for_user user g (load_authorizations d (\<lambda>a. a_device_group_id a = g))"
  by (drule by_dg_entry) (simp add: evaluate_matching [OF matching_candidates])

lemma permission_entry:
  "(g, xs) \<in> set (by_dg (user_candidates d (load_user d u)) []) \<Longrightarrow>
   (\<exists>e. permission_of d (load_user d u) (g, xs) = Some e \<and> ep_winning e = c) \<longleftrightarrow>
   (\<exists>w. enforced d u g = Some w \<and> c = to_candidate w)"
  by (auto simp: permission_of_def enforced_def evaluate_by_dg Let_def split: option.split)

text \<open>
  The view lists a device group with a winning authorization exactly when the MAVIS route finds
  that authorization on a device of the group, and it lists no group twice.
\<close>

lemma view_lists_enforced:
  assumes "get_user d uid = Some u" and "list_effective_permissions uid d = (d', Inr view)"
  shows "distinct (map ep_device_group_id view) \<and>
    ((\<exists>e\<in>set view. ep_device_group_id e = g \<and> ep_winning e = c) \<longleftrightarrow>
     (\<exists>w. enforced d u g = Some w \<and> c = to_candidate w))"
proof -
  let ?user = "load_user d u" and ?m = "by_dg (user_candidates d (load_user d u)) []"
  from assms have view: "view = sort_key ep_device_group_id (List.map_filter (permission_of d ?user) ?m)"
    by (auto simp: list_effective_permissions_def Let_def)
  have key: "ep_device_group_id e = fst x" if "permission_of d ?user x = Some e" for x e
    using that by (auto simp: permission_of_def Let_def split: option.splits)
  have "map ep_device_group_id (List.map_filter (permission_of d ?user) ?m) =
      map fst (filter (\<lambda>x. permission_of d ?user x \<noteq> None) ?m)"
    by (rule map_filter_ids) (rule key)
  moreover have "distinct (map fst ?m)" by (rule keys_by_dg) simp
  ultimately have "distinct (map ep_device_group_id (List.map_filter (permission_of d ?user) ?m))"
    by (simp add: distinct_map_filter)
  then have dist: "distinct (map ep_device_group_id view)"
    unfolding view by (simp add: distinct_map)
  have "(\<exists>e\<in>set view. ep_device_group_id e = g \<and> ep_winning e = c) \<longleftrightarrow>
      (\<exists>xs e. (g, xs) \<in> set ?m \<and> permission_of d ?user (g, xs) = Some e \<and> ep_winning e = c)"
    unfolding view set_sort set_map_filter Bex_def mem_Collect_eq
    using key by (metis (no_types, lifting) fst_conv prod.collapse)
  also have "\<dots> \<longleftrightarrow> (\<exists>xs w. (g, xs) \<in> set ?m \<and> enforced d u g = Some w \<and> c = to_candidate w)"
    using permission_entry by blast
  also have "\<dots> \<longleftrightarrow> (\<exists>w. enforced d u g = Some w \<and> c = to_candidate w)"
  proof -
    have "\<exists>xs. (g, xs) \<in> set ?m" if "enforced d u g = Some w" for w
    proof -
      from that have "filter (authz_matches ?user g) (load_authorizations d (\<lambda>a. a_device_group_id a = g)) \<noteq> []"
        unfolding enforced_def by (metis winning_None option.distinct(1))
      then have "filter (authz_matches ?user g)
          (filter (\<lambda>a. a_device_group_id a = g) (user_candidates d ?user)) \<noteq> []"
        unfolding matching_candidates .
      then obtain a where "a \<in> set (user_candidates d ?user)" "a_device_group_id a = g"
        by (auto simp: filter_empty_conv)
      then show ?thesis using by_dg_has by blast
    qed
    then show ?thesis by blast
  qed
  finally show ?thesis using dist by blast
qed

lemma resolve_info_enforced:
  "u_enabled u \<Longrightarrow> resolve_device_for_ip (iq_nas_ip req) (devices d) = Some dev \<Longrightarrow>
   is_profile (fst (resolve_info d req (Some u))) =
     map_option (\<lambda>w. render_tacprofile (privilege_profile w)) (enforced d u (d_device_group_id dev))"
  by (simp add: resolve_info_def refused_def effective_profile_def enforced_def Let_def split: option.split)

lemma enforced_profile: "enforced d u g = Some w \<Longrightarrow> get_profile d (privilege_profile_id w) = Some (privilege_profile w)"
proof -
  assume w: "enforced d u g = Some w"
  let ?as = "load_authorizations d (\<lambda>a. a_device_group_id a = g)"
  from w have "w \<in> set ?as"
    using adr6_choice_first [of "load_user d u" g ?as w] by (auto simp: enforced_def adr6_choice_def)
  then obtain r where "load_authorization d r = Some w" by (auto simp: load_authorizations_mem)
  from load_authorization_fields [OF this] show ?thesis by simp
qed

text \<open>
  C20: The effective-permissions view predicts the daemon's answers: for an enabled user on any
  known device the MAVIS route returns the script of the winning profile the view lists for the
  device's group, and no profile exactly when the view does not list the group.
\<close>

theorem view_predicts_the_backend:
  assumes "get_user d uid = Some u" and "list_effective_permissions uid d = (d', Inr view)"
    and "u_enabled u" and "resolve_device_for_ip (iq_nas_ip req) (devices d) = Some dev"
  shows "is_profile (fst (resolve_info d req (Some u))) =
    (case find (\<lambda>e. ep_device_group_id e = d_device_group_id dev) view of
       None \<Rightarrow> None
     | Some e \<Rightarrow> map_option render_tacprofile (get_profile d (cr_privilege_profile_id (ep_winning e))))"
proof -
  let ?g = "d_device_group_id dev"
  note lists = conjunct2 [OF view_lists_enforced [OF assms(1,2), of ?g]]
  show ?thesis
  proof (cases "find (\<lambda>e. ep_device_group_id e = ?g) view")
    case None
    then have "\<forall>e\<in>set view. ep_device_group_id e \<noteq> ?g" by (simp add: find_None_all)
    with lists have "enforced d u ?g = None" by (cases "enforced d u ?g") blast+
    with None show ?thesis by (simp add: resolve_info_enforced [OF assms(3,4)])
  next
    case (Some e)
    then have "e \<in> set view" "ep_device_group_id e = ?g" by (auto dest: find_Some_in)
    then obtain w where w: "enforced d u ?g = Some w" "ep_winning e = to_candidate w"
      using lists [of "ep_winning e"] by blast
    have "cr_privilege_profile_id (ep_winning e) = privilege_profile_id w"
      by (simp add: w(2) to_candidate_def)
    with Some w(1) enforced_profile [OF w(1)] show ?thesis
      by (simp add: resolve_info_enforced [OF assms(3,4)])
  qed
qed

theorem view_predicts_the_backend_witness:
  "\<exists>view :: effective_permission_read list. is_profile (fst (resolve_info ex_info_db \<lparr>iq_username = ''alice'', iq_nas_ip = ''10.0.5.9''\<rparr> (Some ex_user_row))) =
     (case find (\<lambda>e. ep_device_group_id e = 1) view of
        None \<Rightarrow> None
      | Some e \<Rightarrow> map_option render_tacprofile (get_profile ex_info_db (cr_privilege_profile_id (ep_winning e))))"
proof -
  have u: "get_user ex_info_db 7 = Some ex_user_row" "u_enabled ex_user_row"
    by (simp_all add: get_user_def ex_info_db_def ex_user_row_def)
  then obtain view where "list_effective_permissions 7 ex_info_db = (ex_info_db, Inr view)"
    by (simp add: list_effective_permissions_def Let_def)
  from view_predicts_the_backend [OF u(1) this u(2),
      of "\<lparr>iq_username = ''alice'', iq_nas_ip = ''10.0.5.9''\<rparr>" "ex_device 1 ''10.0.0.0/8''"]
  show ?thesis using ex_info_device by (intro exI [of _ view]) (simp add: ex_device_def)
qed

text \<open>
  The caller's name is used as a pattern: a session named \<open>al_ce\<close> is shown the access of the
  user \<open>alice\<close>.
\<close>

lemma caller_name_is_a_pattern: "find_me py_lower ''al_ce'' ex_info_db = Inr (Some ex_user_row)"
proof -
  have "ilike py_lower ''al_ce'' ''Alice'' = Some True"
    by (simp add: ilike_def py_lower_char_def char_eval bslash_def)
  moreover have "py_strip ''al_ce'' = ''al_ce''" by (simp add: py_strip_def py_isspace_char_def)
  moreover have "users ex_info_db = [ex_user_row]" "u_sam_account_name ex_user_row = ''Alice''"
    by (simp_all add: ex_info_db_def ex_user_row_def)
  ultimately show ?thesis by (simp add: find_me_def where_rows_def scalar_one_or_none_def)
qed

end
