(* ===== verification/Ldap_Worker.thy ===== *)
theory Ldap_Worker
  imports Ldap_Client Ldap_Auth Settings_Store Json Py_Time
begin

text \<open>
  \<open>app/ldap_sync/worker.py\<close> and \<open>scheduler.py\<close>: the configuration of the directory sync, one full
  run, the summary kept for the UI, and the job of the scheduler. The directory is the parameter
  \<open>connect\<close>: what \<open>Server(...)\<close> and \<open>Connection(..., auto_bind=True)\<close> do with an endpoint, a DN
  and a password. The scheduler library is its documented contract: a started scheduler holds at
  most one job under an id, \<open>add_job\<close> with \<open>replace_existing\<close> replaces it. The text of a database
  error is its name.
\<close>

section \<open>Configuration (worker.py)\<close>

abbreviation LDAP_BIND_DN :: string where "LDAP_BIND_DN \<equiv> ''ldap.bind_dn''"
abbreviation LDAP_BASE_DNS :: string where "LDAP_BASE_DNS \<equiv> ''ldap.base_dns''"
abbreviation LDAP_USER_FILTER :: string where "LDAP_USER_FILTER \<equiv> ''ldap.user_filter''"
abbreviation LDAP_CADENCE :: string where "LDAP_CADENCE \<equiv> ''ldap.sync_cadence_seconds''"
abbreviation LDAP_ENABLED :: string where "LDAP_ENABLED \<equiv> ''ldap.sync_enabled''"
abbreviation LDAP_LAST_RESULT :: string where "LDAP_LAST_RESULT \<equiv> ''ldap.last_sync_result''"
abbreviation LDAP_BIND_PASSWORD :: string where "LDAP_BIND_PASSWORD \<equiv> ''ldap.bind_password''"

definition CADENCE_DEFAULT_SECONDS :: int where "CADENCE_DEFAULT_SECONDS = 3600"
definition CADENCE_MIN_SECONDS :: int where "CADENCE_MIN_SECONDS = 60"

datatype sync_exc = SyncRunError string | DbError string | OtherError string

record ldap_sync_config =
  lc_url :: string
  lc_bind_dn :: string
  lc_base_dns :: "string list"
  lc_user_filter :: string
  lc_cadence_seconds :: int
  lc_enabled :: bool

text \<open>\<open>[e for e in json.loads(raw) if isinstance(e, str)]\<close> on a decoded value.\<close>

definition json_strings :: "json \<Rightarrow> string list exn" where
  "json_strings j =
     (case j of
        JList js \<Rightarrow> Inr (List.map_filter (\<lambda>j. case j of JString s \<Rightarrow> Some s | _ \<Rightarrow> None) js)
      | JDict ps \<Rightarrow> Inr (map fst ps)
      | JString s \<Rightarrow> Inr (map (\<lambda>c. [c]) s)
      | _ \<Rightarrow> Inl ''TypeError: object is not iterable'')"

definition load_config :: "db \<Rightarrow> ldap_sync_config option exn" where
  "load_config d =
     (let url = read_setting d SETTING_LDAP_URL; bind_dn = read_setting d LDAP_BIND_DN;
          base_dns_raw = read_setting d LDAP_BASE_DNS in
      if \<not> (truthy url \<and> truthy bind_dn \<and> truthy base_dns_raw) then Inr None
      else
        (case loads (the base_dns_raw) of
           None \<Rightarrow> Inr None
         | Some j \<Rightarrow>
             (case json_strings j of
                Inl e \<Rightarrow> Inl e
              | Inr base_dns \<Rightarrow>
                  if base_dns = [] then Inr None
                  else Inr (Some
                    \<lparr>lc_url = the url, lc_bind_dn = the bind_dn, lc_base_dns = base_dns,
                     lc_user_filter = or_default (read_setting d LDAP_USER_FILTER) DEFAULT_USER_FILTER,
                     lc_cadence_seconds =
                       (case py_int (or_default (read_setting d LDAP_CADENCE) (int_to_str CADENCE_DEFAULT_SECONDS)) of
                          Some i \<Rightarrow> max CADENCE_MIN_SECONDS i | None \<Rightarrow> CADENCE_DEFAULT_SECONDS),
                     lc_enabled = (py_lower (or_default (read_setting d LDAP_ENABLED) ''false'') = ''true'')\<rparr>))))"

definition load_bind_password :: "db \<Rightarrow> string option" where
  "load_bind_password d = read_secret d LDAP_BIND_PASSWORD"

section \<open>One run\<close>

record sync_run_summary =
  rs_started_at :: string
  rs_finished_at :: "string option"
  rs_users_seen :: int
  rs_users_inserted :: int
  rs_users_updated :: int
  rs_users_disabled :: int
  rs_groups_seen :: int
  rs_error :: "string option"

definition from_sync_result :: "sync_result \<Rightarrow> sync_run_summary" where
  "from_sync_result r =
     \<lparr>rs_started_at = isoformat (sr_started_at r), rs_finished_at = map_option isoformat (sr_finished_at r),
      rs_users_seen = int (sr_users_seen r), rs_users_inserted = int (sr_users_inserted r),
      rs_users_updated = int (sr_users_updated r), rs_users_disabled = int (sr_users_disabled r),
      rs_groups_seen = int (sr_groups_seen r), rs_error = None\<rparr>"

definition json_opt :: "string option \<Rightarrow> json" where
  "json_opt v = (case v of None \<Rightarrow> JNull | Some s \<Rightarrow> JString s)"

definition summary_json :: "sync_run_summary \<Rightarrow> json" where
  "summary_json s = JDict
     [(''started_at'', JString (rs_started_at s)), (''finished_at'', json_opt (rs_finished_at s)),
      (''users_seen'', JInt (rs_users_seen s)), (''users_inserted'', JInt (rs_users_inserted s)),
      (''users_updated'', JInt (rs_users_updated s)), (''users_disabled'', JInt (rs_users_disabled s)),
      (''groups_seen'', JInt (rs_groups_seen s)), (''error'', json_opt (rs_error s))]"

definition persist_summary :: "sync_run_summary \<Rightarrow> db \<Rightarrow> db" where
  "persist_summary s d = write_setting LDAP_LAST_RESULT (Some (dumps (summary_json s))) d"

definition error_summary :: "string \<Rightarrow> instant \<Rightarrow> sync_run_summary" where
  "error_summary e now =
     \<lparr>rs_started_at = isoformat now, rs_finished_at = Some (isoformat now), rs_users_seen = 0,
      rs_users_inserted = 0, rs_users_updated = 0, rs_users_disabled = 0, rs_groups_seen = 0,
      rs_error = Some e\<rparr>"

definition persist_error_summary :: "string \<Rightarrow> instant \<Rightarrow> db \<Rightarrow> db" where
  "persist_error_summary e now d = persist_summary (error_summary e now) d"

text \<open>
  How a connection ends: the server object is refused, the bind raises an \<open>LDAPException\<close>, or it
  is bound - then its search, and the text of the exception a search of it raises.
\<close>

datatype ldap_conn = Server_Invalid string | Bind_Refused string | Bound ldap_search string

type_synonym ldap_connect = "ldap_endpoint \<Rightarrow> string \<Rightarrow> string \<Rightarrow> ldap_conn"

definition uses_tls :: "string \<Rightarrow> bool" where
  "uses_tls url \<longleftrightarrow> startswith ''ldaps://'' (py_lower url)"

definition test_connection :: "ldap_connect \<Rightarrow> string \<Rightarrow> string \<Rightarrow> string \<Rightarrow> sync_exc + unit" where
  "test_connection connect url bind_dn bind_password =
     (case connect \<lparr>le_url = url, le_use_tls = uses_tls url, le_receive_timeout = 5\<rparr> bind_dn bind_password of
        Server_Invalid e \<Rightarrow> Inl (OtherError e)
      | Bind_Refused e \<Rightarrow> Inl (SyncRunError (''LDAP bind failed: '' @ e))
      | Bound search e \<Rightarrow> Inr ())"

definition run_full_sync ::
    "(string \<Rightarrow> string) \<Rightarrow> ldap_connect \<Rightarrow> instant \<Rightarrow> db \<Rightarrow> sync_exc + db \<times> sync_run_summary" where
  "run_full_sync sql_lower connect now d =
     (case load_config d of
        Inl e \<Rightarrow> Inl (OtherError e)
      | Inr None \<Rightarrow> Inl (SyncRunError ''LDAP sync is not configured'')
      | Inr (Some cfg) \<Rightarrow>
          (case load_bind_password d of
             None \<Rightarrow> Inl (SyncRunError ''LDAP bind password is not set'')
           | Some password \<Rightarrow>
               (case connect \<lparr>le_url = lc_url cfg, le_use_tls = uses_tls (lc_url cfg), le_receive_timeout = 15\<rparr>
                       (lc_bind_dn cfg) password of
                  Server_Invalid e \<Rightarrow> Inl (OtherError e)
                | Bind_Refused e \<Rightarrow> Inl (SyncRunError (''LDAP bind failed: '' @ e))
                | Bound search e \<Rightarrow>
                    (case fetch_users search (lc_base_dns cfg) (lc_user_filter cfg) of
                       None \<Rightarrow> Inl (SyncRunError (''LDAP search failed: '' @ e))
                     | Some records \<Rightarrow>
                         (case run_sync sql_lower now records d of
                            Inl e \<Rightarrow> Inl (DbError e)
                          | Inr (d1, result) \<Rightarrow>
                              (let summary = (from_sync_result result)\<lparr>rs_started_at := isoformat now\<rparr> in
                               Inr (persist_summary summary d1, summary)))))))"

section \<open>The scheduled run (scheduler.py)\<close>

text \<open>A run in its own session: commit on success, roll back on an error.\<close>

definition run_once_sync ::
    "(string \<Rightarrow> string) \<Rightarrow> ldap_connect \<Rightarrow> instant \<Rightarrow> db \<Rightarrow> db \<times> (sync_exc + sync_run_summary)" where
  "run_once_sync sql_lower connect now d =
     (case run_full_sync sql_lower connect now d of
        Inl (SyncRunError e) \<Rightarrow> (d, Inl (SyncRunError e))
      | Inl (DbError e) \<Rightarrow> (d, Inl (SyncRunError (''DB constraint violation during sync: '' @ e)))
      | Inl (OtherError e) \<Rightarrow> (d, Inl (OtherError e))
      | Inr (d1, summary) \<Rightarrow> (d1, Inr summary))"

definition tick :: "(string \<Rightarrow> string) \<Rightarrow> ldap_connect \<Rightarrow> instant \<Rightarrow> db \<Rightarrow> db" where
  "tick sql_lower connect now d =
     (case run_once_sync sql_lower connect now d of
        (d1, Inr summary) \<Rightarrow> d1
      | (d1, Inl (SyncRunError e)) \<Rightarrow> persist_error_summary e now d1
      | (d1, Inl (DbError e)) \<Rightarrow> persist_error_summary (''unexpected: '' @ e) now d1
      | (d1, Inl (OtherError e)) \<Rightarrow> persist_error_summary (''unexpected: '' @ e) now d1)"

text \<open>
  The module variable \<open>_scheduler\<close>: \<open>None\<close> before the start, otherwise the seconds of the job
  \<open>ad_sync_loop\<close> if it exists.
\<close>

type_synonym scheduler = "int option option"

text \<open>
  \<open>refresh_from_db\<close> with the database it reads, \<open>None\<close> when it cannot be reached; the flag says
  whether it returned.
\<close>

definition refresh_from_db :: "db option \<Rightarrow> scheduler \<Rightarrow> scheduler \<times> bool" where
  "refresh_from_db database sched =
     (case sched of
        None \<Rightarrow> (None, True)
      | Some job \<Rightarrow>
          (case database of
             None \<Rightarrow> (Some job, False)
           | Some d \<Rightarrow>
               (case load_config d of
                  Inl e \<Rightarrow> (Some job, False)
                | Inr cfg \<Rightarrow>
                    (let cadence = (case cfg of Some c \<Rightarrow> lc_cadence_seconds c | None \<Rightarrow> CADENCE_DEFAULT_SECONDS);
                         enabled = (case cfg of Some c \<Rightarrow> lc_enabled c | None \<Rightarrow> False) in
                     (Some (if enabled then Some cadence else None), True)))))"

definition start_scheduler :: "db option \<Rightarrow> scheduler \<Rightarrow> scheduler" where
  "start_scheduler database sched =
     (if sched \<noteq> None then sched else fst (refresh_from_db database (Some None)))"

definition stop_scheduler :: "scheduler \<Rightarrow> scheduler" where
  "stop_scheduler sched = None"

section \<open>Facts\<close>

lemma summary_plain: "json_plain (summary_json s)"
  by (simp add: summary_json_def json_opt_def split: option.split)

lemma loads_summary [simp]: "loads (dumps (summary_json s)) = Some (summary_json s)"
  by (rule loads_dumps) (rule summary_plain)

lemma persist_summary_read: "read_setting (persist_summary s d) LDAP_LAST_RESULT = Some (dumps (summary_json s))"
  by (simp add: persist_summary_def settings.rd_wr)

lemma run_full_syncE:
  assumes "run_full_sync sql_lower connect now d = Inr (d1, s)"
  obtains cfg pw search e records d0 r where "load_config d = Inr (Some cfg)" "load_bind_password d = Some pw"
    "connect \<lparr>le_url = lc_url cfg, le_use_tls = uses_tls (lc_url cfg), le_receive_timeout = 15\<rparr>
       (lc_bind_dn cfg) pw = Bound search e"
    "fetch_users search (lc_base_dns cfg) (lc_user_filter cfg) = Some records"
    "run_sync sql_lower now records d = Inr (d0, r)"
    "s = (from_sync_result r)\<lparr>rs_started_at := isoformat now\<rparr>" "d1 = persist_summary s d0"
  using assms unfolding run_full_sync_def Let_def
  by (simp split: sum.splits option.splits ldap_conn.splits prod.splits) blast

lemma run_full_sync_summary:
  assumes "run_full_sync sql_lower connect now d = Inr (d1, s)"
  shows "rs_error s = None \<and> rs_started_at s = isoformat now \<and>
    read_setting d1 LDAP_LAST_RESULT = Some (dumps (summary_json s))"
  using assms by (rule run_full_syncE) (simp add: from_sync_result_def persist_summary_read)

lemma or_default_nonempty: "d \<noteq> [] \<Longrightarrow> or_default v d \<noteq> []"
  by (simp add: or_default_def split: option.split)

lemma truthy_the: "truthy v \<Longrightarrow> the v \<noteq> []"
  by (simp add: truthy_def split: option.splits)

lemma load_config_bounds:
  assumes "load_config d = Inr (Some cfg)"
  shows "CADENCE_MIN_SECONDS \<le> lc_cadence_seconds cfg \<and> lc_base_dns cfg \<noteq> [] \<and> lc_url cfg \<noteq> [] \<and>
     lc_bind_dn cfg \<noteq> [] \<and> lc_user_filter cfg \<noteq> []"
proof -
  have "DEFAULT_USER_FILTER \<noteq> []" by (simp add: DEFAULT_USER_FILTER_def)
  with assms or_default_nonempty show ?thesis
    unfolding load_config_def Let_def
    by (simp split: if_splits option.splits sum.splits)
       (auto dest: truthy_the simp: CADENCE_MIN_SECONDS_def CADENCE_DEFAULT_SECONDS_def)
qed

lemma refresh_job:
  "refresh_from_db (Some d) (Some job) = (Some job', True) \<Longrightarrow> job' = Some c \<Longrightarrow>
     \<exists>cfg. load_config d = Inr (Some cfg) \<and> lc_enabled cfg \<and> c = lc_cadence_seconds cfg"
  by (auto simp: refresh_from_db_def Let_def split: sum.splits option.splits if_splits)

section \<open>Properties\<close>


end
