(* ===== verification/Settings_Ldap_Sync.thy ===== *)
theory Settings_Ldap_Sync
  imports Ldap_Worker Api_Common
begin

text \<open>
  \<open>app/api/v1/settings_ldap_sync.py\<close>: the settings of the directory sync, the test of its service
  account and the manual run. A handler changes the database and the schedule. pydantic's decoding
  of the stored summary, \<open>LastSyncRead.model_validate_json\<close>, is the parameter \<open>decode\<close>; the
  database is reachable. Reads of the clock in one request give its instant, so a run takes 0.00 s.
\<close>

record ldap_sync_status =
  st_configured :: bool
  st_url :: "string option"
  st_bind_dn :: "string option"
  st_bind_password_set :: bool
  st_base_dns :: "string list"
  st_user_filter :: "string option"
  st_cadence_seconds :: int
  st_enabled :: bool
  st_last_sync :: "sync_run_summary option"

record ldap_sync_update =
  lu_bind_dn :: string
  lu_bind_password :: "string option"
  lu_base_dns :: "string list"
  lu_user_filter :: "string option"
  lu_cadence_seconds :: int
  lu_enabled :: bool

definition check_base_dns :: "string list \<Rightarrow> string list option" where
  "check_base_dns v =
     (let cleaned = map py_strip (filter (\<lambda>s. s \<noteq> [] \<and> py_strip s \<noteq> []) v) in
      if cleaned = [] then None else Some cleaned)"

definition ldap_sync_update_valid :: "ldap_sync_update \<Rightarrow> bool" where
  "ldap_sync_update_valid p \<longleftrightarrow>
     str_len 1 1024 (lu_bind_dn p) \<and> opt_len 0 1024 (lu_bind_password p) \<and> lu_base_dns p \<noteq> [] \<and>
     check_base_dns (lu_base_dns p) \<noteq> None \<and> opt_len 0 2048 (lu_user_filter p) \<and>
     CADENCE_MIN_SECONDS \<le> lu_cadence_seconds p"

record test_connection_body =
  tb_url :: "string option"
  tb_bind_dn :: "string option"
  tb_bind_password :: "string option"

definition test_body_valid :: "test_connection_body \<Rightarrow> bool" where
  "test_body_valid p \<longleftrightarrow>
     opt_len 0 512 (tb_url p) \<and> opt_len 0 1024 (tb_bind_dn p) \<and> opt_len 0 1024 (tb_bind_password p)"

section \<open>The status\<close>

type_synonym decoder = "string \<Rightarrow> sync_run_summary option"

definition status_base_dns :: "db \<Rightarrow> string list exn" where
  "status_base_dns d =
     (case loads (or_default (read_setting d LDAP_BASE_DNS) ''[]'') of
        None \<Rightarrow> Inr [] | Some j \<Rightarrow> json_strings j)"

definition status_cadence :: "db \<Rightarrow> int exn" where
  "status_cadence d =
     (let raw = read_setting d LDAP_CADENCE in
      if truthy raw \<and> py_isdigit (the raw)
      then (case py_int (the raw) of Some i \<Rightarrow> Inr i | None \<Rightarrow> Inl ''ValueError: invalid literal for int()'')
      else Inr CADENCE_DEFAULT_SECONDS)"

definition load_status :: "decoder \<Rightarrow> db \<Rightarrow> ldap_sync_status exn" where
  "load_status decode d =
     (case status_base_dns d of
        Inl e \<Rightarrow> Inl e
      | Inr base_dns \<Rightarrow>
          (case status_cadence d of
             Inl e \<Rightarrow> Inl e
           | Inr cadence \<Rightarrow>
               (let url = read_setting d SETTING_LDAP_URL; bind_dn = read_setting d LDAP_BIND_DN;
                    pw_set = load_bind_password d \<noteq> None; last_raw = read_setting d LDAP_LAST_RESULT in
                Inr \<lparr>st_configured = (truthy url \<and> truthy bind_dn \<and> pw_set \<and> base_dns \<noteq> []),
                  st_url = url, st_bind_dn = bind_dn, st_bind_password_set = pw_set, st_base_dns = base_dns,
                  st_user_filter = read_setting d LDAP_USER_FILTER, st_cadence_seconds = cadence,
                  st_enabled = (py_lower (or_default (read_setting d LDAP_ENABLED) ''false'') = ''true''),
                  st_last_sync = (if truthy last_raw then decode (the last_raw) else None)\<rparr>)))"

section \<open>Routes\<close>

definition get_sync_status :: "decoder \<Rightarrow> db \<Rightarrow> ldap_sync_status outcome" where
  "get_sync_status decode d = or_500 d (load_status decode d) (\<lambda>s. (d, Inr s))"

definition sync_config_summary :: "ldap_sync_update \<Rightarrow> string" where
  "sync_config_summary p =
     ''bind_dn='' @ lu_bind_dn p @ '', base_dns='' @ nat_to_str (length (the (check_base_dns (lu_base_dns p)))) @
     '', cadence='' @ int_to_str (lu_cadence_seconds p) @ ''s, enabled='' @ py_bool (lu_enabled p)"

definition write_sync_config :: "ldap_sync_update \<Rightarrow> db \<Rightarrow> db" where
  "write_sync_config p d =
     (let d1 = write_setting LDAP_BIND_DN (Some (py_strip (lu_bind_dn p))) d;
          d2 = write_setting LDAP_BASE_DNS
                 (Some (dumps (JList (map JString (the (check_base_dns (lu_base_dns p))))))) d1;
          d3 = write_setting LDAP_USER_FILTER (none_if_empty (py_strip (or_default (lu_user_filter p) []))) d2;
          d4 = write_setting LDAP_CADENCE (Some (int_to_str (lu_cadence_seconds p))) d3;
          d5 = write_setting LDAP_ENABLED (Some (if lu_enabled p then ''true'' else ''false'')) d4 in
      if truthy (lu_bind_password p) then write_secret LDAP_BIND_PASSWORD (lu_bind_password p) d5 else d5)"

text \<open>The transaction of \<open>update_config\<close>, and the handler: the schedule is refreshed after the commit.\<close>

definition update_config_tx :: "instant \<Rightarrow> session_context \<Rightarrow> ldap_sync_update \<Rightarrow> db \<Rightarrow> unit outcome" where
  "update_config_tx now ctx p d =
     validated (ldap_sync_update_valid p) d (admin_only ctx d
       (audit_commit now
          (ctx_entry ctx LDAP_SYNC_CONFIG_UPDATED ''ldap_sync'' (Some (sync_config_summary p)))
          d (write_sync_config p d) (\<lambda>d1. (d1, Inr ()))))"

definition update_config ::
    "decoder \<Rightarrow> instant \<Rightarrow> session_context \<Rightarrow> ldap_sync_update \<Rightarrow> db \<times> scheduler \<Rightarrow>
       (db \<times> scheduler) \<times> (http_exc + ldap_sync_status)" where
  "update_config decode now ctx p st =
     (case update_config_tx now ctx p (fst st) of
        (d, Inl e) \<Rightarrow> ((d, snd st), Inl e)
      | (d, Inr u) \<Rightarrow>
          (case refresh_from_db (Some d) (snd st) of
             (sched, False) \<Rightarrow> ((d, sched), Inl (Unhandled ''TypeError''))
           | (sched, True) \<Rightarrow>
               (case load_status decode d of
                  Inl e \<Rightarrow> ((d, sched), Inl (Unhandled e))
                | Inr s \<Rightarrow> ((d, sched), Inr s))))"

definition pick :: "string option \<Rightarrow> string option \<Rightarrow> string option" where
  "pick override stored = (if truthy override then override else stored)"

definition test_password :: "test_connection_body \<Rightarrow> db \<Rightarrow> string option" where
  "test_password p d =
     (if truthy (tb_bind_password p) \<and> py_strip (the (tb_bind_password p)) \<noteq> []
      then tb_bind_password p else load_bind_password d)"

definition test_endpoint ::
    "decoder \<Rightarrow> ldap_connect \<Rightarrow> instant \<Rightarrow> session_context \<Rightarrow> test_connection_body \<Rightarrow> db \<Rightarrow> unit outcome" where
  "test_endpoint decode connect now ctx p d =
     validated (test_body_valid p) d (admin_only ctx d
       (or_500 d (load_status decode d) (\<lambda>status.
          (let url = pick (tb_url p) (st_url status); bind_dn = pick (tb_bind_dn p) (st_bind_dn status);
               pw = test_password p d in
           if \<not> (truthy url \<and> truthy bind_dn \<and> truthy pw)
           then (d, Inl (HTTPException 400 ''url, bind_dn, and bind_password required''))
           else
             (case test_connection connect (the url) (the bind_dn) (the pw) of
                Inl (SyncRunError e) \<Rightarrow>
                  audit_commit now (ctx_entry ctx LDAP_SYNC_TEST_FAILED ''ldap_sync'' (Some e)) d d
                    (\<lambda>d1. (d1, Inl (HTTPException 400 e)))
              | Inl (DbError e) \<Rightarrow> (d, Inl (Unhandled e))
              | Inl (OtherError e) \<Rightarrow> (d, Inl (Unhandled e))
              | Inr _ \<Rightarrow>
                  audit_commit now
                    (ctx_entry ctx LDAP_SYNC_TEST_SUCCEEDED ''ldap_sync'' (Some (''bind_dn='' @ the bind_dn)))
                    d d (\<lambda>d1. (d1, Inr ())))))))"

text \<open>The run in its thread: only \<open>SyncRunError\<close> is handled there and by the route.\<close>

definition run_sync_in_thread ::
    "(string \<Rightarrow> string) \<Rightarrow> ldap_connect \<Rightarrow> instant \<Rightarrow> db \<Rightarrow> sync_exc + db \<times> sync_run_summary" where
  "run_sync_in_thread sql_lower connect now d =
     (case load_config d of
        Inl e \<Rightarrow> Inl (OtherError e)
      | Inr None \<Rightarrow> Inl (SyncRunError ''LDAP sync is not configured'')
      | Inr (Some cfg) \<Rightarrow> run_full_sync sql_lower connect now d)"

definition run_summary_text :: "sync_run_summary \<Rightarrow> string" where
  "run_summary_text s =
     ''users_seen='' @ int_to_str (rs_users_seen s) @ '', inserted='' @ int_to_str (rs_users_inserted s) @
     '', updated='' @ int_to_str (rs_users_updated s) @ '', disabled='' @ int_to_str (rs_users_disabled s) @
     '', groups='' @ int_to_str (rs_groups_seen s) @ '', took=0.00s''"

definition run_now ::
    "(string \<Rightarrow> string) \<Rightarrow> decoder \<Rightarrow> ldap_connect \<Rightarrow> instant \<Rightarrow> session_context \<Rightarrow> db \<Rightarrow> ldap_sync_status outcome" where
  "run_now sql_lower decode connect now ctx d =
     admin_only ctx d
       (case run_sync_in_thread sql_lower connect now d of
          Inl (SyncRunError e) \<Rightarrow>
            audit_commit now (ctx_entry ctx LDAP_SYNC_RUN_FAILED ''ldap_sync'' (Some e)) d d
              (\<lambda>d1. (d1, Inl (HTTPException 400 e)))
        | Inl (DbError e) \<Rightarrow> (d, Inl (Unhandled e))
        | Inl (OtherError e) \<Rightarrow> (d, Inl (Unhandled e))
        | Inr (d1, summary) \<Rightarrow>
            audit_commit now
              (ctx_entry ctx LDAP_SYNC_RUN_SUCCEEDED ''ldap_sync'' (Some (run_summary_text summary))) d1 d1
              (\<lambda>d2. or_500 d2 (load_status decode d2) (\<lambda>s. (d2, Inr s))))"

section \<open>Facts\<close>

lemma json_strings_list [simp]: "json_strings (JList (map JString xs)) = Inr xs"
  by (induction xs) (simp_all add: json_strings_def List.map_filter_simps)

lemma loads_strings [simp]: "loads (dumps (JList (map JString xs))) = Some (JList (map JString xs))"
  by (rule loads_dumps) (simp add: list_all_iff)

lemma dumps_list_nonempty [simp]: "dumps (JList js) \<noteq> []"
  by simp

lemma or_default_some_nonempty [simp]: "or_default (Some (int_to_str i)) d = int_to_str i"
  by simp

lemma or_default_none_if_empty [simp]: "or_default (none_if_empty s) d = (if s = [] then d else s)"
  by (simp add: none_if_empty_def)

lemma write_sync_config_settings:
  "read_setting (write_sync_config p d) k =
     (if k = LDAP_ENABLED then Some (if lu_enabled p then ''true'' else ''false'')
      else if k = LDAP_CADENCE then Some (int_to_str (lu_cadence_seconds p))
      else if k = LDAP_USER_FILTER then none_if_empty (py_strip (or_default (lu_user_filter p) []))
      else if k = LDAP_BASE_DNS then Some (dumps (JList (map JString (the (check_base_dns (lu_base_dns p))))))
      else if k = LDAP_BIND_DN then Some (py_strip (lu_bind_dn p)) else read_setting d k)"
  by (simp add: write_sync_config_def Let_def settings.rd_wr)

lemma write_sync_config_password:
  "read_secret (write_sync_config p d) LDAP_BIND_PASSWORD =
     (if truthy (lu_bind_password p) then lu_bind_password p else read_secret d LDAP_BIND_PASSWORD)"
  by (simp add: write_sync_config_def Let_def secrets.rd_wr)

lemma write_sync_config_frame [simp]:
  "audit_log (write_sync_config p d) = audit_log d" "seqs (write_sync_config p d) = seqs d"
  "config_ok (write_sync_config p d) = config_ok d" "users (write_sync_config p d) = users d"
  "web_sessions (write_sync_config p d) = web_sessions d" "devices (write_sync_config p d) = devices d"
  by (simp_all add: write_sync_config_def Let_def)

lemma load_config_with_audit [simp]: "load_config (with_audit now e d) = load_config d"
  unfolding load_config_def read_with_audit ..

definition saved_config :: "db \<Rightarrow> ldap_sync_update \<Rightarrow> ldap_sync_config" where
  "saved_config d p =
     \<lparr>lc_url = the (read_setting d SETTING_LDAP_URL), lc_bind_dn = py_strip (lu_bind_dn p),
      lc_base_dns = the (check_base_dns (lu_base_dns p)),
      lc_user_filter = (let f = py_strip (or_default (lu_user_filter p) []) in
        if f = [] then DEFAULT_USER_FILTER else f),
      lc_cadence_seconds = lu_cadence_seconds p, lc_enabled = lu_enabled p\<rparr>"

lemma check_base_dns_nonempty: "check_base_dns v = Some xs \<Longrightarrow> xs \<noteq> []"
  by (auto simp: check_base_dns_def Let_def split: if_splits)

lemma load_written_config:
  assumes "ldap_sync_update_valid p"
  shows "load_config (write_sync_config p d) =
    Inr (if truthy (read_setting d SETTING_LDAP_URL) \<and> py_strip (lu_bind_dn p) \<noteq> []
         then Some (saved_config d p) else None)"
proof -
  obtain xs where xs: "check_base_dns (lu_base_dns p) = Some xs" and "xs \<noteq> []"
    using assms check_base_dns_nonempty by (auto simp: ldap_sync_update_valid_def)
  moreover have "CADENCE_MIN_SECONDS \<le> lu_cadence_seconds p"
    using assms by (simp add: ldap_sync_update_valid_def)
  ultimately show ?thesis
    by (simp add: load_config_def write_sync_config_settings SETTING_LDAP_URL_def saved_config_def Let_def
        del: dumps.simps)
qed

section \<open>Properties\<close>

text \<open>
  What an administrator saves is what the worker runs with: after a PUT on a server with an
  LDAP URL the worker loads exactly the trimmed DN, the cleaned base DNs, the filter or its default,
  the cadence and the flag of the request, the password is the new one or, if none was sent, the old
  one, and the scheduler holds a job with that cadence exactly when the sync is enabled.
\<close>

theorem saved_config_is_scheduled:
  assumes "sc_role ctx = ''admin''" and "ldap_sync_update_valid p" and "py_strip (lu_bind_dn p) \<noteq> []"
    and "read_setting d SETTING_LDAP_URL = Some url" and "url \<noteq> []"
    and "update_config decode now ctx p (d, Some job) = ((d', sched), r)"
  shows "load_config d' = Inr (Some (saved_config d p)) \<and>
    sched = Some (if lu_enabled p then Some (lu_cadence_seconds p) else None) \<and>
    load_bind_password d' = (if truthy (lu_bind_password p) then lu_bind_password p else load_bind_password d) \<and>
    audited now ctx [LDAP_SYNC_CONFIG_UPDATED] d d'"
proof -
  let ?d = "with_audit now (ctx_entry ctx LDAP_SYNC_CONFIG_UPDATED ''ldap_sync'' (Some (sync_config_summary p)))
      (write_sync_config p d)"
  have tx: "update_config_tx now ctx p d = (?d, Inr ())"
    using assms(1,2) by (simp add: update_config_tx_def admin_only_def)
  have cfg: "load_config ?d = Inr (Some (saved_config d p))"
    using load_written_config [OF assms(2), of d] assms(3-5) by simp
  then have sch: "refresh_from_db (Some ?d) (Some job) =
      (Some (if lu_enabled p then Some (lu_cadence_seconds p) else None), True)"
    by (simp add: refresh_from_db_def saved_config_def)
  have eq: "d' = ?d" "sched = Some (if lu_enabled p then Some (lu_cadence_seconds p) else None)"
    using assms(6) tx sch by (auto simp: update_config_def split: sum.splits)
  show ?thesis
    unfolding eq load_bind_password_def
    by (intro conjI cfg refl audited_with_entry) (simp_all add: write_sync_config_password)
qed

definition ex_url_db :: db where
  "ex_url_db = empty_db\<lparr>system_settings := [''ldap.url'' \<mapsto> ''ldaps://dc'']\<rparr>"

definition ex_sync_update :: ldap_sync_update where
  "ex_sync_update = \<lparr>lu_bind_dn = ''cn=svc'', lu_bind_password = Some ''pw'', lu_base_dns = ['' dc=x''],
     lu_user_filter = None, lu_cadence_seconds = 600, lu_enabled = True\<rparr>"

lemma ex_sync_update_valid: "ldap_sync_update_valid ex_sync_update"
  by (simp add: ldap_sync_update_valid_def ex_sync_update_def str_len_def opt_len_def check_base_dns_def
      py_strip_def py_isspace_char_def CADENCE_MIN_SECONDS_def)

theorem saved_config_is_scheduled_witness:
  "\<exists>d' sched r. update_config (\<lambda>_. None) 0 ex_admin_ctx ex_sync_update (ex_url_db, Some None) = ((d', sched), r) \<and>
     load_config d' = Inr (Some (saved_config ex_url_db ex_sync_update)) \<and> sched = Some (Some 600) \<and>
     load_bind_password d' = Some ''pw''"
proof -
  obtain d' sched r where u: "update_config (\<lambda>_. None) 0 ex_admin_ctx ex_sync_update (ex_url_db, Some None) =
      ((d', sched), r)" by (metis prod.exhaust)
  have "sc_role ex_admin_ctx = ''admin''" "py_strip (lu_bind_dn ex_sync_update) \<noteq> []"
    "read_setting ex_url_db SETTING_LDAP_URL = Some ''ldaps://dc''" "''ldaps://dc'' \<noteq> []"
    by (simp_all add: ex_admin_ctx_def ex_sync_update_def ex_url_db_def read_setting_def SETTING_LDAP_URL_def
        py_strip_def py_isspace_char_def)
  from saved_config_is_scheduled [OF this(1) ex_sync_update_valid this(2-4) u] u show ?thesis
    by (simp add: ex_sync_update_def)
qed

text \<open>
  A manual run that fails leaves the stored summary of the run before it - a tick of the scheduler
  would have replaced it - and a database error leaves no audit row either.
\<close>

lemma failed_manual_run:
  assumes "sc_role ctx = ''admin''" and "run_sync_in_thread sql_lower connect now d = Inl e"
  shows "read_setting (fst (run_now sql_lower decode connect now ctx d)) LDAP_LAST_RESULT = read_setting d LDAP_LAST_RESULT \<and>
    (\<forall>x. e = DbError x \<longrightarrow> run_now sql_lower decode connect now ctx d = (d, Inl (Unhandled x)))"
  using assms by (cases e) (simp_all add: run_now_def admin_only_def)

lemma audited_update_config_tx:
  "audited_or_unchanged now ctx [LDAP_SYNC_CONFIG_UPDATED] d (update_config_tx now ctx p d)"
  unfolding update_config_tx_def
  by (cases "ldap_sync_update_valid p") (auto simp: admin_only_def)

end
