(* ===== verification/General_Settings.thy ===== *)
theory General_Settings
  imports Ldap_Auth Api_Common
begin

text \<open>
  \<open>app/api/v1/settings.py\<close>: the LDAPS endpoint and the public URL, one row of
  \<open>system_setting\<close> each, with the validators that trim and check them.
\<close>

definition WEB_BASE_URL_KEY :: string where
  "WEB_BASE_URL_KEY = ''web.base_url''"

definition check_ldap_url :: "string \<Rightarrow> string option" where
  "check_ldap_url value =
     (let v = py_strip value in
      if startswith ''ldap://'' v \<or> startswith ''ldaps://'' v then Some v else None)"

definition check_web_url :: "string \<Rightarrow> string option" where
  "check_web_url value =
     (let v = py_rstrip (CHR ''/'') (py_strip value) in
      if startswith ''http://'' v \<or> startswith ''https://'' v then Some v else None)"

text \<open>The body of a PUT: the length of the text as sent, then the validator.\<close>

definition url_field :: "(string \<Rightarrow> string option) \<Rightarrow> string \<Rightarrow> string option" where
  "url_field check raw = (if str_len 1 512 raw then check raw else None)"

definition put_url ::
    "instant \<Rightarrow> session_context \<Rightarrow> audit_action \<Rightarrow> string \<Rightarrow> string option \<Rightarrow> db \<Rightarrow> string outcome" where
  "put_url now ctx action key url d =
     validated (url \<noteq> None) d (admin_only ctx d
       (audit_commit now (ctx_entry ctx action ''system_setting'' url) d (write_setting key url d)
          (\<lambda>d1. (d1, Inr (the url)))))"

definition get_ldap_settings :: "db \<Rightarrow> string option outcome" where
  "get_ldap_settings d = (d, Inr (read_setting d SETTING_LDAP_URL))"

definition put_ldap_settings :: "instant \<Rightarrow> session_context \<Rightarrow> string \<Rightarrow> db \<Rightarrow> string outcome" where
  "put_ldap_settings now ctx raw d =
     put_url now ctx SETTING_LDAP_URL_UPDATED SETTING_LDAP_URL (url_field check_ldap_url raw) d"

definition get_web_settings :: "db \<Rightarrow> string option outcome" where
  "get_web_settings d = (d, Inr (read_setting d WEB_BASE_URL_KEY))"

definition put_web_settings :: "instant \<Rightarrow> session_context \<Rightarrow> string \<Rightarrow> db \<Rightarrow> string outcome" where
  "put_web_settings now ctx raw d =
     put_url now ctx SETTING_WEB_BASE_URL_UPDATED WEB_BASE_URL_KEY (url_field check_web_url raw) d"

section \<open>Facts\<close>

lemma put_url_cases:
  "put_url now ctx action key url d =
     (case url of
        None \<Rightarrow> (d, Inl (HTTPException 422 ''validation_error''))
      | Some v \<Rightarrow>
          if sc_role ctx \<noteq> ''admin'' then (d, Inl (HTTPException 403 ''admin_required''))
          else (with_audit now (ctx_entry ctx action ''system_setting'' (Some v)) (write_setting key (Some v) d), Inr v))"
  by (simp add: put_url_def admin_only_def split: option.split)

lemma audited_put_url: "audited_or_unchanged now ctx [action] d (put_url now ctx action key url d)"
  by (auto simp: put_url_cases split: option.split)

lemma config_ok_put_url: "config_ok d \<Longrightarrow> config_ok (fst (put_url now ctx action key url d))"
  by (simp add: put_url_cases split: option.split)

text \<open>An LDAP URL that passes the validator is not empty and keeps its text when trimmed again.\<close>

lemma dropWhile_idem: "dropWhile P (dropWhile P xs) = dropWhile P xs"
  by (induction xs) auto

lemma dropWhile_rev_head:
  "\<not> P x \<Longrightarrow> rev (dropWhile P (rev (x # xs))) = x # rev (dropWhile P (rev xs))"
  by (simp add: dropWhile_append3 dropWhile_append)

lemma py_strip_idem [simp]: "py_strip (py_strip s) = py_strip s"
proof (cases "dropWhile py_isspace_char s")
  case Nil
  then show ?thesis unfolding py_strip_def Nil by simp
next
  case (Cons x xs)
  then have "\<not> py_isspace_char x" by (metis hd_dropWhile list.discI list.sel(1))
  then show ?thesis
    unfolding py_strip_def Cons
    by (simp add: dropWhile_rev_head dropWhile_idem del: rev.simps)
qed

lemma check_ldap_url_props:
  assumes "check_ldap_url raw = Some v"
  shows "v = py_strip raw" and "v \<noteq> []" and "py_strip v = v"
  using assms by (auto simp: check_ldap_url_def Let_def split: if_splits)

section \<open>Properties\<close>

text \<open>
  The LDAP URL an administrator stores is the one the live login binds to from the next request
  on, with TLS exactly for the scheme \<open>ldaps\<close>, whatever was stored before.
\<close>

theorem stored_ldap_url_is_bound:
  assumes "put_ldap_settings now ctx raw d = (d', Inr v)"
  shows "resolve_ldap_endpoint d' =
      Some \<lparr>le_url = v, le_use_tls = startswith ''ldaps://'' (py_lower v), le_receive_timeout = 10\<rparr> \<and>
    v = py_strip raw \<and> get_ldap_settings d' = (d', Inr (Some v)) \<and> audited now ctx [SETTING_LDAP_URL_UPDATED] d d'"
proof -
  from assms have v: "check_ldap_url raw = Some v"
    and d': "d' = with_audit now (ctx_entry ctx SETTING_LDAP_URL_UPDATED ''system_setting'' (Some v))
       (write_setting SETTING_LDAP_URL (Some v) d)"
    by (auto simp: put_ldap_settings_def put_url_cases url_field_def split: option.splits if_splits)
  have stored: "system_settings d' SETTING_LDAP_URL = Some v" "read_setting d' SETTING_LDAP_URL = Some v"
    using settings.rd_wr_same [of SETTING_LDAP_URL "Some v" d] by (simp_all add: d' read_setting_def)
  have "audited now ctx [SETTING_LDAP_URL_UPDATED] d d'"
    unfolding d' by (intro audited_with_entry) simp_all
  with stored check_ldap_url_props [OF v] show ?thesis
    by (simp add: resolve_ldap_endpoint_def get_ldap_settings_def Let_def)
qed

theorem stored_ldap_url_is_bound_witness:
  "\<exists>d'. put_ldap_settings 0 ex_admin_ctx '' ldaps://dc '' empty_db = (d', Inr ''ldaps://dc'') \<and>
     map_option le_use_tls (resolve_ldap_endpoint d') = Some True"
proof -
  have "put_ldap_settings 0 ex_admin_ctx '' ldaps://dc '' empty_db =
      (fst (put_ldap_settings 0 ex_admin_ctx '' ldaps://dc '' empty_db), Inr ''ldaps://dc'')"
    by (simp add: put_ldap_settings_def put_url_cases url_field_def str_len_def check_ldap_url_def
        py_strip_def py_isspace_char_def ex_admin_ctx_def)
  from stored_ldap_url_is_bound [OF this] this show ?thesis
    by (intro exI [of _ "fst (put_ldap_settings 0 ex_admin_ctx '' ldaps://dc '' empty_db)"])
       (simp add: py_lower_char_def char_eval)
qed

end
