(* ===== verification/Settings_Syslog.thy ===== *)
theory Settings_Syslog
  imports Syslog Strptime Api_Common
begin

text \<open>
  \<open>app/api/v1/settings_syslog.py\<close>: the settings of the forwarder. \<open>datetime.fromisoformat\<close> is
  modelled for the two forms \<open>isoformat\<close> writes, with and without microseconds; any other text
  counts as a \<open>ValueError\<close>.
\<close>

definition fromisoformat :: "string \<Rightarrow> instant option" where
  "fromisoformat s =
     (case strptime_utc ''%Y-%m-%dT%H:%M:%S%z'' s of
        Some t \<Rightarrow> Some t | None \<Rightarrow> strptime_utc ''%Y-%m-%dT%H:%M:%S.%f%z'' s)"

record syslog_status =
  ys_enabled :: bool
  ys_host :: "string option"
  ys_port :: int
  ys_protocol :: protocol
  ys_facility :: int
  ys_app_name :: string
  ys_hostname :: string
  ys_tls_verify :: bool
  ys_tls_server_name :: "string option"
  ys_tls_ca_present :: bool
  ys_tls_client_cert_present :: bool
  ys_tls_client_key_present :: bool
  ys_last_forwarded_id :: int
  ys_last_audit_id :: int
  ys_last_error :: "string option"
  ys_last_error_at :: "instant option"

record syslog_update =
  yu_enabled :: bool
  yu_host :: string
  yu_port :: int
  yu_protocol :: protocol
  yu_facility :: int
  yu_app_name :: string
  yu_hostname :: string
  yu_tls_verify :: bool
  yu_tls_server_name :: "string option"
  yu_tls_ca_pem :: "string option"
  yu_tls_client_cert_pem :: "string option"
  yu_tls_client_key_pem :: "string option"

definition syslog_update_valid :: "syslog_update \<Rightarrow> bool" where
  "syslog_update_valid p \<longleftrightarrow>
     str_len 1 255 (yu_host p) \<and> 1 \<le> yu_port p \<and> yu_port p \<le> 65535 \<and> 0 \<le> yu_facility p \<and>
     yu_facility p \<le> 23 \<and> str_len 1 48 (yu_app_name p) \<and> str_len 1 255 (yu_hostname p) \<and>
     opt_len 0 255 (yu_tls_server_name p)"

definition protocol_name :: "protocol \<Rightarrow> string" where
  "protocol_name p = (case p of UDP \<Rightarrow> ''udp'' | TCP \<Rightarrow> ''tcp'' | TLS \<Rightarrow> ''tls'')"

definition read_last_error_at :: "db \<Rightarrow> instant option" where
  "read_last_error_at d =
     (let raw = read_setting d SYSLOG_LAST_ERROR_AT in
      if truthy raw then fromisoformat (the raw) else None)"

definition read_syslog_status :: "db \<Rightarrow> syslog_status exn" where
  "read_syslog_status d =
     (if \<not> offset_readable d SYSLOG_LAST_ID \<or> \<not> offset_readable d SYSLOG_LAST_AUDIT
      then Inl ''ValueError: invalid literal for int()''
      else
        (let cfg = syslog_load_config d in
         Inr \<lparr>ys_enabled = sy_enabled cfg, ys_host = none_if_empty (sy_host cfg), ys_port = sy_port cfg,
           ys_protocol = sy_protocol cfg, ys_facility = sy_facility cfg, ys_app_name = sy_app_name cfg,
           ys_hostname = sy_hostname cfg, ys_tls_verify = sy_tls_verify cfg,
           ys_tls_server_name = sy_tls_server_name cfg, ys_tls_ca_present = (sy_tls_ca_pem cfg \<noteq> None),
           ys_tls_client_cert_present = (sy_tls_client_cert_pem cfg \<noteq> None),
           ys_tls_client_key_present = (sy_tls_client_key_pem cfg \<noteq> None),
           ys_last_forwarded_id = stored_offset d SYSLOG_LAST_ID,
           ys_last_audit_id = stored_offset d SYSLOG_LAST_AUDIT,
           ys_last_error = read_setting d SYSLOG_LAST_ERROR, ys_last_error_at = read_last_error_at d\<rparr>))"

definition get_syslog_status :: "db \<Rightarrow> syslog_status outcome" where
  "get_syslog_status d = or_500 d (read_syslog_status d) (\<lambda>s. (d, Inr s))"

section \<open>Saving\<close>

definition true_false :: "bool \<Rightarrow> string" where
  "true_false b = (if b then ''true'' else ''false'')"

text \<open>A secret of the body: absent keeps the stored one, the empty text deletes it.\<close>

definition put_secret :: "string \<Rightarrow> string option \<Rightarrow> db \<Rightarrow> db" where
  "put_secret key v d =
     (case v of None \<Rightarrow> d | Some s \<Rightarrow> write_secret key (none_if_empty s) d)"

definition write_syslog_settings :: "syslog_update \<Rightarrow> db \<Rightarrow> db" where
  "write_syslog_settings p d =
     write_setting SYSLOG_TLS_NAME (if truthy (yu_tls_server_name p) then yu_tls_server_name p else None)
       (write_setting SYSLOG_TLS_VERIFY (Some (true_false (yu_tls_verify p)))
       (write_setting SYSLOG_HOSTNAME (Some (py_strip (yu_hostname p)))
       (write_setting SYSLOG_APP_NAME (Some (py_strip (yu_app_name p)))
       (write_setting SYSLOG_FACILITY (Some (int_to_str (yu_facility p)))
       (write_setting SYSLOG_PROTOCOL (Some (protocol_name (yu_protocol p)))
       (write_setting SYSLOG_PORT (Some (int_to_str (yu_port p)))
       (write_setting SYSLOG_HOST (Some (py_strip (yu_host p)))
       (write_setting SYSLOG_ENABLED (Some (true_false (yu_enabled p))) d))))))))"

definition write_syslog_config :: "syslog_update \<Rightarrow> db \<Rightarrow> db" where
  "write_syslog_config p d =
     put_secret ''syslog.tls_client_key_pem'' (yu_tls_client_key_pem p)
       (put_secret ''syslog.tls_client_cert_pem'' (yu_tls_client_cert_pem p)
       (put_secret ''syslog.tls_ca_pem'' (yu_tls_ca_pem p) (write_syslog_settings p d)))"

definition syslog_summary :: "syslog_update \<Rightarrow> string" where
  "syslog_summary p = dumps (JDict
     [(''enabled'', JBool (yu_enabled p)), (''host'', JString (yu_host p)), (''port'', JInt (yu_port p)),
      (''protocol'', JString (protocol_name (yu_protocol p)))])"

definition update_syslog_config ::
    "instant \<Rightarrow> session_context \<Rightarrow> syslog_update \<Rightarrow> db \<Rightarrow> syslog_status outcome" where
  "update_syslog_config now ctx p d =
     validated (syslog_update_valid p) d (admin_only ctx d
       (audit_commit now (ctx_entry ctx SYSLOG_CONFIG_UPDATED ''syslog'' (Some (syslog_summary p)))
          d (write_syslog_config p d) get_syslog_status))"

section \<open>Testing\<close>

definition test_syslog :: "network \<Rightarrow> instant \<Rightarrow> session_context \<Rightarrow> db \<Rightarrow> unit outcome" where
  "test_syslog net now ctx d =
     admin_only ctx d
       (let cfg = syslog_load_config d in
        if sy_host cfg = [] then (d, Inl (HTTPException 400 ''syslog.host is not configured''))
        else
          (case send_test_message net now cfg of
             Some e \<Rightarrow>
               audit_commit now (ctx_entry ctx SYSLOG_TEST_FAILED ''syslog'' (Some e)) d d
                 (\<lambda>d1. (d1, Inl (HTTPException 400 e)))
           | None \<Rightarrow>
               audit_commit now
                 (ctx_entry ctx SYSLOG_TEST_SUCCEEDED ''syslog''
                    (Some (protocol_name (sy_protocol cfg) @ ''://'' @ sy_host cfg @ '':'' @ int_to_str (sy_port cfg))))
                 d d (\<lambda>d1. (d1, Inr ()))))"

section \<open>Facts\<close>

lemma put_secret_frame [simp]:
  "read_setting (put_secret k v d) = read_setting d" "audit_log (put_secret k v d) = audit_log d"
  "seqs (put_secret k v d) = seqs d" "config_ok (put_secret k v d) = config_ok d"
  "accounting_records (put_secret k v d) = accounting_records d"
  by (auto simp: put_secret_def fun_eq_iff split: option.split)

text \<open>The secret a forwarder finds after a PUT.\<close>

definition secret_after :: "string option \<Rightarrow> string option \<Rightarrow> string option" where
  "secret_after sent stored = (case sent of None \<Rightarrow> stored | Some s \<Rightarrow> none_if_empty s)"

lemma put_secret_read:
  "read_secret (put_secret k v d) k' = (if k = k' then secret_after v (read_secret d k') else read_secret d k')"
  by (simp add: put_secret_def secret_after_def secrets.rd_wr split: option.split)

lemma write_syslog_settings_read:
  "read_setting (write_syslog_settings p d) SYSLOG_TLS_NAME = (if truthy (yu_tls_server_name p) then yu_tls_server_name p else None)"
  "read_setting (write_syslog_settings p d) SYSLOG_TLS_VERIFY = Some (true_false (yu_tls_verify p))"
  "read_setting (write_syslog_settings p d) SYSLOG_HOSTNAME = Some (py_strip (yu_hostname p))"
  "read_setting (write_syslog_settings p d) SYSLOG_APP_NAME = Some (py_strip (yu_app_name p))"
  "read_setting (write_syslog_settings p d) SYSLOG_FACILITY = Some (int_to_str (yu_facility p))"
  "read_setting (write_syslog_settings p d) SYSLOG_PROTOCOL = Some (protocol_name (yu_protocol p))"
  "read_setting (write_syslog_settings p d) SYSLOG_PORT = Some (int_to_str (yu_port p))"
  "read_setting (write_syslog_settings p d) SYSLOG_HOST = Some (py_strip (yu_host p))"
  "read_setting (write_syslog_settings p d) SYSLOG_ENABLED = Some (true_false (yu_enabled p))"
  unfolding write_syslog_settings_def by (simp_all add: settings.rd_wr)

lemma write_syslog_settings_frame [simp]:
  "read_secret (write_syslog_settings p d) k = read_secret d k"
  "audit_log (write_syslog_settings p d) = audit_log d" "seqs (write_syslog_settings p d) = seqs d"
  "config_ok (write_syslog_settings p d) = config_ok d"
  "accounting_records (write_syslog_settings p d) = accounting_records d"
  by (simp_all add: write_syslog_settings_def)

lemma write_syslog_config_frame [simp]:
  "read_setting (write_syslog_config p d) = read_setting (write_syslog_settings p d)"
  "audit_log (write_syslog_config p d) = audit_log d" "seqs (write_syslog_config p d) = seqs d"
  "config_ok (write_syslog_config p d) = config_ok d"
  by (simp_all add: write_syslog_config_def)

lemma is_true_true_false [simp]: "is_true (true_false b) = b"
  by (simp add: is_true_def true_false_def)

lemma true_false_nonempty [simp]: "true_false b \<noteq> []"
  by (simp add: true_false_def)

lemma or_default_empty [simp]: "or_default (Some s) [] = s"
  by (simp add: or_default_def)

lemma protocol_round [simp]: "syslog_protocol (py_lower (protocol_name p)) = p" "protocol_name p \<noteq> []"
  by (cases p; simp add: protocol_name_def syslog_protocol_def py_lower_char_def char_eval)+

lemma syslog_config_with_audit [simp]: "syslog_load_config (with_audit now e d) = syslog_load_config d"
  unfolding syslog_load_config_def read_with_audit ..

lemma offset_written [simp]:
  "k = SYSLOG_LAST_ID \<or> k = SYSLOG_LAST_AUDIT \<Longrightarrow>
     read_setting (write_syslog_settings p d) k = read_setting d k"
  by (auto simp: write_syslog_settings_def settings.rd_wr)

lemma write_syslog_secrets:
  "read_secret (write_syslog_config p d) ''syslog.tls_ca_pem'' =
     secret_after (yu_tls_ca_pem p) (read_secret d ''syslog.tls_ca_pem'')"
  "read_secret (write_syslog_config p d) ''syslog.tls_client_cert_pem'' =
     secret_after (yu_tls_client_cert_pem p) (read_secret d ''syslog.tls_client_cert_pem'')"
  "read_secret (write_syslog_config p d) ''syslog.tls_client_key_pem'' =
     secret_after (yu_tls_client_key_pem p) (read_secret d ''syslog.tls_client_key_pem'')"
  by (simp_all add: write_syslog_config_def put_secret_read)

lemma load_written_syslog:
  "clamp_facility (yu_facility p) = yu_facility p \<Longrightarrow> syslog_load_config (write_syslog_config p d) =
     \<lparr>sy_enabled = yu_enabled p, sy_host = py_strip (yu_host p), sy_port = yu_port p,
      sy_protocol = yu_protocol p, sy_facility = yu_facility p,
      sy_app_name = or_default (Some (py_strip (yu_app_name p))) ''tacacs-web'',
      sy_hostname = or_default (Some (py_strip (yu_hostname p))) ''tacacs-web'',
      sy_tls_verify = yu_tls_verify p,
      sy_tls_server_name = (if truthy (yu_tls_server_name p) then yu_tls_server_name p else None),
      sy_tls_ca_pem = secret_after (yu_tls_ca_pem p) (read_secret d ''syslog.tls_ca_pem''),
      sy_tls_client_cert_pem = secret_after (yu_tls_client_cert_pem p) (read_secret d ''syslog.tls_client_cert_pem''),
      sy_tls_client_key_pem = secret_after (yu_tls_client_key_pem p) (read_secret d ''syslog.tls_client_key_pem'')\<rparr>"
  unfolding syslog_load_config_def write_syslog_secrets write_syslog_config_frame write_syslog_settings_read
  by simp

section \<open>Properties\<close>

text \<open>
  What an administrator saves is what the forwarder sends with: after a PUT it loads exactly
  the trimmed host and names (an empty one falls back to the default), the port, protocol and
  facility, both flags, the server name, and for each of the three PEM secrets the new one, none, or
  the stored one as the request says. The forwarding offsets stay where they were.
\<close>

theorem saved_syslog_config_is_used:
  assumes "update_syslog_config now ctx p d = (d', Inr st)"
  shows "syslog_load_config d' =
     \<lparr>sy_enabled = yu_enabled p, sy_host = py_strip (yu_host p), sy_port = yu_port p,
      sy_protocol = yu_protocol p, sy_facility = yu_facility p,
      sy_app_name = or_default (Some (py_strip (yu_app_name p))) ''tacacs-web'',
      sy_hostname = or_default (Some (py_strip (yu_hostname p))) ''tacacs-web'',
      sy_tls_verify = yu_tls_verify p,
      sy_tls_server_name = (if truthy (yu_tls_server_name p) then yu_tls_server_name p else None),
      sy_tls_ca_pem = secret_after (yu_tls_ca_pem p) (read_secret d ''syslog.tls_ca_pem''),
      sy_tls_client_cert_pem = secret_after (yu_tls_client_cert_pem p) (read_secret d ''syslog.tls_client_cert_pem''),
      sy_tls_client_key_pem = secret_after (yu_tls_client_key_pem p) (read_secret d ''syslog.tls_client_key_pem'')\<rparr> \<and>
     stored_offset d' SYSLOG_LAST_ID = stored_offset d SYSLOG_LAST_ID \<and>
     stored_offset d' SYSLOG_LAST_AUDIT = stored_offset d SYSLOG_LAST_AUDIT \<and>
     audited now ctx [SYSLOG_CONFIG_UPDATED] d d'"
proof -
  let ?e = "ctx_entry ctx SYSLOG_CONFIG_UPDATED ''syslog'' (Some (syslog_summary p))"
  have valid: "syslog_update_valid p" and d': "d' = with_audit now ?e (write_syslog_config p d)"
    using assms
    by (auto simp: update_syslog_config_def validated_def admin_only_def get_syslog_status_def or_500_def
        split: if_splits sum.splits)
  have clamp: "clamp_facility (yu_facility p) = yu_facility p"
    using valid by (simp add: syslog_update_valid_def clamp_facility_def)
  have cfg: "syslog_load_config d' = syslog_load_config (write_syslog_config p d)"
    by (simp add: d')
  have offsets: "stored_offset d' SYSLOG_LAST_ID = stored_offset d SYSLOG_LAST_ID"
    "stored_offset d' SYSLOG_LAST_AUDIT = stored_offset d SYSLOG_LAST_AUDIT"
    unfolding stored_offset_def d' by simp_all
  have audit: "audited now ctx [SYSLOG_CONFIG_UPDATED] d d'"
    unfolding d' by (intro audited_with_entry) simp_all
  show ?thesis
    unfolding cfg load_written_syslog [OF clamp] by (intro conjI refl offsets audit)
qed

definition ex_syslog_update :: syslog_update where
  "ex_syslog_update = \<lparr>yu_enabled = True, yu_host = ''log'', yu_port = 6514, yu_protocol = TLS,
     yu_facility = 16, yu_app_name = ''app'', yu_hostname = ''host'', yu_tls_verify = True,
     yu_tls_server_name = None, yu_tls_ca_pem = Some ''PEM'', yu_tls_client_cert_pem = Some [],
     yu_tls_client_key_pem = None\<rparr>"

theorem saved_syslog_config_is_used_witness:
  "\<exists>d' st. update_syslog_config 0 ex_admin_ctx ex_syslog_update empty_db = (d', Inr st) \<and>
     sy_host (syslog_load_config d') = ''log'' \<and> sy_tls_ca_pem (syslog_load_config d') = Some ''PEM''"
proof -
  have "read_setting empty_db k = None" for k by (simp add: read_setting_def empty_db_def)
  moreover have "py_int ''0'' \<noteq> None" using py_int_nat_to_str [of 0] by (simp add: nat_to_str.simps)
  ultimately have "offset_readable (write_syslog_config ex_syslog_update empty_db) SYSLOG_LAST_ID"
    "offset_readable (write_syslog_config ex_syslog_update empty_db) SYSLOG_LAST_AUDIT"
    by (simp_all add: offset_readable_def)
  then obtain d' st where u: "update_syslog_config 0 ex_admin_ctx ex_syslog_update empty_db = (d', Inr st)"
    by (simp add: update_syslog_config_def syslog_update_valid_def ex_syslog_update_def str_len_def opt_len_def
        admin_only_def ex_admin_ctx_def get_syslog_status_def read_syslog_status_def offset_readable_def Let_def)
  from saved_syslog_config_is_used [OF u] u show ?thesis
    by (intro exI [of _ d'] exI [of _ st])
       (simp add: ex_syslog_update_def secret_after_def py_strip_def py_isspace_char_def)
qed

lemma audited_update_syslog_config:
  "syslog_update_valid p \<Longrightarrow> sc_role ctx = ''admin'' \<Longrightarrow>
     audited now ctx [SYSLOG_CONFIG_UPDATED] d (fst (update_syslog_config now ctx p d))"
  by (auto simp: update_syslog_config_def admin_only_def get_syslog_status_def or_500_def split: sum.split)

end
