(* ===== verification/Url.thy ===== *)
theory Url
  imports Ip_Address Bytes Json
begin

text \<open>
  \<open>urllib.parse\<close> as far as the program uses it: \<open>urlparse\<close> with the attributes \<open>scheme\<close>,
  \<open>hostname\<close>, \<open>port\<close> and \<open>username\<close>, \<open>urlunparse\<close> after the network location is replaced, and
  \<open>quote\<close>. \<open>urlparse\<close> of schemes with parameters (\<open>;\<close>) keeps them in the path, which no caller
  reads. A \<open>ValueError\<close> is the left side of the sum.
\<close>

record url_parts =
  up_scheme :: string
  up_netloc :: string
  up_path :: string
  up_query :: string
  up_fragment :: string

definition is_ascii_alpha :: "char \<Rightarrow> bool" where
  "is_ascii_alpha c \<longleftrightarrow> (65 \<le> ord_c c \<and> ord_c c \<le> 90) \<or> (97 \<le> ord_c c \<and> ord_c c \<le> 122)"

definition scheme_char :: "char \<Rightarrow> bool" where
  "scheme_char c \<longleftrightarrow>
     is_ascii_alpha c \<or> is_ascii_digit c \<or> c = CHR ''+'' \<or> c = CHR ''-'' \<or> c = CHR ''.''"

definition clean_url :: "string \<Rightarrow> string" where
  "clean_url url = filter (\<lambda>c. c \<noteq> tab \<and> c \<noteq> cr \<and> c \<noteq> nl) (dropWhile (\<lambda>c. ord_c c \<le> 32) url)"

definition split_scheme :: "string \<Rightarrow> string \<times> string" where
  "split_scheme url =
     (case py_partition (CHR '':'') url of
        (s, found, rest) \<Rightarrow>
          if found \<and> s \<noteq> [] \<and> is_ascii_alpha (hd s) \<and> list_all scheme_char s
          then (py_lower s, rest) else ([], url))"

definition split_netloc :: "string \<Rightarrow> string \<times> string" where
  "split_netloc url =
     (if startswith ''//'' url
      then (let delim = (\<lambda>c. c = CHR ''/'' \<or> c = CHR ''?'' \<or> c = CHR ''#''); u = drop 2 url in
            (takeWhile (\<lambda>c. \<not> delim c) u, dropWhile (\<lambda>c. \<not> delim c) u))
      else ([], url))"

text \<open>\<open>str.rpartition('@')[2]\<close> and what stands before it.\<close>

definition rpartition_at :: "string \<Rightarrow> string \<times> bool \<times> string" where
  "rpartition_at s =
     (case py_partition (CHR ''@'') (rev s) of (b, found, a) \<Rightarrow> (rev a, found, rev b))"

text \<open>The host and the port of a network location; the port is absent or the text after the colon.\<close>

definition host_info :: "string \<Rightarrow> string \<times> string option" where
  "host_info netloc =
     (let hostinfo = snd (snd (rpartition_at netloc)) in
      case py_partition (CHR ''['') hostinfo of
        (_, True, bracketed) \<Rightarrow>
          (case py_partition (CHR '']'') bracketed of
             (host, _, after) \<Rightarrow> (host, none_if_empty (snd (snd (py_partition (CHR '':'') after)))))
      | (_, False, _) \<Rightarrow>
          (case py_partition (CHR '':'') hostinfo of (host, _, port) \<Rightarrow> (host, none_if_empty port)))"

definition is_ipvfuture :: "string \<Rightarrow> bool" where
  "is_ipvfuture h =
     (case py_partition (CHR ''.'') (tl h) of
        (hex, found, rest) \<Rightarrow> found \<and> hex \<noteq> [] \<and> list_all (\<lambda>c. hex_val c \<noteq> None) hex \<and> rest \<noteq> [] \<and> nl \<notin> set rest)"

definition netloc_ok :: "string \<Rightarrow> bool" where
  "netloc_ok netloc \<longleftrightarrow>
     (CHR ''['' \<in> set netloc \<longleftrightarrow> CHR '']'' \<in> set netloc) \<and>
     (CHR ''['' \<in> set netloc \<longrightarrow>
        (let hostinfo = snd (snd (rpartition_at netloc)) in
         case py_partition (CHR ''['') hostinfo of
           (before, found, bracketed) \<Rightarrow>
             \<not> (found \<and> before \<noteq> []) \<and>
             (let host = (if found then fst (py_partition (CHR '']'') bracketed)
                          else fst (py_partition (CHR '':'') hostinfo));
                  port = (if found then snd (snd (py_partition (CHR '']'') bracketed)) else []) in
              (port = [] \<or> startswith '':'' port) \<and>
              (if startswith ''v'' host then is_ipvfuture host else ipv6_address host \<noteq> None))))"

definition urlparse :: "string \<Rightarrow> url_parts exn" where
  "urlparse raw =
     (let (scheme, u1) = split_scheme (clean_url raw); (netloc, u2) = split_netloc u1;
          (u3, _, fragment) = py_partition (CHR ''#'') u2; (path, _, query) = py_partition (CHR ''?'') u3 in
      if \<not> netloc_ok netloc then Inl ''ValueError: Invalid IPv6 URL''
      else Inr \<lparr>up_scheme = scheme, up_netloc = netloc, up_path = path, up_query = query,
        up_fragment = fragment\<rparr>)"

definition url_hostname :: "url_parts \<Rightarrow> string option" where
  "url_hostname p =
     (let host = fst (host_info (up_netloc p)) in
      if host = [] then None
      else (case py_partition (CHR 0x25) host of
              (h, percent, zone) \<Rightarrow> Some (py_lower h @ (if percent then [CHR 0x25] else []) @ zone)))"

definition url_port :: "url_parts \<Rightarrow> int option exn" where
  "url_port p =
     (case snd (host_info (up_netloc p)) of
        None \<Rightarrow> Inr None
      | Some t \<Rightarrow>
          if \<not> list_all is_ascii_digit t then Inl ''ValueError: Port could not be cast to integer value''
          else if 65535 < digits_val t then Inl ''ValueError: Port out of range 0-65535''
          else Inr (Some (int (digits_val t))))"

definition url_username :: "url_parts \<Rightarrow> string option" where
  "url_username p =
     (case rpartition_at (up_netloc p) of
        (userinfo, found, _) \<Rightarrow> if found then Some (fst (py_partition (CHR '':'') userinfo)) else None)"

definition urlunparse :: "url_parts \<Rightarrow> string" where
  "urlunparse p =
     (let u1 = (if up_netloc p \<noteq> [] then
                  ''//'' @ up_netloc p @
                  (if up_path p \<noteq> [] \<and> hd (up_path p) \<noteq> CHR ''/'' then ''/'' @ up_path p else up_path p)
                else up_path p);
          u2 = (if up_scheme p \<noteq> [] then up_scheme p @ '':'' @ u1 else u1);
          u3 = (if up_query p \<noteq> [] then u2 @ ''?'' @ up_query p else u2) in
      if up_fragment p \<noteq> [] then u3 @ ''#'' @ up_fragment p else u3)"

section \<open>Quoting\<close>

definition unreserved :: "nat \<Rightarrow> bool" where
  "unreserved n \<longleftrightarrow> (48 \<le> n \<and> n \<le> 57) \<or> (65 \<le> n \<and> n \<le> 90) \<or> (97 \<le> n \<and> n \<le> 122) \<or>
     n = 95 \<or> n = 46 \<or> n = 45 \<or> n = 126"

definition upper_hex :: "nat \<Rightarrow> char" where
  "upper_hex n = (if n < 10 then digit_char n else char_of (n + 55))"

definition quote_byte :: "byte \<Rightarrow> string" where
  "quote_byte b =
     (if unreserved (unat b) then [char_of (unat b)]
      else [CHR 0x25, upper_hex (unat b div 16), upper_hex (unat b mod 16)])"

text \<open>\<open>quote(s, safe='')\<close>.\<close>

definition quote :: "string \<Rightarrow> string" where
  "quote s = concat (map quote_byte (utf8_encode s))"

text \<open>\<open>unquote_to_bytes\<close>, the reader of a quoted component.\<close>

fun unquote_bytes :: "string \<Rightarrow> byte list" where
  "unquote_bytes (c # a # b # s) =
     (if c = CHR 0x25 then
        (case (hex_val a, hex_val b) of
           (Some x, Some y) \<Rightarrow> word_of_nat (16 * x + y) # unquote_bytes s
         | _ \<Rightarrow> utf8_char c @ unquote_bytes (a # b # s))
      else utf8_char c @ unquote_bytes (a # b # s))"
| "unquote_bytes (c # s) = utf8_char c @ unquote_bytes s"
| "unquote_bytes [] = []"

lemma hex_val_upper [simp]: "n < 16 \<Longrightarrow> hex_val (upper_hex n) = Some n"
  by (auto simp: hex_val_def upper_hex_def is_ascii_digit_def)

lemma unquote_plain: "c \<noteq> CHR 0x25 \<Longrightarrow> unquote_bytes (c # s) = utf8_char c @ unquote_bytes s"
  by (cases s rule: unquote_bytes.cases) (auto split: list.split)

lemma byte_less: "unat (b :: byte) < 256"
  using unsigned_less [of b, where 'a = nat] by simp

lemma unquote_quote_byte: "unquote_bytes (quote_byte b @ s) = b # unquote_bytes s"
proof (cases "unreserved (unat b)")
  case True
  then have n: "unat b < 128" "unat b \<noteq> 37" by (auto simp: unreserved_def)
  then have "char_of (unat b) \<noteq> CHR 0x25" by (simp add: char_of_eq_iff take_bit_nat_eq_self)
  moreover have "utf8_char (char_of (unat b)) = [b]"
    using n by (simp add: utf8_char_def)
  ultimately show ?thesis using True by (simp add: quote_byte_def unquote_plain)
next
  case False
  have "unat b div 16 < 16" using byte_less [of b] by (simp add: less_mult_imp_div_less)
  then show ?thesis using False by (simp add: quote_byte_def)
qed

lemma unquote_quote: "unquote_bytes (quote s) = utf8_encode s"
proof -
  have "unquote_bytes (concat (map quote_byte bs)) = bs" for bs
    by (induction bs) (simp_all add: unquote_quote_byte)
  then show ?thesis by (simp add: quote_def)
qed

lemma upper_hex_unreserved: "n < 16 \<Longrightarrow> unreserved (ord_c (upper_hex n))"
  by (auto simp: upper_hex_def unreserved_def)

lemma quote_byte_chars: "c \<in> set (quote_byte b) \<Longrightarrow> unreserved (ord_c c) \<or> c = CHR 0x25"
proof -
  assume c: "c \<in> set (quote_byte b)"
  have n: "unat b div 16 < 16" "unat b mod 16 < 16" using byte_less [of b] by (simp_all add: less_mult_imp_div_less)
  show ?thesis
  proof (cases "unreserved (unat b)")
    case True
    with c byte_less [of b] show ?thesis by (simp add: quote_byte_def)
  next
    case False
    with c upper_hex_unreserved [OF n(1)] upper_hex_unreserved [OF n(2)] show ?thesis
      by (auto simp: quote_byte_def)
  qed
qed

lemma url_quote_chars: "c \<in> set (quote s) \<Longrightarrow> unreserved (ord_c c) \<or> c = CHR 0x25"
  by (auto simp: quote_def dest: quote_byte_chars)

end
