(* ===== verification/Saml_Config.thy ===== *)
theory Saml_Config
  imports Settings_Store Json Url
begin

text \<open>
  \<open>app/saml/config.py\<close> and the metadata parser of \<open>keypair.py\<close>. The settings dictionary for
  python3-saml is a value of \<open>json\<close>; that library and the XML parser are parameters of the
  definitions that use them. The environment's base URL is the parameter \<open>env_url\<close>.
\<close>

section \<open>Configuration (saml/config.py)\<close>

abbreviation SAML_SP_CERT :: string where "SAML_SP_CERT \<equiv> ''saml.sp_certificate_pem''"
abbreviation SAML_SP_KEY :: string where "SAML_SP_KEY \<equiv> ''saml.sp_private_key_pem''"
abbreviation SAML_IDP_ENTITY_ID :: string where "SAML_IDP_ENTITY_ID \<equiv> ''saml.idp_entity_id''"
abbreviation SAML_IDP_SSO_URL :: string where "SAML_IDP_SSO_URL \<equiv> ''saml.idp_sso_url''"
abbreviation SAML_IDP_SSO_BINDING :: string where "SAML_IDP_SSO_BINDING \<equiv> ''saml.idp_sso_binding''"
abbreviation SAML_IDP_CERT :: string where "SAML_IDP_CERT \<equiv> ''saml.idp_x509_cert''"
abbreviation SAML_IDP_XML :: string where "SAML_IDP_XML \<equiv> ''saml.idp_metadata_xml''"
abbreviation SAML_GROUP_ATTRIBUTE :: string where "SAML_GROUP_ATTRIBUTE \<equiv> ''saml.group_attribute''"
abbreviation SAML_ROLE_MAPPINGS :: string where "SAML_ROLE_MAPPINGS \<equiv> ''saml.role_mappings''"
abbreviation WEB_BASE_URL :: string where "WEB_BASE_URL \<equiv> ''web.base_url''"

definition SAML_GROUP_ATTR_DEFAULT :: string where
  "SAML_GROUP_ATTR_DEFAULT = ''memberOf''"

record saml_config =
  sm_base_url :: string
  sm_idp_entity_id :: string
  sm_idp_sso_url :: string
  sm_idp_sso_binding :: string
  sm_idp_x509_cert :: string
  sm_sp_certificate_pem :: string
  sm_sp_private_key_pem :: string
  sm_group_attribute :: string
  sm_role_mappings :: "(json \<times> json) list"

datatype saml_exc = SamlNotConfigured string | SamlError string

text \<open>The items of a decoded value that a \<open>for\<close> loop sees.\<close>

definition json_items :: "json \<Rightarrow> json list exn" where
  "json_items j =
     (case j of
        JList js \<Rightarrow> Inr js
      | JDict ps \<Rightarrow> Inr (map (JString \<circ> fst) ps)
      | JString s \<Rightarrow> Inr (map (\<lambda>c. JString [c]) s)
      | _ \<Rightarrow> Inl ''TypeError: object is not iterable'')"

definition mapping_pair :: "json \<Rightarrow> (json \<times> json) option" where
  "mapping_pair entry =
     (case entry of
        JDict ps \<Rightarrow>
          (case (map_of ps ''ad_group'', map_of ps ''role'') of
             (Some g, Some r) \<Rightarrow> Some (g, r) | _ \<Rightarrow> None)
      | _ \<Rightarrow> None)"

definition stored_mappings :: "db \<Rightarrow> json list exn" where
  "stored_mappings d =
     (case loads (or_default (read_setting d SAML_ROLE_MAPPINGS) ''[]'') of
        None \<Rightarrow> Inr [] | Some j \<Rightarrow> json_items j)"

definition load_saml_config :: "string \<Rightarrow> db \<Rightarrow> saml_exc + saml_config" where
  "load_saml_config env_url d =
     (let base_url = or_default (read_setting d WEB_BASE_URL) env_url;
          entity = read_setting d SAML_IDP_ENTITY_ID; sso = read_setting d SAML_IDP_SSO_URL;
          cert = read_setting d SAML_IDP_CERT;
          sp_cert = read_secret d SAML_SP_CERT; sp_key = read_secret d SAML_SP_KEY in
      if base_url = [] then Inl (SamlNotConfigured ''web.base_url is not set'')
      else if \<not> (truthy entity \<and> truthy sso \<and> truthy cert)
      then Inl (SamlNotConfigured ''IdP metadata has not been imported yet'')
      else if \<not> (truthy sp_cert \<and> truthy sp_key)
      then Inl (SamlNotConfigured ''SP keypair has not been generated yet'')
      else
        (case stored_mappings d of
           Inl e \<Rightarrow> Inl (SamlError e)
         | Inr entries \<Rightarrow>
             Inr \<lparr>sm_base_url = py_rstrip (CHR ''/'') base_url, sm_idp_entity_id = the entity,
               sm_idp_sso_url = the sso,
               sm_idp_sso_binding = or_default (read_setting d SAML_IDP_SSO_BINDING) [],
               sm_idp_x509_cert = the cert, sm_sp_certificate_pem = the sp_cert,
               sm_sp_private_key_pem = the sp_key,
               sm_group_attribute = or_default (read_setting d SAML_GROUP_ATTRIBUTE) SAML_GROUP_ATTR_DEFAULT,
               sm_role_mappings = List.map_filter mapping_pair entries\<rparr>))"

definition sp_entity_id :: "string \<Rightarrow> string" where
  "sp_entity_id base_url = py_rstrip (CHR ''/'') base_url @ ''/saml/metadata''"

definition sp_acs_url :: "string \<Rightarrow> string" where
  "sp_acs_url base_url = py_rstrip (CHR ''/'') base_url @ ''/saml/acs''"

text \<open>\<open>str.splitlines\<close>; a line end at the end of the text starts no further line.\<close>

definition line_end :: "char \<Rightarrow> bool" where
  "line_end c \<longleftrightarrow> c = nl \<or> c = cr \<or> ord_c c \<in> {11, 12, 28, 29, 30, 133}"

fun py_splitlines :: "string \<Rightarrow> string list" where
  "py_splitlines [] = []"
| "py_splitlines (c # s) =
     (if c = cr \<and> s \<noteq> [] \<and> hd s = nl then [] # py_splitlines (tl s)
      else if line_end c then [] # py_splitlines s
      else (case s of
              [] \<Rightarrow> [[c]]
            | d # t \<Rightarrow> if line_end d then [c] # tl (py_splitlines s)
                else (case py_splitlines s of [] \<Rightarrow> [[c]] | p # ps \<Rightarrow> (c # p) # ps)))"

definition strip_pem_armor :: "string \<Rightarrow> string" where
  "strip_pem_armor pem =
     concat (map py_strip
       (filter (\<lambda>line. py_strip line \<noteq> [] \<and> \<not> startswith ''-----'' line) (py_splitlines pem)))"

definition to_onelogin_settings :: "saml_config \<Rightarrow> json" where
  "to_onelogin_settings cfg = JDict
     [(''strict'', JBool True), (''debug'', JBool False),
      (''sp'', JDict
         [(''entityId'', JString (sp_entity_id (sm_base_url cfg))),
          (''assertionConsumerService'', JDict
             [(''url'', JString (sp_acs_url (sm_base_url cfg))),
              (''binding'', JString ''urn:oasis:names:tc:SAML:2.0:bindings:HTTP-POST'')]),
          (''NameIDFormat'', JString ''urn:oasis:names:tc:SAML:1.1:nameid-format:emailAddress''),
          (''x509cert'', JString (strip_pem_armor (sm_sp_certificate_pem cfg))),
          (''privateKey'', JString (strip_pem_armor (sm_sp_private_key_pem cfg)))]),
      (''idp'', JDict
         [(''entityId'', JString (sm_idp_entity_id cfg)),
          (''singleSignOnService'', JDict
             [(''url'', JString (sm_idp_sso_url cfg)),
              (''binding'', JString (or_default (Some (sm_idp_sso_binding cfg))
                 ''urn:oasis:names:tc:SAML:2.0:bindings:HTTP-Redirect''))]),
          (''x509cert'', JString (sm_idp_x509_cert cfg))]),
      (''security'', JDict
         [(''authnRequestsSigned'', JBool True), (''wantAssertionsSigned'', JBool True),
          (''wantMessagesSigned'', JBool False),
          (''signatureAlgorithm'', JString ''http://www.w3.org/2001/04/xmldsig-more#rsa-sha256''),
          (''digestAlgorithm'', JString ''http://www.w3.org/2001/04/xmlenc#sha256'')])]"

definition json_map :: "(string \<times> string) list \<Rightarrow> json" where
  "json_map ps = JDict (map (\<lambda>(k, v). (k, JString v)) ps)"

definition build_request_data ::
    "string \<Rightarrow> int \<Rightarrow> bool \<Rightarrow> string \<Rightarrow> (string \<times> string) list \<Rightarrow> (string \<times> string) list \<Rightarrow> json" where
  "build_request_data http_host server_port https request_uri get_data post_data = JDict
     [(''https'', JString (if https then ''on'' else ''off'')), (''http_host'', JString http_host),
      (''server_port'', JString (int_to_str server_port)), (''script_name'', JString request_uri),
      (''get_data'', json_map get_data), (''post_data'', json_map post_data)]"

section \<open>Metadata of the identity provider (saml/keypair.py)\<close>

datatype xml = Elem (tag: string) (attrs: "(string \<times> string) list") (text_of: "string option") (kids: "xml list")

text \<open>How \<open>ET.fromstring\<close> ends: a tree, a \<open>ParseError\<close>, or another exception.\<close>

datatype xml_parsed = Tree xml | ParseError string | XmlRefused string

record idp_metadata =
  im_entity_id :: string
  im_sso_url :: string
  im_sso_binding :: string
  im_x509_cert :: string

datatype metadata_exc = InvalidIdpMetadata string | OtherXmlError string

definition SAML_HTTP_REDIRECT :: string where
  "SAML_HTTP_REDIRECT = ''urn:oasis:names:tc:SAML:2.0:bindings:HTTP-Redirect''"
definition SAML_HTTP_POST :: string where
  "SAML_HTTP_POST = ''urn:oasis:names:tc:SAML:2.0:bindings:HTTP-POST''"

definition md_tag :: "string \<Rightarrow> string" where
  "md_tag name = ''{urn:oasis:names:tc:SAML:2.0:metadata}'' @ name"
definition ds_tag :: "string \<Rightarrow> string" where
  "ds_tag name = ''{http://www.w3.org/2000/09/xmldsig#}'' @ name"

definition findall :: "string \<Rightarrow> xml \<Rightarrow> xml list" where
  "findall t e = filter (\<lambda>x. tag x = t) (kids e)"

fun find_path :: "string list \<Rightarrow> xml \<Rightarrow> xml list" where
  "find_path [] e = [e]"
| "find_path (t # ts) e = concat (map (find_path ts) (findall t e))"

definition attr :: "string \<Rightarrow> xml \<Rightarrow> string option" where
  "attr name e = map_of (attrs e) name"

definition endswith :: "string \<Rightarrow> string \<Rightarrow> bool" where
  "endswith suf s \<longleftrightarrow> startswith (rev suf) (rev s)"

text \<open>The loop over the single-sign-on services, with the choice so far.\<close>

fun choose_sso :: "xml list \<Rightarrow> (string \<times> string) option \<Rightarrow> (string \<times> string) option" where
  "choose_sso [] sso = sso"
| "choose_sso (e # es) sso =
     (let binding = or_default (attr ''Binding'' e) []; location = or_default (attr ''Location'' e) [] in
      if location = [] then choose_sso es sso
      else if binding = SAML_HTTP_REDIRECT then Some (location, binding)
      else if sso = None \<and> binding = SAML_HTTP_POST then choose_sso es (Some (location, binding))
      else choose_sso es sso)"

definition cert_text :: "xml \<Rightarrow> string option" where
  "cert_text kd =
     (case find_path [ds_tag ''KeyInfo'', ds_tag ''X509Data'', ds_tag ''X509Certificate''] kd of
        [] \<Rightarrow> None
      | e # _ \<Rightarrow>
          if truthy (text_of e) then Some (filter (\<lambda>c. \<not> py_isspace_char c) (the (text_of e))) else None)"

text \<open>The loop over the key descriptors: the signing certificate and the first one seen.\<close>

fun choose_cert :: "xml list \<Rightarrow> string option \<Rightarrow> string option \<times> string option" where
  "choose_cert [] any_cert = (None, any_cert)"
| "choose_cert (kd # kds) any_cert =
     (case cert_text kd of
        None \<Rightarrow> choose_cert kds any_cert
      | Some cleaned \<Rightarrow>
          (let any1 = (if any_cert = None then Some cleaned else any_cert) in
           if attr ''use'' kd = Some ''signing'' then (Some cleaned, any1) else choose_cert kds any1))"

definition parse_idp_metadata :: "(string \<Rightarrow> xml_parsed) \<Rightarrow> string \<Rightarrow> metadata_exc + idp_metadata" where
  "parse_idp_metadata xml_parse xml =
     (case xml_parse xml of
        ParseError e \<Rightarrow> Inl (InvalidIdpMetadata (''not XML: '' @ e))
      | XmlRefused e \<Rightarrow> Inl (OtherXmlError e)
      | Tree root \<Rightarrow>
          if \<not> endswith ''EntityDescriptor'' (tag root)
          then Inl (InvalidIdpMetadata (''expected EntityDescriptor at the root, got '' @ tag root))
          else if \<not> truthy (attr ''entityID'' root)
          then Inl (InvalidIdpMetadata ''missing entityID attribute'')
          else
            (case findall (md_tag ''IDPSSODescriptor'') root of
               [] \<Rightarrow> Inl (InvalidIdpMetadata ''no IDPSSODescriptor in metadata'')
             | idp_sso # _ \<Rightarrow>
                 (case choose_sso (findall (md_tag ''SingleSignOnService'') idp_sso) None of
                    None \<Rightarrow>
                      Inl (InvalidIdpMetadata ''no usable SingleSignOnService (HTTP-Redirect or POST)'')
                  | Some (url, binding) \<Rightarrow>
                      (let (signing, any_cert) = choose_cert (findall (md_tag ''KeyDescriptor'') idp_sso) None in
                       case (if truthy signing then signing else any_cert) of
                         None \<Rightarrow> Inl (InvalidIdpMetadata ''no X.509 signing cert in metadata'')
                       | Some cert \<Rightarrow>
                           Inr \<lparr>im_entity_id = the (attr ''entityID'' root), im_sso_url = url,
                             im_sso_binding = binding, im_x509_cert = cert\<rparr>))))"

section \<open>Facts\<close>

definition redirect_service :: "xml \<Rightarrow> bool" where
  "redirect_service e \<longleftrightarrow>
     or_default (attr ''Location'' e) [] \<noteq> [] \<and> or_default (attr ''Binding'' e) [] = SAML_HTTP_REDIRECT"

definition post_service :: "xml \<Rightarrow> bool" where
  "post_service e \<longleftrightarrow>
     or_default (attr ''Location'' e) [] \<noteq> [] \<and> or_default (attr ''Binding'' e) [] = SAML_HTTP_POST"

definition service_pair :: "xml \<Rightarrow> string \<times> string" where
  "service_pair e = (or_default (attr ''Location'' e) [], or_default (attr ''Binding'' e) [])"

text \<open>What the loop means: the first redirect service, else the first POST service.\<close>

definition preferred_sso :: "xml list \<Rightarrow> (string \<times> string) option" where
  "preferred_sso es =
     (case find redirect_service es of
        Some e \<Rightarrow> Some (service_pair e) | None \<Rightarrow> map_option service_pair (find post_service es))"

lemma redirect_not_post: "SAML_HTTP_REDIRECT \<noteq> SAML_HTTP_POST"
  by (simp add: SAML_HTTP_REDIRECT_def SAML_HTTP_POST_def)

lemma choose_sso_gen:
  "choose_sso es sso =
     (case find redirect_service es of
        Some e \<Rightarrow> Some (service_pair e)
      | None \<Rightarrow> (case sso of Some s \<Rightarrow> Some s | None \<Rightarrow> map_option service_pair (find post_service es)))"
  using redirect_not_post
  by (induction es arbitrary: sso)
     (auto simp: redirect_service_def post_service_def service_pair_def Let_def
       split: option.split)

lemma choose_sso_preferred: "choose_sso es None = preferred_sso es"
  by (simp add: choose_sso_gen preferred_sso_def split: option.split)

text \<open>The certificates: the first signing descriptor that has one, and the first that has one.\<close>

definition preferred_cert :: "xml list \<Rightarrow> string option" where
  "preferred_cert kds =
     (let signing = Option.bind (find (\<lambda>k. attr ''use'' k = Some ''signing'' \<and> cert_text k \<noteq> None) kds) cert_text in
      if truthy signing then signing
      else Option.bind (find (\<lambda>k. cert_text k \<noteq> None) kds) cert_text)"

lemma choose_cert_signing:
  "fst (choose_cert kds any_cert) =
     Option.bind (find (\<lambda>k. attr ''use'' k = Some ''signing'' \<and> cert_text k \<noteq> None) kds) cert_text"
  by (induction kds arbitrary: any_cert) (auto simp: Let_def split: option.split)

lemma choose_cert_any:
  "snd (choose_cert kds any_cert) =
     (if any_cert \<noteq> None then any_cert else Option.bind (find (\<lambda>k. cert_text k \<noteq> None) kds) cert_text)"
  by (induction kds arbitrary: any_cert) (auto simp: Let_def split: option.split)

lemma choose_cert_preferred:
  "choose_cert kds None = (s, a) \<Longrightarrow> (if truthy s then s else a) = preferred_cert kds"
  using choose_cert_signing [of kds None] choose_cert_any [of kds None]
  by (simp add: preferred_cert_def Let_def)

text \<open>The mappings the settings route stores are the ones the login reads, in their order.\<close>

definition mapping_json :: "string \<times> string \<Rightarrow> json" where
  "mapping_json m = JDict [(''ad_group'', JString (fst m)), (''role'', JString (snd m))]"

lemma mapping_pair_json [simp]: "mapping_pair (mapping_json m) = Some (JString (fst m), JString (snd m))"
  by (simp add: mapping_pair_def mapping_json_def)

lemma mappings_pairs:
  "List.map_filter mapping_pair (map mapping_json ms) = map (\<lambda>(g, r). (JString g, JString r)) ms"
  by (induction ms) (auto simp: List.map_filter_simps)

lemma loads_mappings [simp]: "loads (dumps (JList (map mapping_json ms))) = Some (JList (map mapping_json ms))"
  by (rule loads_dumps) (simp add: mapping_json_def list_all_iff)

lemma stored_mappings_written:
  "stored_mappings (write_setting SAML_ROLE_MAPPINGS (Some (dumps (JList (map mapping_json ms)))) d) =
     Inr (map mapping_json ms)"
proof -
  have "dumps (JList (map mapping_json ms)) \<noteq> []" by simp
  then show ?thesis by (simp add: stored_mappings_def json_items_def settings.rd_wr del: dumps.simps)
qed

section \<open>Properties\<close>

text \<open>
  An import takes from the metadata the entity id, the first single-sign-on service with the
  redirect binding or, if there is none, the first with the POST binding, never one without a
  location, and the first signing certificate or, if no descriptor is tagged, the first certificate;
  otherwise it is refused.
\<close>

theorem metadata_import_selects:
  "parse_idp_metadata xml_parse xml = Inr m \<longleftrightarrow>
     (\<exists>root idp rest. xml_parse xml = Tree root \<and> endswith ''EntityDescriptor'' (tag root) \<and>
        attr ''entityID'' root = Some (im_entity_id m) \<and> im_entity_id m \<noteq> [] \<and>
        findall (md_tag ''IDPSSODescriptor'') root = idp # rest \<and>
        preferred_sso (findall (md_tag ''SingleSignOnService'') idp) = Some (im_sso_url m, im_sso_binding m) \<and>
        preferred_cert (findall (md_tag ''KeyDescriptor'') idp) = Some (im_x509_cert m))"
proof (cases "xml_parse xml")
  case (Tree root)
  show ?thesis
  proof (cases "endswith ''EntityDescriptor'' (tag root) \<and> truthy (attr ''entityID'' root)")
    case True
    then obtain e where e: "attr ''entityID'' root = Some e" "e \<noteq> []" by (cases "attr ''entityID'' root") auto
    show ?thesis
    proof (cases "findall (md_tag ''IDPSSODescriptor'') root")
      case Nil
      with Tree True show ?thesis by (simp add: parse_idp_metadata_def)
    next
      case (Cons idp rest)
      obtain s a where c: "choose_cert (findall (md_tag ''KeyDescriptor'') idp) None = (s, a)"
        by (cases "choose_cert (findall (md_tag ''KeyDescriptor'') idp) None")
      show ?thesis
        using Tree True Cons e c
        by (cases m)
           (auto simp: parse_idp_metadata_def choose_sso_preferred choose_cert_preferred [OF c]
             split: option.splits)
    qed
  next
    case False
    with Tree show ?thesis by (auto simp: parse_idp_metadata_def truthy_def split: option.splits)
  qed
qed (simp_all add: parse_idp_metadata_def)

end
