(* ===== verification/Setup_Wizard.thy ===== *)
theory Setup_Wizard
  imports Ldap_Worker Syslog General_Settings Saml_Config
begin

text \<open>
  \<open>app/api/v1/setup.py\<close>: the checklist of the first boot. Whether the certificate file exists is
  the parameter \<open>cert_exists\<close>.
\<close>

abbreviation TLS_SOURCE_KEY :: string where "TLS_SOURCE_KEY \<equiv> ''tls.source''"
abbreviation WIZARD_COMPLETED_KEY :: string where "WIZARD_COMPLETED_KEY \<equiv> ''setup.wizard_completed''"

record setup_step =
  wz_key :: string
  wz_done :: bool
  wz_required :: bool
  wz_detail :: "string option"

record setup_status =
  wz_completed :: bool
  wz_completed_by :: "string option"
  wz_can_complete :: bool
  wz_steps :: "setup_step list"

section \<open>The steps\<close>

definition local_admin_step :: "db \<Rightarrow> setup_step" where
  "local_admin_step d =
     (let n = length (local_admins d) in
      \<lparr>wz_key = ''local_admin'', wz_done = (n > 0), wz_required = True,
       wz_detail = Some (if n > 0 then ''Break-glass admin set via `tacacs-web bootstrap-admin`''
                         else ''Run `tacacs-web bootstrap-admin` on the host'')\<rparr>)"

definition url_step :: "string \<Rightarrow> string \<Rightarrow> db \<Rightarrow> setup_step" where
  "url_step name key d =
     (let v = read_setting d key in
      \<lparr>wz_key = name, wz_done = truthy v, wz_required = True, wz_detail = v\<rparr>)"

definition tls_step :: "bool \<Rightarrow> db \<Rightarrow> setup_step" where
  "tls_step cert_exists d =
     (let source = (if cert_exists then read_setting d TLS_SOURCE_KEY else None) in
      \<lparr>wz_key = ''tls'', wz_done = cert_exists, wz_required = True,
       wz_detail = (if truthy source then source else if cert_exists then Some ''bootstrap'' else None)\<rparr>)"

definition ldap_sync_step :: "db \<Rightarrow> setup_step" where
  "ldap_sync_step d =
     (let ready = truthy (read_setting d LDAP_BIND_DN) \<and> truthy (read_setting d LDAP_BASE_DNS);
          on = py_lower (or_default (read_setting d LDAP_ENABLED) ''false'') = ''true'' in
      \<lparr>wz_key = ''ldap_sync'', wz_done = ready, wz_required = False,
       wz_detail = (if ready then Some (if on then ''AD-Sync scheduled'' else ''Bind DN + Base DN stored'')
                    else None)\<rparr>)"

definition saml_step :: "db \<Rightarrow> setup_step" where
  "saml_step d =
     (let entity = read_setting d SAML_IDP_ENTITY_ID;
          ready = truthy (read_secret d SAML_SP_CERT) \<and> truthy (read_secret d SAML_SP_KEY) \<and>
            truthy entity \<and> truthy (read_setting d SAML_IDP_SSO_URL) in
      \<lparr>wz_key = ''saml'', wz_done = ready, wz_required = False, wz_detail = (if ready then entity else None)\<rparr>)"

definition count_step :: "string \<Rightarrow> bool \<Rightarrow> 'r list \<Rightarrow> setup_step" where
  "count_step name required rows =
     \<lparr>wz_key = name, wz_done = (length rows > 0), wz_required = required,
      wz_detail = Some (nat_to_str (length rows) @ '' configured'')\<rparr>"

definition syslog_step :: "db \<Rightarrow> setup_step" where
  "syslog_step d =
     (let host = read_setting d SYSLOG_HOST;
          on = py_lower (or_default (read_setting d SYSLOG_ENABLED) ''false'') = ''true'' in
      \<lparr>wz_key = ''syslog_forwarder'', wz_done = truthy host, wz_required = False,
       wz_detail = (if truthy host then Some (if on then ''forwarding enabled'' else ''host set, disabled'')
                    else None)\<rparr>)"

definition setup_steps :: "bool \<Rightarrow> db \<Rightarrow> setup_step list" where
  "setup_steps cert_exists d =
     [local_admin_step d, url_step ''web_base_url'' WEB_BASE_URL_KEY d, tls_step cert_exists d,
      url_step ''ldap_url'' SETTING_LDAP_URL d, ldap_sync_step d, saml_step d,
      count_step ''first_device_group'' True (device_groups d),
      count_step ''first_privilege_profile'' True (privilege_profiles d),
      count_step ''first_device'' False (devices d),
      count_step ''first_authorization'' False (authorizations d), syslog_step d]"

definition build_setup_status :: "bool \<Rightarrow> db \<Rightarrow> setup_status" where
  "build_setup_status cert_exists d =
     (let steps = setup_steps cert_exists d; completed_by = read_setting d WIZARD_COMPLETED_KEY in
      \<lparr>wz_completed = truthy completed_by,
       wz_completed_by = (if truthy completed_by \<and> completed_by \<noteq> Some ''true'' then completed_by else None),
       wz_can_complete = list_all wz_done (filter wz_required steps), wz_steps = steps\<rparr>)"

section \<open>Routes\<close>

definition wizard_marker :: "session_context \<Rightarrow> string" where
  "wizard_marker ctx = (if sc_username ctx = [] then ''admin'' else sc_username ctx)"

definition complete_wizard :: "bool \<Rightarrow> instant \<Rightarrow> session_context \<Rightarrow> db \<Rightarrow> setup_status outcome" where
  "complete_wizard cert_exists now ctx d =
     admin_only ctx d
       (if \<not> wz_can_complete (build_setup_status cert_exists d)
        then (d, Inl (HTTPException 400 ''required_steps_incomplete''))
        else
          audit_commit now (ctx_entry ctx SETUP_WIZARD_COMPLETED ''setup'' (Some (wizard_marker ctx))) d
            (write_setting WIZARD_COMPLETED_KEY (Some (wizard_marker ctx)) d)
            (\<lambda>d1. (d1, Inr (build_setup_status cert_exists d1))))"

definition reopen_wizard :: "bool \<Rightarrow> instant \<Rightarrow> session_context \<Rightarrow> db \<Rightarrow> setup_status outcome" where
  "reopen_wizard cert_exists now ctx d =
     admin_only ctx d
       (if read_setting d WIZARD_COMPLETED_KEY = None then (d, Inr (build_setup_status cert_exists d))
        else
          audit_commit now (ctx_entry ctx SETUP_WIZARD_REOPENED ''setup'' (Some (wizard_marker ctx))) d
            (write_setting WIZARD_COMPLETED_KEY None d)
            (\<lambda>d1. (d1, Inr (build_setup_status cert_exists d1))))"

section \<open>Facts\<close>

lemma setup_can_complete:
  "wz_can_complete (build_setup_status cert_exists d) \<longleftrightarrow>
     local_admins d \<noteq> [] \<and> truthy (read_setting d WEB_BASE_URL_KEY) \<and> cert_exists \<and>
     truthy (read_setting d SETTING_LDAP_URL) \<and> device_groups d \<noteq> [] \<and> privilege_profiles d \<noteq> []"
  by (simp add: build_setup_status_def setup_steps_def Let_def local_admin_step_def url_step_def tls_step_def
      ldap_sync_step_def saml_step_def count_step_def syslog_step_def)

lemma wizard_marker_nonempty [simp]: "wizard_marker ctx \<noteq> []"
  by (simp add: wizard_marker_def)

lemma setup_completed:
  "wz_completed (build_setup_status cert_exists d) \<longleftrightarrow> truthy (read_setting d WIZARD_COMPLETED_KEY)"
  by (simp add: build_setup_status_def Let_def)

lemma audited_complete_wizard:
  "audited_or_unchanged now ctx [SETUP_WIZARD_COMPLETED] d (complete_wizard cert_exists now ctx d)"
  by (auto simp: complete_wizard_def)

section \<open>Properties\<close>

text \<open>
  The wizard can be completed exactly by an administrator once the six required steps are
  done - a local admin, a public URL, a certificate, an LDAP URL, a device group and a profile;
  then it is shown as completed, one audit row is written, and reopening it shows it open again and
  leaves every other setting as it was.
\<close>

theorem wizard_completes_iff_ready:
  "(\<exists>d' st. complete_wizard cert_exists now ctx d = (d', Inr st) \<and> wz_completed st \<and>
      audited now ctx [SETUP_WIZARD_COMPLETED] d d' \<and>
      (\<exists>d'' st'. reopen_wizard cert_exists now ctx d' = (d'', Inr st') \<and> \<not> wz_completed st' \<and>
         system_settings d'' = (system_settings d)(WIZARD_COMPLETED_KEY := None)))
   \<longleftrightarrow> sc_role ctx = ''admin'' \<and> local_admins d \<noteq> [] \<and> truthy (read_setting d WEB_BASE_URL_KEY) \<and>
       cert_exists \<and> truthy (read_setting d SETTING_LDAP_URL) \<and> device_groups d \<noteq> [] \<and>
       privilege_profiles d \<noteq> []"
proof (cases "sc_role ctx = ''admin'' \<and> wz_can_complete (build_setup_status cert_exists d)")
  case True
  let ?d = "with_audit now (ctx_entry ctx SETUP_WIZARD_COMPLETED ''setup'' (Some (wizard_marker ctx)))
      (write_setting WIZARD_COMPLETED_KEY (Some (wizard_marker ctx)) d)"
  let ?d2 = "with_audit now (ctx_entry ctx SETUP_WIZARD_REOPENED ''setup'' (Some (wizard_marker ctx)))
      (write_setting WIZARD_COMPLETED_KEY None ?d)"
  have c: "complete_wizard cert_exists now ctx d = (?d, Inr (build_setup_status cert_exists ?d))"
    using True by (simp add: complete_wizard_def admin_only_def)
  have r: "reopen_wizard cert_exists now ctx ?d = (?d2, Inr (build_setup_status cert_exists ?d2))"
    using True by (simp add: reopen_wizard_def admin_only_def settings.rd_wr)
  have "audited now ctx [SETUP_WIZARD_COMPLETED] d ?d" by (intro audited_with_entry) simp_all
  moreover have "system_settings ?d2 = (system_settings d)(WIZARD_COMPLETED_KEY := None)"
    by (simp add: write_setting_def read_setting_def)
  ultimately show ?thesis
    using True c r by (auto simp: setup_completed settings.rd_wr setup_can_complete)
next
  case False
  then show ?thesis by (auto simp: complete_wizard_def admin_only_def setup_can_complete)
qed

text \<open>The SAML step does not look at the certificate of the identity provider.\<close>

lemma saml_step_ignores_the_idp_certificate:
  "wz_done (saml_step (write_setting ''saml.idp_x509_cert'' None d)) = wz_done (saml_step d)"
  by (simp add: saml_step_def Let_def settings.rd_wr)

end
