(* ===== verification/Saml_Routes.thy ===== *)
theory Saml_Routes
  imports Saml_Config Internal_Mavis Api_Common
begin

text \<open>
  \<open>app/api/saml_routes.py\<close>: the SAML login. python3-saml is the parameter \<open>saml_lib\<close>: what
  constructing its objects, building the login redirect, checking a response, rendering and
  validating the metadata give for a settings dictionary and the request data.
\<close>

record saml_result =
  sx_errors :: "string list"
  sx_authenticated :: bool
  sx_nameid :: "string option"
  sx_error_reason :: "string option"

record saml_lib =
  sl_login :: "json \<Rightarrow> json \<Rightarrow> string \<Rightarrow> string exn"
  sl_process :: "json \<Rightarrow> json \<Rightarrow> saml_result exn"
  sl_get_metadata :: "json \<Rightarrow> string exn"
  sl_validate_metadata :: "json \<Rightarrow> string \<Rightarrow> string list"

text \<open>A request as the routes see it, and the redirect they answer with: target and cookie.\<close>

record saml_request =
  sq_path :: string
  sq_query :: "(string \<times> string) list"
  sq_form :: "(string \<times> string) list"
  sq_info :: request_info

record saml_redirect =
  sd_target :: string
  sd_cookie :: "(string \<times> int) option"

definition request_data :: "saml_request \<Rightarrow> string \<Rightarrow> (string \<times> string) list \<Rightarrow> json exn" where
  "request_data rq base_url post_data =
     (case urlparse base_url of
        Inl e \<Rightarrow> Inl e
      | Inr parsed \<Rightarrow>
          (let https = up_scheme parsed = ''https'' in
           case url_port parsed of
             Inl e \<Rightarrow> Inl e
           | Inr port \<Rightarrow>
               Inr (build_request_data
                 (case url_hostname parsed of Some h \<Rightarrow> h | None \<Rightarrow> ''localhost'')
                 (case port of Some p \<Rightarrow> if p = 0 then (if https then 443 else 80) else p
                             | None \<Rightarrow> if https then 443 else 80)
                 https (sq_path rq) (sq_query rq) post_data)))"

text \<open>\<open>_resolve_role\<close>; \<open>ad_group.lower()\<close> raises on a mapping that is not a text.\<close>

definition group_matches :: "string \<Rightarrow> string list \<Rightarrow> bool" where
  "group_matches ad_group lowered \<longleftrightarrow>
     py_lower ad_group \<in> set lowered \<or>
     list_ex (startswith (''cn='' @ py_lower ad_group @ '','')) lowered"

fun resolve_role :: "string list \<Rightarrow> (json \<times> json) list \<Rightarrow> json option exn" where
  "resolve_role group_values [] = Inr None"
| "resolve_role group_values ((ad_group, role) # rest) =
     (case ad_group of
        JString g \<Rightarrow>
          if group_matches g (map py_lower group_values) then Inr (Some role)
          else resolve_role group_values rest
      | _ \<Rightarrow> Inl ''AttributeError: lower'')"

definition synced_group_dns :: "(string \<Rightarrow> string) \<Rightarrow> string \<Rightarrow> db \<Rightarrow> string list option exn" where
  "synced_group_dns sql_lower sam_account_name d =
     (case find_user_by_sam sql_lower sam_account_name d of
        Inl e \<Rightarrow> Inl e
      | Inr None \<Rightarrow> Inr None
      | Inr (Some user) \<Rightarrow>
          Inr (if \<not> u_enabled user then None
               else Some (map g_distinguished_name (groups_of d (u_id user)))))"

text \<open>Python's \<open>repr\<close> of a list of texts and of an optional one.\<close>

definition repr_list :: "string list \<Rightarrow> string" where
  "repr_list xs = ''['' @ py_join '', '' (map py_repr xs) @ '']''"

definition repr_opt :: "('a \<Rightarrow> string) \<Rightarrow> 'a option \<Rightarrow> string" where
  "repr_opt f v = (case v of None \<Rightarrow> ''None'' | Some x \<Rightarrow> f x)"

definition saml_entry :: "string \<Rightarrow> string \<Rightarrow> audit_action \<Rightarrow> string \<Rightarrow> request_info \<Rightarrow> audit_entry" where
  "saml_entry username role action summary rq =
     (audit_args username role ''saml'' action)
       \<lparr>ae_summary := Some summary, ae_client_ip := rq_client_ip rq, ae_user_agent := rq_user_agent rq\<rparr>"

definition with_saml :: "string \<Rightarrow> db \<Rightarrow> (saml_config \<Rightarrow> 'a outcome) \<Rightarrow> 'a outcome" where
  "with_saml env_url d k =
     (case load_saml_config env_url d of
        Inl (SamlNotConfigured e) \<Rightarrow> (d, Inl (HTTPException 409 (''saml_not_configured: '' @ e)))
      | Inl (SamlError e) \<Rightarrow> (d, Inl (Unhandled e))
      | Inr cfg \<Rightarrow> k cfg)"

section \<open>Routes\<close>

definition saml_login :: "saml_lib \<Rightarrow> string \<Rightarrow> saml_request \<Rightarrow> db \<Rightarrow> saml_redirect outcome" where
  "saml_login lib env_url rq d =
     with_saml env_url d (\<lambda>cfg.
       or_500 d (request_data rq (sm_base_url cfg) []) (\<lambda>req.
       or_500 d (sl_login lib (to_onelogin_settings cfg) req (sm_base_url cfg @ ''/'')) (\<lambda>target.
         (d, Inr \<lparr>sd_target = target, sd_cookie = None\<rparr>))))"

definition sp_metadata_xml :: "saml_lib \<Rightarrow> saml_config \<Rightarrow> string exn" where
  "sp_metadata_xml lib cfg =
     (case sl_get_metadata lib (to_onelogin_settings cfg) of
        Inl e \<Rightarrow> Inl e
      | Inr metadata \<Rightarrow>
          (let errors = sl_validate_metadata lib (to_onelogin_settings cfg) metadata in
           if errors \<noteq> [] then Inl (''RuntimeError: could not render SP metadata: '' @ repr_list errors)
           else Inr metadata))"

definition saml_metadata :: "saml_lib \<Rightarrow> string \<Rightarrow> db \<Rightarrow> string outcome" where
  "saml_metadata lib env_url d =
     with_saml env_url d (\<lambda>cfg. or_500 d (sp_metadata_xml lib cfg) (\<lambda>xml. (d, Inr xml)))"

text \<open>The role of a session is a text; anything else is refused by the database.\<close>

definition role_text :: "json option \<Rightarrow> string option exn" where
  "role_text r =
     (case r of
        None \<Rightarrow> Inr None
      | Some JNull \<Rightarrow> Inr None
      | Some (JString s) \<Rightarrow> Inr (Some s)
      | _ \<Rightarrow> Inl ''ProgrammingError: column is of type character varying'')"

definition saml_role :: "saml_config \<Rightarrow> string list option \<Rightarrow> string option exn" where
  "saml_role cfg group_values =
     (case group_values of
        None \<Rightarrow> Inr None
      | Some gs \<Rightarrow> (case resolve_role gs (sm_role_mappings cfg) of Inl e \<Rightarrow> Inl e | Inr r \<Rightarrow> role_text r))"

definition saml_refusal :: "string list option \<Rightarrow> string" where
  "saml_refusal group_values = (if group_values = None then ''user_not_synced'' else ''no_role_mapping'')"

definition saml_acs ::
    "(string \<Rightarrow> string) \<Rightarrow> saml_lib \<Rightarrow> string \<Rightarrow> instant \<Rightarrow> string \<Rightarrow> saml_request \<Rightarrow> db \<Rightarrow> saml_redirect outcome" where
  "saml_acs sql_lower lib env_url now token rq d =
     with_saml env_url d (\<lambda>cfg.
       or_500 d (request_data rq (sm_base_url cfg) (sq_form rq)) (\<lambda>req.
       or_500 d (sl_process lib (to_onelogin_settings cfg) req) (\<lambda>res.
       if sx_errors res \<noteq> [] \<or> \<not> sx_authenticated res then
         audit_commit now
           (saml_entry ''<saml>'' ''unknown'' AUTH_LOGIN_FAILED
             (''errors='' @ repr_list (sx_errors res) @ ''; reason='' @ repr_opt py_repr (sx_error_reason res))
             (sq_info rq)) d d
           (\<lambda>d1. (d1, Inl (HTTPException 401 ''saml_validation_failed'')))
       else
         (let name_id = or_default (sx_nameid res) ''<unknown>'' in
          or_500 d (synced_group_dns sql_lower name_id d) (\<lambda>groups.
          or_500 d (saml_role cfg groups) (\<lambda>role.
          case role of
            None \<Rightarrow>
              audit_commit now
                (saml_entry name_id ''unknown'' AUTH_LOGIN_FAILED
                  (saml_refusal groups @ ''; groups='' @ repr_opt repr_list groups) (sq_info rq)) d d
                (\<lambda>d1. (d1, Inl (HTTPException 403 (saml_refusal groups))))
          | Some r \<Rightarrow>
              or_500 d (create_session now token name_id r ''saml'' None (rq_client_ip (sq_info rq)) d) (\<lambda>d1.
              audit_commit now
                (saml_entry name_id r AUTH_LOGIN_SUCCEEDED (''groups='' @ repr_opt repr_list groups) (sq_info rq))
                d d1
                (\<lambda>d2. (d2, Inr \<lparr>sd_target = sm_base_url cfg @ ''/'',
                    sd_cookie = Some (token, SESSION_SLIDING_LIFETIME div 1000000)\<rparr>)))))))))"

section \<open>Facts\<close>

lemma saml_entry_action [simp]: "ae_action (saml_entry u r a s rq) = action_code a"
  by (simp add: saml_entry_def)

lemma audit_commit_saml [simp]:
  "audit_commit now (saml_entry u r a s rq) d0 d k = k (with_audit now (saml_entry u r a s rq) d)"
  by (simp add: audit_commit_def)

lemma or_500_cases:
  "or_500 d0 r k = (d', Inr x) \<longleftrightarrow> (\<exists>y. r = Inr y \<and> k y = (d', Inr x))"
  by (auto simp: or_500_def split: sum.split)

lemma with_saml_Inr:
  "with_saml env_url d k = (d', Inr x) \<longleftrightarrow> (\<exists>cfg. load_saml_config env_url d = Inr cfg \<and> k cfg = (d', Inr x))"
  by (auto simp: with_saml_def split: sum.split saml_exc.split)

lemma resolve_role_found:
  "resolve_role gs ms = Inr (Some role) \<Longrightarrow>
     \<exists>g. (JString g, role) \<in> set ms \<and> group_matches g (map py_lower gs)"
  by (induction gs ms rule: resolve_role.induct) (auto split: json.splits if_splits)

lemma saml_role_found:
  assumes "saml_role cfg groups = Inr (Some role)"
  shows "\<exists>gs g. groups = Some gs \<and> (JString g, JString role) \<in> set (sm_role_mappings cfg) \<and>
    group_matches g (map py_lower gs)"
proof -
  obtain gs where gs: "groups = Some gs" using assms by (cases groups) (simp_all add: saml_role_def)
  then obtain r where "resolve_role gs (sm_role_mappings cfg) = Inr r" "role_text r = Inr (Some role)"
    using assms by (auto simp: saml_role_def split: sum.splits)
  moreover from this(2) have "r = Some (JString role)"
    by (auto simp: role_text_def split: option.splits json.splits)
  ultimately show ?thesis using gs resolve_role_found by blast
qed

lemma synced_group_dns_found:
  assumes "synced_group_dns sql_lower name d = Inr (Some gs)"
  obtains u where "u \<in> set (users d)" "u_enabled u" "sql_lower (u_sam_account_name u) = py_lower name"
    "gs = map g_distinguished_name (groups_of d (u_id u))"
proof -
  from assms obtain u where "find_user_by_sam sql_lower name d = Inr (Some u)" "u_enabled u"
    "gs = map g_distinguished_name (groups_of d (u_id u))"
    by (auto simp: synced_group_dns_def split: sum.splits option.splits if_splits)
  moreover from this(1) have "u \<in> set (filter (\<lambda>u. sql_lower (u_sam_account_name u) = py_lower name) (users d))"
    by (simp add: find_user_by_sam_def scalar_one_or_none_Some)
  ultimately show ?thesis using that by auto
qed

lemma create_session_Inr:
  "create_session now token u r m a ip d = Inr d1 \<Longrightarrow>
     d1 = d\<lparr>web_sessions := web_sessions d @ [new_session_row now token u r m a ip]\<rparr>"
  by (auto simp: create_session_def insert_web_session_def split: if_splits)

section \<open>Properties\<close>

text \<open>
  C17: A SAML response opens a session only if the library accepted it without errors for an account
  that the directory sync knows and holds enabled, one of whose synced groups matches a mapping; the
  session carries the role of that mapping, is the only new one, and one audit row records the login.
\<close>

theorem saml_session_needs_synced_account:
  assumes "saml_acs sql_lower lib env_url now token rq d = (d', Inr resp)"
  shows "\<exists>cfg req res u g role. load_saml_config env_url d = Inr cfg \<and>
     request_data rq (sm_base_url cfg) (sq_form rq) = Inr req \<and>
     sl_process lib (to_onelogin_settings cfg) req = Inr res \<and> sx_errors res = [] \<and> sx_authenticated res \<and>
     u \<in> set (users d) \<and> u_enabled u \<and>
     sql_lower (u_sam_account_name u) = py_lower (or_default (sx_nameid res) ''<unknown>'') \<and>
     (JString g, JString role) \<in> set (sm_role_mappings cfg) \<and>
     group_matches g (map (py_lower \<circ> g_distinguished_name) (groups_of d (u_id u))) \<and>
     web_sessions d' = web_sessions d @ [new_session_row now token (or_default (sx_nameid res) ''<unknown>'')
       role ''saml'' None (rq_client_ip (sq_info rq))] \<and>
     map al_action (audit_log d') = map al_action (audit_log d) @ [''auth.login_succeeded'']"
proof -
  from assms obtain cfg req res groups role where
    cfg: "load_saml_config env_url d = Inr cfg" and
    req: "request_data rq (sm_base_url cfg) (sq_form rq) = Inr req" and
    res: "sl_process lib (to_onelogin_settings cfg) req = Inr res" "sx_errors res = []" "sx_authenticated res" and
    grp: "synced_group_dns sql_lower (or_default (sx_nameid res) ''<unknown>'') d = Inr groups" and
    role: "saml_role cfg groups = Inr (Some role)" and
    d': "web_sessions d' = web_sessions d @ [new_session_row now token (or_default (sx_nameid res) ''<unknown>'')
       role ''saml'' None (rq_client_ip (sq_info rq))]"
      "map al_action (audit_log d') = map al_action (audit_log d) @ [''auth.login_succeeded'']"
    unfolding saml_acs_def with_saml_Inr or_500_cases Let_def
    by (auto simp: or_500_cases action_code.simps split: if_splits option.splits dest!: create_session_Inr)
  obtain gs g where "groups = Some gs" and g: "(JString g, JString role) \<in> set (sm_role_mappings cfg)"
    "group_matches g (map py_lower gs)"
    using saml_role_found [OF role] by blast
  with grp obtain u where "u \<in> set (users d)" "u_enabled u"
    "sql_lower (u_sam_account_name u) = py_lower (or_default (sx_nameid res) ''<unknown>'')"
    "gs = map g_distinguished_name (groups_of d (u_id u))"
    by (auto elim: synced_group_dns_found)
  with cfg req res d' g show ?thesis by (intro exI [of _ cfg] exI [of _ req] exI [of _ res] exI [of _ u] exI [of _ g] exI [of _ role]) simp
qed

text \<open>
  The role of a SAML login is that of the first mapping, in the operator's order, that matches a
  group of the user - not the highest one.
\<close>

theorem first_mapping_wins:
  "resolve_role gs (map (\<lambda>(g, r). (JString g, JString r)) ms) =
     Inr (map_option (JString \<circ> snd) (find (\<lambda>m. group_matches (fst m) (map py_lower gs)) ms))"
  by (induction ms) auto

lemma highest_role_is_not_chosen:
  "resolve_role [''CN=net,DC=x'', ''CN=adm,DC=x'']
     [(JString ''net'', JString ''viewer''), (JString ''adm'', JString ''admin'')] = Inr (Some (JString ''viewer''))"
  by (simp add: group_matches_def py_lower_char_def char_eval)

definition ex_saml_lib :: saml_lib where
  "ex_saml_lib = \<lparr>sl_login = (\<lambda>_ _ _. Inr ''https://idp''),
     sl_process = (\<lambda>_ _. Inr \<lparr>sx_errors = [], sx_authenticated = True, sx_nameid = Some ''alice'', sx_error_reason = None\<rparr>),
     sl_get_metadata = (\<lambda>_. Inr ''<xml/>''), sl_validate_metadata = (\<lambda>_ _. [])\<rparr>"

definition ex_saml_base :: db where
  "ex_saml_base = empty_db\<lparr>users := [ex_user_row],
     ad_groups := [\<lparr>g_id = 3, g_sid = ''S'', g_distinguished_name = ''CN=net,DC=x'', g_name = None, g_last_seen_in_sync_at = None\<rparr>],
     user_ad_group := [(7, 3)],
     system_settings := [SAML_IDP_ENTITY_ID \<mapsto> ''e'', SAML_IDP_SSO_URL \<mapsto> ''u'', SAML_IDP_CERT \<mapsto> ''c''],
     system_secrets := [SAML_SP_CERT \<mapsto> ''c'', SAML_SP_KEY \<mapsto> ''k'']\<rparr>"

definition ex_saml_db :: db where
  "ex_saml_db =
     write_setting SAML_ROLE_MAPPINGS (Some (dumps (JList (map mapping_json [(''net'', ''viewer'')])))) ex_saml_base"

definition ex_saml_request :: saml_request where
  "ex_saml_request = \<lparr>sq_path = ''/saml/acs'', sq_query = [], sq_form = [], sq_info = \<lparr>rq_client_ip = None, rq_user_agent = None\<rparr>\<rparr>"

lemma ex_saml_config:
  "\<exists>cfg. load_saml_config ''https://x'' ex_saml_db = Inr cfg \<and> sm_base_url cfg = ''https://x'' \<and>
     sm_role_mappings cfg = [(JString ''net'', JString ''viewer'')]"
proof -
  have reads: "read_setting ex_saml_db WEB_BASE_URL = None" "read_setting ex_saml_db SAML_IDP_ENTITY_ID = Some ''e''"
    "read_setting ex_saml_db SAML_IDP_SSO_URL = Some ''u''" "read_setting ex_saml_db SAML_IDP_CERT = Some ''c''"
    "read_secret ex_saml_db SAML_SP_CERT = Some ''c''" "read_secret ex_saml_db SAML_SP_KEY = Some ''k''"
    by (simp_all add: ex_saml_db_def settings.rd_wr) (simp_all add: ex_saml_base_def read_setting_def read_secret_def empty_db_def)
  have maps: "stored_mappings ex_saml_db = Inr (map mapping_json [(''net'', ''viewer'')])"
    unfolding ex_saml_db_def by (rule stored_mappings_written)
  have pairs: "List.map_filter mapping_pair (map mapping_json [(''net'', ''viewer'')]) = [(JString ''net'', JString ''viewer'')]"
    using mappings_pairs [of "[(''net'', ''viewer'')]"] by simp
  show ?thesis
    unfolding load_saml_config_def Let_def reads maps by (simp add: pairs [simplified] py_rstrip_def)
qed

lemma ex_saml_request_data: "\<exists>j. request_data ex_saml_request ''https://x'' [] = Inr j"
  by (simp add: request_data_def urlparse_def clean_url_def split_scheme_def split_netloc_def scheme_char_def
      is_ascii_alpha_def netloc_ok_def url_port_def host_info_def rpartition_at_def char_consts py_lower_char_def
      char_eval Let_def)

theorem saml_session_needs_synced_account_witness:
  "\<exists>d' resp. saml_acs py_lower ex_saml_lib ''https://x'' 0 ''tok'' ex_saml_request ex_saml_db = (d', Inr resp) \<and>
     length (web_sessions d') = Suc (length (web_sessions ex_saml_db))"
proof -
  obtain cfg where cfg: "load_saml_config ''https://x'' ex_saml_db = Inr cfg" "sm_base_url cfg = ''https://x''"
    "sm_role_mappings cfg = [(JString ''net'', JString ''viewer'')]" using ex_saml_config by blast
  obtain j where j: "request_data ex_saml_request ''https://x'' [] = Inr j" using ex_saml_request_data by blast
  have groups: "synced_group_dns py_lower ''alice'' ex_saml_db = Inr (Some [''CN=net,DC=x''])"
    by (simp add: synced_group_dns_def find_user_by_sam_def scalar_one_or_none_def ex_saml_db_def ex_saml_base_def ex_user_row_def
        groups_of_def py_lower_char_def char_eval)
  have "resolve_role [''CN=net,DC=x''] [(JString ''net'', JString ''viewer'')] = Inr (Some (JString ''viewer''))"
    by (simp add: group_matches_def py_lower_char_def char_eval)
  then have role: "saml_role cfg (Some [''CN=net,DC=x'']) = Inr (Some ''viewer'')"
    by (simp add: saml_role_def cfg role_text_def)
  have "\<exists>d1. create_session 0 ''tok'' ''alice'' ''viewer'' ''saml'' None None ex_saml_db = Inr d1"
    by (simp add: create_session_def insert_web_session_def ex_saml_db_def ex_saml_base_def empty_db_def web_session_ok_def new_session_row_def)
  with cfg(1,2) j groups role have "\<exists>d' resp. saml_acs py_lower ex_saml_lib ''https://x'' 0 ''tok'' ex_saml_request ex_saml_db = (d', Inr resp)"
    by (auto simp: saml_acs_def with_saml_def ex_saml_lib_def ex_saml_request_def Let_def)
  then obtain d' resp where "saml_acs py_lower ex_saml_lib ''https://x'' 0 ''tok'' ex_saml_request ex_saml_db = (d', Inr resp)"
    by blast
  from saml_session_needs_synced_account [OF this] this show ?thesis by auto
qed

end
