(* ===== verification/Certificates.thy ===== *)
theory Certificates
  imports Models
begin

text \<open>
  The two generators of self-signed certificates, \<open>app/tls/certs.py\<close> for the web server and
  \<open>app/saml/keypair.py\<close> for SAML. The \<open>cryptography\<close> library is the parameter \<open>key_lib\<close>: a fresh
  private key (PEM), its public key, and the signature of what the certificate builder was given.
\<close>

record cert_spec =
  cs_subject_cn :: string
  cs_issuer_cn :: string
  cs_public_key :: string
  cs_not_before :: instant
  cs_not_after :: instant
  cs_san_dns :: "string list option"

record key_lib =
  kl_new_key :: string
  kl_public_key :: "string \<Rightarrow> string"
  kl_sign :: "cert_spec \<Rightarrow> string \<Rightarrow> string exn"

text \<open>\<open>timedelta\<close> in microseconds.\<close>

definition minutes :: "int \<Rightarrow> int" where "minutes n = n * 60000000"
definition days_span :: "int \<Rightarrow> int" where "days_span n = n * 86400000000"

definition self_signed_spec :: "key_lib \<Rightarrow> instant \<Rightarrow> string \<Rightarrow> int \<Rightarrow> string list option \<Rightarrow> cert_spec" where
  "self_signed_spec lib now common_name days san =
     \<lparr>cs_subject_cn = common_name, cs_issuer_cn = common_name, cs_public_key = kl_public_key lib (kl_new_key lib),
      cs_not_before = now - minutes 5, cs_not_after = now + days_span days, cs_san_dns = san\<rparr>"

definition generate_self_signed :: "key_lib \<Rightarrow> instant \<Rightarrow> string \<Rightarrow> int \<Rightarrow> (string \<times> string) exn" where
  "generate_self_signed lib now common_name days =
     map_sum id (\<lambda>cert_pem. (cert_pem, kl_new_key lib))
       (kl_sign lib (self_signed_spec lib now common_name days (Some [common_name])) (kl_new_key lib))"

definition generate_sp_keypair :: "key_lib \<Rightarrow> instant \<Rightarrow> string \<Rightarrow> (string \<times> string) exn" where
  "generate_sp_keypair lib now common_name =
     map_sum id (\<lambda>cert_pem. (cert_pem, kl_new_key lib))
       (kl_sign lib (self_signed_spec lib now common_name 3650 None) (kl_new_key lib))"

lemma generate_self_signed_Inr:
  "generate_self_signed lib now cn days = Inr (c, k) \<longleftrightarrow>
     kl_sign lib (self_signed_spec lib now cn days (Some [cn])) (kl_new_key lib) = Inr c \<and> k = kl_new_key lib"
  by (cases "kl_sign lib (self_signed_spec lib now cn days (Some [cn])) (kl_new_key lib)")
     (auto simp: generate_self_signed_def)

end
