(* ===== verification/Settings_Saml.thy ===== *)
theory Settings_Saml
  imports Saml_Routes Certificates
begin

text \<open>
  \<open>app/api/v1/settings_saml.py\<close>: the settings of the SAML service provider. The XML parser, the
  key library of \<open>Certificates\<close> and python3-saml are parameters.
\<close>

record role_mapping =
  rm_ad_group :: string
  rm_role :: string

definition roles :: "string list" where
  "roles = [''admin'', ''operator'', ''viewer'']"

definition role_mapping_valid :: "role_mapping \<Rightarrow> bool" where
  "role_mapping_valid m \<longleftrightarrow> str_len 1 512 (rm_ad_group m) \<and> rm_role m \<in> set roles"

record saml_status =
  sv_configured :: bool
  sv_sp_entity_id :: "string option"
  sv_sp_acs_url :: "string option"
  sv_sp_has_keypair :: bool
  sv_idp_entity_id :: "string option"
  sv_idp_sso_url :: "string option"
  sv_idp_cert_present :: bool
  sv_group_attribute :: string
  sv_role_mappings :: "role_mapping list"

record mapping_update =
  mu_group_attribute :: string
  mu_role_mappings :: "role_mapping list"

definition mapping_update_valid :: "mapping_update \<Rightarrow> bool" where
  "mapping_update_valid p \<longleftrightarrow>
     str_len 0 256 (mu_group_attribute p) \<and> py_strip (mu_group_attribute p) \<noteq> [] \<and>
     list_all role_mapping_valid (mu_role_mappings p)"

definition resolve_base_url :: "string \<Rightarrow> string option \<Rightarrow> string option" where
  "resolve_base_url env_url stored = none_if_empty (py_rstrip (CHR ''/'') (or_default stored env_url))"

section \<open>The status\<close>

text \<open>
  One stored mapping: left out unless it is an object with one of the three roles; an unhashable
  role is a \<open>TypeError\<close>, a bad group name a \<open>ValidationError\<close>.
\<close>

definition status_mapping :: "json \<Rightarrow> role_mapping option exn" where
  "status_mapping m =
     (case m of
        JDict ps \<Rightarrow>
          (case map_of ps ''role'' of
             Some (JString r) \<Rightarrow>
               if r \<notin> set roles then Inr None
               else (case map_of ps ''ad_group'' of
                       Some (JString g) \<Rightarrow>
                         if str_len 1 512 g then Inr (Some \<lparr>rm_ad_group = g, rm_role = r\<rparr>)
                         else Inl ''ValidationError: ad_group''
                     | _ \<Rightarrow> Inl ''ValidationError: ad_group'')
           | Some (JList _) \<Rightarrow> Inl ''TypeError: unhashable type''
           | Some (JDict _) \<Rightarrow> Inl ''TypeError: unhashable type''
           | _ \<Rightarrow> Inr None)
      | _ \<Rightarrow> Inr None)"

fun status_mappings :: "json list \<Rightarrow> role_mapping list exn" where
  "status_mappings [] = Inr []"
| "status_mappings (m # ms) =
     (case status_mapping m of
        Inl e \<Rightarrow> Inl e
      | Inr v \<Rightarrow>
          (case status_mappings ms of
             Inl e \<Rightarrow> Inl e
           | Inr vs \<Rightarrow> Inr (case v of None \<Rightarrow> vs | Some x \<Rightarrow> x # vs)))"

definition get_saml_status :: "string \<Rightarrow> db \<Rightarrow> saml_status exn" where
  "get_saml_status env_url d =
     (let base_url = resolve_base_url env_url (read_setting d WEB_BASE_URL);
          sp_cert = read_secret d SAML_SP_CERT; sp_key = read_secret d SAML_SP_KEY;
          entity = read_setting d SAML_IDP_ENTITY_ID; sso = read_setting d SAML_IDP_SSO_URL;
          cert = read_setting d SAML_IDP_CERT in
      case stored_mappings d of
        Inl e \<Rightarrow> Inl e
      | Inr entries \<Rightarrow>
          (case status_mappings entries of
             Inl e \<Rightarrow> Inl e
           | Inr mappings \<Rightarrow>
               Inr \<lparr>sv_configured = (base_url \<noteq> None \<and> truthy sp_cert \<and> truthy sp_key \<and> truthy entity \<and>
                      truthy sso \<and> truthy cert),
                 sv_sp_entity_id = map_option sp_entity_id base_url,
                 sv_sp_acs_url = map_option sp_acs_url base_url,
                 sv_sp_has_keypair = (truthy sp_cert \<and> truthy sp_key), sv_idp_entity_id = entity,
                 sv_idp_sso_url = sso, sv_idp_cert_present = truthy cert,
                 sv_group_attribute = or_default (read_setting d SAML_GROUP_ATTRIBUTE) SAML_GROUP_ATTR_DEFAULT,
                 sv_role_mappings = mappings\<rparr>))"

definition saml_status_route :: "string \<Rightarrow> db \<Rightarrow> saml_status outcome" where
  "saml_status_route env_url d = or_500 d (get_saml_status env_url d) (\<lambda>s. (d, Inr s))"

section \<open>Changes\<close>

definition import_idp_metadata ::
    "(string \<Rightarrow> xml_parsed) \<Rightarrow> string \<Rightarrow> instant \<Rightarrow> session_context \<Rightarrow> string \<Rightarrow> db \<Rightarrow> saml_status outcome" where
  "import_idp_metadata xml_parse env_url now ctx xml d =
     validated (xml \<noteq> []) d (admin_only ctx d
       (case parse_idp_metadata xml_parse xml of
          Inl (InvalidIdpMetadata e) \<Rightarrow> (d, Inl (HTTPException 400 e))
        | Inl (OtherXmlError e) \<Rightarrow> (d, Inl (Unhandled e))
        | Inr idp \<Rightarrow>
            audit_commit now (ctx_entry ctx SAML_IDP_METADATA_IMPORTED ''saml.idp'' (Some (im_entity_id idp))) d
              (write_setting SAML_IDP_XML (Some xml)
                (write_setting SAML_IDP_CERT (Some (im_x509_cert idp))
                (write_setting SAML_IDP_SSO_BINDING (Some (im_sso_binding idp))
                (write_setting SAML_IDP_SSO_URL (Some (im_sso_url idp))
                (write_setting SAML_IDP_ENTITY_ID (Some (im_entity_id idp)) d)))))
              (saml_status_route env_url)))"

definition dump_mapping :: "role_mapping \<Rightarrow> json" where
  "dump_mapping m = mapping_json (rm_ad_group m, rm_role m)"

definition write_mapping :: "mapping_update \<Rightarrow> db \<Rightarrow> db" where
  "write_mapping p d =
     write_setting SAML_ROLE_MAPPINGS (Some (dumps (JList (map dump_mapping (mu_role_mappings p)))))
       (write_setting SAML_GROUP_ATTRIBUTE (Some (py_strip (mu_group_attribute p))) d)"

definition update_mapping ::
    "string \<Rightarrow> instant \<Rightarrow> session_context \<Rightarrow> mapping_update \<Rightarrow> db \<Rightarrow> saml_status outcome" where
  "update_mapping env_url now ctx p d =
     validated (mapping_update_valid p) d (admin_only ctx d
       (audit_commit now
          (ctx_entry ctx SAML_MAPPING_UPDATED ''saml.mapping''
             (Some (nat_to_str (length (mu_role_mappings p)) @ '' mappings, attr='' @
                py_strip (mu_group_attribute p))))
          d (write_mapping p d) (saml_status_route env_url)))"

definition keypair_name :: "string \<Rightarrow> string option \<Rightarrow> db \<Rightarrow> http_exc + string" where
  "keypair_name env_url common_name d =
     (if truthy common_name then Inr (the common_name)
      else
        (case resolve_base_url env_url (read_setting d WEB_BASE_URL) of
           None \<Rightarrow> Inl (HTTPException 400 ''common_name required (no base_url)'')
         | Some base \<Rightarrow>
             (case urlparse base of
                Inl e \<Rightarrow> Inl (Unhandled e)
              | Inr parsed \<Rightarrow>
                  Inr (case url_hostname parsed of Some h \<Rightarrow> h | None \<Rightarrow> ''tacacs-web''))))"

definition regenerate_sp_keypair ::
    "key_lib \<Rightarrow> string \<Rightarrow> instant \<Rightarrow> session_context \<Rightarrow> string option \<Rightarrow> db \<Rightarrow> saml_status outcome" where
  "regenerate_sp_keypair keys env_url now ctx common_name d =
     validated (opt_len 0 253 common_name) d (admin_only ctx d
       (case keypair_name env_url common_name d of
          Inl e \<Rightarrow> (d, Inl e)
        | Inr cn \<Rightarrow>
            (case generate_sp_keypair keys now cn of
               Inl e \<Rightarrow> (d, Inl (Unhandled e))
             | Inr (cert_pem, key_pem) \<Rightarrow>
                 audit_commit now (ctx_entry ctx SAML_SP_KEYPAIR_REGENERATED ''saml.sp'' (Some (''CN='' @ cn))) d
                   (write_secret SAML_SP_KEY (Some key_pem) (write_secret SAML_SP_CERT (Some cert_pem) d))
                   (saml_status_route env_url))))"

definition get_sp_metadata :: "saml_lib \<Rightarrow> string \<Rightarrow> db \<Rightarrow> string outcome" where
  "get_sp_metadata lib env_url d = saml_metadata lib env_url d"

section \<open>Facts\<close>

lemma write_mapping_read:
  "read_setting (write_mapping p d) k =
     (if k = SAML_ROLE_MAPPINGS then Some (dumps (JList (map dump_mapping (mu_role_mappings p))))
      else if k = SAML_GROUP_ATTRIBUTE then Some (py_strip (mu_group_attribute p)) else read_setting d k)"
  by (simp add: write_mapping_def settings.rd_wr)

lemma write_mapping_frame [simp]:
  "read_secret (write_mapping p d) k = read_secret d k" "audit_log (write_mapping p d) = audit_log d"
  "seqs (write_mapping p d) = seqs d" "config_ok (write_mapping p d) = config_ok d"
  by (simp_all add: write_mapping_def)

lemma stored_with_audit [simp]: "stored_mappings (with_audit now e d) = stored_mappings d"
  by (simp add: stored_mappings_def)

lemma dumped_mappings: "map dump_mapping ms = map mapping_json (map (\<lambda>m. (rm_ad_group m, rm_role m)) ms)"
  by (simp add: dump_mapping_def)

lemma stored_written_mapping: "stored_mappings (write_mapping p d) = Inr (map dump_mapping (mu_role_mappings p))"
  unfolding write_mapping_def dumped_mappings by (rule stored_mappings_written)

lemma status_dumped:
  "list_all role_mapping_valid ms \<Longrightarrow> status_mappings (map dump_mapping ms) = Inr ms"
  by (induction ms)
     (auto simp: status_mapping_def dump_mapping_def mapping_json_def role_mapping_valid_def)

lemma enforced_dumped:
  "List.map_filter mapping_pair (map dump_mapping ms) = map (\<lambda>m. (JString (rm_ad_group m), JString (rm_role m))) ms"
  unfolding dumped_mappings mappings_pairs by (simp add: split_beta)

lemma load_saml_config_iff:
  "(\<exists>cfg. load_saml_config env_url d = Inr cfg) \<longleftrightarrow>
     or_default (read_setting d WEB_BASE_URL) env_url \<noteq> [] \<and> truthy (read_setting d SAML_IDP_ENTITY_ID) \<and>
     truthy (read_setting d SAML_IDP_SSO_URL) \<and> truthy (read_setting d SAML_IDP_CERT) \<and>
     truthy (read_secret d SAML_SP_CERT) \<and> truthy (read_secret d SAML_SP_KEY) \<and>
     (\<exists>es. stored_mappings d = Inr es)"
  by (auto simp: load_saml_config_def Let_def split: sum.splits)

lemma load_saml_config_mappings:
  "load_saml_config env_url d = Inr cfg \<Longrightarrow>
     \<exists>es. stored_mappings d = Inr es \<and> sm_role_mappings cfg = List.map_filter mapping_pair es"
  by (auto simp: load_saml_config_def Let_def split: sum.splits if_splits)

section \<open>Properties\<close>

text \<open>
  The role mappings an administrator stores are, in their order, both the ones the settings page
  shows and the ones a SAML login is decided with, whatever characters the group names have.
\<close>

theorem saved_mappings_are_enforced:
  assumes "update_mapping env_url now ctx p d = (d', Inr st)" and "load_saml_config env_url d' = Inr cfg"
  shows "sv_role_mappings st = mu_role_mappings p \<and>
    sm_role_mappings cfg = map (\<lambda>m. (JString (rm_ad_group m), JString (rm_role m))) (mu_role_mappings p) \<and>
    resolve_role gs (sm_role_mappings cfg) =
      Inr (map_option (JString \<circ> rm_role)
        (find (\<lambda>m. group_matches (rm_ad_group m) (map py_lower gs)) (mu_role_mappings p)))"
proof -
  let ?e = "ctx_entry ctx SAML_MAPPING_UPDATED ''saml.mapping''
      (Some (nat_to_str (length (mu_role_mappings p)) @ '' mappings, attr='' @ py_strip (mu_group_attribute p)))"
  have valid: "mapping_update_valid p" and d': "d' = with_audit now ?e (write_mapping p d)"
    and st: "get_saml_status env_url d' = Inr st"
    using assms(1)
    by (auto simp: update_mapping_def validated_def admin_only_def saml_status_route_def or_500_def
        split: if_splits sum.splits)
  have stored: "stored_mappings d' = Inr (map dump_mapping (mu_role_mappings p))"
    by (simp add: d' stored_written_mapping)
  have "sv_role_mappings st = mu_role_mappings p"
    using st valid status_dumped [of "mu_role_mappings p"]
    by (auto simp: get_saml_status_def stored mapping_update_valid_def Let_def)
  moreover have enf: "sm_role_mappings cfg = map (\<lambda>m. (JString (rm_ad_group m), JString (rm_role m))) (mu_role_mappings p)"
    using load_saml_config_mappings [OF assms(2)] by (auto simp: stored enforced_dumped)
  moreover have "resolve_role gs (map (\<lambda>m. (JString (rm_ad_group m), JString (rm_role m))) ms) =
      Inr (map_option (JString \<circ> rm_role) (find (\<lambda>m. group_matches (rm_ad_group m) (map py_lower gs)) ms))" for ms
    by (induction ms) auto
  ultimately show ?thesis by simp
qed

text \<open>
  The status page says "configured" exactly when a SAML login can load its configuration,
  provided the base URL has more in it than slashes.
\<close>

theorem configured_means_loadable:
  assumes "get_saml_status env_url d = Inr st" and "resolve_base_url env_url (read_setting d WEB_BASE_URL) \<noteq> None"
  shows "sv_configured st \<longleftrightarrow> (\<exists>cfg. load_saml_config env_url d = Inr cfg)"
proof -
  obtain es where es: "stored_mappings d = Inr es"
    using assms(1) by (auto simp: get_saml_status_def Let_def split: sum.splits)
  have "or_default (read_setting d WEB_BASE_URL) env_url \<noteq> []"
    using assms(2) by (auto simp: resolve_base_url_def py_rstrip_def none_if_empty_def)
  with assms es show ?thesis
    unfolding load_saml_config_iff
    by (auto simp: get_saml_status_def Let_def split: sum.splits)
qed

definition ex_mapping_update :: mapping_update where
  "ex_mapping_update = \<lparr>mu_group_attribute = ''memberOf'', mu_role_mappings = [\<lparr>rm_ad_group = ''net'', rm_role = ''viewer''\<rparr>]\<rparr>"

lemma ex_mapping_update_valid: "mapping_update_valid ex_mapping_update"
  by (simp add: mapping_update_valid_def ex_mapping_update_def str_len_def role_mapping_valid_def roles_def
      py_strip_def py_isspace_char_def)

theorem saved_mappings_are_enforced_witness:
  "\<exists>d' st cfg. update_mapping ''https://x'' 0 ex_admin_ctx ex_mapping_update ex_saml_base = (d', Inr st) \<and>
     load_saml_config ''https://x'' d' = Inr cfg \<and>
     sm_role_mappings cfg = [(JString ''net'', JString ''viewer'')]"
proof -
  let ?e = "ctx_entry ex_admin_ctx SAML_MAPPING_UPDATED ''saml.mapping''
      (Some (nat_to_str (length (mu_role_mappings ex_mapping_update)) @ '' mappings, attr='' @
         py_strip (mu_group_attribute ex_mapping_update)))"
  let ?d = "with_audit 0 ?e (write_mapping ex_mapping_update ex_saml_base)"
  have stored: "stored_mappings ?d = Inr (map dump_mapping (mu_role_mappings ex_mapping_update))"
    by (simp add: stored_written_mapping)
  have "list_all role_mapping_valid (mu_role_mappings ex_mapping_update)"
    using ex_mapping_update_valid by (simp add: mapping_update_valid_def)
  then obtain st where "get_saml_status ''https://x'' ?d = Inr st"
    using stored status_dumped by (simp add: get_saml_status_def Let_def)
  then have u: "update_mapping ''https://x'' 0 ex_admin_ctx ex_mapping_update ex_saml_base = (?d, Inr st)"
    by (simp add: update_mapping_def ex_mapping_update_valid admin_only_def saml_status_route_def)
       (simp add: ex_admin_ctx_def)
  have "\<exists>cfg. load_saml_config ''https://x'' ?d = Inr cfg"
    unfolding load_saml_config_iff
    by (simp add: stored_written_mapping write_mapping_read)
       (simp add: ex_saml_base_def read_setting_def read_secret_def empty_db_def)
  then obtain cfg where c: "load_saml_config ''https://x'' ?d = Inr cfg" by blast
  from saved_mappings_are_enforced [OF u c] u c show ?thesis
    by (intro exI [of _ ?d] exI [of _ st] exI [of _ cfg]) (simp add: ex_mapping_update_def)
qed

theorem configured_means_loadable_witness:
  "\<exists>st cfg. get_saml_status ''https://x/'' ex_saml_db = Inr st \<and> sv_configured st \<and>
     load_saml_config ''https://x/'' ex_saml_db = Inr cfg"
proof -
  let ?m = "[\<lparr>rm_ad_group = ''net'', rm_role = ''viewer''\<rparr>]"
  have "stored_mappings ex_saml_db = Inr (map mapping_json [(''net'', ''viewer'')])"
    unfolding ex_saml_db_def by (rule stored_mappings_written)
  then have stored: "stored_mappings ex_saml_db = Inr (map dump_mapping ?m)"
    by (simp add: dump_mapping_def)
  have "status_mappings (map dump_mapping ?m) = Inr ?m"
    by (rule status_dumped) (simp add: role_mapping_valid_def str_len_def roles_def)
  with stored obtain st where st: "get_saml_status ''https://x/'' ex_saml_db = Inr st"
    by (simp add: get_saml_status_def Let_def)
  have reads: "read_setting ex_saml_db WEB_BASE_URL = None" "read_setting ex_saml_db SAML_IDP_ENTITY_ID = Some ''e''"
    "read_setting ex_saml_db SAML_IDP_SSO_URL = Some ''u''" "read_setting ex_saml_db SAML_IDP_CERT = Some ''c''"
    "read_secret ex_saml_db SAML_SP_CERT = Some ''c''" "read_secret ex_saml_db SAML_SP_KEY = Some ''k''"
    by (simp_all add: ex_saml_db_def settings.rd_wr) (simp_all add: ex_saml_base_def read_setting_def read_secret_def empty_db_def)
  have "resolve_base_url ''https://x/'' (read_setting ex_saml_db WEB_BASE_URL) \<noteq> None"
    by (simp add: resolve_base_url_def py_rstrip_def reads)
  moreover have "\<exists>cfg. load_saml_config ''https://x/'' ex_saml_db = Inr cfg"
    unfolding load_saml_config_iff by (simp add: reads stored)
  ultimately show ?thesis using configured_means_loadable [OF st] st by auto
qed

end
