(* ===== verification/Base64.thy ===== *)
theory Base64
  imports Bytes
begin

text \<open>
  \<open>base64.b64encode\<close>, and \<open>base64.b64decode\<close> as CPython's \<open>binascii.a2b_base64\<close> computes it:
  characters outside the alphabet are skipped, the pad that completes a group ends the data. With
  \<open>validate=True\<close> the text must first match the alphabet with at most two pads. \<open>None\<close> is
  \<open>binascii.Error\<close>.
\<close>

definition b64_char :: "nat \<Rightarrow> char" where
  "b64_char n =
     (if n < 26 then char_of (n + 65) else if n < 52 then char_of (n + 71)
      else if n < 62 then char_of (n - 4) else if n = 62 then CHR ''+'' else CHR ''/'')"

definition b64_val :: "char \<Rightarrow> nat option" where
  "b64_val c =
     (let n = ord_c c in
      if 65 \<le> n \<and> n \<le> 90 then Some (n - 65) else if 97 \<le> n \<and> n \<le> 122 then Some (n - 71)
      else if 48 \<le> n \<and> n \<le> 57 then Some (n + 4) else if n = 43 then Some 62
      else if n = 47 then Some 63 else None)"

fun b64encode :: "byte list \<Rightarrow> string" where
  "b64encode [] = []"
| "b64encode [a] =
     [b64_char (unat a div 4), b64_char (unat a mod 4 * 16), CHR ''='', CHR ''='']"
| "b64encode [a, b] =
     [b64_char (unat a div 4), b64_char (unat a mod 4 * 16 + unat b div 16),
      b64_char (unat b mod 16 * 4), CHR ''='']"
| "b64encode (a # b # c # bs) =
     b64_char (unat a div 4) # b64_char (unat a mod 4 * 16 + unat b div 16) #
     b64_char (unat b mod 16 * 4 + unat c div 64) # b64_char (unat c mod 64) # b64encode bs"

text \<open>The loop of \<open>a2b_base64\<close>: position in the group, pads seen, and the bits left over.\<close>

fun a2b_base64 :: "nat \<Rightarrow> nat \<Rightarrow> nat \<Rightarrow> string \<Rightarrow> byte list option" where
  "a2b_base64 quad pads left [] = (if quad = 0 then Some [] else None)"
| "a2b_base64 quad pads left (c # s) =
     (if c = CHR ''='' then
        (if 2 \<le> quad \<and> 4 \<le> quad + (pads + 1) then Some []
         else a2b_base64 quad (if 2 \<le> quad then pads + 1 else pads) left s)
      else
        (case b64_val c of
           None \<Rightarrow> a2b_base64 quad pads left s
         | Some v \<Rightarrow>
             if quad = 0 then a2b_base64 1 0 v s
             else if quad = 1 then
               map_option ((#) (word_of_nat (left * 4 + v div 16))) (a2b_base64 2 0 (v mod 16) s)
             else if quad = 2 then
               map_option ((#) (word_of_nat (left * 16 + v div 4))) (a2b_base64 3 0 (v mod 4) s)
             else map_option ((#) (word_of_nat (left * 64 + v))) (a2b_base64 0 0 0 s)))"

definition b64decode :: "string \<Rightarrow> byte list option" where
  "b64decode s = a2b_base64 0 0 0 s"

definition b64_strict :: "string \<Rightarrow> bool" where
  "b64_strict s \<longleftrightarrow>
     (let rest = dropWhile (\<lambda>c. b64_val c \<noteq> None) s in
      length rest \<le> 2 \<and> list_all (\<lambda>c. c = CHR ''='') rest)"

definition b64decode_validate :: "string \<Rightarrow> byte list option" where
  "b64decode_validate s = (if b64_strict s then b64decode s else None)"

section \<open>The round trip\<close>

lemma b64_val_char: "n < 64 \<Longrightarrow> b64_val (b64_char n) = Some n"
  by (auto simp: b64_char_def b64_val_def Let_def)

lemma b64_char_not_pad: "n < 64 \<Longrightarrow> b64_char n \<noteq> CHR ''=''"
  using b64_val_char [of n] by (auto simp: b64_val_def)

lemma b64_step:
  "n < 64 \<Longrightarrow> a2b_base64 quad pads left (b64_char n # s) =
     (if quad = 0 then a2b_base64 1 0 n s
      else if quad = 1 then map_option ((#) (word_of_nat (left * 4 + n div 16))) (a2b_base64 2 0 (n mod 16) s)
      else if quad = 2 then map_option ((#) (word_of_nat (left * 16 + n div 4))) (a2b_base64 3 0 (n mod 4) s)
      else map_option ((#) (word_of_nat (left * 64 + n))) (a2b_base64 0 0 0 s))"
  by (simp add: b64_val_char b64_char_not_pad)

lemma byte_lt: "unat (b :: byte) < 256"
  using unsigned_less [of b, where 'a = nat] by simp

lemma div16: "b < 256 \<Longrightarrow> b div 16 < (16 :: nat)" and div64: "b < 256 \<Longrightarrow> b div 64 < (4 :: nat)"
  and div4: "b < 256 \<Longrightarrow> b div 4 < (64 :: nat)"
  by (simp_all add: less_mult_imp_div_less)

lemma six_bits:
  fixes a b c :: nat
  assumes "a < 256" "b < 256" "c < 256"
  shows "a div 4 < 64" "a mod 4 * 16 < 64" "a mod 4 * 16 + b div 16 < 64"
    "b mod 16 * 4 < 64" "b mod 16 * 4 + c div 64 < 64" "c mod 64 < 64"
proof -
  have "a mod 4 < 4" "b mod 16 < 16" "c mod 64 < 64" by simp_all
  with div16 [OF assms(2)] div64 [OF assms(3)] div4 [OF assms(1)]
  show "a div 4 < 64" "a mod 4 * 16 < 64" "a mod 4 * 16 + b div 16 < 64"
    "b mod 16 * 4 < 64" "b mod 16 * 4 + c div 64 < 64" "c mod 64 < 64" by linarith+
qed

lemma join_bits: "x < k \<Longrightarrow> (q * k + x) div k = q" "x < k \<Longrightarrow> (q * k + x) mod k = (x :: nat)"
  by simp_all

lemma regroup:
  fixes a b c :: nat
  assumes "a < 256" "b < 256" "c < 256"
  shows "a div 4 * 4 + (a mod 4 * 16 + b div 16) div 16 = a"
    "a div 4 * 4 + a mod 4 * 16 div 16 = a"
    "(a mod 4 * 16 + b div 16) mod 16 * 16 + (b mod 16 * 4 + c div 64) div 4 = b"
    "(a mod 4 * 16 + b div 16) mod 16 * 16 + b mod 16 * 4 div 4 = b"
    "(b mod 16 * 4 + c div 64) mod 4 * 64 + c mod 64 = c"
  unfolding join_bits [OF div16 [OF assms(2)]] join_bits [OF div64 [OF assms(3)]]
  by simp_all

lemmas six_bits_byte = six_bits [OF byte_lt byte_lt byte_lt]
lemmas regroup_byte = regroup [OF byte_lt byte_lt byte_lt]

lemma byte_div16: "unat (b :: byte) div 16 div 16 = 0" "unat b div 16 mod 16 = unat b div 16"
  "unat b div 64 div 4 = 0" "unat b div 64 mod 4 = unat b div 64"
  using div16 [OF byte_lt, of b] div64 [OF byte_lt, of b] by simp_all

lemma b64_pads: "a2b_base64 2 0 l ''=='' = Some []" "a2b_base64 3 0 l ''='' = Some []"
  by simp_all

lemma b64_round_trip: "b64decode (b64encode bs) = Some bs"
  unfolding b64decode_def
proof (induction bs rule: b64encode.induct)
  case (2 a)
  show ?case
    by (simp add: b64_step b64_pads six_bits_byte regroup_byte byte_div16 del: a2b_base64.simps(2) of_nat_add of_nat_mult)
next
  case (3 a b)
  show ?case
    by (simp add: b64_step b64_pads six_bits_byte regroup_byte byte_div16 del: a2b_base64.simps(2) of_nat_add of_nat_mult)
next
  case (4 a b c bs)
  then show ?case
    by (simp add: b64_step six_bits_byte byte_div16 del: a2b_base64.simps(2) of_nat_add of_nat_mult)
qed simp

end
