(* ===== verification/Secrets.thy ===== *)
theory Secrets
  imports Base64 Url
begin

text \<open>
  The secrets of the deployment: \<open>core/config.py\<close> (master key and database password),
  \<open>core/crypto.py\<close> and \<open>db/types.py\<close> (encrypted columns), \<open>db/session.py\<close> (the database URL) and
  \<open>api/health.py\<close>. AES-GCM is a parameter; a mounted file is the result of reading it.
\<close>

section \<open>Bytes\<close>

text \<open>\<open>bytes.decode("utf-8")\<close> up to U+00FF; other sequences count as errors.\<close>

fun utf8_decode :: "byte list \<Rightarrow> string option" where
  "utf8_decode [] = Some []"
| "utf8_decode (b # bs) =
     (if unat b < 128 then map_option ((#) (char_of (unat b))) (utf8_decode bs)
      else
        (case bs of
           [] \<Rightarrow> None
         | c # cs \<Rightarrow>
             if (unat b = 194 \<or> unat b = 195) \<and> 128 \<le> unat c \<and> unat c < 192
             then map_option ((#) (char_of ((unat b - 192) * 64 + (unat c - 128)))) (utf8_decode cs)
             else None))"

definition bytes_text :: "byte list \<Rightarrow> string" where
  "bytes_text bs = map (\<lambda>b. char_of (unat b)) bs"

definition bytes_space :: "char \<Rightarrow> bool" where
  "bytes_space c \<longleftrightarrow> ord_c c = 32 \<or> (9 \<le> ord_c c \<and> ord_c c \<le> 13)"

definition strip_by :: "(char \<Rightarrow> bool) \<Rightarrow> string \<Rightarrow> string" where
  "strip_by P s = rev (dropWhile P (rev (dropWhile P s)))"

text \<open>\<open>b64decode\<close> of a \<open>str\<close>, which must be ASCII.\<close>

definition b64decode_str :: "string \<Rightarrow> byte list exn" where
  "b64decode_str s =
     (if \<not> list_all (\<lambda>c. ord_c c < 128) s then Inl ''ValueError: string argument should contain only ASCII characters''
      else (case b64decode s of None \<Rightarrow> Inl ''binascii.Error'' | Some b \<Rightarrow> Inr b))"

section \<open>Settings (core/config.py)\<close>

record app_settings =
  cf_database_url :: string
  cf_database_password_file :: "string exn option"
  cf_database_password_value :: "string option"
  cf_master_key_file :: "byte list exn option"
  cf_master_key_b64 :: "string option"

definition database_password :: "app_settings \<Rightarrow> string option exn" where
  "database_password s =
     (case cf_database_password_file s of
        Some (Inl e) \<Rightarrow> Inl e
      | Some (Inr t) \<Rightarrow> Inr (Some (py_strip t))
      | None \<Rightarrow> Inr (cf_database_password_value s))"

definition master_key_configured :: "app_settings \<Rightarrow> bool" where
  "master_key_configured s \<longleftrightarrow> cf_master_key_file s \<noteq> None \<or> cf_master_key_b64 s \<noteq> None"

definition key_of_length :: "string \<Rightarrow> byte list exn \<Rightarrow> byte list exn" where
  "key_of_length msg r =
     (case r of Inl e \<Rightarrow> Inl e | Inr k \<Rightarrow> if length k \<noteq> 32 then Inl (''ValueError: '' @ msg) else Inr k)"

definition master_key :: "app_settings \<Rightarrow> byte list exn" where
  "master_key s =
     (case cf_master_key_file s of
        Some (Inl e) \<Rightarrow> Inl e
      | Some (Inr raw) \<Rightarrow>
          if length raw = 32 then Inr raw
          else key_of_length ''master_key_file must contain 32 bytes (raw or base64-encoded)''
                 (case b64decode (strip_by bytes_space (bytes_text raw)) of
                    None \<Rightarrow> Inl ''binascii.Error'' | Some k \<Rightarrow> Inr k)
      | None \<Rightarrow>
          (case cf_master_key_b64 s of
             Some t \<Rightarrow> key_of_length ''MASTER_KEY must decode to 32 bytes (base64-encoded)''
                         (b64decode_str (py_strip t))
           | None \<Rightarrow> Inl ''RuntimeError: master key is not configured (set MASTER_KEY or master_key_file)''))"

section \<open>Column encryption (core/crypto.py, db/types.py)\<close>

definition NONCE_LEN :: nat where "NONCE_LEN = 12"
definition KEY_LEN :: nat where "KEY_LEN = 32"

text \<open>\<open>AESGCM(key).encrypt(nonce, data)\<close> and \<open>decrypt\<close>, \<open>None\<close> for \<open>InvalidTag\<close>.\<close>

record aead =
  seal :: "byte list \<Rightarrow> byte list \<Rightarrow> byte list \<Rightarrow> byte list"
  unseal :: "byte list \<Rightarrow> byte list \<Rightarrow> byte list \<Rightarrow> byte list option"

definition encrypt :: "aead \<Rightarrow> byte list \<Rightarrow> string \<Rightarrow> byte list \<Rightarrow> string exn" where
  "encrypt aes nonce plaintext key =
     (if length key \<noteq> KEY_LEN then Inl ''ValueError: master key must be exactly 32 bytes''
      else Inr (b64encode (nonce @ seal aes key nonce (utf8_encode plaintext))))"

definition decrypt :: "aead \<Rightarrow> string \<Rightarrow> byte list \<Rightarrow> string exn" where
  "decrypt aes token key =
     (if length key \<noteq> KEY_LEN then Inl ''ValueError: master key must be exactly 32 bytes''
      else
        (case b64decode_str token of
           Inl e \<Rightarrow> Inl e
         | Inr raw \<Rightarrow>
             if length raw < NONCE_LEN + 16 then Inl ''ValueError: ciphertext too short''
             else
               (case unseal aes key (take NONCE_LEN raw) (drop NONCE_LEN raw) of
                  None \<Rightarrow> Inl ''InvalidTag''
                | Some pt \<Rightarrow>
                    (case utf8_decode pt of None \<Rightarrow> Inl ''UnicodeDecodeError'' | Some t \<Rightarrow> Inr t))))"

definition process_bind_param :: "aead \<Rightarrow> app_settings \<Rightarrow> byte list \<Rightarrow> string option \<Rightarrow> string option exn" where
  "process_bind_param aes s nonce v =
     (case v of
        None \<Rightarrow> Inr None
      | Some t \<Rightarrow>
          (case master_key s of
             Inl e \<Rightarrow> Inl e
           | Inr key \<Rightarrow> (case encrypt aes nonce t key of Inl e \<Rightarrow> Inl e | Inr c \<Rightarrow> Inr (Some c))))"

definition process_result_value :: "aead \<Rightarrow> app_settings \<Rightarrow> string option \<Rightarrow> string option exn" where
  "process_result_value aes s v =
     (case v of
        None \<Rightarrow> Inr None
      | Some c \<Rightarrow>
          (case master_key s of
             Inl e \<Rightarrow> Inl e
           | Inr key \<Rightarrow> (case decrypt aes c key of Inl e \<Rightarrow> Inl e | Inr t \<Rightarrow> Inr (Some t))))"

section \<open>The database URL (db/session.py)\<close>

definition database_netloc :: "url_parts \<Rightarrow> int option \<Rightarrow> string \<Rightarrow> string" where
  "database_netloc parsed port password =
     or_default (url_username parsed) [] @ '':'' @ quote password @ ''@'' @ or_default (url_hostname parsed) [] @
     (case port of Some p \<Rightarrow> if p \<noteq> 0 then '':'' @ int_to_str p else [] | None \<Rightarrow> [])"

definition resolve_database_url :: "app_settings \<Rightarrow> string exn" where
  "resolve_database_url s =
     (case database_password s of
        Inl e \<Rightarrow> Inl e
      | Inr pw \<Rightarrow>
          if \<not> truthy pw then Inr (cf_database_url s)
          else
            (case urlparse (cf_database_url s) of
               Inl e \<Rightarrow> Inl e
             | Inr parsed \<Rightarrow>
                 (case url_port parsed of
                    Inl e \<Rightarrow> Inl e
                  | Inr port \<Rightarrow>
                      Inr (urlunparse (parsed\<lparr>up_netloc := database_netloc parsed port (the pw)\<rparr>)))))"

section \<open>Health (api/health.py)\<close>

record ready_response =
  hr_status_code :: int
  hr_status :: string
  hr_checks :: "(string \<times> string) list"

text \<open>\<open>db_error\<close> is the class of the exception the probe query raised, if any.\<close>

definition exn_class :: "string \<Rightarrow> string" where
  "exn_class e = takeWhile (\<lambda>c. c \<noteq> CHR '':'') e"

definition ready :: "string option \<Rightarrow> app_settings \<Rightarrow> ready_response" where
  "ready db_error s =
     (let db = (case db_error of None \<Rightarrow> ''ok'' | Some e \<Rightarrow> ''error: '' @ e);
          key = (if \<not> master_key_configured s then ''not_configured''
                 else (case master_key s of Inr k \<Rightarrow> ''ok'' | Inl e \<Rightarrow> ''error: '' @ exn_class e));
          ok = (db_error = None \<and> key = ''ok'') in
      \<lparr>hr_status_code = (if ok then 200 else 503), hr_status = (if ok then ''ok'' else ''fail''),
       hr_checks = [(''db'', db), (''master_key'', key)]\<rparr>)"

section \<open>Facts\<close>

lemma utf8_decode_char: "utf8_decode (utf8_char c @ bs) = map_option ((#) c) (utf8_decode bs)"
proof (cases "ord_c c < 128")
  case True
  then show ?thesis by (simp add: utf8_char_def)
next
  case False
  let ?n = "ord_c c"
  have n: "?n < 256" "128 \<le> ?n" using False nat_of_char_less_256 [of c] by simp_all
  then have d: "?n div 64 = 2 \<or> ?n div 64 = 3" by (auto simp: div_nat_eqI intro: div_nat_eqI)
  have m: "?n mod 64 < 64" by simp
  have eq: "?n = ?n div 64 * 64 + ?n mod 64" by simp
  have w: "unat (word_of_nat (192 + ?n div 64) :: byte) = 192 + ?n div 64"
    "unat (word_of_nat (128 + ?n mod 64) :: byte) = 128 + ?n mod 64"
    by (rule unat_word_of_nat, use d m in linarith)+
  have "char_of (?n div 64 * 64 + ?n mod 64) = c" unfolding eq [symmetric] by simp
  with d m w False show ?thesis
    by (auto simp: utf8_char_def Let_def simp del: of_nat_add)
qed

lemma utf8_decode_encode [simp]: "utf8_decode (utf8_encode s) = Some s"
  by (induction s) (simp_all add: utf8_encode_def utf8_decode_char)

lemma length_b64encode: "length (b64encode bs) = 4 * ((length bs + 2) div 3)"
proof (induction bs rule: b64encode.induct)
  case (4 a b c bs)
  moreover have "(5 + n) div 3 = Suc ((n + 2) div 3)" for n :: nat by presburger
  ultimately show ?case by simp
qed simp_all

lemma b64_char_clean: "n < 64 \<Longrightarrow> ord_c (b64_char n) < 128 \<and> \<not> bytes_space (b64_char n) \<and> \<not> py_isspace_char (b64_char n)"
  by (auto simp: b64_char_def bytes_space_def py_isspace_char_def)

lemma b64encode_clean:
  "list_all (\<lambda>c. ord_c c < 128 \<and> \<not> bytes_space c \<and> \<not> py_isspace_char c) (b64encode bs)"
proof (induction bs rule: b64encode.induct)
  case (2 a)
  show ?case by (simp add: b64_char_clean six_bits_byte) (simp add: bytes_space_def py_isspace_char_def)
next
  case (3 a b)
  show ?case by (simp add: b64_char_clean six_bits_byte) (simp add: bytes_space_def py_isspace_char_def)
next
  case (4 a b c bs)
  then show ?case by (simp add: b64_char_clean six_bits_byte)
qed simp

lemma b64decode_str_encode [simp]: "b64decode_str (b64encode bs) = Inr bs"
  using b64encode_clean [of bs] by (simp add: b64decode_str_def b64_round_trip list_all_iff)

lemma strip_by_surrounded:
  assumes "list_all (\<lambda>c. \<not> P c) s" and "list_all P pre" and "list_all P post"
  shows "strip_by P (pre @ s @ post) = s"
proof (cases s)
  case Nil
  have "dropWhile P (pre @ s @ post) = []" using assms(2,3) Nil by (auto simp: list_all_iff dest: set_dropWhileD)
  then show ?thesis using Nil by (simp only: strip_by_def rev.simps dropWhile.simps)
next
  case (Cons c t)
  have "dropWhile P (pre @ s @ post) = s @ post"
    using assms(1,2) Cons by (simp add: list_all_iff dropWhile_append2)
  moreover obtain x xs where x: "rev s = x # xs" using Cons by (cases "rev s") auto
  then have "x \<in> set s" by (metis list.set_intros(1) set_rev)
  then have "\<not> P x" using assms(1) by (simp add: list_all_iff)
  then have "dropWhile P (rev s) = rev s" using x by simp
  moreover have "dropWhile P (rev post @ rev s) = dropWhile P (rev s)"
    using assms(3) by (intro dropWhile_append2) (auto simp: list_all_iff)
  ultimately show ?thesis by (simp add: strip_by_def)
qed

lemma py_strip_by: "py_strip s = strip_by py_isspace_char s"
  by (simp add: py_strip_def strip_by_def)

text \<open>The bytes of an ASCII text.\<close>

definition text_bytes :: "string \<Rightarrow> byte list" where
  "text_bytes s = map (\<lambda>c. word_of_nat (ord_c c)) s"

lemma bytes_text_bytes [simp]: "bytes_text (text_bytes s) = s"
  by (simp add: bytes_text_def text_bytes_def comp_def)

lemma length_text_bytes [simp]: "length (text_bytes s) = length s"
  by (simp add: text_bytes_def)

section \<open>Properties\<close>

text \<open>
  A 32-byte master key is found in every form the deployment documents: as the 32 raw bytes of
  the key file, whatever they are, as a base64 text in the file or in the variable, with or without
  white space around it; and whatever key is configured has 32 bytes.
\<close>

theorem master_key_in_every_form:
  assumes "length k = 32" and "list_all bytes_space pre" and "list_all bytes_space post"
    and "cf_master_key_file s = Some (Inr raw)"
    and "raw = k \<or> raw = text_bytes (pre @ b64encode k @ post)"
  shows "master_key s = Inr k \<and>
    master_key (s\<lparr>cf_master_key_file := None, cf_master_key_b64 := Some (pre @ b64encode k @ post)\<rparr>) = Inr k \<and>
    (\<forall>s' k'. master_key s' = Inr k' \<longrightarrow> length k' = 32)"
proof (intro conjI allI impI)
  have len: "length (b64encode k) = 44" using assms(1) by (simp add: length_b64encode)
  have clean: "list_all (\<lambda>c. \<not> bytes_space c) (b64encode k)" "list_all (\<lambda>c. \<not> py_isspace_char c) (b64encode k)"
    using b64encode_clean [of k] by (simp_all add: list_all_iff)
  have sp: "list_all py_isspace_char pre" "list_all py_isspace_char post"
    using assms(2,3) by (auto simp: list_all_iff bytes_space_def py_isspace_char_def)
  show "master_key s = Inr k"
    using assms(5)
  proof
    assume "raw = k"
    with assms(1,4) show ?thesis by (simp add: master_key_def)
  next
    assume raw: "raw = text_bytes (pre @ b64encode k @ post)"
    then have "length raw \<noteq> 32" by (simp add: len)
    then show ?thesis
      using assms(1,4) strip_by_surrounded [OF clean(1) assms(2,3)]
      by (simp add: master_key_def raw key_of_length_def b64_round_trip)
  qed
  show "master_key (s\<lparr>cf_master_key_file := None, cf_master_key_b64 := Some (pre @ b64encode k @ post)\<rparr>) = Inr k"
    using assms(1) strip_by_surrounded [OF clean(2) sp]
    by (simp add: master_key_def key_of_length_def py_strip_by)
next
  fix s' k'
  assume "master_key s' = Inr k'"
  then show "length k' = 32"
    by (auto simp: master_key_def key_of_length_def split: option.splits sum.splits if_splits)
qed

definition ex_key :: "byte list" where
  "ex_key = replicate 32 10"

definition ex_app :: app_settings where
  "ex_app = \<lparr>cf_database_url = ''postgresql+psycopg://tacacs@db:5432/tacacs'', cf_database_password_file = None,
     cf_database_password_value = Some ''p@ss/w:rd'', cf_master_key_file = Some (Inr ex_key), cf_master_key_b64 = None\<rparr>"

theorem master_key_in_every_form_witness:
  "master_key ex_app = Inr ex_key \<and>
   master_key (ex_app\<lparr>cf_master_key_file := Some (Inr (text_bytes ('' '' @ b64encode ex_key @ [nl])))\<rparr>) = Inr ex_key"
proof -
  have sp: "list_all bytes_space '' ''" "list_all bytes_space [nl]" "length ex_key = 32"
    by (simp_all add: bytes_space_def nl_def ex_key_def)
  from master_key_in_every_form [OF sp(3,1,2), of ex_app ex_key]
    master_key_in_every_form [OF sp(3,1,2),
      of "ex_app\<lparr>cf_master_key_file := Some (Inr (text_bytes ('' '' @ b64encode ex_key @ [nl])))\<rparr>"
         "text_bytes ('' '' @ b64encode ex_key @ [nl])"]
  show ?thesis by (simp add: ex_app_def)
qed

text \<open>
  The promise of AES-GCM the code relies on: what is sealed under a 32-byte key and a 12-byte nonce
  is unsealed with them, and the sealed data is 16 bytes longer.
\<close>

definition aead_ok :: "aead \<Rightarrow> bool" where
  "aead_ok aes \<longleftrightarrow>
     (\<forall>key nonce pt. length key = 32 \<longrightarrow> length nonce = 12 \<longrightarrow>
        unseal aes key nonce (seal aes key nonce pt) = Some pt \<and>
        length (seal aes key nonce pt) = length pt + 16)"

text \<open>
  With a master key configured, every text stored in an encrypted column is read back unchanged,
  and the column itself is plain ASCII base64; without a key nothing is stored.
\<close>

theorem encrypted_column_reads_back:
  assumes "aead_ok aes" and "length nonce = NONCE_LEN" and "master_key s = Inr key"
  shows "\<exists>c. process_bind_param aes s nonce (Some t) = Inr (Some c) \<and>
    process_result_value aes s (Some c) = Inr (Some t) \<and> list_all (\<lambda>x. ord_c x < 128) c"
proof -
  have key: "length key = 32"
    using assms(3) by (auto simp: master_key_def key_of_length_def split: option.splits sum.splits if_splits)
  let ?ct = "seal aes key nonce (utf8_encode t)"
  have ct: "unseal aes key nonce ?ct = Some (utf8_encode t)" "length ?ct = length (utf8_encode t) + 16"
    using assms(1,2) key by (simp_all add: aead_ok_def NONCE_LEN_def)
  have "decrypt aes (b64encode (nonce @ ?ct)) key = Inr t"
    using ct assms(2) key by (simp add: decrypt_def KEY_LEN_def)
  moreover have "list_all (\<lambda>x. ord_c x < 128) (b64encode (nonce @ ?ct))"
    using b64encode_clean [of "nonce @ ?ct"] by (simp add: list_all_iff)
  ultimately show ?thesis
    using assms(3) key
    by (auto simp: process_bind_param_def process_result_value_def encrypt_def KEY_LEN_def)
qed

definition ex_aead :: aead where
  "ex_aead = \<lparr>seal = (\<lambda>key nonce pt. pt @ replicate 16 0),
     unseal = (\<lambda>key nonce ct. if 16 \<le> length ct then Some (take (length ct - 16) ct) else None)\<rparr>"

theorem encrypted_column_reads_back_witness:
  "\<exists>c. process_bind_param ex_aead ex_app (replicate 12 7) (Some ''secret'') = Inr (Some c) \<and>
     process_result_value ex_aead ex_app (Some c) = Inr (Some ''secret'')"
proof -
  have "aead_ok ex_aead" by (simp add: aead_ok_def ex_aead_def)
  moreover have "length (replicate 12 7 :: byte list) = NONCE_LEN" by (simp add: NONCE_LEN_def)
  moreover have "master_key ex_app = Inr ex_key" by (simp add: master_key_def ex_app_def ex_key_def)
  ultimately show ?thesis using encrypted_column_reads_back by blast
qed

text \<open>
  A database password can contain any character without changing the URL around it: its quoted
  form has no character that structures a URL, and percent-decoding gives the password back.
\<close>

theorem database_password_is_confined:
  "unquote_bytes (quote password) = utf8_encode password \<and>
   set (quote password) \<inter> {CHR '':'', CHR ''@'', CHR ''/'', CHR ''?'', CHR ''#'', CHR ''['', CHR '']''} = {}"
proof -
  have "c \<notin> {CHR '':'', CHR ''@'', CHR ''/'', CHR ''?'', CHR ''#'', CHR ''['', CHR '']''}" if "c \<in> set (quote password)" for c
    using url_quote_chars [OF that] by (auto simp: unreserved_def)
  then show ?thesis by (auto simp: unquote_quote)
qed

text \<open>The host of an IPv6 literal loses its brackets when a password is mixed in.\<close>

lemma ipv6_database_host_loses_brackets:
  "database_netloc \<lparr>up_scheme = ''postgresql'', up_netloc = ''u@[::1]:5432'', up_path = ''/db'', up_query = [],
     up_fragment = []\<rparr> (Some 5432) ''x'' = ''u:x@::1:5432''"
  by (simp add: database_netloc_def url_username_def url_hostname_def host_info_def rpartition_at_def quote_def
      utf8_encode_def utf8_char_def quote_byte_def unreserved_def py_lower_char_def char_eval int_to_str_def
      nat_to_str.simps digit_char_def)

section \<open>The URL of the migrations (alembic/env.py)\<close>

text \<open>\<open>str.replace\<close> of a non-empty text, left to right; \<open>n\<close> characters are still to be skipped.\<close>

fun replace_from :: "string \<Rightarrow> string \<Rightarrow> nat \<Rightarrow> string \<Rightarrow> string" where
  "replace_from old new n [] = []"
| "replace_from old new (Suc n) (c # s) = replace_from old new n s"
| "replace_from old new 0 (c # s) =
     (if startswith old (c # s) then new @ replace_from old new (length old - 1) s
      else c # replace_from old new 0 s)"

definition sync_url :: "app_settings \<Rightarrow> string exn" where
  "sync_url s =
     map_sum id (replace_from ''postgresql+asyncpg://'' ''postgresql+psycopg://'' 0) (resolve_database_url s)"

fun occurs_in :: "string \<Rightarrow> string \<Rightarrow> bool" where
  "occurs_in old [] = False"
| "occurs_in old (c # s) = (startswith old (c # s) \<or> occurs_in old s)"

lemma replace_absent: "\<not> occurs_in old s \<Longrightarrow> replace_from old new 0 s = s"
  by (induction s) auto

lemma replace_skip: "replace_from old new (length a) (a @ s) = replace_from old new 0 s"
  by (induction a) (cases s; simp)+

lemma startswith_self: "startswith p (p @ s)"
  by (induction p) auto

lemma replace_front: "old \<noteq> [] \<Longrightarrow> replace_from old new 0 (old @ s) = new @ replace_from old new 0 s"
  using startswith_self [of old s] by (cases old) (auto simp: replace_skip)

text \<open>
  The migrations run on the database the service uses: only the driver of an \<open>asyncpg\<close> URL is
  exchanged, and every other URL, the default one included, is used as it is.
\<close>

theorem migrations_use_the_same_database:
  assumes "resolve_database_url s = Inr url" and "\<not> occurs_in ''postgresql+asyncpg://'' rest"
  shows "(url = rest \<longrightarrow> sync_url s = Inr url) \<and>
    (url = ''postgresql+asyncpg://'' @ rest \<longrightarrow> sync_url s = Inr (''postgresql+psycopg://'' @ rest))"
  using replace_front [of "''postgresql+asyncpg://''" "''postgresql+psycopg://''" rest] assms
  by (simp add: sync_url_def replace_absent del: replace_from.simps append_Cons)

end
