(* ===== verification/Tls.thy ===== *)
theory Tls
  imports Base64 Secrets Api_Common Certificates
begin

text \<open>
  \<open>app/tls/certs.py\<close> and \<open>app/api/v1/settings_tls.py\<close>: the certificate and key of the web server.
  The \<open>cryptography\<close> library is the parameter \<open>crypto\<close>: what loading a certificate, a private key
  or a PKCS#12 bundle gives, and the generator of \<open>Certificates\<close>. PEM data is text. The two files on the volume are a
  state of their own; \<open>io\<close> says which file operations raise an \<open>OSError\<close>.
\<close>

section \<open>Certificates (tls/certs.py)\<close>

text \<open>A distinguished name: attribute types with values, which need not be text.\<close>

type_synonym x509_name = "(string \<times> string option) list"

record x509_cert =
  xc_subject :: x509_name
  xc_issuer :: x509_name
  xc_san_dns :: "string list option"
  xc_not_before :: instant
  xc_not_after :: instant
  xc_fingerprint :: "byte list"
  xc_public_key :: string

record pfx_bundle =
  px_cert :: "string option"
  px_key :: "string option"
  px_additional :: "string list"

record crypto_lib =
  cl_load_cert :: "string \<Rightarrow> x509_cert exn"
  cl_load_key :: "string \<Rightarrow> string exn"
  cl_load_pkcs12 :: "byte list \<Rightarrow> string option \<Rightarrow> pfx_bundle exn"
  cl_keys :: key_lib

record cert_info =
  ci_subject_cn :: "string option"
  ci_issuer_cn :: "string option"
  ci_san_dns :: "string list"
  ci_not_before :: instant
  ci_not_after :: instant
  ci_fingerprint_sha256 :: string
  ci_is_self_signed :: bool

definition COMMON_NAME :: string where "COMMON_NAME = ''2.5.4.3''"

definition first_cn :: "x509_name \<Rightarrow> string option" where
  "first_cn name =
     (case find (\<lambda>a. fst a = COMMON_NAME \<and> snd a \<noteq> None) name of None \<Rightarrow> None | Some a \<Rightarrow> snd a)"

definition san_dns_names :: "x509_cert \<Rightarrow> string list" where
  "san_dns_names c = (case xc_san_dns c of None \<Rightarrow> [] | Some names \<Rightarrow> names)"

definition upper_hex2 :: "byte \<Rightarrow> string" where
  "upper_hex2 b = [upper_hex (unat b div 16), upper_hex (unat b mod 16)]"

definition pretty_fingerprint :: "byte list \<Rightarrow> string" where
  "pretty_fingerprint fp = py_join '':'' (map upper_hex2 fp)"

text \<open>A \<open>CertError\<close> with its text on the left.\<close>

definition parse_cert :: "crypto_lib \<Rightarrow> string \<Rightarrow> cert_info exn" where
  "parse_cert crypto pem =
     (case cl_load_cert crypto pem of
        Inl e \<Rightarrow> Inl (''could not parse cert: '' @ e)
      | Inr c \<Rightarrow>
          Inr \<lparr>ci_subject_cn = first_cn (xc_subject c), ci_issuer_cn = first_cn (xc_issuer c),
            ci_san_dns = san_dns_names c, ci_not_before = xc_not_before c, ci_not_after = xc_not_after c,
            ci_fingerprint_sha256 = pretty_fingerprint (xc_fingerprint c),
            ci_is_self_signed = (xc_subject c = xc_issuer c)\<rparr>)"

definition parse_pkcs12 :: "crypto_lib \<Rightarrow> byte list \<Rightarrow> string option \<Rightarrow> (string \<times> string) exn" where
  "parse_pkcs12 crypto data password =
     (case cl_load_pkcs12 crypto data (if truthy password then password else None) of
        Inl e \<Rightarrow> Inl (''could not parse PFX (wrong password?): '' @ e)
      | Inr bundle \<Rightarrow>
          (case px_cert bundle of
             None \<Rightarrow> Inl ''PFX did not contain an end-entity certificate''
           | Some cert \<Rightarrow>
               (case px_key bundle of
                  None \<Rightarrow> Inl ''PFX did not contain a private key''
                | Some key \<Rightarrow> Inr (concat (cert # px_additional bundle), key))))"

definition validate_cert_key_pair :: "crypto_lib \<Rightarrow> string \<Rightarrow> string \<Rightarrow> unit exn" where
  "validate_cert_key_pair crypto cert_pem key_pem =
     (case cl_load_cert crypto cert_pem of
        Inl e \<Rightarrow> Inl (''could not parse cert: '' @ e)
      | Inr cert \<Rightarrow>
          (case cl_load_key crypto key_pem of
             Inl e \<Rightarrow> Inl (''could not parse private key: '' @ e)
           | Inr public_key \<Rightarrow>
               if xc_public_key cert \<noteq> public_key then Inl ''private key does not match certificate''
               else Inr ()))"

section \<open>Writing the pair\<close>

record tls_files =
  tf_cert :: "string option"
  tf_key :: "string option"

datatype file_op = Mkdir | Unlink_cert | Unlink_key | Write_cert | Write_key | Chmod_cert | Chmod_key

text \<open>How an operation ends: done, refused with \<open>PermissionError\<close>, or another \<open>OSError\<close>.\<close>

datatype io_result = Done | Refused string | Failed string

type_synonym io = "file_op \<Rightarrow> io_result"

text \<open>One operation: its effect when done; otherwise the error, unless refusals are suppressed.\<close>

definition run_op ::
    "io \<Rightarrow> file_op \<Rightarrow> bool \<Rightarrow> (tls_files \<Rightarrow> tls_files) \<Rightarrow> tls_files \<times> string option \<Rightarrow> tls_files \<times> string option" where
  "run_op io op suppress eff st =
     (case snd st of
        Some e \<Rightarrow> st
      | None \<Rightarrow>
          (case io op of
             Done \<Rightarrow> (eff (fst st), None)
           | Refused e \<Rightarrow> (fst st, if suppress then None else Some e)
           | Failed e \<Rightarrow> (fst st, Some e)))"

definition unlink_if :: "io \<Rightarrow> file_op \<Rightarrow> (tls_files \<Rightarrow> string option) \<Rightarrow> (tls_files \<Rightarrow> tls_files) \<Rightarrow>
    tls_files \<times> string option \<Rightarrow> tls_files \<times> string option" where
  "unlink_if io op get clear st = (if get (fst st) = None then st else run_op io op True clear st)"

definition write_cert_and_key :: "io \<Rightarrow> string \<Rightarrow> string \<Rightarrow> tls_files \<Rightarrow> tls_files \<times> string option" where
  "write_cert_and_key io cert_pem key_pem files =
     run_op io Chmod_key False id
       (run_op io Chmod_cert False id
       (run_op io Write_key False (\<lambda>f. f\<lparr>tf_key := Some key_pem\<rparr>)
       (run_op io Write_cert False (\<lambda>f. f\<lparr>tf_cert := Some cert_pem\<rparr>)
       (unlink_if io Unlink_key tf_key (\<lambda>f. f\<lparr>tf_key := None\<rparr>)
       (unlink_if io Unlink_cert tf_cert (\<lambda>f. f\<lparr>tf_cert := None\<rparr>)
       (run_op io Mkdir False id (files, None)))))))"

section \<open>Routes (api/v1/settings_tls.py)\<close>

record cert_info_read = cert_info +
  ci_source :: string

type_synonym tls_status = "cert_info_read option"

definition to_read :: "cert_info \<Rightarrow> string \<Rightarrow> cert_info_read" where
  "to_read info source = cert_info.extend info \<lparr>ci_source = source\<rparr>"

definition read_source :: "db \<Rightarrow> string" where
  "read_source d = (case read_setting d ''tls.source'' of None \<Rightarrow> ''bootstrap'' | Some s \<Rightarrow> s)"

type_synonym tls_state = "db \<times> tls_files"

definition get_tls_status :: "crypto_lib \<Rightarrow> tls_state \<Rightarrow> tls_status" where
  "get_tls_status crypto st =
     (case tf_cert (snd st) of
        None \<Rightarrow> None
      | Some pem \<Rightarrow>
          (case parse_cert crypto pem of
             Inl e \<Rightarrow> None | Inr info \<Rightarrow> Some (to_read info (read_source (fst st)))))"

definition cert_label :: "cert_info \<Rightarrow> string" where
  "cert_label info =
     or_default (ci_subject_cn info) ''?'' @ '' (sha256 '' @ take 23 (ci_fingerprint_sha256 info)"

text \<open>
  What the three changing routes share: write the pair, record its source, audit, commit. The
  ellipsis of the summary is a character beyond U+00FF and left out.
\<close>

definition install_pair ::
    "io \<Rightarrow> instant \<Rightarrow> audit_entry \<Rightarrow> string \<Rightarrow> string \<Rightarrow> string \<Rightarrow> cert_info exn \<Rightarrow> tls_state \<Rightarrow>
       tls_state \<times> (http_exc + tls_status)" where
  "install_pair io now entry source cert_pem key_pem info st =
     (case write_cert_and_key io cert_pem key_pem (snd st) of
        (files, Some e) \<Rightarrow>
          ((fst st, files), Inl (HTTPException 500 (''could not write to tls-state volume: '' @ e)))
      | (files, None) \<Rightarrow>
          (case info of
             Inl e \<Rightarrow> ((fst st, files), Inl (Unhandled e))
           | Inr i \<Rightarrow>
               (case audit_append now entry (write_setting ''tls.source'' (Some source) (fst st)) of
                  Inl e \<Rightarrow> ((fst st, files), Inl (Unhandled e))
                | Inr d \<Rightarrow> ((d, files), Inr (Some (to_read i source))))))"

definition tls_admin :: "session_context \<Rightarrow> tls_state \<Rightarrow> tls_state \<times> (http_exc + 'a) \<Rightarrow> tls_state \<times> (http_exc + 'a)" where
  "tls_admin ctx st r =
     (if sc_role ctx \<noteq> ''admin'' then (st, Inl (HTTPException 403 ''admin_required'')) else r)"

definition cert_upload_valid :: "string \<Rightarrow> string \<Rightarrow> bool" where
  "cert_upload_valid cert_pem key_pem \<longleftrightarrow> str_len 1 64000 cert_pem \<and> str_len 1 64000 key_pem"

definition pfx_upload_valid :: "string \<Rightarrow> string option \<Rightarrow> bool" where
  [simp]: "pfx_upload_valid pfx_base64 password \<longleftrightarrow> str_len 1 400000 pfx_base64 \<and> opt_len 0 512 password"

definition regenerate_valid :: "string \<Rightarrow> int \<Rightarrow> bool" where
  [simp]: "regenerate_valid common_name days \<longleftrightarrow> str_len 1 253 common_name \<and> 1 \<le> days \<and> days \<le> 3650"

definition upload_tls ::
    "crypto_lib \<Rightarrow> io \<Rightarrow> instant \<Rightarrow> session_context \<Rightarrow> string \<Rightarrow> string \<Rightarrow> tls_state \<Rightarrow>
       tls_state \<times> (http_exc + tls_status)" where
  "upload_tls crypto io now ctx cert_pem key_pem st =
     (if \<not> cert_upload_valid cert_pem key_pem then (st, Inl (HTTPException 422 ''validation_error''))
      else tls_admin ctx st
        (case validate_cert_key_pair crypto cert_pem key_pem of
           Inl e \<Rightarrow> (st, Inl (HTTPException 400 e))
         | Inr _ \<Rightarrow>
             (case parse_cert crypto cert_pem of
                Inl e \<Rightarrow> (st, Inl (HTTPException 400 e))
              | Inr info \<Rightarrow>
                  install_pair io now (ctx_entry ctx TLS_CERT_UPLOADED ''tls_cert'' (Some (cert_label info)))
                    ''uploaded'' cert_pem key_pem (Inr info) st)))"

definition upload_tls_pfx ::
    "crypto_lib \<Rightarrow> io \<Rightarrow> instant \<Rightarrow> session_context \<Rightarrow> string \<Rightarrow> string option \<Rightarrow> tls_state \<Rightarrow>
       tls_state \<times> (http_exc + tls_status)" where
  "upload_tls_pfx crypto io now ctx pfx_base64 password st =
     (if \<not> pfx_upload_valid pfx_base64 password
      then (st, Inl (HTTPException 422 ''validation_error''))
      else tls_admin ctx st
        (case (if list_all (\<lambda>c. ord_c c < 128) pfx_base64 then b64decode_validate pfx_base64 else None) of
           None \<Rightarrow> (st, Inl (HTTPException 400 ''invalid_base64''))
         | Some pfx_bytes \<Rightarrow>
             (case parse_pkcs12 crypto pfx_bytes password of
                Inl e \<Rightarrow> (st, Inl (HTTPException 400 e))
              | Inr (cert_pem, key_pem) \<Rightarrow>
                  (case parse_cert crypto cert_pem of
                     Inl e \<Rightarrow> (st, Inl (HTTPException 400 e))
                   | Inr info \<Rightarrow>
                       install_pair io now
                         (ctx_entry ctx TLS_PFX_UPLOADED ''tls_cert'' (Some (''PFX: '' @ cert_label info)))
                         ''uploaded'' cert_pem key_pem (Inr info) st))))"

definition regenerate_self_signed ::
    "crypto_lib \<Rightarrow> io \<Rightarrow> instant \<Rightarrow> session_context \<Rightarrow> string \<Rightarrow> int \<Rightarrow> tls_state \<Rightarrow>
       tls_state \<times> (http_exc + tls_status)" where
  "regenerate_self_signed crypto io now ctx common_name days st =
     (if \<not> regenerate_valid common_name days
      then (st, Inl (HTTPException 422 ''validation_error''))
      else tls_admin ctx st
        (case generate_self_signed (cl_keys crypto) now common_name days of
           Inl e \<Rightarrow> (st, Inl (Unhandled e))
         | Inr (cert_pem, key_pem) \<Rightarrow>
             install_pair io now
               (ctx_entry ctx TLS_CERT_REGENERATED ''tls_cert''
                  (Some (''CN='' @ common_name @ '', '' @ int_to_str days @ ''d'')))
               ''self_signed_via_ui'' cert_pem key_pem (parse_cert crypto cert_pem) st))"

section \<open>Facts\<close>

text \<open>The steps of the writer once its earlier ones went through.\<close>

lemma run_op_stops [simp]: "run_op io op b eff (f, Some e) = (f, Some e)"
  by (simp add: run_op_def)

lemma run_op_None:
  "run_op io op b eff st = (f, None) \<longleftrightarrow>
     snd st = None \<and> (io op = Done \<and> f = eff (fst st) \<or> b \<and> (\<exists>e. io op = Refused e) \<and> f = fst st)"
  by (cases st) (auto simp: run_op_def split: option.splits io_result.splits)

lemma run_op_went_through:
  "run_op io op False eff st = (f, None) \<Longrightarrow> \<exists>g. st = (g, None) \<and> f = eff g"
  by (cases st) (simp add: run_op_None)

lemma write_success:
  assumes "write_cert_and_key io cert_pem key_pem files = (f, None)"
  shows "f = \<lparr>tf_cert = Some cert_pem, tf_key = Some key_pem\<rparr>"
  using assms unfolding write_cert_and_key_def
  by (elim exE conjE run_op_went_through [elim_format]) simp

lemma to_read_fields:
  "to_read info s = to_read info' s' \<longleftrightarrow> info = info' \<and> s = s'"
  by (auto simp: to_read_def cert_info.defs intro: cert_info.equality)

lemma install_pair_success:
  assumes "install_pair io now (ctx_entry ctx a ty s) source cert_pem key_pem info st = ((d', f'), Inr r)"
  shows "\<exists>i. info = Inr i \<and> r = Some (to_read i source) \<and> f' = \<lparr>tf_cert = Some cert_pem, tf_key = Some key_pem\<rparr> \<and>
    d' = with_audit now (ctx_entry ctx a ty s) (write_setting ''tls.source'' (Some source) (fst st))"
  using assms write_success
  by (auto simp: install_pair_def ctx_entry_def split: prod.splits option.splits sum.splits)

lemma install_pair_failure:
  "install_pair io now entry source cert_pem key_pem info st = ((d', f'), Inl e) \<Longrightarrow> d' = fst st"
  by (auto simp: install_pair_def split: prod.splits option.splits sum.splits)

section \<open>Properties\<close>

text \<open>
  A successful upload leaves on the volume exactly the certificate and key of the request, whose
  public keys agree; the answer is what the status page shows from then on; the database records the
  source and one audit row.
\<close>

theorem uploaded_pair_is_served:
  assumes "upload_tls crypto io now ctx cert_pem key_pem (d, files) = ((d', files'), Inr r)"
  shows "files' = \<lparr>tf_cert = Some cert_pem, tf_key = Some key_pem\<rparr> \<and>
    map_sum id xc_public_key (cl_load_cert crypto cert_pem) = cl_load_key crypto key_pem \<and>
    r \<noteq> None \<and> get_tls_status crypto (d', files') = r \<and> read_source d' = ''uploaded'' \<and>
    sc_role ctx = ''admin'' \<and> audited now ctx [TLS_CERT_UPLOADED] d d'"
proof -
  from assms obtain info where admin: "sc_role ctx = ''admin''"
    and pair: "validate_cert_key_pair crypto cert_pem key_pem = Inr ()"
    and info: "parse_cert crypto cert_pem = Inr info"
    and inst: "install_pair io now (ctx_entry ctx TLS_CERT_UPLOADED ''tls_cert'' (Some (cert_label info)))
       ''uploaded'' cert_pem key_pem (Inr info) (d, files) = ((d', files'), Inr r)"
    by (auto simp: upload_tls_def tls_admin_def split: if_splits sum.splits)
  from install_pair_success [OF inst]
  have f: "files' = \<lparr>tf_cert = Some cert_pem, tf_key = Some key_pem\<rparr>" and r: "r = Some (to_read info ''uploaded'')"
    and d': "d' = with_audit now (ctx_entry ctx TLS_CERT_UPLOADED ''tls_cert'' (Some (cert_label info)))
      (write_setting ''tls.source'' (Some ''uploaded'') d)" by auto
  have src: "read_source d' = ''uploaded''" by (simp add: d' read_source_def settings.rd_wr)
  have "get_tls_status crypto (d', files') = r" by (simp add: get_tls_status_def f info r src)
  moreover have "audited now ctx [TLS_CERT_UPLOADED] d d'" unfolding d' by (intro audited_with_entry) simp_all
  moreover have "map_sum id xc_public_key (cl_load_cert crypto cert_pem) = cl_load_key crypto key_pem"
    using pair by (auto simp: validate_cert_key_pair_def split: sum.splits if_splits)
  ultimately show ?thesis using f r src admin by simp
qed

definition ex_cert :: x509_cert where
  "ex_cert = \<lparr>xc_subject = [(COMMON_NAME, Some ''web'')], xc_issuer = [(COMMON_NAME, Some ''web'')], xc_san_dns = None,
     xc_not_before = 0, xc_not_after = 1, xc_fingerprint = [171], xc_public_key = ''PUB''\<rparr>"

definition ex_crypto :: crypto_lib where
  "ex_crypto = \<lparr>cl_load_cert = (\<lambda>pem. if pem = ''CERT'' then Inr ex_cert else Inl ''bad''),
     cl_load_key = (\<lambda>pem. if pem = ''KEY'' then Inr ''PUB'' else Inl ''bad''),
     cl_load_pkcs12 = (\<lambda>_ _. Inl ''bad''), cl_keys = \<lparr>kl_new_key = ''KEY'', kl_public_key = (\<lambda>_. ''PUB''), kl_sign = (\<lambda>_ _. Inr ''CERT'')\<rparr>\<rparr>"

theorem uploaded_pair_is_served_witness:
  "\<exists>d' files' r. upload_tls ex_crypto (\<lambda>_. Done) 0 ex_admin_ctx ''CERT'' ''KEY''
      (empty_db, \<lparr>tf_cert = Some ''OLD'', tf_key = Some ''OLDKEY''\<rparr>) = ((d', files'), Inr r) \<and>
     tf_key files' = Some ''KEY'' \<and> read_source d' = ''uploaded''"
proof -
  have "\<exists>d' files' r. upload_tls ex_crypto (\<lambda>_. Done) 0 ex_admin_ctx ''CERT'' ''KEY''
      (empty_db, \<lparr>tf_cert = Some ''OLD'', tf_key = Some ''OLDKEY''\<rparr>) = ((d', files'), Inr r)"
    by (simp add: upload_tls_def cert_upload_valid_def str_len_def tls_admin_def ex_admin_ctx_def
        validate_cert_key_pair_def parse_cert_def ex_crypto_def ex_cert_def install_pair_def
        write_cert_and_key_def run_op_def unlink_if_def ctx_entry_def)
  then obtain d' files' r where "upload_tls ex_crypto (\<lambda>_. Done) 0 ex_admin_ctx ''CERT'' ''KEY''
      (empty_db, \<lparr>tf_cert = Some ''OLD'', tf_key = Some ''OLDKEY''\<rparr>) = ((d', files'), Inr r)" by blast
  from uploaded_pair_is_served [OF this] this show ?thesis by (intro exI [of _ d'] exI [of _ files'] exI [of _ r]) simp
qed

text \<open>
  What the generator relies on of the library: a signed certificate loads with the names, the
  alternative names and the key it was built with, its validity cut to whole seconds.
\<close>

definition signs_what_it_is_given :: "crypto_lib \<Rightarrow> bool" where
  "signs_what_it_is_given crypto \<longleftrightarrow>
     (\<forall>spec key pem. kl_sign (cl_keys crypto) spec key = Inr pem \<longrightarrow>
        (\<exists>c. cl_load_cert crypto pem = Inr c \<and> xc_subject c = [(COMMON_NAME, Some (cs_subject_cn spec))] \<and>
           xc_issuer c = [(COMMON_NAME, Some (cs_issuer_cn spec))] \<and> xc_san_dns c = cs_san_dns spec \<and>
           xc_public_key c = cs_public_key spec \<and> xc_not_before c \<le> cs_not_before spec \<and>
           cs_not_after spec < xc_not_after c + 1000000))"

text \<open>
  A certificate generated from the UI is valid at once and for at least the days asked for less a
  second, names the host as its subject, its issuer and its only alternative name, and is what the
  volume serves and the status page shows.
\<close>

theorem regenerated_certificate_is_current:
  assumes "signs_what_it_is_given crypto"
    and "regenerate_self_signed crypto io now ctx common_name days (d, files) = ((d', files'), Inr r)"
  shows "\<exists>i. r = Some (to_read i ''self_signed_via_ui'') \<and> get_tls_status crypto (d', files') = r \<and>
    ci_is_self_signed i \<and> ci_subject_cn i = Some common_name \<and> ci_san_dns i = [common_name] \<and>
    ci_not_before i < now \<and> now + days_span days - 1000000 < ci_not_after i \<and> now < ci_not_after i \<and>
    tf_key files' = Some (kl_new_key (cl_keys crypto))"
proof -
  from assms(2) obtain cert where days: "1 \<le> days"
    and sign: "kl_sign (cl_keys crypto) (self_signed_spec (cl_keys crypto) now common_name days (Some [common_name]))
      (kl_new_key (cl_keys crypto)) = Inr cert"
    and inst: "install_pair io now (ctx_entry ctx TLS_CERT_REGENERATED ''tls_cert''
        (Some (''CN='' @ common_name @ '', '' @ int_to_str days @ ''d''))) ''self_signed_via_ui'' cert
        (kl_new_key (cl_keys crypto)) (parse_cert crypto cert) (d, files) = ((d', files'), Inr r)"
    by (auto simp: regenerate_self_signed_def generate_self_signed_Inr tls_admin_def split: if_splits sum.splits)
  from assms(1) sign obtain c where c: "cl_load_cert crypto cert = Inr c" "xc_subject c = [(COMMON_NAME, Some common_name)]"
    "xc_issuer c = [(COMMON_NAME, Some common_name)]" "xc_san_dns c = Some [common_name]"
    "xc_not_before c \<le> now - minutes 5" "now + days_span days < xc_not_after c + 1000000"
    unfolding signs_what_it_is_given_def by (fastforce simp: self_signed_spec_def)
  from install_pair_success [OF inst] obtain i where i: "parse_cert crypto cert = Inr i"
    "r = Some (to_read i ''self_signed_via_ui'')" "files' = \<lparr>tf_cert = Some cert, tf_key = Some (kl_new_key (cl_keys crypto))\<rparr>"
    and d': "read_source d' = ''self_signed_via_ui''"
    by (auto simp: read_source_def settings.rd_wr)
  from i(1) c have "ci_is_self_signed i" "ci_subject_cn i = Some common_name" "ci_san_dns i = [common_name]"
    "ci_not_before i = xc_not_before c" "ci_not_after i = xc_not_after c"
    by (auto simp: parse_cert_def first_cn_def san_dns_names_def)
  moreover have "get_tls_status crypto (d', files') = r" by (simp add: get_tls_status_def i d')
  ultimately show ?thesis using c(5,6) i(2,3) days by (intro exI [of _ i]) (simp add: minutes_def days_span_def)
qed

definition ex_spec_cert :: "cert_spec \<Rightarrow> x509_cert" where
  "ex_spec_cert s = \<lparr>xc_subject = [(COMMON_NAME, Some (cs_subject_cn s))], xc_issuer = [(COMMON_NAME, Some (cs_issuer_cn s))],
     xc_san_dns = cs_san_dns s, xc_not_before = cs_not_before s, xc_not_after = cs_not_after s, xc_fingerprint = [1],
     xc_public_key = cs_public_key s\<rparr>"

definition ex_web_spec :: cert_spec where
  "ex_web_spec = \<lparr>cs_subject_cn = ''web'', cs_issuer_cn = ''web'', cs_public_key = ''PUB'', cs_not_before = - 300000000,
     cs_not_after = 86400000000, cs_san_dns = Some [''web'']\<rparr>"

text \<open>A library that signs one certificate only.\<close>

definition ex_signer :: crypto_lib where
  "ex_signer = ex_crypto\<lparr>cl_load_cert := \<lambda>pem. if pem = ''CERT'' then Inr (ex_spec_cert ex_web_spec) else Inl ''bad'',
     cl_keys := \<lparr>kl_new_key = ''KEY'', kl_public_key = (\<lambda>_. ''PUB''),
       kl_sign = (\<lambda>spec key. if spec = ex_web_spec then Inr ''CERT'' else Inl ''bad'')\<rparr>\<rparr>"

theorem regenerated_certificate_is_current_witness:
  "\<exists>d' files' i. regenerate_self_signed ex_signer (\<lambda>_. Done) 0 ex_admin_ctx ''web'' 1
      (empty_db, \<lparr>tf_cert = None, tf_key = None\<rparr>) = ((d', files'), Inr (Some (to_read i ''self_signed_via_ui''))) \<and>
     ci_subject_cn i = Some ''web'' \<and> 0 < ci_not_after i"
proof -
  have ok: "signs_what_it_is_given ex_signer"
    by (simp add: signs_what_it_is_given_def ex_signer_def ex_spec_cert_def)
  have "\<exists>d' files' r. regenerate_self_signed ex_signer (\<lambda>_. Done) 0 ex_admin_ctx ''web'' 1
      (empty_db, \<lparr>tf_cert = None, tf_key = None\<rparr>) = ((d', files'), Inr r)"
    by (simp add: regenerate_self_signed_def str_len_def tls_admin_def ex_admin_ctx_def generate_self_signed_def
        self_signed_spec_def ex_signer_def ex_web_spec_def minutes_def days_span_def parse_cert_def install_pair_def
        write_cert_and_key_def run_op_def unlink_if_def ctx_entry_def)
  then obtain d' files' r where run: "regenerate_self_signed ex_signer (\<lambda>_. Done) 0 ex_admin_ctx ''web'' 1
      (empty_db, \<lparr>tf_cert = None, tf_key = None\<rparr>) = ((d', files'), Inr r)" by blast
  from regenerated_certificate_is_current [OF ok run] run show ?thesis by (metis (no_types, lifting))
qed

text \<open>
  The pair is not replaced as one: when the key cannot be written the new certificate is already on
  the volume and the old key is gone, while the database keeps describing the old pair.
\<close>

lemma failed_key_write_leaves_no_pair:
  assumes "\<And>op. op \<noteq> Write_key \<Longrightarrow> io op = Done" and "io Write_key = Failed e"
  shows "install_pair io now entry source cert_pem key_pem info (d, \<lparr>tf_cert = Some c, tf_key = Some k\<rparr>) =
    ((d, \<lparr>tf_cert = Some cert_pem, tf_key = None\<rparr>), Inl (HTTPException 500 (''could not write to tls-state volume: '' @ e)))"
  by (simp add: install_pair_def write_cert_and_key_def unlink_if_def) (simp add: run_op_def assms)

end
