(* ===== verification/Bootstrap.thy ===== *)
theory Bootstrap
  imports Auth_Local General_Settings Url
begin

text \<open>
  \<open>app/cli.py\<close>: the command that creates or resets the break-glass administrator, and
  \<open>app/api/v1/device_templates.py\<close>. The parser of the command line is the parsed record; argon2 is
  the parameter \<open>hash\<close>; what is typed at the two prompts is a pair of texts. Printed text is left out.
\<close>

section \<open>The command (cli.py)\<close>

record cli_args =
  ca_username :: string
  ca_password :: "string option"
  ca_reset_password :: bool

definition cli_entry :: "audit_action \<Rightarrow> string \<Rightarrow> string \<Rightarrow> audit_entry" where
  "cli_entry action username summary =
     (audit_args username ''admin'' ''local'' action)
       \<lparr>ae_target_type := Some ''local_admin'', ae_target_id := Some 1, ae_summary := Some summary,
        ae_user_agent := Some ''cli'', ae_actor_id := Some 1\<rparr>"

definition the_admin :: "db \<Rightarrow> local_admin_row option" where
  "the_admin d = find (\<lambda>a. la_id a = 1) (local_admins d)"

text \<open>
  Inserting the row with id 1; the username is unique. The two commits of the command are two
  transactions, the row and its audit entry. The result is the exit code, or the exception.
\<close>

definition bootstrap_admin ::
    "(string \<Rightarrow> string) \<Rightarrow> instant \<Rightarrow> string \<Rightarrow> string \<Rightarrow> bool \<Rightarrow> db \<Rightarrow> db \<times> int exn" where
  "bootstrap_admin hash now username password reset_password d =
     (case the_admin d of
        None \<Rightarrow>
          (case hash_password hash password of
             Inl e \<Rightarrow> (d, Inl e)
           | Inr h \<Rightarrow>
               if username \<in> set (map la_username (local_admins d)) then (d, Inl ''IntegrityError'')
               else
                 (let d1 = d\<lparr>local_admins := local_admins d @
                        [\<lparr>la_id = 1, la_username = username, password_argon2_hash = h,
                          allowed_source_cidr = None, la_created_at = now, last_login_at = None\<rparr>]\<rparr> in
                  case audit_append now (cli_entry LOCAL_ADMIN_BOOTSTRAPPED username ''initial setup'') d1 of
                    Inl e \<Rightarrow> (d1, Inl e) | Inr d2 \<Rightarrow> (d2, Inr 0)))
      | Some existing \<Rightarrow>
          if \<not> reset_password then (d, Inr 1)
          else
            (case hash_password hash password of
               Inl e \<Rightarrow> (d, Inl e)
             | Inr h \<Rightarrow>
                 if username \<in> set (map la_username (filter (\<lambda>a. la_id a \<noteq> 1) (local_admins d)))
                 then (d, Inl ''IntegrityError'')
                 else
                   (let d1 = d\<lparr>local_admins := map (\<lambda>a. if la_id a = 1
                          then a\<lparr>la_username := username, password_argon2_hash := h\<rparr> else a) (local_admins d)\<rparr> in
                    case audit_append now (cli_entry LOCAL_ADMIN_PASSWORD_RESET username ''password reset via CLI'') d1 of
                      Inl e \<Rightarrow> (d1, Inl e) | Inr d2 \<Rightarrow> (d2, Inr 0))))"

definition read_password :: "string option \<Rightarrow> string \<times> string \<Rightarrow> string exn" where
  "read_password arg_value typed =
     (if truthy arg_value then Inr (the arg_value)
      else if fst typed \<noteq> snd typed then Inl ''SystemExit: passwords do not match''
      else Inr (fst typed))"

definition cli_main :: "(string \<Rightarrow> string) \<Rightarrow> instant \<Rightarrow> string \<times> string \<Rightarrow> cli_args \<Rightarrow> db \<Rightarrow> db \<times> int exn" where
  "cli_main hash now typed args d =
     (case read_password (ca_password args) typed of
        Inl e \<Rightarrow> (d, Inl e)
      | Inr password \<Rightarrow> bootstrap_admin hash now (ca_username args) password (ca_reset_password args) d)"

section \<open>Device templates (api/v1/device_templates.py)\<close>

definition TACACS_PORT :: int where "TACACS_PORT = 49"

record device_template_hints =
  dt_server_host :: "string option"
  dt_tacacs_port :: int

definition get_hints :: "db \<Rightarrow> device_template_hints exn" where
  "get_hints d =
     (let v = read_setting d WEB_BASE_URL_KEY in
      if \<not> truthy v then Inr \<lparr>dt_server_host = None, dt_tacacs_port = TACACS_PORT\<rparr>
      else
        (case urlparse (the v) of
           Inl e \<Rightarrow> Inl e
         | Inr parsed \<Rightarrow> Inr \<lparr>dt_server_host = url_hostname parsed, dt_tacacs_port = TACACS_PORT\<rparr>))"

section \<open>Facts\<close>

text \<open>The table only ever holds the break-glass account.\<close>

definition admins_ok :: "db \<Rightarrow> bool" where
  "admins_ok d \<longleftrightarrow> length (local_admins d) \<le> 1 \<and> list_all (\<lambda>a. la_id a = 1) (local_admins d)"

lemma admins_ok_cases:
  assumes "admins_ok d"
  obtains "local_admins d = []" | a where "local_admins d = [a]" "la_id a = 1"
  using assms by (cases "local_admins d") (auto simp: admins_ok_def)

lemma cli_entry_action [simp]: "ae_action (cli_entry a u s) = action_code a"
  by (simp add: cli_entry_def)

lemma hash_password_Inr: "hash_password hash p = Inr h \<longleftrightarrow> p \<noteq> [] \<and> h = hash p"
  by (auto simp: hash_password_def)

section \<open>Properties\<close>



end
