(* ===== verification/Contracts.thy ===== *)
theory Contracts
  imports General_Settings Settings_Ldap_Sync Settings_Syslog Settings_Saml Setup_Wizard Tls
begin

text \<open>
  What the operations promise each other: \<open>config_frame\<close> - the configuration tables are as they
  were and no user or group row is gone, which is all \<open>config_ok\<close> asks of an operation that does
  not configure; \<open>untouched\<close> - neither is the audit log; \<open>traced\<close> - the database is unchanged or
  changed with one audit row of the session. Every settings route keeps the first and the last.
\<close>

definition config_frame :: "db \<Rightarrow> db \<Rightarrow> bool" where
  "config_frame d d' \<longleftrightarrow>
     device_groups d' = device_groups d \<and> privilege_profiles d' = privilege_profiles d \<and>
     devices d' = devices d \<and> authorizations d' = authorizations d \<and>
     set (map u_id (users d)) \<subseteq> set (map u_id (users d')) \<and>
     set (map g_id (ad_groups d)) \<subseteq> set (map g_id (ad_groups d')) \<and>
     seqs d' T_device_group = seqs d T_device_group \<and>
     seqs d' T_privilege_profile = seqs d T_privilege_profile \<and>
     seqs d' T_device = seqs d T_device \<and> seqs d' T_authorization = seqs d T_authorization"

lemma config_frame_refl [simp]: "config_frame d d"
  by (simp add: config_frame_def)

lemma config_frame_trans: "config_frame d d1 \<Longrightarrow> config_frame d1 d2 \<Longrightarrow> config_frame d d2"
  unfolding config_frame_def by (elim conjE) (intro conjI; (rule order_trans | simp); assumption?)

lemma config_frame_ok:
  assumes "config_frame d d'" and "config_ok d"
  shows "config_ok d'"
proof -
  have "list_all (authz_refs_ok d') (authorizations d')"
    using assms unfolding config_ok_def authorizations_ok_def config_frame_def list_all_iff
    by (metis (no_types, lifting) authz_refs_mono subset_refl)
  with assms show ?thesis
    by (simp add: config_frame_def config_ok_def authorizations_ok_def)
qed

text \<open>What leaves the configuration alone: settings, secrets, audit rows, sessions, accounting.\<close>

lemma config_frame_writes [simp]:
  "config_frame d (write_setting k v d1) = config_frame d d1"
  "config_frame d (write_secret k v d1) = config_frame d d1"
  "config_frame d (with_audit now e d1) = config_frame d d1"
  "config_frame d (d1\<lparr>web_sessions := ws\<rparr>) = config_frame d d1"
  "config_frame d (d1\<lparr>local_admins := la\<rparr>) = config_frame d d1"
  "config_frame d (d1\<lparr>user_ad_group := es\<rparr>) = config_frame d d1"
  "config_frame d (bump_seq T_accounting_record (d1\<lparr>accounting_records := rs\<rparr>)) = config_frame d d1"
  "config_frame d (put_secret k s d1) = config_frame d d1"
  by (simp_all add: config_frame_def put_secret_def split: option.split)

lemma config_frame_saved [simp]:
  "config_frame d (write_sync_config p d)" "config_frame d (write_syslog_config q d)"
  "config_frame d (write_mapping m d)"
  by (simp_all add: write_sync_config_def Let_def write_syslog_config_def write_syslog_settings_def write_mapping_def)

section \<open>The directory sync\<close>

definition untouched :: "db \<Rightarrow> db \<Rightarrow> bool" where
  "untouched d d' \<longleftrightarrow> config_frame d d' \<and> audit_log d' = audit_log d \<and> seqs d' T_audit_log = seqs d T_audit_log"

lemma untouched_refl [simp]: "untouched d d"
  by (simp add: untouched_def)

lemma untouched_trans: "untouched d d1 \<Longrightarrow> untouched d1 d2 \<Longrightarrow> untouched d d2"
  by (auto simp: untouched_def intro: config_frame_trans)

lemma updated_row_ids:
  "map u_id (map (\<lambda>v. if c v then updated_user_row now rec v else v) us) = map u_id us"
  "map g_id (map (\<lambda>g. if e g then updated_group_row now gr g else g) gs) = map g_id gs"
  "map u_id (map (\<lambda>u. if c u then u\<lparr>u_enabled := False\<rparr> else u) us) = map u_id us"
  by (simp_all add: updated_user_row_def updated_group_row_def)

lemma upsert_user_frame: "upsert_user sql_lower now rec d = Inr (d', uid, b) \<Longrightarrow> untouched d d'"
  by (auto simp: upsert_user_def Let_def untouched_def config_frame_def updated_row_ids simp del: set_map map_map
      split: sum.splits option.splits)

lemma resolve_group_frame: "resolve_group now gr st = Inr (st', i) \<Longrightarrow> untouched (fst st) (fst st')"
  by (cases st) (auto simp: resolve_group_def Let_def untouched_def config_frame_def updated_row_ids simp del: set_map map_map
      split: sum.splits option.splits)

lemma add_groups_frame: "add_groups now uid grs st = Inr st' \<Longrightarrow> untouched (fst st) (fst st')"
proof (induction grs arbitrary: st)
  case (Cons gr grs)
  then obtain d1 c1 i d2 where s: "resolve_group now gr st = Inr ((d1, c1), i)"
    "add_edge uid i d1 = Inr d2" "add_groups now uid grs (d2, c1) = Inr st'"
    by (auto split: sum.splits)
  from s(2) have "untouched d1 d2" by (auto simp: add_edge_def untouched_def split: if_splits)
  with Cons.IH [OF s(3)] resolve_group_frame [OF s(1)] show ?case
    by (auto intro: untouched_trans)
qed simp

lemma sync_one_frame: "sync_one sql_lower now rec s = Inr s' \<Longrightarrow> untouched (ss_db s) (ss_db s')"
proof -
  assume "sync_one sql_lower now rec s = Inr s'"
  then obtain d1 uid b st2 where "upsert_user sql_lower now rec (ss_db s) = Inr (d1, uid, b)"
    and gr: "add_groups now uid (ur_groups rec) (drop_edges uid d1, ss_cache s) = Inr st2" and "ss_db s' = fst st2"
    by (auto simp: sync_one_def replace_user_groups_def Let_def split: sum.splits if_splits prod.splits)
  moreover have "untouched d1 (drop_edges uid d1)" by (simp add: drop_edges_def untouched_def)
  ultimately show ?thesis using add_groups_frame [OF gr]
    by (auto intro: untouched_trans dest!: upsert_user_frame)
qed

lemma sync_loop_frame: "sync_loop sql_lower now recs s = Inr s' \<Longrightarrow> untouched (ss_db s) (ss_db s')"
proof (induction recs arbitrary: s)
  case (Cons rec recs)
  then show ?case by (auto split: sum.splits intro: untouched_trans sync_one_frame)
qed simp

lemma run_full_sync_frame: "run_full_sync sql_lower connect now d = Inr (d1, r) \<Longrightarrow> untouched d d1"
proof (erule run_full_syncE)
  fix records d0 r0
  assume "run_sync sql_lower now records d = Inr (d0, r0)" and d1: "d1 = persist_summary r d0"
  then obtain s where s: "sync_loop sql_lower now records
      \<lparr>ss_db = d, ss_cache = [], ss_seen = [], ss_result = new_sync_result now\<rparr> = Inr s"
    and d0: "d0 = disable_stale (ss_seen s) (ss_db s)"
    by (auto simp: run_sync_def split: sum.splits)
  have "untouched (ss_db s) d1"
    by (simp add: d1 d0 persist_summary_def untouched_def disable_stale_def config_frame_def updated_row_ids
        del: set_map map_map)
  with sync_loop_frame [OF s] show "untouched d d1" by (auto intro: untouched_trans)
qed

section \<open>A change and its audit row\<close>

definition traced :: "instant \<Rightarrow> session_context \<Rightarrow> audit_action list \<Rightarrow> db \<Rightarrow> db \<Rightarrow> bool" where
  "traced now ctx acts d d' \<longleftrightarrow> d' = d \<or> audited now ctx acts d d'"

lemma traced_outcome: "audited_or_unchanged now ctx acts d r \<Longrightarrow> traced now ctx acts d (fst r)"
  by (cases r; cases "snd r") (auto simp: traced_def audited_or_unchanged_def)

text \<open>A change of the settings: traced, and the configuration tables as they were.\<close>

definition settings_change :: "instant \<Rightarrow> session_context \<Rightarrow> audit_action list \<Rightarrow> db \<Rightarrow> db \<Rightarrow> bool" where
  "settings_change now ctx acts d d' \<longleftrightarrow> traced now ctx acts d d' \<and> config_frame d d'"

lemma settings_change_refl [simp]: "settings_change now ctx acts d d"
  by (simp add: settings_change_def traced_def)

lemma settings_change_entry:
  "untouched d d1 \<Longrightarrow> a \<in> set acts \<Longrightarrow> settings_change now ctx acts d (with_audit now (ctx_entry ctx a ty s) d1)"
  by (simp add: settings_change_def traced_def untouched_def audited_with_entry)

lemma settings_change_validated:
  "settings_change now ctx acts d (fst r) \<Longrightarrow> settings_change now ctx acts d (fst (validated ok d r))"
  by (simp add: validated_def)

lemma settings_change_admin:
  "settings_change now ctx acts d (fst r) \<Longrightarrow> settings_change now ctx acts d (fst (admin_only c d r))"
  by (simp add: admin_only_def)

lemma settings_change_or_500:
  "(\<And>x. r = Inr x \<Longrightarrow> settings_change now ctx acts d (fst (k x))) \<Longrightarrow>
   settings_change now ctx acts d (fst (or_500 d r k))"
  by (cases r) simp_all

lemma settings_change_commit:
  "untouched d d1 \<Longrightarrow> a \<in> set acts \<Longrightarrow> (\<And>x. fst (k x) = x) \<Longrightarrow>
   settings_change now ctx acts d (fst (audit_commit now (ctx_entry ctx a ty s) d0 d1 k))"
  by (simp add: settings_change_entry)

lemmas settings_rules = settings_change_validated settings_change_admin settings_change_or_500
  settings_change_commit settings_change_refl

lemma untouched_writes [simp]:
  "untouched d (write_setting k v d1) = untouched d d1" "untouched d (write_secret k v d1) = untouched d d1"
  "untouched d (write_sync_config p d)" "untouched d (write_syslog_config q d)" "untouched d (write_mapping m d)"
  by (simp_all add: untouched_def write_sync_config_frame)

lemma status_routes_read [simp]:
  "fst (or_500 d r (\<lambda>x. (d, Inr (f x)))) = d" "fst (get_syslog_status d) = d"
  "fst (saml_status_route u d) = d"
  by (cases r; simp) (simp_all add: get_syslog_status_def saml_status_route_def or_500_def split: sum.split)

lemma sync_config_change:
  "settings_change now ctx [LDAP_SYNC_CONFIG_UPDATED] d (fst (update_config_tx now ctx p d))"
  unfolding update_config_tx_def by (rule settings_rules)+ simp_all

lemma update_config_db [simp]: "fst (fst (update_config dec now ctx p st)) = fst (update_config_tx now ctx p (fst st))"
  by (simp add: update_config_def split: prod.splits sum.splits bool.splits)

lemma sync_test_change:
  "settings_change now ctx [LDAP_SYNC_TEST_SUCCEEDED, LDAP_SYNC_TEST_FAILED] d (fst (test_endpoint dec con now ctx p d))"
  unfolding test_endpoint_def Let_def
  by (rule settings_change_validated settings_change_admin settings_change_or_500)+
     (auto split: sum.split sync_exc.split intro: settings_change_entry)

lemma sync_run_change:
  "settings_change now ctx [LDAP_SYNC_RUN_SUCCEEDED, LDAP_SYNC_RUN_FAILED] d (fst (run_now sl dec con now ctx d))"
proof -
  have "untouched d d1" if "run_sync_in_thread sl con now d = Inr (d1, r)" for d1 r
    using that by (auto simp: run_sync_in_thread_def split: sum.splits option.splits intro: run_full_sync_frame)
  then show ?thesis unfolding run_now_def
    by (intro settings_change_admin) (auto split: sum.split sync_exc.split intro: settings_change_entry)
qed

lemma syslog_change:
  "settings_change now ctx [SYSLOG_CONFIG_UPDATED] d (fst (update_syslog_config now ctx p d))"
  "settings_change now ctx [SYSLOG_TEST_SUCCEEDED, SYSLOG_TEST_FAILED] d (fst (test_syslog net now ctx d))"
  unfolding update_syslog_config_def test_syslog_def Let_def
   apply ((rule settings_rules)+; simp)
  by (rule settings_change_admin) (auto split: option.split intro: settings_change_entry)

lemma url_change: "settings_change now ctx [a] d (fst (put_url now ctx a k url d))"
  unfolding put_url_def by ((rule settings_rules)+; simp)

lemma mapping_change: "settings_change now ctx [SAML_MAPPING_UPDATED] d (fst (update_mapping u now ctx pm d))"
  unfolding update_mapping_def by ((rule settings_rules)+; simp)

lemma metadata_change:
  "settings_change now ctx [SAML_IDP_METADATA_IMPORTED] d (fst (import_idp_metadata xp u now ctx xml d))"
  unfolding import_idp_metadata_def
  by (rule settings_change_validated, rule settings_change_admin)
     (auto split: sum.split metadata_exc.split intro!: settings_change_entry)

lemma keypair_change:
  "settings_change now ctx [SAML_SP_KEYPAIR_REGENERATED] d (fst (regenerate_sp_keypair g u now ctx cn d))"
  unfolding regenerate_sp_keypair_def
  by (rule settings_change_validated, rule settings_change_admin)
     (auto split: sum.split prod.split intro!: settings_change_entry)

lemma setup_change:
  "settings_change now ctx [SETUP_WIZARD_COMPLETED] d (fst (complete_wizard b now ctx d))"
  "settings_change now ctx [SETUP_WIZARD_REOPENED] d (fst (reopen_wizard b now ctx d))"
  unfolding complete_wizard_def reopen_wizard_def
  by (rule settings_change_admin; simp; intro impI settings_change_entry; simp)+

lemma ctx_entry_appends [simp]:
  "audit_append now (ctx_entry ctx a ty s) d = Inr (with_audit now (ctx_entry ctx a ty s) d)"
  by (simp add: ctx_entry_def)

lemma install_pair_change: "a \<in> set acts \<Longrightarrow>
  settings_change now ctx acts (fst st) (fst (fst (install_pair io now (ctx_entry ctx a ty s) src c k info st)))"
  unfolding install_pair_def by (auto split: prod.split option.split sum.split intro: settings_change_entry)

lemma tls_change:
  "settings_change now ctx [TLS_CERT_UPLOADED] (fst st) (fst (fst (upload_tls lib io now ctx cert key st)))"
  "settings_change now ctx [TLS_PFX_UPLOADED] (fst st) (fst (fst (upload_tls_pfx lib io now ctx pfx pw st)))"
  "settings_change now ctx [TLS_CERT_REGENERATED] (fst st) (fst (fst (regenerate_self_signed lib io now ctx cn days st)))"
  unfolding upload_tls_def upload_tls_pfx_def regenerate_self_signed_def tls_admin_def Let_def
  by (auto split: sum.split option.split prod.split intro!: install_pair_change)

end
