(* ===== verification/Application.thy ===== *)
theory Application
  imports Contracts Devices Device_Groups Privilege_Profiles Authorizations
begin

text \<open>
  \<open>app/main.py\<close>: the application as one state - the database, the daemon's \<open>hosts.cfg\<close>, the
  schedule of the directory sync and the certificate volume - and the changing requests of
  \<open>/api/v1\<close>, each routed to its handler behind the session dependency. What surrounds the process
  is the record \<open>app_env\<close>: settings, libraries, the network, the volumes.
\<close>

record app =
  ap_fleet :: fleet
  ap_sched :: scheduler
  ap_tls :: tls_files

abbreviation ap_db :: "app \<Rightarrow> db" where
  "ap_db s \<equiv> fl_db (ap_fleet s)"

record app_env =
  en_nas :: nas_env
  en_hosts_path :: string
  en_public_url :: string
  en_sql_lower :: "string \<Rightarrow> string"
  en_connect :: ldap_connect
  en_network :: network
  en_decode :: decoder
  en_xml_parse :: "string \<Rightarrow> xml_parsed"
  en_keys :: key_lib
  en_crypto :: crypto_lib
  en_volume :: io

datatype request =
    Create_group device_group_create | Update_group int device_group_update | Delete_group int
  | Create_profile privilege_profile_create | Update_profile int privilege_profile_update | Delete_profile int
  | Create_device device_create | Update_device int device_update | Delete_device int
  | Rotate_secret int string | Retire_secret int | Regenerate_hosts
  | Create_authorization authorization_create | Delete_authorization int
  | Put_ldap_url string | Put_web_url string
  | Put_ldap_sync ldap_sync_update | Test_ldap_sync test_connection_body | Run_ldap_sync
  | Put_syslog syslog_update | Test_syslog
  | Import_metadata string | Put_mapping mapping_update | New_sp_keypair "string option"
  | Upload_cert string string | Upload_pfx string "string option" | New_self_signed string int
  | Complete_setup | Reopen_setup

datatype reply =
    Group device_group_row | Profile privilege_profile_row | Device device_read
  | Authorization authorization_row | Url string | Written nat | Ldap_sync ldap_sync_status
  | Syslog_settings syslog_status | Saml_settings saml_status | Tls_settings tls_status
  | Setup setup_status | Ok_reply | No_content

type_synonym app_outcome = "app \<times> (http_exc + reply)"

text \<open>A handler of one part of the state, run in the application.\<close>

definition on_fleet :: "('a \<Rightarrow> reply) \<Rightarrow> app \<Rightarrow> fleet \<times> (http_exc + 'a) \<Rightarrow> app_outcome" where
  "on_fleet mk s r = (s\<lparr>ap_fleet := fst r\<rparr>, map_sum id mk (snd r))"

definition on_db :: "('a \<Rightarrow> reply) \<Rightarrow> app \<Rightarrow> 'a outcome \<Rightarrow> app_outcome" where
  "on_db mk s r = on_fleet mk s ((ap_fleet s)\<lparr>fl_db := fst r\<rparr>, snd r)"

definition on_sched :: "('a \<Rightarrow> reply) \<Rightarrow> app \<Rightarrow> (db \<times> scheduler) \<times> (http_exc + 'a) \<Rightarrow> app_outcome" where
  "on_sched mk s r = on_db mk (s\<lparr>ap_sched := snd (fst r)\<rparr>) (fst (fst r), snd r)"

definition on_tls :: "('a \<Rightarrow> reply) \<Rightarrow> app \<Rightarrow> tls_state \<times> (http_exc + 'a) \<Rightarrow> app_outcome" where
  "on_tls mk s r = on_db mk (s\<lparr>ap_tls := snd (fst r)\<rparr>) (fst (fst r), snd r)"

definition body :: "bool \<Rightarrow> app \<Rightarrow> app_outcome \<Rightarrow> app_outcome" where
  "body ok s r = (if ok then r else (s, Inl (HTTPException 422 ''validation_error'')))"

text \<open>The routers of \<open>/api/v1\<close>: the body is validated, then the handler runs.\<close>

fun route :: "app_env \<Rightarrow> instant \<Rightarrow> session_context \<Rightarrow> request \<Rightarrow> app \<Rightarrow> app_outcome" where
  "route env now ctx (Create_group p) s =
     body (device_group_create_valid p) s (on_db Group s (create_device_group now ctx p (ap_db s)))"
| "route env now ctx (Update_group i p) s =
     body (device_group_update_valid p) s (on_db Group s (update_device_group now ctx i p (ap_db s)))"
| "route env now ctx (Delete_group i) s = on_db (\<lambda>_. No_content) s (delete_device_group now ctx i (ap_db s))"
| "route env now ctx (Create_profile p) s =
     body (profile_create_valid p) s (on_db Profile s (create_privilege_profile now ctx p (ap_db s)))"
| "route env now ctx (Update_profile i p) s =
     body (profile_update_valid p) s (on_db Profile s (update_privilege_profile now ctx i p (ap_db s)))"
| "route env now ctx (Delete_profile i) s =
     on_db (\<lambda>_. No_content) s (delete_privilege_profile now ctx i (ap_db s))"
| "route env now ctx (Create_device p) s =
     body (device_create_valid p) s (on_fleet Device s (create_device (en_nas env) now ctx p (ap_fleet s)))"
| "route env now ctx (Update_device i p) s =
     body (device_update_valid p) s (on_fleet Device s (update_device (en_nas env) now ctx i p (ap_fleet s)))"
| "route env now ctx (Delete_device i) s =
     on_fleet (\<lambda>_. No_content) s (delete_device (en_nas env) now ctx i (ap_fleet s))"
| "route env now ctx (Rotate_secret i new_secret) s =
     body (str_len 1 512 new_secret) s
       (on_fleet Device s (rotate_secret (en_nas env) now ctx i new_secret (ap_fleet s)))"
| "route env now ctx (Retire_secret i) s =
     on_fleet Device s (retire_previous_secret (en_nas env) now ctx i (ap_fleet s))"
| "route env now ctx Regenerate_hosts s =
     on_fleet Written s (regenerate (en_nas env) (en_hosts_path env) now ctx (ap_fleet s))"
| "route env now ctx (Create_authorization p) s =
     body (exactly_one_principal p) s
       (on_db Authorization s (create_authorization now ctx p (ap_db s)))"
| "route env now ctx (Delete_authorization i) s =
     on_db (\<lambda>_. No_content) s (delete_authorization now ctx i (ap_db s))"
| "route env now ctx (Put_ldap_url raw) s = on_db Url s (put_ldap_settings now ctx raw (ap_db s))"
| "route env now ctx (Put_web_url raw) s = on_db Url s (put_web_settings now ctx raw (ap_db s))"
| "route env now ctx (Put_ldap_sync p) s =
     on_sched Ldap_sync s (update_config (en_decode env) now ctx p (ap_db s, ap_sched s))"
| "route env now ctx (Test_ldap_sync p) s =
     on_db (\<lambda>_. Ok_reply) s (test_endpoint (en_decode env) (en_connect env) now ctx p (ap_db s))"
| "route env now ctx Run_ldap_sync s =
     on_db Ldap_sync s (run_now (en_sql_lower env) (en_decode env) (en_connect env) now ctx (ap_db s))"
| "route env now ctx (Put_syslog p) s = on_db Syslog_settings s (update_syslog_config now ctx p (ap_db s))"
| "route env now ctx Test_syslog s = on_db (\<lambda>_. Ok_reply) s (test_syslog (en_network env) now ctx (ap_db s))"
| "route env now ctx (Import_metadata xml) s =
     on_db Saml_settings s (import_idp_metadata (en_xml_parse env) (en_public_url env) now ctx xml (ap_db s))"
| "route env now ctx (Put_mapping p) s =
     on_db Saml_settings s (update_mapping (en_public_url env) now ctx p (ap_db s))"
| "route env now ctx (New_sp_keypair cn) s =
     on_db Saml_settings s
       (regenerate_sp_keypair (en_keys env) (en_public_url env) now ctx cn (ap_db s))"
| "route env now ctx (Upload_cert cert key) s =
     on_tls Tls_settings s (upload_tls (en_crypto env) (en_volume env) now ctx cert key (ap_db s, ap_tls s))"
| "route env now ctx (Upload_pfx pfx password) s =
     on_tls Tls_settings s
       (upload_tls_pfx (en_crypto env) (en_volume env) now ctx pfx password (ap_db s, ap_tls s))"
| "route env now ctx (New_self_signed cn days) s =
     on_tls Tls_settings s
       (regenerate_self_signed (en_crypto env) (en_volume env) now ctx cn days (ap_db s, ap_tls s))"
| "route env now ctx Complete_setup s =
     on_db Setup s (complete_wizard (tf_cert (ap_tls s) \<noteq> None) now ctx (ap_db s))"
| "route env now ctx Reopen_setup s =
     on_db Setup s (reopen_wizard (tf_cert (ap_tls s) \<noteq> None) now ctx (ap_db s))"

definition serve :: "app_env \<Rightarrow> instant \<Rightarrow> request_info \<Rightarrow> string option \<Rightarrow> request \<Rightarrow> app \<Rightarrow> app_outcome" where
  "serve env now rq cookie req s =
     (case require_session now rq cookie (ap_db s) of
        (d, Inl e) \<Rightarrow> (s\<lparr>ap_fleet := (ap_fleet s)\<lparr>fl_db := d\<rparr>\<rparr>, Inl e)
      | (d, Inr ctx) \<Rightarrow> route env now ctx req (s\<lparr>ap_fleet := (ap_fleet s)\<lparr>fl_db := d\<rparr>\<rparr>))"

section \<open>The requests\<close>

text \<open>The actions a request may record.\<close>

fun request_actions :: "request \<Rightarrow> audit_action list" where
  "request_actions (Create_group p) = [DEVICE_GROUP_CREATED]"
| "request_actions (Update_group i p) = [DEVICE_GROUP_UPDATED]"
| "request_actions (Delete_group i) = [DEVICE_GROUP_DELETED]"
| "request_actions (Create_profile p) = [PRIVILEGE_PROFILE_CREATED]"
| "request_actions (Update_profile i p) = [PRIVILEGE_PROFILE_UPDATED]"
| "request_actions (Delete_profile i) = [PRIVILEGE_PROFILE_DELETED]"
| "request_actions (Create_device p) = [DEVICE_CREATED]"
| "request_actions (Update_device i p) = [DEVICE_UPDATED]"
| "request_actions (Delete_device i) = [DEVICE_DELETED]"
| "request_actions (Rotate_secret i n) = [DEVICE_SECRET_ROTATED]"
| "request_actions (Retire_secret i) = [DEVICE_PREVIOUS_RETIRED]"
| "request_actions Regenerate_hosts = [NAS_CONFIG_REGENERATED]"
| "request_actions (Create_authorization p) = [AUTHORIZATION_CREATED]"
| "request_actions (Delete_authorization i) = [AUTHORIZATION_DELETED]"
| "request_actions (Put_ldap_url raw) = [SETTING_LDAP_URL_UPDATED]"
| "request_actions (Put_web_url raw) = [SETTING_WEB_BASE_URL_UPDATED]"
| "request_actions (Put_ldap_sync p) = [LDAP_SYNC_CONFIG_UPDATED]"
| "request_actions (Test_ldap_sync p) = [LDAP_SYNC_TEST_SUCCEEDED, LDAP_SYNC_TEST_FAILED]"
| "request_actions Run_ldap_sync = [LDAP_SYNC_RUN_SUCCEEDED, LDAP_SYNC_RUN_FAILED]"
| "request_actions (Put_syslog p) = [SYSLOG_CONFIG_UPDATED]"
| "request_actions Test_syslog = [SYSLOG_TEST_SUCCEEDED, SYSLOG_TEST_FAILED]"
| "request_actions (Import_metadata xml) = [SAML_IDP_METADATA_IMPORTED]"
| "request_actions (Put_mapping p) = [SAML_MAPPING_UPDATED]"
| "request_actions (New_sp_keypair cn) = [SAML_SP_KEYPAIR_REGENERATED]"
| "request_actions (Upload_cert c k) = [TLS_CERT_UPLOADED]"
| "request_actions (Upload_pfx p w) = [TLS_PFX_UPLOADED]"
| "request_actions (New_self_signed cn days) = [TLS_CERT_REGENERATED]"
| "request_actions Complete_setup = [SETUP_WIZARD_COMPLETED]"
| "request_actions Reopen_setup = [SETUP_WIZARD_REOPENED]"


lemma on_part_db [simp]:
  "ap_db (fst (on_fleet mk s fr)) = fl_db (fst fr)" "ap_db (fst (on_db mk s r)) = fst r"
  "ap_db (fst (on_sched mk s sr)) = fst (fst sr)" "ap_db (fst (on_tls mk s tr)) = fst (fst tr)"
  by (simp_all add: on_fleet_def on_db_def on_sched_def on_tls_def)

lemma on_part_hosts [simp]:
  "fl_hosts (ap_fleet (fst (on_fleet mk s fr))) = fl_hosts (fst fr)"
  "fl_hosts (ap_fleet (fst (on_db mk s r))) = fl_hosts (ap_fleet s)"
  "fl_hosts (ap_fleet (fst (on_sched mk s sr))) = fl_hosts (ap_fleet s)"
  "fl_hosts (ap_fleet (fst (on_tls mk s tr))) = fl_hosts (ap_fleet s)"
  by (simp_all add: on_fleet_def on_db_def on_sched_def on_tls_def)

lemma body_fst [simp]: "fst (body ok s r) = (if ok then fst r else s)"
  by (simp add: body_def)

lemma device_handler_db [simp]:
  "fl_db (fst (create_device env now ctx p f)) = fst (create_device_tx now ctx p (fl_db f))"
  "fl_db (fst (update_device env now ctx i pu f)) = fst (update_device_tx now ctx i pu (fl_db f))"
  "fl_db (fst (delete_device env now ctx i f)) = fst (delete_device_tx now ctx i (fl_db f))"
  "fl_db (fst (rotate_secret env now ctx i n f)) = fst (change_device now ctx DEVICE_SECRET_ROTATED (rotated n) i (fl_db f))"
  "fl_db (fst (retire_previous_secret env now ctx i f)) = fst (change_device now ctx DEVICE_PREVIOUS_RETIRED (retired now) i (fl_db f))"
  by (simp_all add: create_device_def update_device_def delete_device_def rotate_secret_def retire_previous_secret_def)

lemma regenerate_change:
  "settings_change now ctx [NAS_CONFIG_REGENERATED] (fl_db f) (fl_db (fst (regenerate env path now ctx f)))"
proof -
  have "(audit_args (sc_username ctx) (sc_role ctx) (sc_auth_method ctx) NAS_CONFIG_REGENERATED)
      \<lparr>ae_actor_id := sc_actor_id ctx, ae_target_type := Some ''nas_config'', ae_summary := Some s,
       ae_client_ip := sc_client_ip ctx, ae_user_agent := sc_user_agent ctx\<rparr> =
     ctx_entry ctx NAS_CONFIG_REGENERATED ''nas_config'' (Some s)" for s
    by (simp add: ctx_entry_def)
  then show ?thesis
    by (auto simp: regenerate_def Let_def split: option.split intro!: settings_change_entry)
qed

text \<open>The requests that change the settings, and those on the configuration tables.\<close>

fun configures :: "request \<Rightarrow> bool" where
  "configures (Create_group p) = True" | "configures (Update_group i p) = True"
| "configures (Delete_group i) = True" | "configures (Create_profile p) = True"
| "configures (Update_profile i p) = True" | "configures (Delete_profile i) = True"
| "configures (Create_device p) = True" | "configures (Update_device i p) = True"
| "configures (Delete_device i) = True" | "configures (Rotate_secret i n) = True"
| "configures (Retire_secret i) = True" | "configures (Create_authorization p) = True"
| "configures (Delete_authorization i) = True" | "configures _ = False"

lemma route_settings:
  "\<not> configures req \<Longrightarrow>
     settings_change now ctx (request_actions req) (ap_db s) (ap_db (fst (route env now ctx req s)))"
  by (cases req)
     (simp_all add: sync_config_change sync_test_change sync_run_change syslog_change url_change mapping_change
       metadata_change keypair_change setup_change regenerate_change put_ldap_settings_def put_web_settings_def
       tls_change [where st = "(a, b)" for a b, simplified])

lemma route_configures:
  assumes "configures req"
  shows "traced now ctx (request_actions req) (ap_db s) (ap_db (fst (route env now ctx req s))) \<and>
    (config_ok (ap_db s) \<longrightarrow> config_ok (ap_db (fst (route env now ctx req s))))"
proof -
  have refl: "traced now ctx acts d d" for acts and d :: db by (simp add: traced_def)
  note traces = audited_device_group audited_profile audited_device_tx audited_authorization
  note keeps = config_ok_create_group config_ok_update_group config_ok_delete_group config_ok_create_profile
    config_ok_update_profile config_ok_delete_profile config_ok_create_device config_ok_update_device
    config_ok_delete_device config_ok_create_authorization config_ok_delete_authorization
  have change: "config_ok d \<Longrightarrow> config_ok (fst (change_device now ctx a (rotated n) i d))"
    "config_ok d \<Longrightarrow> config_ok (fst (change_device now ctx a (retired now) i d))" for a n i and d :: db
    by (rule config_ok_change_device [OF prod.collapse [symmetric]]; simp add: rotated_def retired_def)+
  from assms show ?thesis
    by (cases req) (simp_all add: refl traces [THEN traced_outcome] keeps [OF prod.collapse [symmetric]] change)
qed

lemma route_traced:
  "traced now ctx (request_actions req) (ap_db s) (ap_db (fst (route env now ctx req s)))"
  using route_settings [of req now ctx s env] route_configures [of req now ctx s env]
  by (cases "configures req") (simp_all add: settings_change_def)

lemma route_config_ok: "config_ok (ap_db s) \<Longrightarrow> config_ok (ap_db (fst (route env now ctx req s)))"
  using route_settings [of req now ctx s env] route_configures [of req now ctx s env]
  by (cases "configures req") (auto simp: settings_change_def intro: config_frame_ok)

lemma route_needs_admin:
  "\<not> configures req \<Longrightarrow> sc_role ctx \<noteq> ''admin'' \<Longrightarrow>
     fst (route env now ctx req s) = s \<and> (\<exists>e. snd (route env now ctx req s) = Inl e)"
  by (cases req)
     (auto simp: on_db_def on_fleet_def on_sched_def on_tls_def admin_only_def validated_def
       put_ldap_settings_def put_web_settings_def put_url_def update_config_def update_config_tx_def
       test_endpoint_def run_now_def update_syslog_config_def test_syslog_def import_idp_metadata_def
       update_mapping_def regenerate_sp_keypair_def upload_tls_def upload_tls_pfx_def tls_admin_def
       regenerate_self_signed_def complete_wizard_def reopen_wizard_def regenerate_def)

section \<open>The daemon's configuration follows the devices\<close>

definition hosts_in_sync :: "app_env \<Rightarrow> app \<Rightarrow> bool" where
  "hosts_in_sync env s \<longleftrightarrow>
     fl_hosts (ap_fleet s) = rendered_config (ne_shared_secret (en_nas env)) (ap_db s)"

lemma rendered_config_devices: "devices d' = devices d \<Longrightarrow> rendered_config k d' = rendered_config k d"
  by (simp add: rendered_config_def)

lemma regen_in_sync:
  assumes "ne_writable env" and "audited_or_unchanged now ctx acts (fl_db f) r"
    and "fl_hosts f = rendered_config (ne_shared_secret env) (fl_db f)"
  shows "fl_hosts (fst (with_regen env rd f r)) = rendered_config (ne_shared_secret env) (fst r)"
  using assms by (cases r; cases "snd r") (auto simp: regen_hosts)

lemma other_tables_devices:
  "devices (fst (create_device_group now ctx gp d)) = devices d"
  "devices (fst (update_device_group now ctx i gu d)) = devices d"
  "devices (fst (delete_device_group now ctx i d)) = devices d"
  "devices (fst (create_privilege_profile now ctx pc d)) = devices d"
  "devices (fst (update_privilege_profile now ctx i pu d)) = devices d"
  "devices (fst (delete_privilege_profile now ctx i d)) = devices d"
  "devices (fst (create_authorization now ctx ac d)) = devices d"
  "devices (fst (delete_authorization now ctx i d)) = devices d"
  by (auto simp: create_device_group_def update_device_group_def delete_device_group_def
      create_privilege_profile_def update_privilege_profile_def delete_privilege_profile_def
      create_authorization_def delete_authorization_def get_or_404_def Let_def remove_device_group_def
      remove_privilege_profile_def split: option.split prod.split)

lemma route_hosts:
  assumes "ne_writable (en_nas env)" and "hosts_in_sync env s"
  shows "hosts_in_sync env (fst (route env now ctx req s))"
proof (cases "configures req")
  case False
  have dev: "devices (ap_db (fst (route env now ctx req s))) = devices (ap_db s)"
    using route_settings [OF False, of now ctx s env] by (simp add: settings_change_def config_frame_def)
  have hosts: "fl_hosts (ap_fleet (fst (route env now ctx req s))) = fl_hosts (ap_fleet s)" if "req \<noteq> Regenerate_hosts"
    using False that by (cases req) simp_all
  show ?thesis
  proof (cases "req = Regenerate_hosts")
    case True
    with assms show ?thesis
      by (auto simp: hosts_in_sync_def regenerate_def regenerate_nas_config_def rendered_config_def Let_def
          split: sum.split)
  next
    case False
    with hosts assms(2) rendered_config_devices [OF dev] show ?thesis by (simp add: hosts_in_sync_def)
  qed
next
  case True
  with assms show ?thesis
    by (cases req)
       (auto simp: hosts_in_sync_def rendered_config_devices [OF other_tables_devices(1)]
         rendered_config_devices [OF other_tables_devices(2)] rendered_config_devices [OF other_tables_devices(3)]
         rendered_config_devices [OF other_tables_devices(4)] rendered_config_devices [OF other_tables_devices(5)]
         rendered_config_devices [OF other_tables_devices(6)] rendered_config_devices [OF other_tables_devices(7)]
         rendered_config_devices [OF other_tables_devices(8)]
         create_device_def update_device_def delete_device_def rotate_secret_def retire_previous_secret_def
         intro!: regen_in_sync audited_device_tx)
qed

section \<open>Requests behind their session\<close>

text \<open>What a check of a session, a login or a logout leaves alone: everything but sessions.\<close>

definition sessions_only :: "db \<Rightarrow> db \<Rightarrow> bool" where
  "sessions_only d d' \<longleftrightarrow> d' = d\<lparr>web_sessions := web_sessions d'\<rparr>"

lemma require_session_only: "sessions_only d (fst (require_session now rq cookie d))"
  by (auto simp: require_session_def load_active_session_def delete_web_session_def sessions_only_def
      split: prod.split option.split)

lemma sessions_only_untouched: "sessions_only d d' \<Longrightarrow> untouched d d'"
  unfolding sessions_only_def untouched_def by (erule ssubst) simp

lemma serve_cases:
  obtains (refused) d e where "require_session now rq cookie (ap_db s) = (d, Inl e)"
      "serve env now rq cookie req s = (s\<lparr>ap_fleet := (ap_fleet s)\<lparr>fl_db := d\<rparr>\<rparr>, Inl e)"
  | (handled) d ctx where "require_session now rq cookie (ap_db s) = (d, Inr ctx)"
      "serve env now rq cookie req s = route env now ctx req (s\<lparr>ap_fleet := (ap_fleet s)\<lparr>fl_db := d\<rparr>\<rparr>)"
  unfolding serve_def by (cases "require_session now rq cookie (ap_db s)"; cases "snd (require_session now rq cookie (ap_db s))") auto

end
