(* ===== verification/Read_Api.thy ===== *)
theory Read_Api
  imports Application Effective_Permissions Bootstrap
begin

text \<open>
  The GET handlers of \<open>/api/v1\<close> as one type of questions, and what they answer: the response models
  of the routers, which FastAPI fills from the attributes of the rows. A question is validated,
  answered behind the session dependency, and changes nothing.
\<close>

section \<open>Response models\<close>

record device_group_read =
  gv_id :: int
  gv_name :: string
  gv_description :: "string option"
  gv_created_at :: instant

definition group_read :: "device_group_row \<Rightarrow> device_group_read" where
  "group_read r = \<lparr>gv_id = dg_id r, gv_name = dg_name r, gv_description = dg_description r,
     gv_created_at = dg_created_at r\<rparr>"

record privilege_profile_read =
  pv_id :: int
  pv_name :: string
  pv_tacacs_priv_lvl :: int
  pv_permit_commands_regex :: "string list"
  pv_deny_commands_regex :: "string list"
  pv_extra_av_pairs :: "(string \<times> string) list"
  pv_description :: "string option"
  pv_created_at :: instant

definition profile_read :: "privilege_profile_row \<Rightarrow> privilege_profile_read" where
  "profile_read r = \<lparr>pv_id = pp_id r, pv_name = pp_name r, pv_tacacs_priv_lvl = tacacs_priv_lvl r,
     pv_permit_commands_regex = permit_commands_regex r, pv_deny_commands_regex = deny_commands_regex r,
     pv_extra_av_pairs = extra_av_pairs r, pv_description = pp_description r, pv_created_at = pp_created_at r\<rparr>"

record authorization_read =
  zv_id :: int
  zv_principal_user_id :: "int option"
  zv_principal_ad_group_id :: "int option"
  zv_device_group_id :: int
  zv_privilege_profile_id :: int
  zv_created_at :: instant

definition authz_read :: "authorization_row \<Rightarrow> authorization_read" where
  "authz_read r = \<lparr>zv_id = a_id r, zv_principal_user_id = principal_user_id r,
     zv_principal_ad_group_id = principal_ad_group_id r, zv_device_group_id = a_device_group_id r,
     zv_privilege_profile_id = privilege_profile_id r, zv_created_at = a_created_at r\<rparr>"

text \<open>A user without the GUID of the directory.\<close>

record user_read =
  uv_id :: int
  uv_sam_account_name :: string
  uv_distinguished_name :: string
  uv_display_name :: "string option"
  uv_upn :: "string option"
  uv_enabled :: bool
  uv_last_seen_in_sync_at :: "instant option"

definition user_read_of :: "user_row \<Rightarrow> user_read" where
  "user_read_of r = \<lparr>uv_id = u_id r, uv_sam_account_name = u_sam_account_name r,
     uv_distinguished_name = u_distinguished_name r, uv_display_name = u_display_name r, uv_upn = u_upn r,
     uv_enabled = u_enabled r, uv_last_seen_in_sync_at = u_last_seen_in_sync_at r\<rparr>"

record ad_group_read =
  hv_id :: int
  hv_sid :: string
  hv_distinguished_name :: string
  hv_name :: "string option"
  hv_last_seen_in_sync_at :: "instant option"

definition ad_group_read_of :: "ad_group_row \<Rightarrow> ad_group_read" where
  "ad_group_read_of r = \<lparr>hv_id = g_id r, hv_sid = g_sid r, hv_distinguished_name = g_distinguished_name r,
     hv_name = g_name r, hv_last_seen_in_sync_at = g_last_seen_in_sync_at r\<rparr>"

record audit_log_entry_read =
  ev_id :: int
  ev_ts :: instant
  ev_actor_id :: "int option"
  ev_actor_username_snapshot :: string
  ev_actor_role :: string
  ev_auth_method :: string
  ev_action :: string
  ev_target_type :: "string option"
  ev_target_id :: "int option"
  ev_summary :: "string option"
  ev_client_ip :: "string option"
  ev_user_agent :: "string option"

definition audit_entry_read :: "audit_row \<Rightarrow> audit_log_entry_read" where
  "audit_entry_read r = \<lparr>ev_id = al_id r, ev_ts = al_ts r, ev_actor_id = al_actor_id r,
     ev_actor_username_snapshot = actor_username_snapshot r, ev_actor_role = actor_role r,
     ev_auth_method = al_auth_method r, ev_action = al_action r, ev_target_type = target_type r,
     ev_target_id = target_id r, ev_summary = al_summary r, ev_client_ip = al_client_ip r,
     ev_user_agent = al_user_agent r\<rparr>"

record accounting_entry_read =
  qv_id :: int
  qv_ts :: instant
  qv_nas_ip :: "string option"
  qv_username :: "string option"
  qv_port :: "string option"
  qv_nac_ip :: "string option"
  qv_action :: string
  qv_service :: "string option"
  qv_cmd :: "string option"
  qv_priv_lvl :: "int option"
  qv_elapsed_seconds :: "int option"
  qv_task_id :: "string option"
  qv_device_id :: "int option"
  qv_raw_av_pairs :: "(string \<times> string) list"

definition accounting_read :: "accounting_row \<Rightarrow> accounting_entry_read" where
  "accounting_read r = \<lparr>qv_id = ar_id r, qv_ts = ar_ts r, qv_nas_ip = ar_nas_ip r, qv_username = ar_username r,
     qv_port = ar_port r, qv_nac_ip = ar_nac_ip r, qv_action = ar_action r, qv_service = ar_service r,
     qv_cmd = ar_cmd r, qv_priv_lvl = ar_priv_lvl r, qv_elapsed_seconds = ar_elapsed_seconds r,
     qv_task_id = ar_task_id r, qv_device_id = ar_device_id r, qv_raw_av_pairs = ar_raw_av_pairs r\<rparr>"

definition read_page :: "('r \<Rightarrow> 'v) \<Rightarrow> 'r page \<Rightarrow> 'v page" where
  "read_page f p = \<lparr>pg_total = pg_total p, pg_limit = pg_limit p, pg_offset = pg_offset p,
     pg_entries = map f (pg_entries p)\<rparr>"

record tls_status_read =
  has_cert :: bool
  tls_info :: "cert_info_read option"

definition tls_read :: "tls_status \<Rightarrow> tls_status_read" where
  "tls_read st = \<lparr>has_cert = (st \<noteq> None), tls_info = st\<rparr>"

section \<open>Questions and answers\<close>

datatype query =
    Get_groups | Get_group int | Get_profiles | Get_profile_by_id int | Get_devices | Get_device_by_id int
  | Get_authorizations | Get_authorization_by_id int
  | Get_effective_permissions int | Get_my_access | Get_users | Get_ad_groups
  | Get_ldap_url | Get_web_url | Get_tls | Get_saml | Get_sp_metadata | Get_ldap_sync | Get_syslog
  | Get_audit_actions | Get_audit_log audit_query | Get_accounting accounting_query
  | Get_setup | Get_template_hints

datatype answer =
    Groups_read "device_group_read list" | Group_read device_group_read
  | Profiles_read "privilege_profile_read list" | Profile_read privilege_profile_read
  | Devices_read "device_read list" | Device_read device_read
  | Authorizations_read "authorization_read list" | Authorization_read authorization_read
  | Permissions_read "effective_permission_read list" | Access_read my_access_read
  | Users_read "user_read list" | Ad_groups_read "ad_group_read list"
  | Url_read "string option" | Tls_read tls_status_read | Saml_read saml_status | Metadata_read string
  | Ldap_sync_read ldap_sync_status | Syslog_read syslog_status
  | Actions_read "string list" | Audit_read "audit_log_entry_read page"
  | Accounting_read "accounting_entry_read page" | Setup_read setup_status | Hints_read device_template_hints

text \<open>An answer that needs nothing but the database, and the answer of a handler.\<close>

definition plainly :: "answer \<Rightarrow> db \<Rightarrow> answer outcome" where
  "plainly a d = (d, Inr a)"

definition answered :: "('a \<Rightarrow> answer) \<Rightarrow> 'a outcome \<Rightarrow> answer outcome" where
  "answered mk r = (fst r, map_sum id mk (snd r))"

fun ask :: "app_env \<Rightarrow> saml_lib \<Rightarrow> session_context \<Rightarrow> query \<Rightarrow> app \<Rightarrow> answer outcome" where
  "ask env lib ctx Get_groups s = plainly (Groups_read (map group_read (list_device_groups (ap_db s)))) (ap_db s)"
| "ask env lib ctx (Get_group i) s = answered (Group_read \<circ> group_read) (get_device_group_route i (ap_db s))"
| "ask env lib ctx Get_profiles s =
     plainly (Profiles_read (map profile_read (list_privilege_profiles (ap_db s)))) (ap_db s)"
| "ask env lib ctx (Get_profile_by_id i) s =
     answered (Profile_read \<circ> profile_read) (get_privilege_profile i (ap_db s))"
| "ask env lib ctx Get_devices s = plainly (Devices_read (list_devices (ap_db s))) (ap_db s)"
| "ask env lib ctx (Get_device_by_id i) s = answered Device_read (get_device_route i (ap_db s))"
| "ask env lib ctx Get_authorizations s =
     plainly (Authorizations_read (map authz_read (list_authorizations (ap_db s)))) (ap_db s)"
| "ask env lib ctx (Get_authorization_by_id i) s =
     answered (Authorization_read \<circ> authz_read) (get_authorization_route i (ap_db s))"
| "ask env lib ctx (Get_effective_permissions u) s =
     answered Permissions_read (list_effective_permissions u (ap_db s))"
| "ask env lib ctx Get_my_access s = answered Access_read (my_access (en_sql_lower env) ctx (ap_db s))"
| "ask env lib ctx Get_users s = plainly (Users_read (map user_read_of (list_users (ap_db s)))) (ap_db s)"
| "ask env lib ctx Get_ad_groups s =
     plainly (Ad_groups_read (map ad_group_read_of (list_ad_groups (ap_db s)))) (ap_db s)"
| "ask env lib ctx Get_ldap_url s = answered Url_read (get_ldap_settings (ap_db s))"
| "ask env lib ctx Get_web_url s = answered Url_read (get_web_settings (ap_db s))"
| "ask env lib ctx Get_tls s =
     plainly (Tls_read (tls_read (get_tls_status (en_crypto env) (ap_db s, ap_tls s)))) (ap_db s)"
| "ask env lib ctx Get_saml s = answered Saml_read (saml_status_route (en_public_url env) (ap_db s))"
| "ask env lib ctx Get_sp_metadata s = answered Metadata_read (get_sp_metadata lib (en_public_url env) (ap_db s))"
| "ask env lib ctx Get_ldap_sync s = answered Ldap_sync_read (get_sync_status (en_decode env) (ap_db s))"
| "ask env lib ctx Get_syslog s = answered Syslog_read (get_syslog_status (ap_db s))"
| "ask env lib ctx Get_audit_actions s = plainly (Actions_read list_known_actions) (ap_db s)"
| "ask env lib ctx (Get_audit_log q) s =
     validated (audit_query_valid q) (ap_db s)
       (answered (Audit_read \<circ> read_page audit_entry_read) (list_audit_log (en_sql_lower env) ctx q (ap_db s)))"
| "ask env lib ctx (Get_accounting q) s =
     validated (accounting_query_valid q) (ap_db s)
       (answered (Accounting_read \<circ> read_page accounting_read)
          (list_accounting (en_sql_lower env) ctx q (ap_db s)))"
| "ask env lib ctx Get_setup s =
     plainly (Setup_read (build_setup_status (tf_cert (ap_tls s) \<noteq> None) (ap_db s))) (ap_db s)"
| "ask env lib ctx Get_template_hints s =
     or_500 (ap_db s) (get_hints (ap_db s)) (\<lambda>h. plainly (Hints_read h) (ap_db s))"

text \<open>A question of a client: the session dependency of the mount, then the handler.\<close>

definition serve_query ::
    "app_env \<Rightarrow> saml_lib \<Rightarrow> instant \<Rightarrow> request_info \<Rightarrow> string option \<Rightarrow> query \<Rightarrow> app \<Rightarrow> app \<times> (http_exc + answer)" where
  "serve_query env lib now rq cookie q s =
     (case require_session now rq cookie (ap_db s) of
        (d, Inl e) \<Rightarrow> (s\<lparr>ap_fleet := (ap_fleet s)\<lparr>fl_db := d\<rparr>\<rparr>, Inl e)
      | (d, Inr ctx) \<Rightarrow>
          (let s1 = s\<lparr>ap_fleet := (ap_fleet s)\<lparr>fl_db := d\<rparr>\<rparr>; (d2, r) = ask env lib ctx q s1
           in (s1\<lparr>ap_fleet := (ap_fleet s1)\<lparr>fl_db := d2\<rparr>\<rparr>, r)))"

section \<open>Questions change nothing\<close>

lemma answered_simps [simp]:
  "fst (answered mk r) = fst r" "snd (answered mk r) = map_sum id mk (snd r)"
  "fst (plainly a d) = d" "snd (plainly a d) = Inr a"
  by (simp_all add: answered_def plainly_def)

lemma fst_or_500: "(\<And>x. fst (k x) = d) \<Longrightarrow> fst (or_500 d r k) = d"
  by (cases r) simp_all

lemma fst_404: "(\<And>x. fst (k x) = d) \<Longrightarrow> fst (get_or_404 row d k) = d"
  by (cases row) simp_all

lemma fst_guards:
  "fst r = d \<Longrightarrow> fst (admin_only ctx d r) = d" "fst r = d \<Longrightarrow> fst (validated ok d r) = d"
  by (simp_all add: admin_only_def validated_def)

lemmas reading = fst_or_500 fst_404 fst_guards

lemma ask_reads: "fst (ask env lib ctx q s) = ap_db s"
  by (cases q)
     (simp_all add: get_device_group_route_def get_privilege_profile_def get_device_route_def
       get_authorization_route_def list_effective_permissions_def my_access_def get_ldap_settings_def
       get_web_settings_def saml_status_route_def get_sp_metadata_def saml_metadata_def with_saml_def
       get_sync_status_def get_syslog_status_def list_audit_log_def list_accounting_def Let_def reading
       split: option.split sum.split saml_exc.split)

lemma serve_query_state:
  "fst (serve_query env lib now rq cookie q s) =
     s\<lparr>ap_fleet := (ap_fleet s)\<lparr>fl_db := fst (require_session now rq cookie (ap_db s))\<rparr>\<rparr>"
proof -
  let ?s1 = "\<lambda>d. s\<lparr>ap_fleet := (ap_fleet s)\<lparr>fl_db := d\<rparr>\<rparr>"
  have "?s1 (fst (ask env lib ctx q (?s1 d))) = ?s1 d" for d ctx by (simp add: ask_reads)
  then show ?thesis by (simp add: serve_query_def Let_def case_prod_unfold split: sum.split)
qed

end
