(* ===== verification/Whole_System.thy ===== *)
theory Whole_System
  imports Read_Api Auth_Local Saml_Routes Accounting Syslog
begin

text \<open>
  The service as one transition system: every part that writes to the database, in any order. A
  step outside the configuration is an \<open>event_change\<close> - the configuration tables stay, one audit row
  at most; a request is \<open>traced\<close>. The interface \<open>logged_system\<close> is what an auditor relies on, and
  the running service provides it.
\<close>

section \<open>What one step may do to the audit log\<close>

definition logged :: "db \<Rightarrow> db \<Rightarrow> bool" where
  "logged d d' \<longleftrightarrow>
     (audit_log d' = audit_log d \<and> seqs d' T_audit_log = seqs d T_audit_log) \<or>
     (\<exists>row. al_id row = seqs d T_audit_log \<and> audit_log d' = audit_log d @ [row] \<and>
        seqs d' T_audit_log = seqs d T_audit_log + 1)"

definition audit_ok :: "db \<Rightarrow> bool" where
  "audit_ok d \<longleftrightarrow>
     sorted_wrt (<) (map al_id (audit_log d)) \<and> list_all (\<lambda>r. al_id r < seqs d T_audit_log) (audit_log d)"

lemma logged_audit_ok: "logged d d' \<Longrightarrow> audit_ok d \<Longrightarrow> audit_ok d'"
  by (auto simp: logged_def audit_ok_def sorted_wrt_append list_all_iff) (meson less_imp_le)

lemma logged_prefix: "logged d d' \<Longrightarrow> \<exists>rows. audit_log d' = audit_log d @ rows"
  by (auto simp: logged_def)

lemma untouched_logged: "untouched d d' \<Longrightarrow> logged d d'"
  by (simp add: untouched_def logged_def)

lemma traced_logged: "traced now ctx acts d d' \<Longrightarrow> logged d d'"
  by (auto simp: traced_def logged_def audited_def)

text \<open>An event outside the configuration: it leaves the tables, and writes one audit row at most.\<close>

definition event_change :: "db \<Rightarrow> db \<Rightarrow> bool" where
  "event_change d d' \<longleftrightarrow> (\<exists>d1. untouched d d1 \<and> (d' = d1 \<or> (\<exists>now e. d' = with_audit now e d1)))"

lemma event_change_untouched: "untouched d d' \<Longrightarrow> event_change d d'"
  by (auto simp: event_change_def)

lemma event_change_entry: "untouched d d1 \<Longrightarrow> event_change d (with_audit now e d1)"
  by (auto simp: event_change_def)

lemma event_change_refl [simp]: "event_change d d"
  by (rule event_change_untouched) simp

lemma event_change_frame: "event_change d d' \<Longrightarrow> config_frame d d' \<and> logged d d'"
  by (auto simp: event_change_def untouched_def logged_def with_audit_seq)

lemma untouched_row_tables [simp]:
  "untouched d (d1\<lparr>web_sessions := ws\<rparr>) = untouched d d1" "untouched d (d1\<lparr>local_admins := la\<rparr>) = untouched d d1"
  by (simp_all add: untouched_def)

lemma audit_append_Inr: "audit_append now e d = Inr d' \<Longrightarrow> d' = with_audit now e d"
  by (auto simp: audit_append_def with_audit_def split: if_splits)

lemma event_append:
  "untouched d d1 \<Longrightarrow> (\<And>x. fst (k x) = x) \<Longrightarrow> event_change d (fst (or_500 d (audit_append now e d1) k))"
  by (cases "audit_append now e d1") (auto dest: audit_append_Inr intro: event_change_entry)

lemma event_or_500:
  "(\<And>x. r = Inr x \<Longrightarrow> event_change d (fst (k x))) \<Longrightarrow> event_change d (fst (or_500 d r k))"
  by (cases r) simp_all

section \<open>The routes outside /api/v1\<close>

lemma create_session_untouched: "create_session now token u r m a ip d = Inr d1 \<Longrightarrow> untouched d d1"
  by (drule create_session_Inr) simp

lemma login_event: "event_change d (fst (login_local verify now token rq p d))"
  unfolding login_local_def Let_def
  by (auto intro!: event_or_500 event_change_entry simp: set_last_login_def) (erule create_session_untouched)

lemma logout_event: "event_change d (fst (logout now rq cookie d))"
proof (cases "require_session now rq cookie d")
  case (Pair d0 r)
  with require_session_only [of d now rq cookie] have d0: "untouched d d0" by (auto dest: sessions_only_untouched)
  show ?thesis
  proof (cases r)
    case (Inl e)
    with Pair d0 show ?thesis by (simp add: logout_def event_change_untouched)
  next
    case (Inr ctx)
    have "untouched d0 (fst (revoke_session t d0))" for t
      by (simp add: revoke_session_def delete_web_session_def split: option.split)
    with d0 have "untouched d (fst (revoke_session t d0))" for t by (blast intro: untouched_trans)
    with Pair Inr d0 show ?thesis
      by (simp add: logout_def or_500_def split: sum.split)
        (auto dest!: audit_append_Inr intro: event_change_entry event_change_untouched)
  qed
qed

lemma mavis_event:
  "event_change d (fst (mavis_auth sql_lower ldap now q d))" "event_change d (fst (mavis_info sql_lower now iq d))"
  unfolding mavis_auth_def mavis_info_def Let_def
  by (auto intro!: event_or_500 event_change_entry)

lemma saml_event: "event_change d (fst (saml_acs sql_lower lib url now token rq d))"
  unfolding saml_acs_def with_saml_def Let_def audit_commit_def
  by (auto split: sum.split saml_exc.split option.split
      intro!: event_or_500 event_change_entry) (erule create_session_untouched)

section \<open>The background jobs\<close>

lemma tick_event: "event_change d (tick sql_lower connect now d)"
proof (rule event_change_untouched)
  show "untouched d (tick sql_lower connect now d)"
    by (auto simp: tick_def run_once_sync_def persist_error_summary_def persist_summary_def
        split: sum.split sync_exc.split prod.split intro: run_full_sync_frame)
qed

lemma forwarder_event: "event_change d (forwarder_turn net now d)"
proof (rule event_change_untouched)
  have "untouched d (fst (process_one_batch net d))"
    by (simp add: process_one_batch_def Let_def advance_def split: option.split)
  then show "untouched d (forwarder_turn net now d)"
    by (cases "process_one_batch net d")
       (simp add: forwarder_turn_def record_error_def clear_error_def split: sum.split)
qed

lemma ingest_event:
  "consume_start content d = Inr (d', pos) \<Longrightarrow> event_change d d'"
  "consume_line now content pos d = Some (Inr (d', pos')) \<Longrightarrow> event_change d d'"
proof -
  have "untouched d (bump_seq T_accounting_record (d\<lparr>accounting_records := rs\<rparr>))" for rs and d :: db
    by (simp add: untouched_def)
  then show "consume_start content d = Inr (d', pos) \<Longrightarrow> event_change d d'"
    "consume_line now content pos d = Some (Inr (d', pos')) \<Longrightarrow> event_change d d'"
    by (auto simp: consume_start_def consume_line_def persist_one_def save_offset_def Let_def
        split: sum.splits if_splits option.splits intro!: event_change_untouched)
qed

lemma view_event: "event_change d (fst (require_session now rq cookie d))"
  by (rule event_change_untouched, rule sessions_only_untouched, rule require_session_only)

lemma cli_event: "event_change d (fst (cli_main hash now typed args d))"
  unfolding cli_main_def bootstrap_admin_def Let_def
  by (auto split: sum.split option.split intro!: event_change_entry)

section \<open>The whole system\<close>

text \<open>
  The steps of the running service, in any order: a request to \<open>/api/v1\<close> from anyone - one that
  changes something, or one that only reads behind its session check -, a login or logout, a question
  of the MAVIS child, a run of the directory sync, a turn of the forwarder, a line of the accounting
  log, the command line. Everything outside - clocks, clients, directories, networks - is free
  in each step.
\<close>

definition put_db :: "app \<Rightarrow> db \<Rightarrow> app" where
  "put_db s d = s\<lparr>ap_fleet := (ap_fleet s)\<lparr>fl_db := d\<rparr>\<rparr>"

inductive system_step :: "app_env \<Rightarrow> app \<Rightarrow> app \<Rightarrow> bool" for env where
  request: "serve (env\<lparr>en_sql_lower := sl, en_connect := con, en_network := net, en_decode := dec,
      en_xml_parse := xp, en_keys := kp, en_crypto := lib, en_volume := vol\<rparr>) now rq cookie req s = (s', r) \<Longrightarrow>
    system_step env s s'"
| view: "serve_query (env\<lparr>en_sql_lower := sl, en_decode := dec, en_crypto := lib\<rparr>) saml now rq cookie q s = (s', rv) \<Longrightarrow>
    system_step env s s'"
| cli: "cli_main hash now typed args (ap_db s) = (d, rc) \<Longrightarrow> system_step env s (put_db s d)"
| login: "login_local verify now token rq payload (ap_db s) = (d, r) \<Longrightarrow> system_step env s (put_db s d)"
| saml_login: "saml_acs sql_lower saml url now token srq (ap_db s) = (d, rs) \<Longrightarrow> system_step env s (put_db s d)"
| logout: "logout now rq cookie (ap_db s) = (d, ro) \<Longrightarrow> system_step env s (put_db s d)"
| mavis_auth: "mavis_auth sql_lower ldap now q (ap_db s) = (d, ra) \<Longrightarrow> system_step env s (put_db s d)"
| mavis_info: "mavis_info sql_lower now iq (ap_db s) = (d, ri) \<Longrightarrow> system_step env s (put_db s d)"
| sync: "tick sql_lower connect now (ap_db s) = d \<Longrightarrow> system_step env s (put_db s d)"
| forward: "forwarder_turn net now (ap_db s) = d \<Longrightarrow> system_step env s (put_db s d)"
| open_log: "consume_start content (ap_db s) = Inr (d, pos) \<Longrightarrow> system_step env s (put_db s d)"
| ingest: "consume_line now content pos (ap_db s) = Some (Inr (d, pos')) \<Longrightarrow> system_step env s (put_db s d)"

lemma put_db_fields [simp]:
  "ap_db (put_db s d) = d" "fl_hosts (ap_fleet (put_db s d)) = fl_hosts (ap_fleet s)"
  by (simp_all add: put_db_def)

lemma event_of: "event_change d (fst x) \<Longrightarrow> x = (d', r) \<Longrightarrow> event_change d d'"
  by simp

lemma job_events:
  "tick sql_lower connect now d = d' \<Longrightarrow> event_change d d'" "forwarder_turn net now d = d' \<Longrightarrow> event_change d d'"
  using tick_event forwarder_event by blast+

lemmas step_events = job_events cli_event [THEN event_of] login_event [THEN event_of] saml_event [THEN event_of] logout_event [THEN event_of]
  mavis_event [THEN event_of] ingest_event

text \<open>Every step is an event outside the configuration or a request.\<close>

lemma system_step_cases:
  assumes "system_step env s s'"
  obtains (event) d where "s' = put_db s d" "event_change (ap_db s) d"
  | (served) env' now rq cookie req r where "serve env' now rq cookie req s = (s', r)"
      "en_nas env' = en_nas env"
  using assms
proof cases
  case request
  show thesis by (rule served [OF request]) simp
next
  case (view lib dec sl saml now rq cookie q rv)
  from arg_cong [OF view, of fst] serve_query_state [of "env\<lparr>en_sql_lower := sl, en_decode := dec, en_crypto := lib\<rparr>"
      saml now rq cookie q s] view_event [of "ap_db s" now rq cookie]
  show thesis by (intro event [of "fst (require_session now rq cookie (ap_db s))"]) (simp_all add: put_db_def)
qed (erule event, erule step_events)+

text \<open>The invariant of the system.\<close>

definition system_ok :: "app_env \<Rightarrow> app \<Rightarrow> bool" where
  "system_ok env s \<longleftrightarrow>
     config_ok (ap_db s) \<and> audit_ok (ap_db s) \<and> (ne_writable (en_nas env) \<longrightarrow> hosts_in_sync env s)"

lemma hosts_in_sync_frame:
  "config_frame (ap_db s) (ap_db s') \<Longrightarrow> fl_hosts (ap_fleet s') = fl_hosts (ap_fleet s) \<Longrightarrow>
   hosts_in_sync env s \<Longrightarrow> hosts_in_sync env s'"
  by (simp add: hosts_in_sync_def config_frame_def rendered_config_def)

lemma event_keeps:
  "event_change (ap_db s) d \<Longrightarrow> system_ok env s \<Longrightarrow> system_ok env (put_db s d)"
  by (auto simp: system_ok_def dest!: event_change_frame
      intro: config_frame_ok logged_audit_ok hosts_in_sync_frame [of s])

lemma route_keeps:
  "system_ok env s \<Longrightarrow> system_ok env (fst (route env now ctx req s))"
  by (auto simp: system_ok_def intro: route_config_ok route_hosts logged_audit_ok [OF traced_logged [OF route_traced]])

lemma session_checked_keeps:
  "require_session now rq cookie (ap_db s) = (d, r) \<Longrightarrow> system_ok env s \<Longrightarrow> system_ok env (put_db s d)"
  using require_session_only [of "ap_db s" now rq cookie]
  by (auto intro: event_keeps event_change_untouched sessions_only_untouched)

lemma serve_keeps: "system_ok env s \<Longrightarrow> system_ok env (fst (serve env now rq cookie req s))"
  using serve_cases [of now rq cookie s env req "system_ok env (fst (serve env now rq cookie req s))"]
  by (auto simp: put_db_def [symmetric] intro: session_checked_keeps route_keeps)

lemma serve_logged: "\<exists>rows. audit_log (ap_db (fst (serve env now rq cookie req s))) = audit_log (ap_db s) @ rows"
proof (rule serve_cases [of now rq cookie s env req])
  fix d and e :: http_exc
  assume "require_session now rq cookie (ap_db s) = (d, Inl e)"
    and *: "serve env now rq cookie req s = (s\<lparr>ap_fleet := (ap_fleet s)\<lparr>fl_db := d\<rparr>\<rparr>, Inl e)"
  with require_session_only [of "ap_db s" now rq cookie] have "untouched (ap_db s) d"
    by (auto dest: sessions_only_untouched)
  with * show ?thesis by (simp add: untouched_def)
next
  fix d ctx
  assume "require_session now rq cookie (ap_db s) = (d, Inr ctx)"
    and *: "serve env now rq cookie req s = route env now ctx req (s\<lparr>ap_fleet := (ap_fleet s)\<lparr>fl_db := d\<rparr>\<rparr>)"
  with require_session_only [of "ap_db s" now rq cookie] have "untouched (ap_db s) d"
    by (auto dest: sessions_only_untouched)
  with * logged_prefix [OF traced_logged [OF route_traced [of now ctx req "put_db s d" env]]]
  show ?thesis by (simp add: untouched_def put_db_def)
qed

section \<open>Runs\<close>

text \<open>
  What a system needs for its log to be trusted: an invariant every step keeps and a log every step
  extends. The client is the auditor, who only ever sees a state and a later one.
\<close>

locale logged_system =
  fixes step :: "'s \<Rightarrow> 's \<Rightarrow> bool" and inv :: "'s \<Rightarrow> bool" and log :: "'s \<Rightarrow> 'r list"
  assumes step_keeps: "step s s' \<Longrightarrow> inv s \<Longrightarrow> inv s'"
    and step_appends: "step s s' \<Longrightarrow> \<exists>rows. log s' = log s @ rows"
begin

lemma run_keeps: "step\<^sup>*\<^sup>* s s' \<Longrightarrow> inv s \<Longrightarrow> inv s'"
  by (induction rule: rtranclp_induct) (auto intro: step_keeps)

lemma run_appends: "step\<^sup>*\<^sup>* s s' \<Longrightarrow> \<exists>rows. log s' = log s @ rows"
proof (induction rule: rtranclp_induct)
  case (step s' s'')
  from step.IH step_appends [OF step.hyps(2)] show ?case by force
qed simp

lemma entry_stays: "step\<^sup>*\<^sup>* s s' \<Longrightarrow> i < length (log s) \<Longrightarrow> i < length (log s') \<and> log s' ! i = log s ! i"
  using run_appends [of s s'] by (auto simp: nth_append)

end

interpretation running: logged_system "system_step env" "system_ok env" "\<lambda>s. audit_log (ap_db s)" for env
proof
  fix s s'
  assume "system_step env s s'"
  then show "\<exists>rows. audit_log (ap_db s') = audit_log (ap_db s) @ rows"
    by (cases rule: system_step_cases)
       (auto dest!: event_change_frame logged_prefix, metis fst_conv serve_logged)
  assume ok: "system_ok env s"
  from \<open>system_step env s s'\<close> show "system_ok env s'"
  proof (cases rule: system_step_cases)
    case (served env' now rq cookie req r)
    then have "system_ok env' s" using ok by (simp add: system_ok_def hosts_in_sync_def)
    from serve_keeps [OF this, of now rq cookie req] served show ?thesis
      by (simp add: system_ok_def hosts_in_sync_def)
  qed (use ok in \<open>auto intro: event_keeps\<close>)
qed

end
