(* ===== verification/Migrations.thy ===== *)
theory Migrations
  imports Py_Base
begin

text \<open>
  \<open>backend/alembic/versions\<close>: the migrations as lists of schema operations, run the way PostgreSQL
  runs them - an operation on a name that exists or does not exist fails - and the tables the ORM
  classes of \<open>app/db/models\<close> declare. Server defaults exist only in the migrations; the ORM fills the
  same columns itself.
\<close>

section \<open>Schemas\<close>

datatype col_type = Integer | Varchar "nat option" | Text | Boolean | Timestamptz | Json_type

datatype ondelete = CASCADE | RESTRICT | SET_NULL

record column =
  co_name :: string
  co_type :: col_type
  co_nullable :: bool
  co_primary :: bool
  co_fk :: "(string \<times> string \<times> ondelete) option"
  co_default :: "string option"

datatype index_key = Key string | Expr string

datatype table_arg = Unique string "string list" | Check string string

record table_def =
  td_columns :: "column list"
  td_args :: "table_arg list"

record index_def =
  ix_name :: string
  ix_table :: string
  ix_keys :: "index_key list"
  ix_unique :: bool

record schema =
  sm_tables :: "(string \<times> table_def) list"
  sm_indexes :: "index_def list"

definition empty_schema :: schema where
  "empty_schema = \<lparr>sm_tables = [], sm_indexes = []\<rparr>"

definition has_table :: "schema \<Rightarrow> string \<Rightarrow> bool" where
  "has_table s t \<longleftrightarrow> t \<in> set (map fst (sm_tables s))"

definition refers_to :: "table_def \<Rightarrow> string list" where
  "refers_to td = map fst (List.map_filter co_fk (td_columns td))"

section \<open>Operations (alembic.op)\<close>

datatype schema_op =
    Create_table string "column list" "table_arg list"
  | Drop_table string
  | Create_index string string "index_key list" bool
  | Drop_index string string

definition column_names :: "schema \<Rightarrow> string \<Rightarrow> string list" where
  "column_names s t =
     (case map_of (sm_tables s) t of None \<Rightarrow> [] | Some td \<Rightarrow> map co_name (td_columns td))"

definition key_exists :: "schema \<Rightarrow> string \<Rightarrow> index_key \<Rightarrow> bool" where
  "key_exists s t k = (case k of Key c \<Rightarrow> c \<in> set (column_names s t) | Expr e \<Rightarrow> True)"

fun apply_op :: "schema_op \<Rightarrow> schema \<Rightarrow> schema option" where
  "apply_op (Create_table t cols args) s =
     (let td = \<lparr>td_columns = cols, td_args = args\<rparr> in
      if has_table s t \<or> \<not> list_all (has_table s) (refers_to td) then None
      else Some (s\<lparr>sm_tables := sm_tables s @ [(t, td)]\<rparr>))"
| "apply_op (Drop_table t) s =
     (if \<not> has_table s t \<or> list_ex (\<lambda>(u, td). u \<noteq> t \<and> t \<in> set (refers_to td)) (sm_tables s) then None
      else Some (s\<lparr>sm_tables := filter (\<lambda>e. fst e \<noteq> t) (sm_tables s),
                   sm_indexes := filter (\<lambda>ix. ix_table ix \<noteq> t) (sm_indexes s)\<rparr>))"
| "apply_op (Create_index i t keys uniq) s =
     (if i \<in> set (map ix_name (sm_indexes s)) \<or> \<not> has_table s t \<or> \<not> list_all (key_exists s t) keys then None
      else Some (s\<lparr>sm_indexes := sm_indexes s @
             [\<lparr>ix_name = i, ix_table = t, ix_keys = keys, ix_unique = uniq\<rparr>]\<rparr>))"
| "apply_op (Drop_index i t) s =
     (if i \<notin> set (map ix_name (sm_indexes s)) then None
      else Some (s\<lparr>sm_indexes := filter (\<lambda>ix. ix_name ix \<noteq> i) (sm_indexes s)\<rparr>))"

fun run_ops :: "schema_op list \<Rightarrow> schema \<Rightarrow> schema option" where
  "run_ops [] s = Some s"
| "run_ops (x # xs) s = (case apply_op x s of None \<Rightarrow> None | Some s' \<Rightarrow> run_ops xs s')"

section \<open>Columns as the migrations write them\<close>

definition not_null :: "string \<Rightarrow> col_type \<Rightarrow> column" where
  "not_null c t = \<lparr>co_name = c, co_type = t, co_nullable = False, co_primary = False, co_fk = None, co_default = None\<rparr>"

definition primary_key :: "string \<Rightarrow> col_type \<Rightarrow> column" where
  "primary_key c t = (not_null c t)\<lparr>co_primary := True\<rparr>"

definition nullable_col :: "string \<Rightarrow> col_type \<Rightarrow> column" where
  "nullable_col c t = (not_null c t)\<lparr>co_nullable := True\<rparr>"

definition defaulted :: "string \<Rightarrow> column \<Rightarrow> column" where
  "defaulted v c = c\<lparr>co_default := Some v\<rparr>"

definition now_col :: "string \<Rightarrow> column" where
  "now_col c = defaulted ''now()'' (not_null c Timestamptz)"

definition references :: "string \<Rightarrow> string \<Rightarrow> ondelete \<Rightarrow> column \<Rightarrow> column" where
  "references t c rule col = col\<lparr>co_fk := Some (t, c, rule)\<rparr>"

abbreviation varchar :: "nat \<Rightarrow> col_type" where
  "varchar n \<equiv> Varchar (Some n)"

text \<open>A text literal of SQL.\<close>

definition sql_text :: "string \<Rightarrow> string" where
  "sql_text s = squote # s @ [squote]"

section \<open>The revisions\<close>

record migration =
  mg_revision :: string
  mg_down_revision :: "string option"
  mg_upgrade :: "schema_op list"
  mg_downgrade :: "schema_op list"

definition initial_upgrade :: "schema_op list" where
  "initial_upgrade =
     [Create_table ''system_setting'' [primary_key ''key'' (varchar 128), not_null ''value'' Text, now_col ''updated_at''] [],
      Create_table ''system_secret''
        [primary_key ''key'' (varchar 128), not_null ''value'' (Varchar None), now_col ''updated_at''] [],
      Create_table ''user''
        [primary_key ''id'' Integer, not_null ''sam_account_name'' (varchar 256), nullable_col ''ad_object_guid'' (varchar 36),
         not_null ''distinguished_name'' (varchar 1024), nullable_col ''upn'' (varchar 256), nullable_col ''display_name'' (varchar 256),
         defaulted ''true'' (not_null ''enabled'' Boolean), nullable_col ''last_seen_in_sync_at'' Timestamptz,
         now_col ''created_at'', now_col ''updated_at''] [],
      Create_index ''ix_user_sam_account_name'' ''user'' [Key ''sam_account_name''] True,
      Create_index ''ix_user_ad_object_guid'' ''user'' [Key ''ad_object_guid''] True,
      Create_table ''ad_group''
        [primary_key ''id'' Integer, not_null ''sid'' (varchar 64), not_null ''distinguished_name'' (varchar 1024), nullable_col ''name'' (varchar 256),
         nullable_col ''last_seen_in_sync_at'' Timestamptz, now_col ''created_at''] [],
      Create_index ''ix_ad_group_sid'' ''ad_group'' [Key ''sid''] True,
      Create_table ''user_ad_group''
        [references ''user'' ''id'' CASCADE (primary_key ''user_id'' Integer),
         references ''ad_group'' ''id'' CASCADE (primary_key ''ad_group_id'' Integer)] []]"

definition initial_downgrade :: "schema_op list" where
  "initial_downgrade =
     [Drop_table ''user_ad_group'', Drop_index ''ix_ad_group_sid'' ''ad_group'', Drop_table ''ad_group'',
      Drop_index ''ix_user_ad_object_guid'' ''user'', Drop_index ''ix_user_sam_account_name'' ''user'',
      Drop_table ''user'', Drop_table ''system_secret'', Drop_table ''system_setting'']"

definition domain_upgrade :: "schema_op list" where
  "domain_upgrade =
     [Create_table ''device_group''
        [primary_key ''id'' Integer, not_null ''name'' (varchar 128), nullable_col ''description'' Text,
         now_col ''created_at''] [Unique ''device_group_name_key'' [''name'']],
      Create_table ''privilege_profile''
        [primary_key ''id'' Integer, not_null ''name'' (varchar 128), not_null ''tacacs_priv_lvl'' Integer,
         defaulted (sql_text ''[]'') (not_null ''permit_commands_regex'' Json_type),
         defaulted (sql_text ''[]'') (not_null ''deny_commands_regex'' Json_type),
         defaulted (sql_text ''{}'') (not_null ''extra_av_pairs'' Json_type), nullable_col ''description'' Text,
         now_col ''created_at'']
        [Unique ''privilege_profile_name_key'' [''name''],
         Check ''privilege_profile_priv_lvl_range'' ''tacacs_priv_lvl >= 0 AND tacacs_priv_lvl <= 15''],
      Create_table ''device''
        [primary_key ''id'' Integer, not_null ''name'' (varchar 128), not_null ''ip_or_cidr'' (varchar 64),
         references ''device_group'' ''id'' RESTRICT (not_null ''device_group_id'' Integer),
         nullable_col ''current_secret_enc'' (Varchar None), nullable_col ''previous_secret_enc'' (Varchar None),
         nullable_col ''previous_retired_at'' Timestamptz, nullable_col ''description'' Text,
         now_col ''created_at'', now_col ''updated_at'']
        [Unique ''device_name_key'' [''name''], Unique ''device_ip_or_cidr_key'' [''ip_or_cidr'']],
      Create_index ''ix_device_device_group_id'' ''device'' [Key ''device_group_id''] False,
      Create_table ''authorization''
        [primary_key ''id'' Integer,
         references ''user'' ''id'' CASCADE (nullable_col ''principal_user_id'' Integer),
         references ''ad_group'' ''id'' CASCADE (nullable_col ''principal_ad_group_id'' Integer),
         references ''device_group'' ''id'' CASCADE (not_null ''device_group_id'' Integer),
         references ''privilege_profile'' ''id'' RESTRICT (not_null ''privilege_profile_id'' Integer),
         now_col ''created_at'']
        [Check ''authorization_exactly_one_principal'' (''(principal_user_id IS NOT NULL AND principal_ad_group_id IS NULL)''
           @ '' OR (principal_user_id IS NULL AND principal_ad_group_id IS NOT NULL)''),
         Unique ''authorization_unique_user_dg_profile''
           [''principal_user_id'', ''device_group_id'', ''privilege_profile_id''],
         Unique ''authorization_unique_adgroup_dg_profile''
           [''principal_ad_group_id'', ''device_group_id'', ''privilege_profile_id'']],
      Create_index ''ix_authorization_principal_user_id'' ''authorization'' [Key ''principal_user_id''] False,
      Create_index ''ix_authorization_principal_ad_group_id'' ''authorization'' [Key ''principal_ad_group_id''] False,
      Create_index ''ix_authorization_device_group_id'' ''authorization'' [Key ''device_group_id''] False,
      Create_index ''ix_authorization_privilege_profile_id'' ''authorization'' [Key ''privilege_profile_id''] False,
      Create_index ''authorization_lookup_user'' ''authorization''
        [Key ''principal_user_id'', Key ''device_group_id''] False,
      Create_index ''authorization_lookup_adgroup'' ''authorization''
        [Key ''principal_ad_group_id'', Key ''device_group_id''] False]"

definition domain_downgrade :: "schema_op list" where
  "domain_downgrade =
     [Drop_index ''authorization_lookup_adgroup'' ''authorization'',
      Drop_index ''authorization_lookup_user'' ''authorization'',
      Drop_index ''ix_authorization_privilege_profile_id'' ''authorization'',
      Drop_index ''ix_authorization_device_group_id'' ''authorization'',
      Drop_index ''ix_authorization_principal_ad_group_id'' ''authorization'',
      Drop_index ''ix_authorization_principal_user_id'' ''authorization'', Drop_table ''authorization'',
      Drop_index ''ix_device_device_group_id'' ''device'', Drop_table ''device'',
      Drop_table ''privilege_profile'', Drop_table ''device_group'']"

definition admin_upgrade :: "schema_op list" where
  "admin_upgrade =
     [Create_table ''local_admin''
        [primary_key ''id'' Integer, not_null ''username'' (varchar 64),
         not_null ''password_argon2_hash'' (varchar 512), nullable_col ''allowed_source_cidr'' (varchar 64),
         now_col ''created_at'', nullable_col ''last_login_at'' Timestamptz]
        [Unique ''local_admin_username_key'' [''username''], Check ''local_admin_singleton'' ''id = 1''],
      Create_table ''web_session''
        [primary_key ''token'' (varchar 64), not_null ''auth_method'' (varchar 16),
         references ''local_admin'' ''id'' CASCADE (nullable_col ''local_admin_id'' Integer),
         not_null ''username_snapshot'' (varchar 256), not_null ''role'' (varchar 16), now_col ''created_at'',
         now_col ''last_seen_at'', not_null ''expires_at'' Timestamptz, not_null ''hard_expires_at'' Timestamptz,
         nullable_col ''client_ip'' (varchar 64)]
        [Check ''web_session_auth_method_valid'' (''auth_method IN ('' @ sql_text ''local'' @ '', '' @ sql_text ''saml'' @ '')'')],
      Create_table ''audit_log''
        [primary_key ''id'' Integer, now_col ''ts'', nullable_col ''actor_id'' Integer,
         not_null ''actor_username_snapshot'' (varchar 256), not_null ''actor_role'' (varchar 16),
         not_null ''auth_method'' (varchar 16), not_null ''action'' (varchar 64),
         nullable_col ''target_type'' (varchar 64), nullable_col ''target_id'' Integer, nullable_col ''summary'' Text,
         nullable_col ''client_ip'' (varchar 64), nullable_col ''user_agent'' (varchar 512)] [],
      Create_index ''ix_audit_log_ts'' ''audit_log'' [Key ''ts''] False,
      Create_index ''ix_audit_log_action'' ''audit_log'' [Key ''action''] False,
      Create_index ''ix_audit_log_actor_username_snapshot'' ''audit_log'' [Key ''actor_username_snapshot''] False]"

definition admin_downgrade :: "schema_op list" where
  "admin_downgrade =
     [Drop_index ''ix_audit_log_actor_username_snapshot'' ''audit_log'', Drop_index ''ix_audit_log_action'' ''audit_log'',
      Drop_index ''ix_audit_log_ts'' ''audit_log'', Drop_table ''audit_log'', Drop_table ''web_session'',
      Drop_table ''local_admin'']"

definition accounting_upgrade :: "schema_op list" where
  "accounting_upgrade =
     [Create_table ''accounting_record''
        [primary_key ''id'' Integer, now_col ''ts'', nullable_col ''nas_ip'' (varchar 64),
         nullable_col ''username'' (varchar 256), nullable_col ''port'' (varchar 64),
         nullable_col ''nac_ip'' (varchar 64), not_null ''action'' (varchar 16),
         nullable_col ''service'' (varchar 32), nullable_col ''cmd'' Text, nullable_col ''priv_lvl'' Integer,
         nullable_col ''elapsed_seconds'' Integer, nullable_col ''task_id'' (varchar 64),
         references ''device'' ''id'' SET_NULL (nullable_col ''device_id'' Integer),
         defaulted (sql_text ''{}'') (not_null ''raw_av_pairs'' Json_type)] [],
      Create_index ''ix_accounting_record_ts'' ''accounting_record'' [Key ''ts''] False,
      Create_index ''ix_accounting_record_username'' ''accounting_record'' [Key ''username''] False,
      Create_index ''ix_accounting_record_nas_ip'' ''accounting_record'' [Key ''nas_ip''] False,
      Create_index ''ix_accounting_record_task_id'' ''accounting_record'' [Key ''task_id''] False,
      Create_index ''ix_accounting_record_action'' ''accounting_record'' [Key ''action''] False]"

definition accounting_downgrade :: "schema_op list" where
  "accounting_downgrade =
     [Drop_index ''ix_accounting_record_action'' ''accounting_record'',
      Drop_index ''ix_accounting_record_task_id'' ''accounting_record'',
      Drop_index ''ix_accounting_record_nas_ip'' ''accounting_record'',
      Drop_index ''ix_accounting_record_username'' ''accounting_record'',
      Drop_index ''ix_accounting_record_ts'' ''accounting_record'', Drop_table ''accounting_record'']"

definition sam_lower_upgrade :: "schema_op list" where
  "sam_lower_upgrade =
     [Create_index ''uq_user_sam_account_name_lower'' ''user'' [Expr ''lower(sam_account_name)''] True]"

definition sam_lower_downgrade :: "schema_op list" where
  "sam_lower_downgrade = [Drop_index ''uq_user_sam_account_name_lower'' ''user'']"

definition migrations :: "migration list" where
  "migrations =
     [\<lparr>mg_revision = ''20260512_1700'', mg_down_revision = None,
       mg_upgrade = initial_upgrade, mg_downgrade = initial_downgrade\<rparr>,
      \<lparr>mg_revision = ''20260513_1000'', mg_down_revision = Some ''20260512_1700'',
       mg_upgrade = domain_upgrade, mg_downgrade = domain_downgrade\<rparr>,
      \<lparr>mg_revision = ''20260513_1500'', mg_down_revision = Some ''20260513_1000'',
       mg_upgrade = admin_upgrade, mg_downgrade = admin_downgrade\<rparr>,
      \<lparr>mg_revision = ''20260520_1700'', mg_down_revision = Some ''20260513_1500'',
       mg_upgrade = accounting_upgrade, mg_downgrade = accounting_downgrade\<rparr>,
      \<lparr>mg_revision = ''20260609_1500'', mg_down_revision = Some ''20260520_1700'',
       mg_upgrade = sam_lower_upgrade, mg_downgrade = sam_lower_downgrade\<rparr>]"

section \<open>Upgrades and downgrades\<close>

fun upgrade_all :: "migration list \<Rightarrow> schema \<Rightarrow> schema option" where
  "upgrade_all [] s = Some s"
| "upgrade_all (x # ms) s = (case run_ops (mg_upgrade x) s of None \<Rightarrow> None | Some s' \<Rightarrow> upgrade_all ms s')"

fun downgrade_all :: "migration list \<Rightarrow> schema \<Rightarrow> schema option" where
  "downgrade_all [] s = Some s"
| "downgrade_all (x # ms) s = (case run_ops (mg_downgrade x) s of None \<Rightarrow> None | Some s' \<Rightarrow> downgrade_all ms s')"

text \<open>The operation that takes a created object back.\<close>

fun inverse_op :: "schema_op \<Rightarrow> schema_op" where
  "inverse_op (Create_table t cols args) = Drop_table t"
| "inverse_op (Create_index i t keys uniq) = Drop_index i t"
| "inverse_op x = x"

fun creates :: "schema_op \<Rightarrow> bool" where
  "creates (Create_table t cols args) = True"
| "creates (Create_index i t keys uniq) = True"
| "creates x = False"

text \<open>Indexes and foreign keys of a schema belong to tables it has.\<close>

definition schema_ok :: "schema \<Rightarrow> bool" where
  "schema_ok s \<longleftrightarrow>
     list_all (\<lambda>ix. has_table s (ix_table ix)) (sm_indexes s) \<and>
     list_all (\<lambda>(t, td). list_all (has_table s) (refers_to td)) (sm_tables s)"

lemma has_table_snoc: "has_table (s\<lparr>sm_tables := sm_tables s @ [(t, td)]\<rparr>) u \<longleftrightarrow> u = t \<or> has_table s u"
  by (auto simp: has_table_def)

lemma has_table_indexes [simp]: "has_table (s\<lparr>sm_indexes := is\<rparr>) t = has_table s t"
  by (simp add: has_table_def)

lemma create_keeps_ok: "apply_op x s = Some s' \<Longrightarrow> creates x \<Longrightarrow> schema_ok s \<Longrightarrow> schema_ok s'"
  by (cases x; simp add: schema_ok_def list_all_iff has_table_snoc Let_def split: if_splits; fastforce simp: has_table_snoc)

lemma inverse_undoes:
  assumes "apply_op x s = Some s'" and "creates x" and "schema_ok s"
  shows "apply_op (inverse_op x) s' = Some s"
proof (cases x)
  case (Create_table t cols args)
  with assms(1) have new: "\<not> has_table s t" and s': "s' = s\<lparr>sm_tables := sm_tables s @ [(t, \<lparr>td_columns = cols, td_args = args\<rparr>)]\<rparr>"
    by (auto simp: Let_def split: if_splits)
  have "filter (\<lambda>e. fst e \<noteq> t) (sm_tables s) = sm_tables s"
    using new by (auto simp: has_table_def filter_id_conv)
  moreover have "filter (\<lambda>ix. ix_table ix \<noteq> t) (sm_indexes s) = sm_indexes s"
    using new assms(3) by (auto simp: schema_ok_def list_all_iff filter_id_conv)
  moreover have "\<not> list_ex (\<lambda>(u, td). u \<noteq> t \<and> t \<in> set (refers_to td)) (sm_tables s)"
    using new assms(3) by (auto simp: schema_ok_def list_all_iff list_ex_iff)
  ultimately show ?thesis by (simp add: Create_table s' has_table_snoc)
next
  case (Create_index i t keys uniq)
  with assms(1) have "i \<notin> ix_name ` set (sm_indexes s)"
    and s': "s' = s\<lparr>sm_indexes := sm_indexes s @ [\<lparr>ix_name = i, ix_table = t, ix_keys = keys, ix_unique = uniq\<rparr>]\<rparr>"
    by (auto split: if_splits)
  then have "filter (\<lambda>ix. ix_name ix \<noteq> i) (sm_indexes s) = sm_indexes s" by (auto simp: filter_id_conv)
  then show ?thesis by (simp add: Create_index s')
qed (use assms in auto)

lemma run_ops_append: "run_ops (xs @ ys) s = (case run_ops xs s of None \<Rightarrow> None | Some s' \<Rightarrow> run_ops ys s')"
  by (induction xs arbitrary: s) (auto split: option.split)

lemma run_creates_ok: "run_ops xs s = Some s' \<Longrightarrow> list_all creates xs \<Longrightarrow> schema_ok s \<Longrightarrow> schema_ok s'"
  by (induction xs arbitrary: s) (auto split: option.splits intro: create_keeps_ok)

lemma run_inverses:
  "run_ops xs s = Some s' \<Longrightarrow> list_all creates xs \<Longrightarrow> schema_ok s \<Longrightarrow>
   run_ops (map inverse_op (rev xs)) s' = Some s"
proof (induction xs arbitrary: s)
  case (Cons x xs)
  then obtain s1 where x: "apply_op x s = Some s1" and xs: "run_ops xs s1 = Some s'" by (auto split: option.splits)
  with Cons.prems create_keeps_ok [OF x] have "run_ops (map inverse_op (rev xs)) s' = Some s1"
    by (intro Cons.IH) simp_all
  with inverse_undoes [OF x] Cons.prems show ?case by (simp add: run_ops_append)
qed simp

lemma downgrades_are_inverse:
  "m \<in> set migrations \<Longrightarrow> mg_downgrade m = map inverse_op (rev (mg_upgrade m)) \<and> list_all creates (mg_upgrade m)"
  by (auto simp: migrations_def initial_upgrade_def initial_downgrade_def domain_upgrade_def domain_downgrade_def
      admin_upgrade_def admin_downgrade_def accounting_upgrade_def accounting_downgrade_def
      sam_lower_upgrade_def sam_lower_downgrade_def)

lemma downgrade_undoes:
  "m \<in> set migrations \<Longrightarrow> run_ops (mg_upgrade m) s = Some s' \<Longrightarrow> schema_ok s \<Longrightarrow>
   run_ops (mg_downgrade m) s' = Some s \<and> schema_ok s'"
  using downgrades_are_inverse [of m] run_inverses run_creates_ok by metis

lemma downgrade_all_append:
  "downgrade_all (xs @ ys) s = (case downgrade_all xs s of None \<Rightarrow> None | Some s' \<Rightarrow> downgrade_all ys s')"
  by (induction xs arbitrary: s) (auto split: option.split)

section \<open>The tables the ORM declares (app/db/models)\<close>

datatype orm_arg = Arg table_arg | Arg_index string "string list"

text \<open>A class: its table, its columns each with \<open>unique\<close> and \<open>index\<close>, and \<open>__table_args__\<close>.\<close>

record orm_class =
  oc_table :: string
  oc_columns :: "(column \<times> bool \<times> bool) list"
  oc_args :: "orm_arg list"

definition plain :: "column \<Rightarrow> column \<times> bool \<times> bool" where
  "plain c = (c, False, False)"

definition unique_col :: "column \<Rightarrow> column \<times> bool \<times> bool" where
  "unique_col c = (c, True, False)"

definition indexed :: "column \<Rightarrow> column \<times> bool \<times> bool" where
  "indexed c = (c, False, True)"

definition unique_indexed :: "column \<Rightarrow> column \<times> bool \<times> bool" where
  "unique_indexed c = (c, True, True)"

definition SystemSetting :: orm_class where
  "SystemSetting = \<lparr>oc_table = ''system_setting'',
     oc_columns = map plain [primary_key ''key'' (varchar 128), not_null ''value'' Text, not_null ''updated_at'' Timestamptz],
     oc_args = []\<rparr>"

definition SystemSecret :: orm_class where
  "SystemSecret = \<lparr>oc_table = ''system_secret'',
     oc_columns = map plain
       [primary_key ''key'' (varchar 128), not_null ''value'' (Varchar None), not_null ''updated_at'' Timestamptz],
     oc_args = []\<rparr>"

definition User :: orm_class where
  "User = \<lparr>oc_table = ''user'',
     oc_columns =
       [plain (primary_key ''id'' Integer), unique_indexed (not_null ''sam_account_name'' (varchar 256)),
        unique_indexed (nullable_col ''ad_object_guid'' (varchar 36)),
        plain (not_null ''distinguished_name'' (varchar 1024)), plain (nullable_col ''upn'' (varchar 256)),
        plain (nullable_col ''display_name'' (varchar 256)), plain (not_null ''enabled'' Boolean),
        plain (nullable_col ''last_seen_in_sync_at'' Timestamptz), plain (not_null ''created_at'' Timestamptz),
        plain (not_null ''updated_at'' Timestamptz)],
     oc_args = []\<rparr>"

definition ADGroup :: orm_class where
  "ADGroup = \<lparr>oc_table = ''ad_group'',
     oc_columns =
       [plain (primary_key ''id'' Integer), unique_indexed (not_null ''sid'' (varchar 64)),
        plain (not_null ''distinguished_name'' (varchar 1024)), plain (nullable_col ''name'' (varchar 256)),
        plain (nullable_col ''last_seen_in_sync_at'' Timestamptz), plain (not_null ''created_at'' Timestamptz)],
     oc_args = []\<rparr>"

definition UserADGroup :: orm_class where
  "UserADGroup = \<lparr>oc_table = ''user_ad_group'',
     oc_columns = map plain
       [references ''user'' ''id'' CASCADE (primary_key ''user_id'' Integer),
        references ''ad_group'' ''id'' CASCADE (primary_key ''ad_group_id'' Integer)],
     oc_args = []\<rparr>"

definition DeviceGroup :: orm_class where
  "DeviceGroup = \<lparr>oc_table = ''device_group'',
     oc_columns =
       [plain (primary_key ''id'' Integer), unique_col (not_null ''name'' (varchar 128)),
        plain (nullable_col ''description'' Text), plain (not_null ''created_at'' Timestamptz)],
     oc_args = []\<rparr>"

definition PrivilegeProfile :: orm_class where
  "PrivilegeProfile = \<lparr>oc_table = ''privilege_profile'',
     oc_columns =
       [plain (primary_key ''id'' Integer), unique_col (not_null ''name'' (varchar 128)),
        plain (not_null ''tacacs_priv_lvl'' Integer), plain (not_null ''permit_commands_regex'' Json_type),
        plain (not_null ''deny_commands_regex'' Json_type), plain (not_null ''extra_av_pairs'' Json_type),
        plain (nullable_col ''description'' Text), plain (not_null ''created_at'' Timestamptz)],
     oc_args =
       [Arg (Check ''privilege_profile_priv_lvl_range'' ''tacacs_priv_lvl >= 0 AND tacacs_priv_lvl <= 15'')]\<rparr>"

definition Device_class :: orm_class where
  "Device_class = \<lparr>oc_table = ''device'',
     oc_columns =
       [plain (primary_key ''id'' Integer), unique_col (not_null ''name'' (varchar 128)),
        unique_col (not_null ''ip_or_cidr'' (varchar 64)),
        indexed (references ''device_group'' ''id'' RESTRICT (not_null ''device_group_id'' Integer)),
        plain (nullable_col ''current_secret_enc'' (Varchar None)),
        plain (nullable_col ''previous_secret_enc'' (Varchar None)),
        plain (nullable_col ''previous_retired_at'' Timestamptz), plain (nullable_col ''description'' Text),
        plain (not_null ''created_at'' Timestamptz), plain (not_null ''updated_at'' Timestamptz)],
     oc_args = []\<rparr>"

definition Authorization_class :: orm_class where
  "Authorization_class = \<lparr>oc_table = ''authorization'',
     oc_columns =
       [plain (primary_key ''id'' Integer),
        indexed (references ''user'' ''id'' CASCADE (nullable_col ''principal_user_id'' Integer)),
        indexed (references ''ad_group'' ''id'' CASCADE (nullable_col ''principal_ad_group_id'' Integer)),
        indexed (references ''device_group'' ''id'' CASCADE (not_null ''device_group_id'' Integer)),
        indexed (references ''privilege_profile'' ''id'' RESTRICT (not_null ''privilege_profile_id'' Integer)),
        plain (not_null ''created_at'' Timestamptz)],
     oc_args =
       [Arg (Check ''authorization_exactly_one_principal''
          (''(principal_user_id IS NOT NULL AND principal_ad_group_id IS NULL)'' @
           '' OR (principal_user_id IS NULL AND principal_ad_group_id IS NOT NULL)'')),
        Arg (Unique ''authorization_unique_user_dg_profile''
          [''principal_user_id'', ''device_group_id'', ''privilege_profile_id'']),
        Arg (Unique ''authorization_unique_adgroup_dg_profile''
          [''principal_ad_group_id'', ''device_group_id'', ''privilege_profile_id'']),
        Arg_index ''authorization_lookup_user'' [''principal_user_id'', ''device_group_id''],
        Arg_index ''authorization_lookup_adgroup'' [''principal_ad_group_id'', ''device_group_id'']]\<rparr>"

definition LocalAdmin :: orm_class where
  "LocalAdmin = \<lparr>oc_table = ''local_admin'',
     oc_columns =
       [plain (primary_key ''id'' Integer), unique_col (not_null ''username'' (varchar 64)),
        plain (not_null ''password_argon2_hash'' (varchar 512)),
        plain (nullable_col ''allowed_source_cidr'' (varchar 64)), plain (not_null ''created_at'' Timestamptz),
        plain (nullable_col ''last_login_at'' Timestamptz)],
     oc_args = [Arg (Check ''local_admin_singleton'' ''id = 1'')]\<rparr>"

definition WebSession :: orm_class where
  "WebSession = \<lparr>oc_table = ''web_session'',
     oc_columns = map plain
       [primary_key ''token'' (varchar 64), not_null ''auth_method'' (varchar 16),
        references ''local_admin'' ''id'' CASCADE (nullable_col ''local_admin_id'' Integer),
        not_null ''username_snapshot'' (varchar 256), not_null ''role'' (varchar 16),
        not_null ''created_at'' Timestamptz, not_null ''last_seen_at'' Timestamptz,
        not_null ''expires_at'' Timestamptz, not_null ''hard_expires_at'' Timestamptz,
        nullable_col ''client_ip'' (varchar 64)],
     oc_args = [Arg (Check ''web_session_auth_method_valid''
       (''auth_method IN ('' @ sql_text ''local'' @ '', '' @ sql_text ''saml'' @ '')''))]\<rparr>"

definition AuditLog :: orm_class where
  "AuditLog = \<lparr>oc_table = ''audit_log'',
     oc_columns = map plain
       [primary_key ''id'' Integer, not_null ''ts'' Timestamptz, nullable_col ''actor_id'' Integer,
        not_null ''actor_username_snapshot'' (varchar 256), not_null ''actor_role'' (varchar 16),
        not_null ''auth_method'' (varchar 16), not_null ''action'' (varchar 64),
        nullable_col ''target_type'' (varchar 64), nullable_col ''target_id'' Integer, nullable_col ''summary'' Text,
        nullable_col ''client_ip'' (varchar 64), nullable_col ''user_agent'' (varchar 512)],
     oc_args =
       [Arg_index ''ix_audit_log_ts'' [''ts''], Arg_index ''ix_audit_log_action'' [''action''],
        Arg_index ''ix_audit_log_actor_username_snapshot'' [''actor_username_snapshot'']]\<rparr>"

definition AccountingRecord :: orm_class where
  "AccountingRecord = \<lparr>oc_table = ''accounting_record'',
     oc_columns = map plain
       [primary_key ''id'' Integer, not_null ''ts'' Timestamptz, nullable_col ''nas_ip'' (varchar 64),
        nullable_col ''username'' (varchar 256), nullable_col ''port'' (varchar 64), nullable_col ''nac_ip'' (varchar 64),
        not_null ''action'' (varchar 16), nullable_col ''service'' (varchar 32), nullable_col ''cmd'' Text,
        nullable_col ''priv_lvl'' Integer, nullable_col ''elapsed_seconds'' Integer,
        nullable_col ''task_id'' (varchar 64),
        references ''device'' ''id'' SET_NULL (nullable_col ''device_id'' Integer),
        not_null ''raw_av_pairs'' Json_type],
     oc_args =
       [Arg_index ''ix_accounting_record_ts'' [''ts''], Arg_index ''ix_accounting_record_username'' [''username''],
        Arg_index ''ix_accounting_record_nas_ip'' [''nas_ip''], Arg_index ''ix_accounting_record_task_id'' [''task_id''],
        Arg_index ''ix_accounting_record_action'' [''action'']]\<rparr>"

definition orm_classes :: "orm_class list" where
  "orm_classes = [SystemSetting, SystemSecret, User, ADGroup, UserADGroup, DeviceGroup, PrivilegeProfile,
     Device_class, Authorization_class, LocalAdmin, WebSession, AuditLog, AccountingRecord]"

text \<open>
  What a table enforces, however it is written: its columns without server defaults, the lists of
  keys that are unique (by constraint or index), the named checks, the lists of keys with an index.
\<close>

record table_facts =
  fa_columns :: "column list"
  fa_unique :: "index_key list set"
  fa_checks :: "(string \<times> string) set"
  fa_indexed :: "index_key list set"

definition unique_keys :: "table_arg list \<Rightarrow> index_key list list" where
  "unique_keys args = concat (map (\<lambda>a. case a of Unique n cs \<Rightarrow> [map Key cs] | Check n c \<Rightarrow> []) args)"

definition named_checks :: "table_arg list \<Rightarrow> (string \<times> string) list" where
  "named_checks args = concat (map (\<lambda>a. case a of Unique n cs \<Rightarrow> [] | Check n c \<Rightarrow> [(n, c)]) args)"

definition migrated_facts :: "schema \<Rightarrow> string \<Rightarrow> table_facts option" where
  "migrated_facts s t =
     map_option (\<lambda>td.
       (let own = filter (\<lambda>ix. ix_table ix = t) (sm_indexes s) in
        \<lparr>fa_columns = map (\<lambda>c. c\<lparr>co_default := None\<rparr>) (td_columns td),
         fa_unique = set (unique_keys (td_args td)) \<union> set (map ix_keys (filter ix_unique own)),
         fa_checks = set (named_checks (td_args td)), fa_indexed = set (map ix_keys own)\<rparr>))
       (map_of (sm_tables s) t)"

definition table_args :: "orm_class \<Rightarrow> table_arg list" where
  "table_args k = concat (map (\<lambda>a. case a of Arg x \<Rightarrow> [x] | Arg_index n cs \<Rightarrow> []) (oc_args k))"

definition orm_facts :: "orm_class \<Rightarrow> table_facts" where
  "orm_facts k =
     \<lparr>fa_columns = map fst (oc_columns k),
      fa_unique = set (map (\<lambda>(c, _). [Key (co_name c)]) (filter (\<lambda>(c, u, i). u) (oc_columns k))) \<union>
        set (unique_keys (table_args k)),
      fa_checks = set (named_checks (table_args k)),
      fa_indexed = set (map (\<lambda>(c, _). [Key (co_name c)]) (filter (\<lambda>(c, u, i). i) (oc_columns k))) \<union>
        set (concat (map (\<lambda>a. case a of Arg x \<Rightarrow> [] | Arg_index n cs \<Rightarrow> [map Key cs]) (oc_args k)))\<rparr>"

section \<open>Properties\<close>

text \<open>
  Every chain of the revisions can be taken back: after upgrading any well-formed schema by some of
  them, downgrading in the reverse order succeeds and restores the schema exactly.
\<close>

theorem downgrades_restore_the_schema:
  assumes "upgrade_all ms s = Some s'" and "set ms \<subseteq> set migrations" and "schema_ok s"
  shows "downgrade_all (rev ms) s' = Some s"
  using assms
proof (induction ms arbitrary: s)
  case (Cons m ms)
  then obtain s1 where m: "run_ops (mg_upgrade m) s = Some s1" and ms: "upgrade_all ms s1 = Some s'"
    by (auto split: option.splits)
  from downgrade_undoes [OF _ m] Cons.prems have undo: "run_ops (mg_downgrade m) s1 = Some s" "schema_ok s1" by auto
  from Cons.IH [OF ms _ undo(2)] Cons.prems undo(1) show ?case by (simp add: downgrade_all_append)
qed simp

lemma schema_ok_empty: "schema_ok empty_schema"
  by (simp add: schema_ok_def empty_schema_def)

lemmas migration_defs = migrations_def initial_upgrade_def domain_upgrade_def admin_upgrade_def
  accounting_upgrade_def sam_lower_upgrade_def empty_schema_def has_table_def refers_to_def key_exists_def
  column_names_def List.map_filter_simps not_null_def primary_key_def nullable_col_def defaulted_def
  now_col_def references_def

definition head_schema :: schema where
  "head_schema = the (upgrade_all migrations empty_schema)"

lemma head_reached: "upgrade_all migrations empty_schema = Some head_schema"
proof -
  have "\<not> Option.is_none (upgrade_all migrations empty_schema)" by code_simp
  then show ?thesis by (simp add: head_schema_def Option.is_none_def)
qed

theorem downgrades_restore_the_schema_witness:
  "downgrade_all (rev migrations) head_schema = Some empty_schema"
  by (rule downgrades_restore_the_schema [OF head_reached subset_refl schema_ok_empty])

text \<open>The unique index of the last revision, on an expression no ORM class declares.\<close>

definition lower_name :: "index_key list" where
  "lower_name = [Expr ''lower(sam_account_name)'']"

definition with_lower_name :: "table_facts \<Rightarrow> table_facts" where
  "with_lower_name f = f\<lparr>fa_unique := insert lower_name (fa_unique f), fa_indexed := insert lower_name (fa_indexed f)\<rparr>"

text \<open>
  C40: The migrations build what the models declare: upgrading an empty database gives exactly the
  tables of the ORM classes, with the same columns, types, nullability, keys and delete rules, the
  same unique columns, checks and indexes - plus, on \<open>user\<close>, the case-insensitive unique name that
  the lookups of the MAVIS routes rely on and that no model declares.
\<close>

theorem migrations_build_the_models:
  "upgrade_all migrations empty_schema = Some head_schema \<and>
   set (map fst (sm_tables head_schema)) = set (map oc_table orm_classes) \<and>
   list_all (\<lambda>k. migrated_facts head_schema (oc_table k) =
     Some (if oc_table k = ''user'' then with_lower_name (orm_facts k) else orm_facts k)) orm_classes"
proof (intro conjI head_reached)
  show "set (map fst (sm_tables head_schema)) = set (map oc_table orm_classes)" by code_simp
  show "list_all (\<lambda>k. migrated_facts head_schema (oc_table k) =
     Some (if oc_table k = ''user'' then with_lower_name (orm_facts k) else orm_facts k)) orm_classes" by code_simp
qed

end
