(* ===== verification/Routing.thy ===== *)
theory Routing
  imports Application
begin

text \<open>
  \<open>app/main.py\<close> and the routers it mounts: which method and path reach which handler, and which
  handlers stand behind the session dependency - of the mount, or of their own parameters. Matching
  a path against a template is Starlette's; it is the parameter \<open>matches\<close>, and \<open>path_matcher\<close> is its
  documented behaviour. All path parameters of the program are whole segments.
\<close>

section \<open>Routers\<close>

datatype http_method = GET | POST | PUT | PATCH | DELETE

text \<open>A route of a router: its handler, and whether the handler itself depends on the session.\<close>

record endpoint =
  ep_method :: http_method
  ep_path :: string
  ep_name :: string
  ep_session :: bool

definition route_to :: "http_method \<Rightarrow> string \<Rightarrow> string \<Rightarrow> bool \<Rightarrow> endpoint" where
  "route_to m p n s = \<lparr>ep_method = m, ep_path = p, ep_name = n, ep_session = s\<rparr>"

definition health_router :: "endpoint list" where
  "health_router =
     [route_to GET ''/live'' ''live'' False,
      route_to GET ''/ready'' ''ready'' False]"

definition auth_local_router :: "endpoint list" where
  "auth_local_router =
     [route_to POST ''/login/local'' ''login_local'' False,
      route_to POST ''/logout'' ''logout'' True,
      route_to GET ''/me'' ''me'' True]"

definition saml_routes_router :: "endpoint list" where
  "saml_routes_router =
     [route_to GET ''/login'' ''saml_login'' False,
      route_to GET ''/metadata'' ''saml_metadata'' False,
      route_to POST ''/acs'' ''saml_acs'' False]"

definition internal_mavis_router :: "endpoint list" where
  "internal_mavis_router =
     [route_to POST ''/auth'' ''mavis_auth'' False,
      route_to POST ''/info'' ''mavis_info'' False]"

definition device_groups_router :: "endpoint list" where
  "device_groups_router =
     [route_to GET '''' ''list_device_groups'' False,
      route_to POST '''' ''create_device_group'' True,
      route_to GET ''/{device_group_id}'' ''get_device_group'' False,
      route_to PATCH ''/{device_group_id}'' ''update_device_group'' True,
      route_to DELETE ''/{device_group_id}'' ''delete_device_group'' True]"

definition privilege_profiles_router :: "endpoint list" where
  "privilege_profiles_router =
     [route_to GET '''' ''list_privilege_profiles'' False,
      route_to POST '''' ''create_privilege_profile'' True,
      route_to GET ''/{profile_id}'' ''get_privilege_profile'' False,
      route_to PATCH ''/{profile_id}'' ''update_privilege_profile'' True,
      route_to DELETE ''/{profile_id}'' ''delete_privilege_profile'' True]"

definition devices_router :: "endpoint list" where
  "devices_router =
     [route_to GET '''' ''list_devices'' False,
      route_to POST '''' ''create_device'' True,
      route_to GET ''/{device_id}'' ''get_device'' False,
      route_to PATCH ''/{device_id}'' ''update_device'' True,
      route_to DELETE ''/{device_id}'' ''delete_device'' True,
      route_to POST ''/{device_id}/rotate-secret'' ''rotate_secret'' True,
      route_to POST ''/{device_id}/retire-previous'' ''retire_previous_secret'' True]"

definition authorizations_router :: "endpoint list" where
  "authorizations_router =
     [route_to GET '''' ''list_authorizations'' False,
      route_to POST '''' ''create_authorization'' True,
      route_to GET ''/{authz_id}'' ''get_authorization'' False,
      route_to DELETE ''/{authz_id}'' ''delete_authorization'' True]"

definition effective_permissions_router :: "endpoint list" where
  "effective_permissions_router =
     [route_to GET ''/users/{user_id}/effective-permissions'' ''list_effective_permissions'' False,
      route_to GET ''/me/access'' ''my_access'' True]"

definition users_router :: "endpoint list" where
  "users_router =
     [route_to GET '''' ''list_users'' False]"

definition ad_groups_router :: "endpoint list" where
  "ad_groups_router =
     [route_to GET '''' ''list_ad_groups'' False]"

definition settings_router :: "endpoint list" where
  "settings_router =
     [route_to GET ''/ldap'' ''get_ldap_settings'' False,
      route_to PUT ''/ldap'' ''put_ldap_settings'' True,
      route_to GET ''/web'' ''get_web_settings'' False,
      route_to PUT ''/web'' ''put_web_settings'' True]"

definition settings_tls_router :: "endpoint list" where
  "settings_tls_router =
     [route_to GET '''' ''get_tls_status'' False,
      route_to POST ''/upload'' ''upload_tls'' True,
      route_to POST ''/upload-pfx'' ''upload_tls_pfx'' True,
      route_to POST ''/regenerate-self-signed'' ''regenerate_self_signed'' True]"

definition settings_saml_router :: "endpoint list" where
  "settings_saml_router =
     [route_to GET '''' ''get_saml_status'' False,
      route_to PUT ''/idp-metadata'' ''import_idp_metadata'' True,
      route_to PUT ''/mapping'' ''update_mapping'' True,
      route_to POST ''/sp-keypair'' ''regenerate_sp_keypair'' True,
      route_to GET ''/sp-metadata'' ''get_sp_metadata'' False]"

definition settings_ldap_sync_router :: "endpoint list" where
  "settings_ldap_sync_router =
     [route_to GET '''' ''get_status'' False,
      route_to PUT '''' ''update_config'' True,
      route_to POST ''/test'' ''test_endpoint'' True,
      route_to POST ''/run'' ''run_now'' True]"

definition settings_syslog_router :: "endpoint list" where
  "settings_syslog_router =
     [route_to GET '''' ''get_status'' False,
      route_to PUT '''' ''update_config'' True,
      route_to POST ''/test'' ''test_endpoint'' True]"

definition admin_router :: "endpoint list" where
  "admin_router =
     [route_to POST ''/regenerate-nas-config'' ''regenerate'' True]"

definition audit_log_router :: "endpoint list" where
  "audit_log_router =
     [route_to GET ''/actions'' ''list_known_actions'' True,
      route_to GET '''' ''list_audit_log'' True]"

definition accounting_router :: "endpoint list" where
  "accounting_router =
     [route_to GET '''' ''list_accounting'' True]"

definition setup_router :: "endpoint list" where
  "setup_router =
     [route_to GET '''' ''get_setup_status'' False,
      route_to POST ''/complete'' ''complete_wizard'' True,
      route_to POST ''/reopen'' ''reopen_wizard'' True]"

definition device_templates_router :: "endpoint list" where
  "device_templates_router =
     [route_to GET '''' ''get_hints'' False]"

section \<open>The application\<close>

record mount =
  mo_prefix :: string
  mo_guarded :: bool
  mo_routes :: "endpoint list"

definition include_router :: "string \<Rightarrow> bool \<Rightarrow> endpoint list \<Rightarrow> mount" where
  "include_router p g es = \<lparr>mo_prefix = p, mo_guarded = g, mo_routes = es\<rparr>"

definition mounts :: "mount list" where
  "mounts =
     [include_router ''/healthz'' False health_router,
      include_router '''' False auth_local_router,
      include_router ''/saml'' False saml_routes_router,
      include_router ''/internal/mavis'' False internal_mavis_router,
      include_router ''/api/v1/device-groups'' True device_groups_router,
      include_router ''/api/v1/privilege-profiles'' True privilege_profiles_router,
      include_router ''/api/v1/devices'' True devices_router,
      include_router ''/api/v1/authorizations'' True authorizations_router,
      include_router ''/api/v1'' True effective_permissions_router,
      include_router ''/api/v1/users'' True users_router,
      include_router ''/api/v1/ad-groups'' True ad_groups_router,
      include_router ''/api/v1/settings'' True settings_router,
      include_router ''/api/v1/settings/tls'' True settings_tls_router,
      include_router ''/api/v1/settings/saml'' True settings_saml_router,
      include_router ''/api/v1/settings/ldap-sync'' True settings_ldap_sync_router,
      include_router ''/api/v1/settings/syslog'' True settings_syslog_router,
      include_router ''/api/v1/admin'' True admin_router,
      include_router ''/api/v1/audit-log'' True audit_log_router,
      include_router ''/api/v1/accounting'' True accounting_router,
      include_router ''/api/v1/setup'' True setup_router,
      include_router ''/api/v1/device-templates'' True device_templates_router]"

text \<open>A route of the application: prefix, whether its mount has the session dependency, endpoint.\<close>

type_synonym app_route = "string \<times> bool \<times> endpoint"

definition routes_of :: "mount list \<Rightarrow> app_route list" where
  "routes_of ms = concat (map (\<lambda>m. map (\<lambda>e. (mo_prefix m, mo_guarded m, e)) (mo_routes m)) ms)"

fun template :: "app_route \<Rightarrow> string" where
  "template (p, g, e) = p @ ep_path e"

fun route_method :: "app_route \<Rightarrow> http_method" where
  "route_method (p, g, e) = ep_method e"

fun handler :: "app_route \<Rightarrow> string \<times> string" where
  "handler (p, g, e) = (p, ep_name e)"

text \<open>Whether a request without a session is refused before the handler runs.\<close>

fun behind_session :: "app_route \<Rightarrow> bool" where
  "behind_session (p, g, e) \<longleftrightarrow> g \<or> ep_session e"

datatype dispatched = To app_route | Method_not_allowed | Not_found

definition dispatch :: "(string \<Rightarrow> string \<Rightarrow> bool) \<Rightarrow> app_route list \<Rightarrow> http_method \<Rightarrow> string \<Rightarrow> dispatched" where
  "dispatch matches rs m path =
     (case List.find (\<lambda>r. matches (template r) path \<and> route_method r = m) rs of
        Some r \<Rightarrow> To r
      | None \<Rightarrow> if list_ex (\<lambda>r. matches (template r) path) rs then Method_not_allowed else Not_found)"

text \<open>What Starlette documents of path templates: \<open>{name}\<close> stands for one non-empty segment.\<close>

definition is_param :: "string \<Rightarrow> bool" where
  "is_param seg \<longleftrightarrow> startswith ''{'' seg"

definition seg_match :: "string \<Rightarrow> string \<Rightarrow> bool" where
  "seg_match t s \<longleftrightarrow> (if is_param t then s \<noteq> [] else t = s)"

definition template_match :: "string \<Rightarrow> string \<Rightarrow> bool" where
  "template_match t path \<longleftrightarrow> list_all2 seg_match (py_split CHR ''/'' t) (py_split CHR ''/'' path)"

definition path_matcher :: "(string \<Rightarrow> string \<Rightarrow> bool) \<Rightarrow> bool" where
  "path_matcher matches \<longleftrightarrow> (\<forall>r\<in>set (routes_of mounts). \<forall>path. matches (template r) path = template_match (template r) path)"

section \<open>Routes do not overlap\<close>

definition seg_overlap :: "string \<Rightarrow> string \<Rightarrow> bool" where
  "seg_overlap a b \<longleftrightarrow> (if is_param a then b \<noteq> [] else if is_param b then a \<noteq> [] else a = b)"

lemma seg_match_overlap: "seg_match a s \<Longrightarrow> seg_match b s \<Longrightarrow> seg_overlap a b"
  by (auto simp: seg_match_def seg_overlap_def is_param_def split: if_splits)

lemma match_overlap:
  "list_all2 seg_match ts s \<Longrightarrow> list_all2 seg_match us s \<Longrightarrow> list_all2 seg_overlap ts us"
  by (induction ts s arbitrary: us rule: list_all2_induct)
     (auto simp: list_all2_Cons2 intro: seg_match_overlap)

text \<open>The routes as methods and segments, and whether two of them can serve the same request.\<close>

fun shape :: "app_route \<Rightarrow> http_method \<times> string list" where
  "shape r = (route_method r, py_split CHR ''/'' (template r))"

fun clash :: "http_method \<times> string list \<Rightarrow> http_method \<times> string list \<Rightarrow> bool" where
  "clash (m, ts) (n, us) \<longleftrightarrow> m = n \<and> list_all2 seg_overlap ts us"

fun clash_free :: "(http_method \<times> string list) list \<Rightarrow> bool" where
  "clash_free [] = True"
| "clash_free (x # xs) = (list_all (\<lambda>y. \<not> clash x y \<and> \<not> clash y x) xs \<and> clash_free xs)"

lemma routes_clash_free: "clash_free (map shape (routes_of mounts))"
  by code_simp

lemma clash_free_pairs:
  "clash_free (map shape rs) \<Longrightarrow> r \<in> set rs \<Longrightarrow> q \<in> set rs \<Longrightarrow> clash (shape r) (shape q) \<Longrightarrow> r = q"
  by (induction rs) (auto simp: list_all_iff)

text \<open>At most one route serves a method and a path.\<close>

lemma one_route:
  assumes "path_matcher matches" and "r \<in> set (routes_of mounts)" and "q \<in> set (routes_of mounts)"
    and "matches (template r) path" and "matches (template q) path" and "route_method r = route_method q"
  shows "r = q"
proof -
  from assms have "template_match (template r) path" "template_match (template q) path"
    by (auto simp: path_matcher_def)
  with assms(6) have "clash (shape r) (shape q)" by (auto simp: template_match_def intro: match_overlap)
  with clash_free_pairs [OF routes_clash_free assms(2,3)] show ?thesis by blast
qed

lemma find_set:
  assumes "set xs = set ys" and "\<And>x y. x \<in> set ys \<Longrightarrow> y \<in> set ys \<Longrightarrow> P x \<Longrightarrow> P y \<Longrightarrow> x = y"
  shows "List.find P xs = List.find P ys"
proof (cases "List.find P ys")
  case None
  with assms(1) have "List.find P xs = None" by (simp add: find_None_iff)
  with None show ?thesis by simp
next
  case (Some y)
  then have y: "y \<in> set ys" "P y" by (auto simp: find_Some_iff)
  with assms(1) obtain x where "List.find P xs = Some x" by (cases "List.find P xs") (auto simp: find_None_iff)
  then have "x \<in> set ys" "P x" using assms(1) by (auto simp: find_Some_iff)
  with y assms(2) \<open>List.find P xs = Some x\<close> Some show ?thesis by auto
qed

lemma dispatch_one:
  assumes "path_matcher matches" and "r \<in> set (routes_of mounts)" and "template_match (template r) path"
  shows "dispatch matches (routes_of mounts) (route_method r) path = To r"
proof -
  from assms have r: "matches (template r) path" by (auto simp: path_matcher_def)
  let ?P = "\<lambda>q. matches (template q) path \<and> route_method q = route_method r"
  have "List.find ?P (routes_of mounts) \<noteq> None"
    using r assms(2) unfolding find_None_iff by blast
  then obtain q where q: "List.find ?P (routes_of mounts) = Some q" by blast
  then have "q \<in> set (routes_of mounts)" "matches (template q) path" "route_method q = route_method r"
    by (auto simp: find_Some_iff)
  from one_route [OF assms(1,2) this(1) r this(2)] this(3) have "r = q" by simp
  with q show ?thesis by (simp add: dispatch_def)
qed

section \<open>The changing requests\<close>

definition with_id :: "string \<Rightarrow> int \<Rightarrow> string \<Rightarrow> string" where
  "with_id base i action = base @ CHR ''/'' # int_to_str i @ action"

fun request_line :: "request \<Rightarrow> http_method \<times> string" where
  "request_line (Create_group p) = (POST, ''/api/v1/device-groups'')"
| "request_line (Update_group i p) = (PATCH, with_id ''/api/v1/device-groups'' i [])"
| "request_line (Delete_group i) = (DELETE, with_id ''/api/v1/device-groups'' i [])"
| "request_line (Create_profile p) = (POST, ''/api/v1/privilege-profiles'')"
| "request_line (Update_profile i p) = (PATCH, with_id ''/api/v1/privilege-profiles'' i [])"
| "request_line (Delete_profile i) = (DELETE, with_id ''/api/v1/privilege-profiles'' i [])"
| "request_line (Create_device p) = (POST, ''/api/v1/devices'')"
| "request_line (Update_device i p) = (PATCH, with_id ''/api/v1/devices'' i [])"
| "request_line (Delete_device i) = (DELETE, with_id ''/api/v1/devices'' i [])"
| "request_line (Rotate_secret i n) = (POST, with_id ''/api/v1/devices'' i ''/rotate-secret'')"
| "request_line (Retire_secret i) = (POST, with_id ''/api/v1/devices'' i ''/retire-previous'')"
| "request_line Regenerate_hosts = (POST, ''/api/v1/admin/regenerate-nas-config'')"
| "request_line (Create_authorization p) = (POST, ''/api/v1/authorizations'')"
| "request_line (Delete_authorization i) = (DELETE, with_id ''/api/v1/authorizations'' i [])"
| "request_line (Put_ldap_url raw) = (PUT, ''/api/v1/settings/ldap'')"
| "request_line (Put_web_url raw) = (PUT, ''/api/v1/settings/web'')"
| "request_line (Put_ldap_sync p) = (PUT, ''/api/v1/settings/ldap-sync'')"
| "request_line (Test_ldap_sync p) = (POST, ''/api/v1/settings/ldap-sync/test'')"
| "request_line Run_ldap_sync = (POST, ''/api/v1/settings/ldap-sync/run'')"
| "request_line (Put_syslog p) = (PUT, ''/api/v1/settings/syslog'')"
| "request_line Test_syslog = (POST, ''/api/v1/settings/syslog/test'')"
| "request_line (Import_metadata xml) = (PUT, ''/api/v1/settings/saml/idp-metadata'')"
| "request_line (Put_mapping p) = (PUT, ''/api/v1/settings/saml/mapping'')"
| "request_line (New_sp_keypair cn) = (POST, ''/api/v1/settings/saml/sp-keypair'')"
| "request_line (Upload_cert c k) = (POST, ''/api/v1/settings/tls/upload'')"
| "request_line (Upload_pfx p w) = (POST, ''/api/v1/settings/tls/upload-pfx'')"
| "request_line (New_self_signed cn days) = (POST, ''/api/v1/settings/tls/regenerate-self-signed'')"
| "request_line Complete_setup = (POST, ''/api/v1/setup/complete'')"
| "request_line Reopen_setup = (POST, ''/api/v1/setup/reopen'')"

text \<open>The handler \<open>route\<close> runs, as the prefix of its router and its function.\<close>

fun request_handler :: "request \<Rightarrow> string \<times> string" where
  "request_handler (Create_group p) = (''/api/v1/device-groups'', ''create_device_group'')"
| "request_handler (Update_group i p) = (''/api/v1/device-groups'', ''update_device_group'')"
| "request_handler (Delete_group i) = (''/api/v1/device-groups'', ''delete_device_group'')"
| "request_handler (Create_profile p) = (''/api/v1/privilege-profiles'', ''create_privilege_profile'')"
| "request_handler (Update_profile i p) = (''/api/v1/privilege-profiles'', ''update_privilege_profile'')"
| "request_handler (Delete_profile i) = (''/api/v1/privilege-profiles'', ''delete_privilege_profile'')"
| "request_handler (Create_device p) = (''/api/v1/devices'', ''create_device'')"
| "request_handler (Update_device i p) = (''/api/v1/devices'', ''update_device'')"
| "request_handler (Delete_device i) = (''/api/v1/devices'', ''delete_device'')"
| "request_handler (Rotate_secret i n) = (''/api/v1/devices'', ''rotate_secret'')"
| "request_handler (Retire_secret i) = (''/api/v1/devices'', ''retire_previous_secret'')"
| "request_handler Regenerate_hosts = (''/api/v1/admin'', ''regenerate'')"
| "request_handler (Create_authorization p) = (''/api/v1/authorizations'', ''create_authorization'')"
| "request_handler (Delete_authorization i) = (''/api/v1/authorizations'', ''delete_authorization'')"
| "request_handler (Put_ldap_url raw) = (''/api/v1/settings'', ''put_ldap_settings'')"
| "request_handler (Put_web_url raw) = (''/api/v1/settings'', ''put_web_settings'')"
| "request_handler (Put_ldap_sync p) = (''/api/v1/settings/ldap-sync'', ''update_config'')"
| "request_handler (Test_ldap_sync p) = (''/api/v1/settings/ldap-sync'', ''test_endpoint'')"
| "request_handler Run_ldap_sync = (''/api/v1/settings/ldap-sync'', ''run_now'')"
| "request_handler (Put_syslog p) = (''/api/v1/settings/syslog'', ''update_config'')"
| "request_handler Test_syslog = (''/api/v1/settings/syslog'', ''test_endpoint'')"
| "request_handler (Import_metadata xml) = (''/api/v1/settings/saml'', ''import_idp_metadata'')"
| "request_handler (Put_mapping p) = (''/api/v1/settings/saml'', ''update_mapping'')"
| "request_handler (New_sp_keypair cn) = (''/api/v1/settings/saml'', ''regenerate_sp_keypair'')"
| "request_handler (Upload_cert c k) = (''/api/v1/settings/tls'', ''upload_tls'')"
| "request_handler (Upload_pfx p w) = (''/api/v1/settings/tls'', ''upload_tls_pfx'')"
| "request_handler (New_self_signed cn days) = (''/api/v1/settings/tls'', ''regenerate_self_signed'')"
| "request_handler Complete_setup = (''/api/v1/setup'', ''complete_wizard'')"
| "request_handler Reopen_setup = (''/api/v1/setup'', ''reopen_wizard'')"

text \<open>One request for each constructor, and the same list of routes with what they carry.\<close>

definition changing_routes :: "app_route list" where
  "changing_routes = filter (\<lambda>(p, g, e). g \<and> ep_method e \<noteq> GET) (routes_of mounts)"

definition route_keys :: "app_route list \<Rightarrow> ((string \<times> string) \<times> http_method \<times> string) list" where
  "route_keys rs = map (\<lambda>r. (handler r, route_method r, template r)) rs"

lemma changing_keys:
  "route_keys changing_routes =
    [((''/api/v1/device-groups'', ''create_device_group''), POST, ''/api/v1/device-groups''),
     ((''/api/v1/device-groups'', ''update_device_group''), PATCH, ''/api/v1/device-groups/{device_group_id}''),
     ((''/api/v1/device-groups'', ''delete_device_group''), DELETE, ''/api/v1/device-groups/{device_group_id}''),
     ((''/api/v1/privilege-profiles'', ''create_privilege_profile''), POST, ''/api/v1/privilege-profiles''),
     ((''/api/v1/privilege-profiles'', ''update_privilege_profile''), PATCH, ''/api/v1/privilege-profiles/{profile_id}''),
     ((''/api/v1/privilege-profiles'', ''delete_privilege_profile''), DELETE, ''/api/v1/privilege-profiles/{profile_id}''),
     ((''/api/v1/devices'', ''create_device''), POST, ''/api/v1/devices''),
     ((''/api/v1/devices'', ''update_device''), PATCH, ''/api/v1/devices/{device_id}''),
     ((''/api/v1/devices'', ''delete_device''), DELETE, ''/api/v1/devices/{device_id}''),
     ((''/api/v1/devices'', ''rotate_secret''), POST, ''/api/v1/devices/{device_id}/rotate-secret''),
     ((''/api/v1/devices'', ''retire_previous_secret''), POST, ''/api/v1/devices/{device_id}/retire-previous''),
     ((''/api/v1/authorizations'', ''create_authorization''), POST, ''/api/v1/authorizations''),
     ((''/api/v1/authorizations'', ''delete_authorization''), DELETE, ''/api/v1/authorizations/{authz_id}''),
     ((''/api/v1/settings'', ''put_ldap_settings''), PUT, ''/api/v1/settings/ldap''),
     ((''/api/v1/settings'', ''put_web_settings''), PUT, ''/api/v1/settings/web''),
     ((''/api/v1/settings/tls'', ''upload_tls''), POST, ''/api/v1/settings/tls/upload''),
     ((''/api/v1/settings/tls'', ''upload_tls_pfx''), POST, ''/api/v1/settings/tls/upload-pfx''),
     ((''/api/v1/settings/tls'', ''regenerate_self_signed''), POST, ''/api/v1/settings/tls/regenerate-self-signed''),
     ((''/api/v1/settings/saml'', ''import_idp_metadata''), PUT, ''/api/v1/settings/saml/idp-metadata''),
     ((''/api/v1/settings/saml'', ''update_mapping''), PUT, ''/api/v1/settings/saml/mapping''),
     ((''/api/v1/settings/saml'', ''regenerate_sp_keypair''), POST, ''/api/v1/settings/saml/sp-keypair''),
     ((''/api/v1/settings/ldap-sync'', ''update_config''), PUT, ''/api/v1/settings/ldap-sync''),
     ((''/api/v1/settings/ldap-sync'', ''test_endpoint''), POST, ''/api/v1/settings/ldap-sync/test''),
     ((''/api/v1/settings/ldap-sync'', ''run_now''), POST, ''/api/v1/settings/ldap-sync/run''),
     ((''/api/v1/settings/syslog'', ''update_config''), PUT, ''/api/v1/settings/syslog''),
     ((''/api/v1/settings/syslog'', ''test_endpoint''), POST, ''/api/v1/settings/syslog/test''),
     ((''/api/v1/admin'', ''regenerate''), POST, ''/api/v1/admin/regenerate-nas-config''),
     ((''/api/v1/setup'', ''complete_wizard''), POST, ''/api/v1/setup/complete''),
     ((''/api/v1/setup'', ''reopen_wizard''), POST, ''/api/v1/setup/reopen'')]"
  by code_simp

lemma changing_routes_mounted: "r \<in> set changing_routes \<Longrightarrow> r \<in> set (routes_of mounts) \<and> behind_session r"
  by (auto simp: changing_routes_def)

lemma py_split_word: "a \<notin> set w \<Longrightarrow> py_split a (w @ a # s) = w # py_split a s" "a \<notin> set w \<Longrightarrow> py_split a w = [w]"
  by (induction w) auto

lemma int_to_str_no_slash: "CHR ''/'' \<notin> set (int_to_str i)"
  using nat_to_str_digits [of "nat i"] nat_to_str_digits [of "nat (- i)"]
  by (auto simp: int_to_str_def list_all_iff is_ascii_digit_def)

lemmas key_simps = with_id_def template_match_def seg_match_def is_param_def py_split_word int_to_str_no_slash

lemma request_key:
  "\<exists>t. map_of (route_keys changing_routes) (request_handler req) = Some (fst (request_line req), t) \<and>
     template_match t (snd (request_line req))"
  unfolding changing_keys
  apply (cases req)
  apply (simp_all add: key_simps) [7]
  apply (simp_all add: key_simps) [7]
  apply (simp_all add: key_simps) [7]
  apply (simp_all add: key_simps)
  done

lemma request_route:
  obtains r where "r \<in> set changing_routes" "handler r = request_handler req"
    "route_method r = fst (request_line req)" "template_match (template r) (snd (request_line req))"
  using request_key [of req] by (auto simp: route_keys_def dest!: map_of_SomeD)

text \<open>One request for every changing route, in the order of the routes.\<close>

definition sample_requests :: "request list" where
  "sample_requests =
     [Create_group undefined, Update_group 0 undefined, Delete_group 0, Create_profile undefined,
      Update_profile 0 undefined, Delete_profile 0, Create_device undefined, Update_device 0 undefined,
      Delete_device 0, Rotate_secret 0 [], Retire_secret 0, Create_authorization undefined,
      Delete_authorization 0, Put_ldap_url [], Put_web_url [], Upload_cert [] [], Upload_pfx [] None,
      New_self_signed [] 0, Import_metadata [], Put_mapping undefined, New_sp_keypair None,
      Put_ldap_sync undefined, Test_ldap_sync undefined, Run_ldap_sync, Put_syslog undefined, Test_syslog,
      Regenerate_hosts, Complete_setup, Reopen_setup]"

lemma changing_handlers: "map handler changing_routes = map request_handler sample_requests"
proof -
  have "map handler rs = map fst (route_keys rs)" for rs by (simp add: route_keys_def)
  then show ?thesis by (simp add: changing_keys sample_requests_def)
qed

lemma changing_handlers_range: "set (map handler changing_routes) = range request_handler"
proof
  show "set (map handler changing_routes) \<subseteq> range request_handler" by (auto simp: changing_handlers)
  show "range request_handler \<subseteq> set (map handler changing_routes)"
  proof
    fix h assume "h \<in> range request_handler"
    then obtain req where "h = request_handler req" by blast
    moreover obtain r where "r \<in> set changing_routes" "handler r = request_handler req" by (rule request_route)
    ultimately show "h \<in> set (map handler changing_routes)" by force
  qed
qed

section \<open>Properties\<close>

text \<open>
  C19: Every changing request reaches, at its method and path, the handler the model runs for it, and
  only behind the session; and the requests of the model are all of them: no other handler under
  \<open>/api/v1\<close> answers anything but GET.
\<close>

theorem requests_reach_their_handlers:
  assumes "path_matcher matches"
  shows "(\<exists>r. dispatch matches (routes_of mounts) (fst (request_line req)) (snd (request_line req)) = To r \<and>
      handler r = request_handler req \<and> behind_session r) \<and>
    {handler r |r. r \<in> set (routes_of mounts) \<and> startswith ''/api/v1'' (template r) \<and> route_method r \<noteq> GET} =
      range request_handler"
proof
  obtain r where r: "r \<in> set changing_routes" "handler r = request_handler req"
    "route_method r = fst (request_line req)" "template_match (template r) (snd (request_line req))"
    by (rule request_route)
  with changing_routes_mounted [OF r(1)] dispatch_one [OF assms, of r "snd (request_line req)"]
  show "\<exists>r. dispatch matches (routes_of mounts) (fst (request_line req)) (snd (request_line req)) = To r \<and>
      handler r = request_handler req \<and> behind_session r" by auto
  have eq: "changing_routes = filter (\<lambda>r. startswith ''/api/v1'' (template r) \<and> route_method r \<noteq> GET) (routes_of mounts)"
    by code_simp
  have "{handler r |r. r \<in> set (routes_of mounts) \<and> startswith ''/api/v1'' (template r) \<and> route_method r \<noteq> GET} =
      handler ` set changing_routes"
    unfolding eq by (simp only: set_filter image_def) blast
  then show "{handler r |r. r \<in> set (routes_of mounts) \<and> startswith ''/api/v1'' (template r) \<and> route_method r \<noteq> GET} =
      range request_handler" using changing_handlers_range by (simp only: set_map)
qed

theorem requests_reach_their_handlers_witness:
  "\<exists>r. dispatch template_match (routes_of mounts) DELETE ''/api/v1/devices/7'' = To r \<and>
     handler r = (''/api/v1/devices'', ''delete_device'')"
proof -
  have line: "request_line (Delete_device 7) = (DELETE, ''/api/v1/devices/7'')" by code_simp
  have "path_matcher template_match" by (simp add: path_matcher_def)
  from requests_reach_their_handlers [OF this, of "Delete_device 7", unfolded line] show ?thesis
    by (elim conjE exE) (intro exI conjI, simp_all only: fst_conv snd_conv request_handler.simps)
qed

text \<open>The handlers outside \<open>/api/v1\<close> that do not ask for the session themselves.\<close>

definition public_handlers :: "(string \<times> string) list" where
  "public_handlers =
     [(''/healthz'', ''live''), (''/healthz'', ''ready''), ('''', ''login_local''), (''/saml'', ''saml_login''),
      (''/saml'', ''saml_metadata''), (''/saml'', ''saml_acs''), (''/internal/mavis'', ''mavis_auth''),
      (''/internal/mavis'', ''mavis_info'')]"

lemma mounted_guards: "list_all (\<lambda>r. behind_session r \<or> handler r \<in> set public_handlers) (routes_of mounts)"
  by code_simp

text \<open>
  C18: Without a session only eight handlers run, whatever the path: the health probes, the logins and
  metadata, and the two questions of the MAVIS child, which the network keeps inside.
\<close>

theorem only_public_handlers_skip_the_session:
  assumes "dispatch matches (routes_of mounts) m path = To r"
  shows "behind_session r \<or> handler r \<in> set public_handlers"
proof -
  from assms have "r \<in> set (routes_of mounts)"
    by (auto simp: dispatch_def find_Some_iff split: option.splits if_splits)
  with mounted_guards show ?thesis by (simp add: list_all_iff)
qed

theorem only_public_handlers_skip_the_session_witness:
  "dispatch template_match (routes_of mounts) GET ''/api/v1/audit-log'' =
     To (''/api/v1/audit-log'', True, route_to GET '''' ''list_audit_log'' True) \<and>
   (''/api/v1/audit-log'', ''list_audit_log'') \<notin> set public_handlers \<and>
   behind_session (''/api/v1/audit-log'', True, route_to GET '''' ''list_audit_log'' True)"
proof -
  have run: "dispatch template_match (routes_of mounts) GET ''/api/v1/audit-log'' =
     To (''/api/v1/audit-log'', True, route_to GET '''' ''list_audit_log'' True)" by code_simp
  with only_public_handlers_skip_the_session [OF run] show ?thesis
    by (simp add: route_to_def public_handlers_def)
qed

text \<open>
  The order in which the routers are mounted does not matter: no path is served by two of them, so
  \<open>/settings\<close> before \<open>/settings/tls\<close> shadows nothing.
\<close>

theorem mount_order_is_irrelevant:
  assumes "path_matcher matches" and "mset ms = mset mounts"
  shows "dispatch matches (routes_of ms) m path = dispatch matches (routes_of mounts) m path"
proof -
  have set: "set (routes_of ms) = set (routes_of mounts)"
    using mset_eq_setD [OF assms(2)] by (simp add: routes_of_def)
  have "List.find (\<lambda>r. matches (template r) path \<and> route_method r = m) (routes_of ms) =
      List.find (\<lambda>r. matches (template r) path \<and> route_method r = m) (routes_of mounts)"
    using one_route [OF assms(1)] by (intro find_set [OF set]) metis
  then show ?thesis using set by (simp add: dispatch_def list_ex_iff cong: option.case_cong)
qed

theorem mount_order_is_irrelevant_witness:
  "dispatch template_match (routes_of (rev mounts)) GET ''/api/v1/settings/tls'' =
   dispatch template_match (routes_of mounts) GET ''/api/v1/settings/tls''"
  by (rule mount_order_is_irrelevant) (simp_all add: path_matcher_def)

end
