(* ===== verification/Lifecycle.thy ===== *)
theory Lifecycle
  imports Ldap_Worker
begin

text \<open>
  The process around the handlers: the lifespan of the application (\<open>app/main.py\<close>), which starts and
  stops the scheduler, the accounting ingestor and the syslog forwarder, and the module variables
  \<open>_TASK\<close> and \<open>_scheduler\<close> they are kept in. The event loop is its list of running tasks with their
  names; a task is the number \<open>create_task\<close> gave it. The two tasks share the interface \<open>worker\<close>.
\<close>

section \<open>Tasks\<close>

record event_loop =
  el_next :: nat
  el_running :: "(nat \<times> string) list"

record process =
  pr_loop :: event_loop
  pr_ingestor :: "nat option"
  pr_forwarder :: "nat option"
  pr_scheduler :: scheduler
  pr_engine :: bool

definition create_task :: "string \<Rightarrow> event_loop \<Rightarrow> nat \<times> event_loop" where
  "create_task name el = (el_next el, \<lparr>el_next = el_next el + 1, el_running = el_running el @ [(el_next el, name)]\<rparr>)"

definition task_done :: "nat \<Rightarrow> event_loop \<Rightarrow> bool" where
  "task_done t el \<longleftrightarrow> t \<notin> set (map fst (el_running el))"

text \<open>A task ends: cancelled and awaited, or by itself.\<close>

definition end_task :: "nat \<Rightarrow> event_loop \<Rightarrow> event_loop" where
  "end_task t el = el\<lparr>el_running := filter (\<lambda>x. fst x \<noteq> t) (el_running el)\<rparr>"

definition start_ingestor :: "process \<Rightarrow> process" where
  "start_ingestor p =
     (case pr_ingestor p of
        Some t \<Rightarrow>
          if \<not> task_done t (pr_loop p) then p
          else (let (t', el) = create_task ''accounting-ingestor'' (pr_loop p) in p\<lparr>pr_ingestor := Some t', pr_loop := el\<rparr>)
      | None \<Rightarrow> (let (t', el) = create_task ''accounting-ingestor'' (pr_loop p) in p\<lparr>pr_ingestor := Some t', pr_loop := el\<rparr>))"

definition stop_ingestor :: "process \<Rightarrow> process" where
  "stop_ingestor p =
     (case pr_ingestor p of
        None \<Rightarrow> p
      | Some t \<Rightarrow> p\<lparr>pr_loop := end_task t (pr_loop p), pr_ingestor := None\<rparr>)"

definition start_forwarder :: "process \<Rightarrow> process" where
  "start_forwarder p =
     (case pr_forwarder p of
        Some t \<Rightarrow>
          if \<not> task_done t (pr_loop p) then p
          else (let (t', el) = create_task ''syslog-forwarder'' (pr_loop p) in p\<lparr>pr_forwarder := Some t', pr_loop := el\<rparr>)
      | None \<Rightarrow> (let (t', el) = create_task ''syslog-forwarder'' (pr_loop p) in p\<lparr>pr_forwarder := Some t', pr_loop := el\<rparr>))"

definition stop_forwarder :: "process \<Rightarrow> process" where
  "stop_forwarder p =
     (case pr_forwarder p of
        None \<Rightarrow> p
      | Some t \<Rightarrow> p\<lparr>pr_loop := end_task t (pr_loop p), pr_forwarder := None\<rparr>)"

text \<open>The two halves of \<open>lifespan\<close>; \<open>None\<close> is a database that cannot be reached.\<close>

definition lifespan_startup :: "db option \<Rightarrow> process \<Rightarrow> process" where
  "lifespan_startup database p =
     start_forwarder (start_ingestor (p\<lparr>pr_scheduler := start_scheduler database (pr_scheduler p)\<rparr>))"

definition lifespan_shutdown :: "process \<Rightarrow> process" where
  "lifespan_shutdown p =
     (let q = stop_ingestor (stop_forwarder p) in
      q\<lparr>pr_scheduler := stop_scheduler (pr_scheduler q), pr_engine := False\<rparr>)"

section \<open>Workers\<close>

definition loop_ok :: "event_loop \<Rightarrow> bool" where
  "loop_ok el \<longleftrightarrow> distinct (map fst (el_running el)) \<and> list_all (\<lambda>t. t < el_next el) (map fst (el_running el))"

definition workers :: "string \<Rightarrow> process \<Rightarrow> nat list" where
  "workers name p = map fst (filter (\<lambda>x. snd x = name) (el_running (pr_loop p)))"

lemma loop_ok_create: "loop_ok el \<Longrightarrow> loop_ok (snd (create_task n el))"
  by (auto simp: loop_ok_def create_task_def list_all_iff less_SucI)

lemma loop_ok_end: "loop_ok el \<Longrightarrow> loop_ok (end_task t el)"
  by (auto simp: loop_ok_def end_task_def list_all_iff distinct_map_filter)

lemma running_create:
  "el_running (snd (create_task n el)) = el_running el @ [(el_next el, n)]" "fst (create_task n el) = el_next el"
  "el_next (snd (create_task n el)) = el_next el + 1"
  by (simp_all add: create_task_def)

lemma running_end:
  "el_running (end_task t el) = filter (\<lambda>x. fst x \<noteq> t) (el_running el)" "el_next (end_task t el) = el_next el"
  by (simp_all add: end_task_def)

lemma loop_ok_bound: "loop_ok el \<Longrightarrow> (t, n) \<in> set (el_running el) \<Longrightarrow> t < el_next el"
  by (auto simp: loop_ok_def list_all_iff)

text \<open>
  A background worker: a name and a variable of the process. Its variable names the only running
  task of that name - \<open>owned\<close>; a start leaves exactly one, a stop none, and neither touches the rest.
\<close>

locale worker =
  fixes name :: string and var :: "process \<Rightarrow> nat option" and start stop :: "process \<Rightarrow> process"
  assumes start_cases: "start p = p \<and> (\<exists>t. var p = Some t \<and> \<not> task_done t (pr_loop p)) \<or>
      (\<forall>t. var p = Some t \<longrightarrow> task_done t (pr_loop p)) \<and> var (start p) = Some (el_next (pr_loop p)) \<and>
      pr_loop (start p) = snd (create_task name (pr_loop p))"
    and stop_cases: "var (stop p) = None \<and>
      pr_loop (stop p) = (case var p of None \<Rightarrow> pr_loop p | Some t \<Rightarrow> end_task t (pr_loop p))"
begin

definition owned :: "process \<Rightarrow> bool" where
  "owned p \<longleftrightarrow> loop_ok (pr_loop p) \<and> (\<forall>t. var p = Some t \<longrightarrow> t < el_next (pr_loop p)) \<and>
     (\<forall>t n. (t, n) \<in> set (el_running (pr_loop p)) \<longrightarrow> (n = name) = (var p = Some t))"

lemma owned_workers: "owned p \<Longrightarrow> workers name p = (case var p of None \<Rightarrow> [] | Some t \<Rightarrow> if task_done t (pr_loop p) then [] else [t])"
proof -
  assume owned: "owned p"
  have workers: "workers name p = map fst (filter (\<lambda>x. var p = Some (fst x)) (el_running (pr_loop p)))"
    using owned unfolding workers_def owned_def
    by (intro arg_cong [where f = "map fst"] filter_cong) auto
  have one: "distinct (map fst xs) \<Longrightarrow> map fst (filter (\<lambda>x. t = fst x) xs) = (if t \<in> set (map fst xs) then [t] else [])"
    for t and xs :: "(nat \<times> string) list"
    by (induction xs) (auto simp: filter_empty_conv)
  show ?thesis using owned one by (auto simp: workers owned_def loop_ok_def task_done_def split: option.split)
qed

lemma owned_one: "owned p \<Longrightarrow> length (workers name p) \<le> 1"
  by (simp add: owned_workers split: option.split)

lemma start_owned:
  assumes "owned p"
  shows "owned (start p) \<and> length (workers name (start p)) = 1"
proof -
  have "owned (start p)"
  proof (rule disjE [OF start_cases [of p]])
    assume new: "(\<forall>t. var p = Some t \<longrightarrow> task_done t (pr_loop p)) \<and> var (start p) = Some (el_next (pr_loop p)) \<and>
      pr_loop (start p) = snd (create_task name (pr_loop p))"
    have idle: "n \<noteq> name \<and> var p \<noteq> Some t \<and> t < el_next (pr_loop p)" if "(t, n) \<in> set (el_running (pr_loop p))" for t n
    proof -
      from assms that have "(n = name) = (var p = Some t)" "t < el_next (pr_loop p)"
        by (auto simp: owned_def intro: loop_ok_bound)
      moreover from that have "\<not> task_done t (pr_loop p)" by (force simp: task_done_def)
      ultimately show ?thesis using new by auto
    qed
    from new assms show ?thesis
      by (auto simp: owned_def loop_ok_create running_create dest: idle)
  qed (use assms in auto)
  moreover have "\<exists>t. var (start p) = Some t \<and> \<not> task_done t (pr_loop (start p))"
    using start_cases [of p] by (force simp: task_done_def running_create)
  ultimately show ?thesis by (auto simp: owned_workers)
qed

lemma stop_owned: "owned p \<Longrightarrow> owned (stop p) \<and> workers name (stop p) = []"
proof -
  assume owned: "owned p"
  then have "owned (stop p)"
    using stop_cases [of p]
    by (auto simp: owned_def loop_ok_end running_end split: option.splits)
  with stop_cases [of p] show ?thesis by (simp add: owned_workers)
qed

text \<open>What leaves a worker alone: other tasks coming and going, and its own end.\<close>

lemma owned_create: "owned p \<Longrightarrow> n \<noteq> name \<Longrightarrow> var q = var p \<Longrightarrow> pr_loop q = snd (create_task n (pr_loop p)) \<Longrightarrow> owned q"
  by (auto simp: owned_def loop_ok_create running_create less_Suc_eq)

lemma owned_end: "owned p \<Longrightarrow> var q = var p \<Longrightarrow> pr_loop q = end_task t (pr_loop p) \<Longrightarrow> owned q"
  by (auto simp: owned_def loop_ok_end running_end)

lemma owned_cong: "owned p \<Longrightarrow> var q = var p \<Longrightarrow> pr_loop q = pr_loop p \<Longrightarrow> owned q"
  by (simp add: owned_def)

end

text \<open>Two workers of one process, each leaving the variable of the other alone.\<close>

locale worker_pair = one: worker name1 var1 start1 stop1 + two: worker name2 var2 start2 stop2
  for name1 :: string and var1 :: "process \<Rightarrow> nat option" and start1 stop1 :: "process \<Rightarrow> process"
  and name2 :: string and var2 :: "process \<Rightarrow> nat option" and start2 stop2 :: "process \<Rightarrow> process" +
  assumes names: "name1 \<noteq> name2"
    and frames: "var2 (start1 p) = var2 p" "var2 (stop1 p) = var2 p" "var1 (start2 p) = var1 p" "var1 (stop2 p) = var1 p"
begin

lemma start1_two: "two.owned p \<Longrightarrow> two.owned (start1 p)"
  using one.start_cases [of p] names frames(1)
  by (elim disjE conjE) (auto intro: two.owned_create [of p name1])

lemma start2_one: "one.owned p \<Longrightarrow> one.owned (start2 p)"
  using two.start_cases [of p] names frames(3)
  by (elim disjE conjE) (auto intro: one.owned_create [of p name2])

lemma stop1_two: "two.owned p \<Longrightarrow> two.owned (stop1 p)"
  using one.stop_cases [of p] frames(2)
  by (cases "var1 p") (auto intro: two.owned_end two.owned_cong)

lemma stop2_one: "one.owned p \<Longrightarrow> one.owned (stop2 p)"
  using two.stop_cases [of p] frames(4)
  by (cases "var2 p") (auto intro: one.owned_end one.owned_cong)

definition both :: "process \<Rightarrow> bool" where
  "both p \<longleftrightarrow> one.owned p \<and> two.owned p"

lemma both_one: "both p \<Longrightarrow> length (workers name1 p) \<le> 1 \<and> length (workers name2 p) \<le> 1"
  using one.owned_one two.owned_one by (simp add: both_def)

lemma workers_create: "pr_loop q = snd (create_task n (pr_loop p)) \<Longrightarrow> n \<noteq> m \<Longrightarrow> workers m q = workers m p"
  by (simp add: workers_def running_create)

lemma both_started:
  "both p \<Longrightarrow> both (start2 (start1 p)) \<and> length (workers name1 (start2 (start1 p))) = 1 \<and>
     length (workers name2 (start2 (start1 p))) = 1"
  using one.start_owned [of p] two.start_owned [of "start1 p"] start1_two [of p] start2_one [of "start1 p"]
    two.start_cases [of "start1 p"] names workers_create [of "start2 (start1 p)" name2 "start1 p" name1]
  by (auto simp: both_def)

lemma both_stopped: "both p \<Longrightarrow> both (stop1 (stop2 p)) \<and> workers name1 (stop1 (stop2 p)) = [] \<and> workers name2 (stop1 (stop2 p)) = []"
proof -
  assume "both p"
  then have p: "one.owned p" "two.owned p" by (simp_all add: both_def)
  note q = stop2_one [OF p(1)] two.stop_owned [OF p(2)]
  note r = one.stop_owned [OF q(1)] stop1_two [OF conjunct1 [OF q(2)]]
  have "var2 (stop1 (stop2 p)) = None" using two.stop_cases [of p] by (simp add: frames)
  with r two.owned_workers [OF r(2)] show ?thesis by (simp add: both_def)
qed

end

interpretation tasks: worker_pair "''accounting-ingestor''" pr_ingestor start_ingestor stop_ingestor
    "''syslog-forwarder''" pr_forwarder start_forwarder stop_forwarder
  by unfold_locales
     (auto simp: start_ingestor_def stop_ingestor_def start_forwarder_def stop_forwarder_def create_task_def
       split: option.split)

section \<open>The life of a process\<close>

text \<open>
  What happens to the tasks of a process: the lifespan, single starts and stops, a task that ends
  by itself, tasks of the server's own.
\<close>

inductive process_step :: "process \<Rightarrow> process \<Rightarrow> bool" where
  startup: "process_step p (lifespan_startup database p)"
| shutdown: "process_step p (lifespan_shutdown p)"
| started: "start \<in> {start_ingestor, start_forwarder} \<Longrightarrow> process_step p (start p)"
| stopped: "stop \<in> {stop_ingestor, stop_forwarder} \<Longrightarrow> process_step p (stop p)"
| ended: "process_step p (p\<lparr>pr_loop := end_task t (pr_loop p)\<rparr>)"
| other: "n \<notin> {''accounting-ingestor'', ''syslog-forwarder''} \<Longrightarrow>
    process_step p (p\<lparr>pr_loop := snd (create_task n (pr_loop p))\<rparr>)"

definition new_process :: process where
  "new_process = \<lparr>pr_loop = \<lparr>el_next = 0, el_running = []\<rparr>, pr_ingestor = None, pr_forwarder = None,
     pr_scheduler = None, pr_engine = True\<rparr>"

lemma both_cong:
  "tasks.both p \<Longrightarrow> pr_loop q = pr_loop p \<Longrightarrow> pr_ingestor q = pr_ingestor p \<Longrightarrow> pr_forwarder q = pr_forwarder p \<Longrightarrow>
   tasks.both q"
  by (auto simp: tasks.both_def intro: tasks.one.owned_cong tasks.two.owned_cong)

lemma startup_both:
  assumes "tasks.both p"
  shows "tasks.both (lifespan_startup database p) \<and>
    length (workers ''accounting-ingestor'' (lifespan_startup database p)) = 1 \<and>
    length (workers ''syslog-forwarder'' (lifespan_startup database p)) = 1"
proof -
  have "tasks.both (p\<lparr>pr_scheduler := start_scheduler database (pr_scheduler p)\<rparr>)"
    by (rule both_cong [OF assms]) simp_all
  from tasks.both_started [OF this] show ?thesis by (simp add: lifespan_startup_def)
qed

lemma shutdown_both:
  assumes "tasks.both p"
  shows "tasks.both (lifespan_shutdown p) \<and> workers ''accounting-ingestor'' (lifespan_shutdown p) = [] \<and>
    workers ''syslog-forwarder'' (lifespan_shutdown p) = []"
proof -
  let ?q = "stop_ingestor (stop_forwarder p)"
  have "tasks.both (lifespan_shutdown p)"
    by (rule both_cong [where p = ?q]) (simp_all add: tasks.both_stopped [OF assms] lifespan_shutdown_def Let_def)
  moreover have "workers n (lifespan_shutdown p) = workers n ?q" for n
    by (simp add: workers_def lifespan_shutdown_def Let_def)
  ultimately show ?thesis using tasks.both_stopped [OF assms] by simp
qed

lemma process_step_both: "process_step p q \<Longrightarrow> tasks.both p \<Longrightarrow> tasks.both q"
proof (induction rule: process_step.induct)
  case (started start p)
  then show ?case
    by (auto simp: tasks.both_def tasks.one.start_owned tasks.two.start_owned tasks.start1_two tasks.start2_one)
next
  case (stopped stop p)
  then show ?case
    by (auto simp: tasks.both_def tasks.one.stop_owned tasks.two.stop_owned tasks.stop1_two tasks.stop2_one)
next
  case (ended p t)
  then show ?case by (auto simp: tasks.both_def intro: tasks.one.owned_end tasks.two.owned_end)
next
  case (other n p)
  then show ?case by (auto simp: tasks.both_def intro: tasks.one.owned_create tasks.two.owned_create)
qed (simp_all add: startup_both shutdown_both)

lemma run_both: "process_step\<^sup>*\<^sup>* new_process p \<Longrightarrow> tasks.both p"
proof (induction rule: rtranclp_induct)
  case base
  show ?case
    by (simp add: new_process_def tasks.both_def tasks.one.owned_def tasks.two.owned_def loop_ok_def)
qed (rule process_step_both)

text \<open>
  C37: However the process is started, stopped, restarted, and however its tasks die: at most one
  ingestor and one forwarder run, a startup leaves exactly one of each - even a second one - and a
  shutdown leaves none, and no schedule.
\<close>

theorem one_worker_each:
  assumes "process_step\<^sup>*\<^sup>* new_process p"
  shows "length (workers ''accounting-ingestor'' p) \<le> 1 \<and> length (workers ''syslog-forwarder'' p) \<le> 1 \<and>
    length (workers ''accounting-ingestor'' (lifespan_startup database p)) = 1 \<and>
    length (workers ''syslog-forwarder'' (lifespan_startup database p)) = 1 \<and>
    workers ''accounting-ingestor'' (lifespan_shutdown p) = [] \<and>
    workers ''syslog-forwarder'' (lifespan_shutdown p) = [] \<and> pr_scheduler (lifespan_shutdown p) = None"
  using tasks.both_one [OF run_both [OF assms]] startup_both [OF run_both [OF assms], of database]
    shutdown_both [OF run_both [OF assms]]
  by (simp add: lifespan_shutdown_def stop_scheduler_def Let_def)

theorem one_worker_each_witness:
  "workers ''syslog-forwarder'' (lifespan_startup None (lifespan_startup None new_process)) \<noteq> []"
proof -
  have "process_step\<^sup>*\<^sup>* new_process (lifespan_startup None new_process)" by (blast intro: process_step.startup)
  from one_worker_each [OF this, of None] show ?thesis by auto
qed

end
