(* ===== verification/Smoke.thy ===== *)
theory Smoke
  imports Py_Base
begin

text \<open>
  \<open>scripts/smoke-tacacs.py\<close>: the end-to-end check of a running daemon, as the exit code it ends
  with. The client library is a parameter - the outcome and the duration, in milliseconds, of each
  call made to it, by number; \<open>bytes.decode\<close> is one too. Printing is left out.
\<close>

section \<open>Waiting and retrying\<close>

datatype 'a call_result = Returned 'a | Os_error string | Raised string

type_synonym 'a calls = "nat \<Rightarrow> 'a call_result \<times> nat"

function wait_loop :: "unit calls \<Rightarrow> int \<Rightarrow> int \<Rightarrow> nat \<Rightarrow> unit exn" where
  "wait_loop connect end_at now i =
     (if now < end_at then
        (case connect i of
           (Returned u, dt) \<Rightarrow> Inr u
         | (Os_error e, dt) \<Rightarrow> wait_loop connect end_at (now + int dt + 2000) (i + 1)
         | (Raised e, dt) \<Rightarrow> Inl e)
      else Inl ''TimeoutError'')"
  by pat_completeness auto
termination by (relation "measure (\<lambda>(c, e, now, i). nat (e - now))") auto

definition wait_for_port :: "unit calls \<Rightarrow> int \<Rightarrow> unit exn" where
  "wait_for_port connect now = wait_loop connect (now + 60000) now 0"

function retry_loop :: "'a calls \<Rightarrow> int \<Rightarrow> int \<Rightarrow> nat \<Rightarrow> 'a exn" where
  "retry_loop fn deadline now i =
     (if now < deadline then
        (case fn i of
           (Returned v, dt) \<Rightarrow> Inr v
         | (Os_error e, dt) \<Rightarrow> retry_loop fn deadline (now + int dt + 2000) (i + 1)
         | (Raised e, dt) \<Rightarrow> Inl e)
      else Inl ''RuntimeError: call kept failing'')"
  by pat_completeness auto
termination by (relation "measure (\<lambda>(c, e, now, i). nat (e - now))") auto

declare wait_loop.simps [simp del] retry_loop.simps [simp del]

definition retry_transient :: "'a calls \<Rightarrow> int \<Rightarrow> 'a exn" where
  "retry_transient fn now = retry_loop fn (now + 60000) now 0"

section \<open>The two checks\<close>

record tac_reply =
  tr_valid :: bool
  tr_arguments :: "string list option"

definition run_authn :: "tac_reply calls \<Rightarrow> int \<Rightarrow> string \<Rightarrow> int exn" where
  "run_authn authenticate now expect =
     (case retry_transient authenticate now of
        Inl e \<Rightarrow> Inl e
      | Inr result \<Rightarrow>
          if expect = ''ACCEPT'' then Inr (if \<not> tr_valid result then 2 else 0)
          else Inr (if tr_valid result then 3 else 0))"

text \<open>The attribute-value pairs of a reply; of a repeated attribute the last value counts.\<close>

fun av_pairs :: "(string \<Rightarrow> string exn) \<Rightarrow> string list \<Rightarrow> (string \<times> string) list exn" where
  "av_pairs decode [] = Inr []"
| "av_pairs decode (kv # kvs) =
     (case py_partition CHR ''='' kv of
        (k, False, v) \<Rightarrow> av_pairs decode kvs
      | (k, True, v) \<Rightarrow>
          (case decode k of
             Inl e \<Rightarrow> Inl e
           | Inr k' \<Rightarrow>
               (case decode v of
                  Inl e \<Rightarrow> Inl e
                | Inr v' \<Rightarrow> map_sum id ((#) (k', v')) (av_pairs decode kvs))))"

definition last_av :: "(string \<times> string) list \<Rightarrow> string \<Rightarrow> string option" where
  "last_av avs k = map_of (rev avs) k"

definition reply_arguments :: "tac_reply \<Rightarrow> string list" where
  "reply_arguments r = (case tr_arguments r of None \<Rightarrow> [] | Some xs \<Rightarrow> xs)"

definition run_authz :: "(string \<Rightarrow> string exn) \<Rightarrow> tac_reply calls \<Rightarrow> int \<Rightarrow> int \<Rightarrow> int exn" where
  "run_authz decode authorize now expect_priv_lvl =
     (case retry_transient authorize now of
        Inl e \<Rightarrow> Inl e
      | Inr result \<Rightarrow>
          if \<not> tr_valid result then Inr 4
          else
            (case av_pairs decode (reply_arguments result) of
               Inl e \<Rightarrow> Inl e
             | Inr avs \<Rightarrow> Inr (if last_av avs ''priv-lvl'' \<noteq> Some (int_to_str expect_priv_lvl) then 5 else 0)))"

section \<open>The script\<close>

text \<open>\<open>str.upper\<close>, for the letters whose upper case is below U+0100.\<close>

definition py_upper_char :: "char \<Rightarrow> string" where
  "py_upper_char c =
     (let n = of_char c :: nat in
      if n = 223 then ''SS''
      else if (97 \<le> n \<and> n \<le> 122) \<or> (224 \<le> n \<and> n \<le> 254 \<and> n \<noteq> 247) then [char_of (n - 32)]
      else [c])"

definition py_upper :: "string \<Rightarrow> string" where
  "py_upper s = concat (map py_upper_char s)"

record tac_client =
  tc_connect :: "unit calls"
  tc_authenticate :: "string \<Rightarrow> string \<Rightarrow> tac_reply calls"
  tc_authorize :: "string \<Rightarrow> tac_reply calls"

definition getenv :: "(string \<Rightarrow> string option) \<Rightarrow> string \<Rightarrow> string \<Rightarrow> string" where
  "getenv env k d = (case env k of None \<Rightarrow> d | Some v \<Rightarrow> v)"

text \<open>\<open>main\<close>; \<open>client\<close> is the client for a host, a port and a secret, \<open>now\<close> and \<open>ready\<close> the clock at
  the start of the two loops.\<close>

definition smoke_main ::
    "(string \<Rightarrow> string exn) \<Rightarrow> (string \<Rightarrow> int \<Rightarrow> string \<Rightarrow> tac_client) \<Rightarrow> int \<Rightarrow> int \<Rightarrow>
      (string \<Rightarrow> string option) \<Rightarrow> int exn" where
  "smoke_main decode client now ready env =
     (case py_int (getenv env ''TACACS_PORT'' ''49'') of
        None \<Rightarrow> Inl ''ValueError''
      | Some port \<Rightarrow>
          (let cl = client (getenv env ''TACACS_HOST'' ''127.0.0.1'') port (getenv env ''TACACS_SECRET'' ''smoketest-shared-secret'');
               user = getenv env ''TACACS_USER'' ''smokeuser'';
               step = py_upper (getenv env ''STEP'' ''AUTHN'') in
           case wait_for_port (tc_connect cl) now of
             Inl e \<Rightarrow> Inl e
           | Inr _ \<Rightarrow>
               if step = ''AUTHN'' then
                 (let password = getenv env ''TACACS_PASSWORD'' ''anypass'';
                      expect = py_upper (getenv env ''EXPECT'' ''ACCEPT'') in
                  if expect \<notin> {''ACCEPT'', ''REJECT''} then Inr 64
                  else run_authn (tc_authenticate cl user password) ready expect)
               else if step = ''AUTHZ'' then
                 (case py_int (getenv env ''EXPECT_PRIV_LVL'' ''15'') of
                    None \<Rightarrow> Inl ''ValueError''
                  | Some expect_priv_lvl \<Rightarrow> run_authz decode (tc_authorize cl user) ready expect_priv_lvl)
               else Inr 64))"

text \<open>\<open>sys.exit(main())\<close>: an exception that reaches the interpreter ends it with 1.\<close>

definition exit_code :: "int exn \<Rightarrow> int" where
  "exit_code r = (case r of Inl e \<Rightarrow> 1 | Inr n \<Rightarrow> n)"

section \<open>Properties\<close>

text \<open>When the \<open>k\<close>-th call starts, if all before it failed.\<close>

definition call_time :: "'a calls \<Rightarrow> int \<Rightarrow> nat \<Rightarrow> nat \<Rightarrow> int" where
  "call_time fn now i k = now + sum_list (map (\<lambda>j. int (snd (fn j)) + 2000) [i..<k])"

definition transient :: "'a calls \<Rightarrow> nat \<Rightarrow> bool" where
  "transient fn j = (case fst (fn j) of Os_error e \<Rightarrow> True | _ \<Rightarrow> False)"

lemma call_time_step: "i < k \<Longrightarrow> call_time fn now i k = call_time fn (now + int (snd (fn i)) + 2000) (i + 1) k"
  by (simp add: call_time_def upt_conv_Cons)

lemma call_time_late: "i \<le> k \<Longrightarrow> now + 2000 * int (k - i) \<le> call_time fn now i k"
proof (induction "k - i" arbitrary: i now)
  case (Suc n)
  then have "now + int (snd (fn i)) + 2000 + 2000 * int (k - (i + 1)) \<le> call_time fn (now + int (snd (fn i)) + 2000) (i + 1) k"
    by (intro Suc.hyps(1)) auto
  moreover have "int (k - i) = 1 + int (k - (i + 1))" using Suc.hyps(2) by auto
  ultimately show ?case using Suc.hyps(2) by (simp add: call_time_step)
qed (simp add: call_time_def)

lemma first_call:
  assumes "\<not> transient fn i"
  shows "(\<exists>k\<ge>i. (\<forall>j\<in>{i..<k}. transient fn j) \<and> P k) \<longleftrightarrow> P i"
proof
  assume "\<exists>k\<ge>i. (\<forall>j\<in>{i..<k}. transient fn j) \<and> P k"
  then obtain k where k: "i \<le> k" "\<forall>j\<in>{i..<k}. transient fn j" "P k" by blast
  with assms have "k = i" by (cases "k = i") auto
  with k show "P i" by simp
next
  assume "P i"
  then show "\<exists>k\<ge>i. (\<forall>j\<in>{i..<k}. transient fn j) \<and> P k" by (intro exI [of _ i]) simp
qed

lemma retry_loop_returns:
  "retry_loop fn deadline now i = Inr v \<longleftrightarrow>
     (\<exists>k\<ge>i. (\<forall>j\<in>{i..<k}. transient fn j) \<and> fst (fn k) = Returned v \<and> call_time fn now i k < deadline)"
proof (induction fn deadline now i rule: retry_loop.induct)
  case (1 fn deadline now i)
  note unfold = retry_loop.simps [of fn deadline now i]
  show ?case
  proof (cases "now < deadline")
    case False
    then have "\<not> call_time fn now i k < deadline" if "i \<le> k" for k using call_time_late [OF that, of now fn] by linarith
    with False show ?thesis by (auto simp: unfold)
  next
    case True
    obtain r dt where fn: "fn i = (r, dt)" by (cases "fn i")
    show ?thesis
    proof (cases r)
      case (Os_error e)
      then have tr: "transient fn i" "fst (fn i) \<noteq> Returned v" by (simp_all add: transient_def fn)
      have "(\<exists>k\<ge>i. (\<forall>j\<in>{i..<k}. transient fn j) \<and> fst (fn k) = Returned v \<and> call_time fn now i k < deadline) \<longleftrightarrow>
        (\<exists>k\<ge>i + 1. (\<forall>j\<in>{i + 1..<k}. transient fn j) \<and> fst (fn k) = Returned v \<and>
           call_time fn (now + int dt + 2000) (i + 1) k < deadline)"
      proof (intro iffI; elim exE conjE)
        fix k assume k: "i \<le> k" "\<forall>j\<in>{i..<k}. transient fn j" "fst (fn k) = Returned v" "call_time fn now i k < deadline"
        with tr have "i < k" by (cases "k = i") auto
        with k call_time_step [of i k fn now] show "\<exists>k\<ge>i + 1. (\<forall>j\<in>{i + 1..<k}. transient fn j) \<and> fst (fn k) = Returned v \<and>
           call_time fn (now + int dt + 2000) (i + 1) k < deadline" by (intro exI [of _ k]) (auto simp: fn)
      next
        fix k assume k: "i + 1 \<le> k" "\<forall>j\<in>{i + 1..<k}. transient fn j" "fst (fn k) = Returned v"
          "call_time fn (now + int dt + 2000) (i + 1) k < deadline"
        have "transient fn j" if "j \<in> {i..<k}" for j using that tr(1) k(2) by (cases "j = i") auto
        with k call_time_step [of i k fn now] show "\<exists>k\<ge>i. (\<forall>j\<in>{i..<k}. transient fn j) \<and> fst (fn k) = Returned v \<and>
           call_time fn now i k < deadline" by (intro exI [of _ k]) (auto simp: fn)
      qed
      with 1 [OF True fn [symmetric] Os_error] True show ?thesis by (simp add: unfold fn Os_error)
    next
      case (Returned w)
      then have "\<not> transient fn i" by (simp add: transient_def fn)
      with True show ?thesis by (simp add: first_call unfold fn Returned call_time_def)
    next
      case (Raised e)
      then have "\<not> transient fn i" by (simp add: transient_def fn)
      with True show ?thesis by (simp add: first_call unfold fn Raised)
    qed
  qed
qed

text \<open>
  Retrying ends: the result is that of the first call that does not fail with a socket error, if it
  starts within a minute, so at the latest the thirtieth.
\<close>

theorem retry_returns_first_success:
  "retry_transient fn now = Inr v \<longleftrightarrow>
     (\<exists>k<30. list_all (transient fn) [0..<k] \<and> fst (fn k) = Returned v \<and> call_time fn now 0 k < now + 60000)"
proof -
  have "k < 30" if "call_time fn now 0 k < now + 60000" for k
    using call_time_late [of 0 k now fn] that by simp
  then show ?thesis by (auto simp: retry_transient_def retry_loop_returns list_all_iff)
qed

text \<open>
  The script exits with 0 exactly when the port opened and the daemon answered as expected: to an
  authentication with the expected verdict, to an authorization with ACCEPT and the expected level.
\<close>

theorem smoke_test_passes_iff:
  "exit_code (smoke_main decode client now ready env) = 0 \<longleftrightarrow>
   (\<exists>port cl step r. py_int (getenv env ''TACACS_PORT'' ''49'') = Some port \<and>
      cl = client (getenv env ''TACACS_HOST'' ''127.0.0.1'') port (getenv env ''TACACS_SECRET'' ''smoketest-shared-secret'') \<and>
      wait_for_port (tc_connect cl) now = Inr () \<and> step = py_upper (getenv env ''STEP'' ''AUTHN'') \<and>
      (step = ''AUTHN'' \<and>
         retry_transient (tc_authenticate cl (getenv env ''TACACS_USER'' ''smokeuser'') (getenv env ''TACACS_PASSWORD'' ''anypass'')) ready = Inr r \<and>
         py_upper (getenv env ''EXPECT'' ''ACCEPT'') = (if tr_valid r then ''ACCEPT'' else ''REJECT'') \<or>
       step = ''AUTHZ'' \<and> retry_transient (tc_authorize cl (getenv env ''TACACS_USER'' ''smokeuser'')) ready = Inr r \<and> tr_valid r \<and>
         (\<exists>lvl avs. py_int (getenv env ''EXPECT_PRIV_LVL'' ''15'') = Some lvl \<and>
            av_pairs decode (reply_arguments r) = Inr avs \<and> last_av avs ''priv-lvl'' = Some (int_to_str lvl))))"
proof -
  have authn: "exit_code (run_authn f ready e) = 0 \<longleftrightarrow>
      (\<exists>r. retry_transient f ready = Inr r \<and> e = (if tr_valid r then ''ACCEPT'' else ''REJECT''))"
    if "e = ''ACCEPT'' \<or> e = ''REJECT''" for f e
    using that by (auto simp: run_authn_def exit_code_def split: sum.split)
  have authz: "exit_code (run_authz decode f ready lvl) = 0 \<longleftrightarrow>
      (\<exists>r avs. retry_transient f ready = Inr r \<and> tr_valid r \<and> av_pairs decode (reply_arguments r) = Inr avs \<and>
         last_av avs ''priv-lvl'' = Some (int_to_str lvl))" for f lvl
    by (auto simp: run_authz_def exit_code_def split: sum.split)
  have codes: "exit_code (Inr n) = n" "exit_code (Inl e) = 1" for n e by (simp_all add: exit_code_def)
  show ?thesis
    unfolding smoke_main_def Let_def
    by (auto simp: codes authn authz split: option.splits sum.splits if_splits)
qed

end
