(* ===== verification/Interference.thy ===== *)
theory Interference
  imports Application
begin

text \<open>
  All subsystems keep their configuration in the same two key/value tables. Each request writes only
  the keys of its own subsystem, so no settings page disturbs what another part of the service loads.
\<close>

section \<open>The keys a request may write\<close>

definition kv_frame :: "string list \<Rightarrow> string list \<Rightarrow> db \<Rightarrow> db \<Rightarrow> bool" where
  "kv_frame ks ss d d' \<longleftrightarrow>
     (\<forall>k. k \<notin> set ks \<longrightarrow> system_settings d' k = system_settings d k) \<and>
     (\<forall>k. k \<notin> set ss \<longrightarrow> system_secrets d' k = system_secrets d k)"

lemma kv_frame_refl [simp]: "kv_frame ks ss d d"
  by (simp add: kv_frame_def)

lemma kv_frame_same: "system_settings d' = system_settings d \<Longrightarrow> system_secrets d' = system_secrets d \<Longrightarrow> kv_frame ks ss d d'"
  by (simp add: kv_frame_def)

lemma kv_frame_trans: "kv_frame ks ss d d1 \<Longrightarrow> kv_frame ks ss d1 d2 \<Longrightarrow> kv_frame ks ss d d2"
  by (simp add: kv_frame_def)

lemma kv_frame_audit [simp]: "kv_frame ks ss d (with_audit now e d1) = kv_frame ks ss d d1"
  by (simp add: kv_frame_def)

lemma kv_frame_setting: "kv_frame ks ss d d1 \<Longrightarrow> k \<in> set ks \<Longrightarrow> kv_frame ks ss d (write_setting k v d1)"
  by (auto simp: kv_frame_def write_setting_def split: option.split)

lemma kv_frame_secret: "kv_frame ks ss d d1 \<Longrightarrow> k \<in> set ss \<Longrightarrow> kv_frame ks ss d (write_secret k v d1)"
  by (auto simp: kv_frame_def write_secret_def split: option.split)

lemma kv_frame_put: "kv_frame ks ss d d1 \<Longrightarrow> k \<in> set ss \<Longrightarrow> kv_frame ks ss d (put_secret k v d1)"
  by (auto simp: put_secret_def kv_frame_secret split: option.split)

lemmas kv_frame_writes = kv_frame_setting kv_frame_secret kv_frame_put kv_frame_refl

lemma kv_frame_validated: "kv_frame ks ss d (fst r) \<Longrightarrow> kv_frame ks ss d (fst (validated ok d r))"
  by (simp add: validated_def)

lemma kv_frame_admin: "kv_frame ks ss d (fst r) \<Longrightarrow> kv_frame ks ss d (fst (admin_only c d r))"
  by (simp add: admin_only_def)

lemma kv_frame_or_500:
  "(\<And>x. r = Inr x \<Longrightarrow> kv_frame ks ss d (fst (k x))) \<Longrightarrow> kv_frame ks ss d (fst (or_500 d r k))"
  by (cases r) simp_all

lemma kv_frame_commit:
  "kv_frame ks ss d d1 \<Longrightarrow> (\<And>x. fst (k x) = x) \<Longrightarrow>
   kv_frame ks ss d (fst (audit_commit now (ctx_entry ctx a ty s) d d1 k))"
  by simp

lemmas kv_frame_rules = kv_frame_validated kv_frame_admin kv_frame_or_500 kv_frame_commit

definition LDAP_KEYS :: "string list" where
  "LDAP_KEYS = [LDAP_BIND_DN, LDAP_BASE_DNS, LDAP_USER_FILTER, LDAP_CADENCE, LDAP_ENABLED]"

definition SYSLOG_KEYS :: "string list" where
  "SYSLOG_KEYS = [SYSLOG_ENABLED, SYSLOG_HOST, SYSLOG_PORT, SYSLOG_PROTOCOL, SYSLOG_FACILITY, SYSLOG_APP_NAME,
     SYSLOG_HOSTNAME, SYSLOG_TLS_VERIFY, SYSLOG_TLS_NAME]"

definition SAML_IDP_KEYS :: "string list" where
  "SAML_IDP_KEYS = [SAML_IDP_ENTITY_ID, SAML_IDP_SSO_URL, SAML_IDP_SSO_BINDING, SAML_IDP_CERT, SAML_IDP_XML]"

fun request_keys :: "request \<Rightarrow> string list" where
  "request_keys (Put_ldap_url raw) = [SETTING_LDAP_URL]"
| "request_keys (Put_web_url raw) = [WEB_BASE_URL]"
| "request_keys (Put_ldap_sync p) = LDAP_KEYS"
| "request_keys Run_ldap_sync = [LDAP_LAST_RESULT]"
| "request_keys (Put_syslog p) = SYSLOG_KEYS"
| "request_keys (Import_metadata xml) = SAML_IDP_KEYS"
| "request_keys (Put_mapping p) = [SAML_GROUP_ATTRIBUTE, SAML_ROLE_MAPPINGS]"
| "request_keys (Upload_cert c k) = [''tls.source'']"
| "request_keys (Upload_pfx p w) = [''tls.source'']"
| "request_keys (New_self_signed cn days) = [''tls.source'']"
| "request_keys Complete_setup = [WIZARD_COMPLETED_KEY]"
| "request_keys Reopen_setup = [WIZARD_COMPLETED_KEY]"
| "request_keys _ = []"

fun request_secrets :: "request \<Rightarrow> string list" where
  "request_secrets (Put_ldap_sync p) = [LDAP_BIND_PASSWORD]"
| "request_secrets (Put_syslog p) = [''syslog.tls_ca_pem'', ''syslog.tls_client_cert_pem'', ''syslog.tls_client_key_pem'']"
| "request_secrets (New_sp_keypair cn) = [SAML_SP_CERT, SAML_SP_KEY]"
| "request_secrets _ = []"

section \<open>The handlers\<close>

lemma url_kv: "kv_frame [k] ss d (fst (put_url now ctx a k url d))"
  unfolding put_url_def by (rule kv_frame_rules kv_frame_writes | simp)+

lemma sync_config_kv: "kv_frame LDAP_KEYS [LDAP_BIND_PASSWORD] d (fst (update_config_tx now ctx p d))"
proof -
  have "kv_frame LDAP_KEYS [LDAP_BIND_PASSWORD] d (write_sync_config p d)"
    unfolding write_sync_config_def Let_def by (auto intro!: kv_frame_writes simp: LDAP_KEYS_def)
  then show ?thesis unfolding update_config_tx_def by (intro kv_frame_rules) simp_all
qed

lemma syslog_config_kv:
  "kv_frame SYSLOG_KEYS [''syslog.tls_ca_pem'', ''syslog.tls_client_cert_pem'', ''syslog.tls_client_key_pem''] d
     (fst (update_syslog_config now ctx p d))"
  unfolding update_syslog_config_def write_syslog_config_def write_syslog_settings_def
  by (intro kv_frame_rules kv_frame_writes) (simp_all add: SYSLOG_KEYS_def)

lemma mapping_kv: "kv_frame [SAML_GROUP_ATTRIBUTE, SAML_ROLE_MAPPINGS] [] d (fst (update_mapping u now ctx pm d))"
  unfolding update_mapping_def write_mapping_def by (intro kv_frame_rules kv_frame_writes) simp_all

lemma metadata_kv: "kv_frame SAML_IDP_KEYS [] d (fst (import_idp_metadata xp u now ctx xml d))"
  unfolding import_idp_metadata_def
  by (rule kv_frame_validated, rule kv_frame_admin)
     (auto split: sum.split metadata_exc.split intro!: kv_frame_writes simp: SAML_IDP_KEYS_def)

lemma keypair_kv: "kv_frame [] [SAML_SP_CERT, SAML_SP_KEY] d (fst (regenerate_sp_keypair g u now ctx cn d))"
  unfolding regenerate_sp_keypair_def
  by (rule kv_frame_validated, rule kv_frame_admin) (auto split: sum.split prod.split intro!: kv_frame_writes)

lemma sync_test_kv: "kv_frame [] [] d (fst (test_endpoint dec con now ctx p d))"
  unfolding test_endpoint_def Let_def
  by (rule kv_frame_validated kv_frame_admin kv_frame_or_500)+ (auto split: sum.split sync_exc.split)

lemma syslog_test_kv: "kv_frame [] [] d (fst (test_syslog net now ctx d))"
  unfolding test_syslog_def Let_def by (rule kv_frame_admin) (auto split: option.split)

lemma setup_kv:
  "kv_frame [WIZARD_COMPLETED_KEY] [] d (fst (complete_wizard b now ctx d))"
  "kv_frame [WIZARD_COMPLETED_KEY] [] d (fst (reopen_wizard b now ctx d))"
  unfolding complete_wizard_def reopen_wizard_def by (rule kv_frame_admin; simp add: kv_frame_setting)+

lemma tls_kv:
  "kv_frame [''tls.source''] [] (fst st) (fst (fst (upload_tls lib io now ctx cert key st)))"
  "kv_frame [''tls.source''] [] (fst st) (fst (fst (upload_tls_pfx lib io now ctx pfx pw st)))"
  "kv_frame [''tls.source''] [] (fst st) (fst (fst (regenerate_self_signed lib io now ctx cn days st)))"
  unfolding upload_tls_def upload_tls_pfx_def regenerate_self_signed_def tls_admin_def Let_def install_pair_def
  by (auto split: sum.split option.split prod.split intro: kv_frame_setting)

lemma regenerate_kv: "kv_frame [] [] (fl_db f) (fl_db (fst (regenerate env path now ctx f)))"
  by (auto simp: regenerate_def regenerate_nas_config_def Let_def intro!: kv_frame_same)

lemma inventory_kv:
  "kv_frame [] [] d (fst (create_device_group now ctx gp d))" "kv_frame [] [] d (fst (update_device_group now ctx i gu d))"
  "kv_frame [] [] d (fst (delete_device_group now ctx i d))" "kv_frame [] [] d (fst (create_privilege_profile now ctx pc d))"
  "kv_frame [] [] d (fst (update_privilege_profile now ctx i pu d))" "kv_frame [] [] d (fst (delete_privilege_profile now ctx i d))"
  "kv_frame [] [] d (fst (create_authorization now ctx ac d))" "kv_frame [] [] d (fst (delete_authorization now ctx i d))"
  by (auto simp: create_device_group_def update_device_group_def delete_device_group_def
      create_privilege_profile_def update_privilege_profile_def delete_privilege_profile_def
      create_authorization_def delete_authorization_def get_or_404_def Let_def remove_device_group_def
      remove_privilege_profile_def split: option.split prod.split intro!: kv_frame_same)

lemma device_kv:
  "kv_frame [] [] d (fst (create_device_tx now ctx dc d))" "kv_frame [] [] d (fst (update_device_tx now ctx i du d))"
  "kv_frame [] [] d (fst (delete_device_tx now ctx i d))" "kv_frame [] [] d (fst (change_device now ctx a f i d))"
  by (auto simp: create_device_tx_def update_device_tx_def delete_device_tx_def change_device_def
      ensure_device_group_exists_def get_or_404_def remove_device_def Let_def split: option.split prod.split sum.split intro!: kv_frame_same)

lemma sync_one_kv: "sync_one sql_lower now rec s = Inr s' \<Longrightarrow> kv_frame [] [] (ss_db s) (ss_db s')"
proof -
  have resolve: "kv_frame [] [] (fst st) (fst st')" if "resolve_group now gr st = Inr (st', i)" for gr st st' i
    using that by (cases st) (auto simp: resolve_group_def Let_def split: sum.splits option.splits intro!: kv_frame_same)
  have edge: "kv_frame [] [] d d'" if "add_edge uid i d = Inr d'" for uid i and d d' :: db
    using that by (auto simp: add_edge_def split: if_splits intro!: kv_frame_same)
  have groups: "kv_frame [] [] (fst st) (fst st')" if "add_groups now uid grs st = Inr st'" for uid grs st st'
    using that
  proof (induction grs arbitrary: st)
    case (Cons gr grs)
    then obtain d1 c1 i d2 where g: "resolve_group now gr st = Inr ((d1, c1), i)" "add_edge uid i d1 = Inr d2"
      "add_groups now uid grs (d2, c1) = Inr st'" by (auto split: sum.splits)
    from resolve [OF g(1)] edge [OF g(2)] Cons.IH [OF g(3)] show ?case by (auto intro: kv_frame_trans)
  qed simp
  assume "sync_one sql_lower now rec s = Inr s'"
  then obtain d1 uid b st2 where up: "upsert_user sql_lower now rec (ss_db s) = Inr (d1, uid, b)"
    and gr: "add_groups now uid (ur_groups rec) (drop_edges uid d1, ss_cache s) = Inr st2" and s': "ss_db s' = fst st2"
    by (auto simp: sync_one_def replace_user_groups_def Let_def split: sum.splits if_splits prod.splits)
  from up have "kv_frame [] [] (ss_db s) d1"
    by (auto simp: upsert_user_def Let_def split: sum.splits option.splits intro!: kv_frame_same)
  moreover have "kv_frame [] [] d1 (drop_edges uid d1)" by (rule kv_frame_same) (simp_all add: drop_edges_def)
  ultimately show ?thesis using groups [OF gr] s' by (auto intro: kv_frame_trans)
qed

lemma sync_loop_kv: "sync_loop sql_lower now recs s = Inr s' \<Longrightarrow> kv_frame [] [] (ss_db s) (ss_db s')"
proof (induction recs arbitrary: s)
  case (Cons rec recs)
  then show ?case by (auto split: sum.splits intro: kv_frame_trans sync_one_kv)
qed simp

lemma sync_run_kv: "kv_frame [LDAP_LAST_RESULT] [] d (fst (run_now sl dec con now ctx d))"
proof -
  have "kv_frame [LDAP_LAST_RESULT] [] d d1" if run: "run_full_sync sl con now d = Inr (d1, r)" for d1 r
  proof (rule run_full_syncE [OF run])
    fix records d0 r0
    assume "run_sync sl now records d = Inr (d0, r0)" and d1: "d1 = persist_summary r d0"
    then obtain s where s: "sync_loop sl now records
        \<lparr>ss_db = d, ss_cache = [], ss_seen = [], ss_result = new_sync_result now\<rparr> = Inr s"
      and d0: "d0 = disable_stale (ss_seen s) (ss_db s)" by (auto simp: run_sync_def split: sum.splits)
    from sync_loop_kv [OF s] have "kv_frame [LDAP_LAST_RESULT] [] d d0"
      by (auto simp: d0 kv_frame_def disable_stale_def)
    then show ?thesis by (simp add: d1 persist_summary_def kv_frame_setting)
  qed
  then show ?thesis unfolding run_now_def run_sync_in_thread_def
    by (intro kv_frame_admin) (auto split: sum.split sync_exc.split option.split)
qed

lemma route_kv:
  "kv_frame (request_keys req) (request_secrets req) (ap_db s) (ap_db (fst (route env now ctx req s)))"
  by (cases req)
     (simp_all add: url_kv sync_config_kv syslog_config_kv mapping_kv metadata_kv keypair_kv sync_test_kv syslog_test_kv
       setup_kv regenerate_kv inventory_kv device_kv sync_run_kv put_ldap_settings_def put_web_settings_def WEB_BASE_URL_KEY_def
       tls_kv [where st = "(a, b)" for a b, simplified])

lemma sessions_only_kv: "sessions_only d d' \<Longrightarrow> kv_frame ks ss d d'"
  unfolding sessions_only_def kv_frame_def by (erule ssubst) simp

lemma serve_kv:
  "kv_frame (request_keys req) (request_secrets req) (ap_db s) (ap_db (fst (serve env now rq cookie req s)))"
proof (rule serve_cases [of now rq cookie s env req])
  fix d and e :: http_exc
  assume "require_session now rq cookie (ap_db s) = (d, Inl e)"
    and "serve env now rq cookie req s = (s\<lparr>ap_fleet := (ap_fleet s)\<lparr>fl_db := d\<rparr>\<rparr>, Inl e)"
  with require_session_only [of "ap_db s" now rq cookie] show ?thesis by (simp add: sessions_only_kv)
next
  fix d ctx
  assume "require_session now rq cookie (ap_db s) = (d, Inr ctx)"
    and run: "serve env now rq cookie req s = route env now ctx req (s\<lparr>ap_fleet := (ap_fleet s)\<lparr>fl_db := d\<rparr>\<rparr>)"
  with require_session_only [of "ap_db s" now rq cookie] have "kv_frame (request_keys req) (request_secrets req) (ap_db s) d"
    by (simp add: sessions_only_kv)
  with run route_kv [of req "s\<lparr>ap_fleet := (ap_fleet s)\<lparr>fl_db := d\<rparr>\<rparr>" env now ctx] show ?thesis
    by (auto intro: kv_frame_trans)
qed

section \<open>What the other parts load\<close>

datatype subsystem = Syslog_forwarding | Directory_sync | Live_login | Saml_login

text \<open>The subsystems whose configuration a request is there to change.\<close>

fun affects :: "request \<Rightarrow> subsystem list" where
  "affects (Put_syslog p) = [Syslog_forwarding]"
| "affects (Put_ldap_sync p) = [Directory_sync]"
| "affects (Put_ldap_url raw) = [Directory_sync, Live_login]"
| "affects (Put_web_url raw) = [Saml_login]"
| "affects (Import_metadata xml) = [Saml_login]"
| "affects (Put_mapping p) = [Saml_login]"
| "affects (New_sp_keypair cn) = [Saml_login]"
| "affects _ = []"

definition loaded_alike :: "string \<Rightarrow> db \<Rightarrow> db \<Rightarrow> subsystem \<Rightarrow> bool" where
  "loaded_alike url d d' x \<longleftrightarrow>
     (case x of
        Syslog_forwarding \<Rightarrow> syslog_load_config d' = syslog_load_config d
      | Directory_sync \<Rightarrow> load_config d' = load_config d \<and> load_bind_password d' = load_bind_password d
      | Live_login \<Rightarrow> resolve_ldap_endpoint d' = resolve_ldap_endpoint d
      | Saml_login \<Rightarrow> load_saml_config url d' = load_saml_config url d)"

lemma kv_frame_reads:
  "kv_frame ks ss d d' \<Longrightarrow> k \<notin> set ks \<Longrightarrow> read_setting d' k = read_setting d k"
  "kv_frame ks ss d d' \<Longrightarrow> k \<notin> set ss \<Longrightarrow> read_secret d' k = read_secret d k"
  by (simp_all add: kv_frame_def read_setting_def read_secret_def)

text \<open>The keys and secrets each subsystem reads.\<close>

fun reads :: "subsystem \<Rightarrow> string list" where
  "reads Syslog_forwarding = SYSLOG_KEYS"
| "reads Directory_sync = SETTING_LDAP_URL # LDAP_KEYS"
| "reads Live_login = [SETTING_LDAP_URL]"
| "reads Saml_login = WEB_BASE_URL # SAML_GROUP_ATTRIBUTE # SAML_ROLE_MAPPINGS # SAML_IDP_KEYS"

fun reads_secrets :: "subsystem \<Rightarrow> string list" where
  "reads_secrets Syslog_forwarding = [''syslog.tls_ca_pem'', ''syslog.tls_client_cert_pem'', ''syslog.tls_client_key_pem'']"
| "reads_secrets Directory_sync = [LDAP_BIND_PASSWORD]"
| "reads_secrets Live_login = []"
| "reads_secrets Saml_login = [SAML_SP_CERT, SAML_SP_KEY]"

lemma loaded_alikeI:
  assumes "list_all (\<lambda>k. read_setting d' k = read_setting d k) (reads x)"
    and "list_all (\<lambda>k. read_secret d' k = read_secret d k) (reads_secrets x)"
  shows "loaded_alike url d d' x"
proof (cases x)
  case Syslog_forwarding
  with assms have eqs: "list_all (\<lambda>k. read_setting d' k = read_setting d k) SYSLOG_KEYS"
    "list_all (\<lambda>k. read_secret d' k = read_secret d k) (reads_secrets x)" by simp_all
  with Syslog_forwarding show ?thesis by (simp add: loaded_alike_def syslog_load_config_def SYSLOG_KEYS_def)
next
  case Directory_sync
  with assms have eqs: "read_setting d' SETTING_LDAP_URL = read_setting d SETTING_LDAP_URL"
    "read_setting d' LDAP_BIND_DN = read_setting d LDAP_BIND_DN" "read_setting d' LDAP_BASE_DNS = read_setting d LDAP_BASE_DNS"
    "read_setting d' LDAP_USER_FILTER = read_setting d LDAP_USER_FILTER" "read_setting d' LDAP_CADENCE = read_setting d LDAP_CADENCE"
    "read_setting d' LDAP_ENABLED = read_setting d LDAP_ENABLED" "read_secret d' LDAP_BIND_PASSWORD = read_secret d LDAP_BIND_PASSWORD"
    by (simp_all add: LDAP_KEYS_def)
  have "load_config d' = load_config d" unfolding load_config_def eqs ..
  with Directory_sync show ?thesis by (simp add: loaded_alike_def load_bind_password_def eqs)
next
  case Live_login
  with assms show ?thesis by (simp add: loaded_alike_def resolve_ldap_endpoint_def read_setting_def)
next
  case Saml_login
  with assms have eqs: "read_setting d' WEB_BASE_URL = read_setting d WEB_BASE_URL"
    "read_setting d' SAML_IDP_ENTITY_ID = read_setting d SAML_IDP_ENTITY_ID"
    "read_setting d' SAML_IDP_SSO_URL = read_setting d SAML_IDP_SSO_URL"
    "read_setting d' SAML_IDP_SSO_BINDING = read_setting d SAML_IDP_SSO_BINDING"
    "read_setting d' SAML_IDP_CERT = read_setting d SAML_IDP_CERT"
    "read_setting d' SAML_GROUP_ATTRIBUTE = read_setting d SAML_GROUP_ATTRIBUTE"
    "read_setting d' SAML_ROLE_MAPPINGS = read_setting d SAML_ROLE_MAPPINGS"
    "read_secret d' SAML_SP_CERT = read_secret d SAML_SP_CERT" "read_secret d' SAML_SP_KEY = read_secret d SAML_SP_KEY"
    by (simp_all add: SAML_IDP_KEYS_def)
  have "load_saml_config url d' = load_saml_config url d" unfolding load_saml_config_def stored_mappings_def eqs ..
  with Saml_login show ?thesis by (simp add: loaded_alike_def)
qed

lemmas key_lists = LDAP_KEYS_def SYSLOG_KEYS_def SAML_IDP_KEYS_def SETTING_LDAP_URL_def

lemma other_keys:
  "x \<notin> set (affects req) \<Longrightarrow> list_all (\<lambda>k. k \<notin> set (request_keys req)) (reads x) \<and>
     list_all (\<lambda>k. k \<notin> set (request_secrets req)) (reads_secrets x)"
  by (cases x; cases req) (simp_all add: key_lists)

lemma frame_loaded_alike:
  assumes "kv_frame (request_keys req) (request_secrets req) d d'" and "x \<notin> set (affects req)"
  shows "loaded_alike url d d' x"
  using kv_frame_reads [OF assms(1)] other_keys [OF assms(2)]
  by (intro loaded_alikeI) (simp_all add: list_all_iff)

end
