(* ===== verification/Device_Login.thy ===== *)
theory Device_Login
  imports Internal_Mavis Mavis_Child
begin

text \<open>
  A login at a device, end to end: the packet of the daemon, the MAVIS child, its two HTTP calls, the
  routes of the backend and their answers. \<open>mavis_backend\<close> is the backend as the child sees it;
  \<open>login_accepted\<close> and \<open>login_profile\<close> say what the operator and the directory decided.
\<close>

section \<open>The backend behind the child's calls\<close>

record mavis_env =
  me_sql_lower :: "string \<Rightarrow> string"
  me_ldap :: ldap_server
  me_clock :: "nat \<Rightarrow> instant"

fun result_name :: "auth_result \<Rightarrow> string" where
  "result_name ACK = ''ACK''"
| "result_name NAK = ''NAK''"
| "result_name NFD = ''NFD''"
| "result_name ERR = ''ERR''"

definition reply_field :: "string option \<Rightarrow> json_field" where
  "reply_field v = (case v of None \<Rightarrow> J_null | Some s \<Rightarrow> J_str s)"

fun error_reply :: "http_exc \<Rightarrow> http_reply" where
  "error_reply (HTTPException code detail) = Http_Error code"
| "error_reply (Unhandled e) = Http_Error 500"

definition auth_reply :: "http_exc + auth_response \<Rightarrow> http_reply" where
  "auth_reply r =
     (case r of
        Inl e \<Rightarrow> error_reply e
      | Inr resp \<Rightarrow> Json_Object (J_str (result_name (as_result resp))) (reply_field (as_reason resp)) J_null)"

definition info_reply :: "http_exc + info_response \<Rightarrow> http_reply" where
  "info_reply r =
     (case r of
        Inl e \<Rightarrow> error_reply e
      | Inr resp \<Rightarrow> Json_Object (J_str (result_name (is_result resp))) (reply_field (is_reason resp))
          (reply_field (is_profile resp)))"

text \<open>The state: the database and the number of requests so far, which the clock is read at.\<close>

definition mavis_backend :: "mavis_env \<Rightarrow> (db \<times> nat) backend" where
  "mavis_backend env s path payload =
     (let now = me_clock env (snd s); arg = map_of payload in
      if path = ''/internal/mavis/auth'' then
        (case (arg ''username'', arg ''password'') of
           (Some username, Some password) \<Rightarrow>
             (let (d', r) = mavis_auth (me_sql_lower env) (me_ldap env) now
                    \<lparr>aq_username = username, aq_password = password, aq_nas_ip = arg ''nas_ip''\<rparr> (fst s)
              in ((d', snd s + 1), auth_reply r))
         | _ \<Rightarrow> ((fst s, snd s + 1), Http_Error 422))
      else if path = ''/internal/mavis/info'' then
        (case (arg ''username'', arg ''nas_ip'') of
           (Some username, Some nas_ip) \<Rightarrow>
             (let (d', r) = mavis_info (me_sql_lower env) now \<lparr>iq_username = username, iq_nas_ip = nas_ip\<rparr> (fst s)
              in ((d', snd s + 1), info_reply r))
         | _ \<Rightarrow> ((fst s, snd s + 1), Http_Error 422))
      else (s, Http_Error 404))"

section \<open>What was decided\<close>

definition login_accepted :: "mavis_env \<Rightarrow> db \<Rightarrow> string \<Rightarrow> string \<Rightarrow> bool" where
  "login_accepted env d username password \<longleftrightarrow>
     (case (named_user (me_sql_lower env) username d, resolve_ldap_endpoint d) of
        (Some u, Some ep) \<Rightarrow> u_enabled u \<and> u_distinguished_name u \<noteq> [] \<and> password \<noteq> [] \<and>
          me_ldap env ep (u_distinguished_name u) password = Bind_True
      | _ \<Rightarrow> False)"

definition login_profile :: "mavis_env \<Rightarrow> db \<Rightarrow> string \<Rightarrow> string \<Rightarrow> string option" where
  "login_profile env d username nas_ip =
     (case (named_user (me_sql_lower env) username d, resolve_device_for_ip nas_ip (devices d)) of
        (Some u, Some dev) \<Rightarrow>
          map_option render_tacprofile (effective_profile (evaluate_for_user (load_user d u) (d_device_group_id dev)
            (load_authorizations d (\<lambda>a. a_device_group_id a = d_device_group_id dev))))
      | _ \<Rightarrow> None)"

lemma evaluate_accepted:
  assumes "mavis_evaluate (verify_ldap_password (me_ldap env)) (named_user (me_sql_lower env) username d)
    (resolve_ldap_endpoint d) password = Inr out"
  shows "ao_result out = ACK \<longleftrightarrow> login_accepted env d username password"
  using assms
  by (auto simp: mavis_evaluate_def verify_ldap_password_def outcome_of_def login_accepted_def
      split: option.splits bind_end.splits if_splits)

lemma evaluate_raises:
  assumes "mavis_evaluate (verify_ldap_password (me_ldap env)) (named_user (me_sql_lower env) username d)
    (resolve_ldap_endpoint d) password = Inl e"
  shows "\<not> login_accepted env d username password"
  using assms by (auto simp: mavis_evaluate_def verify_ldap_password_def login_accepted_def split: option.splits)

lemma login_profile_audit: "login_profile env (with_audit now e d) n nas = login_profile env d n nas"
proof -
  have "load_user (with_audit now e d) u = load_user d u" for u
    unfolding load_user_def groups_of_def with_audit_frame ..
  moreover have "load_authorizations (with_audit now e d) P = load_authorizations d P" for P
  proof -
    have "load_authorization (with_audit now e d) = load_authorization d"
      by (rule ext) (simp add: load_authorization_def get_profile_def)
    then show ?thesis by (simp add: load_authorizations_def)
  qed
  ultimately show ?thesis by (simp add: login_profile_def named_user_def cong: option.case_cong)
qed

lemma named_user_audit [simp]: "named_user f n (with_audit now e d) = named_user f n d"
  by (simp add: named_user_def)

lemma result_name_ack [simp]: "result_name r = ''ACK'' \<longleftrightarrow> r = ACK"
  by (cases r) simp_all

lemma result_name_listed [simp]: "result_name r \<in> set RESULTS"
  by (cases r) (simp_all add: RESULTS_def)

lemma json_str_field [simp]: "json_str (reply_field v) = v"
  by (simp add: reply_field_def split: option.split)

lemma find_named:
  "sam_lower_unique f d \<Longrightarrow> find_user_by_sam f n d = Inr (named_user f n d)"
  by (rule find_user_by_sam_unique)

lemma sam_unique_audit [simp]: "sam_lower_unique f (with_audit now e d) = sam_lower_unique f d"
  by (simp add: sam_lower_unique_def)

text \<open>The two calls of the child, answered by the backend.\<close>

lemma auth_call:
  assumes "sam_lower_unique (me_sql_lower env) d" and "length user \<in> {1..256}" and "length password \<le> 1024"
    and "length nas \<le> 64"
  shows "\<exists>d' r why. call_backend_auth (mavis_backend env) (d, n) user password nas = ((d', n + 1), Some (r, why)) \<and>
    (r = ''ACK'' \<longleftrightarrow> login_accepted env d user password) \<and> (d' = d \<or> (\<exists>e. d' = with_audit (me_clock env n) e d))"
proof -
  let ?q = "\<lparr>aq_username = user, aq_password = password, aq_nas_ip = if nas = [] then None else Some nas\<rparr>"
  let ?payload = "[(''username'', user), (''password'', password)] @ (if nas \<noteq> [] then [(''nas_ip'', nas)] else [])"
  have valid: "auth_request_valid ?q" using assms(2-4) by (auto simp: auth_request_valid_def)
  have call: "mavis_backend env (d, n) ''/internal/mavis/auth'' ?payload =
      (case mavis_auth (me_sql_lower env) (me_ldap env) (me_clock env n) ?q d of (d', r) \<Rightarrow> ((d', n + 1), auth_reply r))"
    by (simp add: mavis_backend_def Let_def)
  show ?thesis
  proof (cases "mavis_evaluate (verify_ldap_password (me_ldap env)) (named_user (me_sql_lower env) user d)
      (resolve_ldap_endpoint d) password")
    case (Inl e)
    then have "mavis_auth (me_sql_lower env) (me_ldap env) (me_clock env n) ?q d = (d, Inl (Unhandled e))"
      using valid assms(1) by (simp add: mavis_auth_def find_named)
    with call evaluate_raises [OF Inl] show ?thesis
      by (simp add: call_backend_auth_def post_json_def auth_reply_def read_reply_def Let_def)
  next
    case (Inr out)
    then have "mavis_auth (me_sql_lower env) (me_ldap env) (me_clock env n) ?q d =
        (with_audit (me_clock env n) (authn_entry ?q (named_user (me_sql_lower env) user d) out) d,
         Inr \<lparr>as_result = ao_result out, as_reason = ao_reason out\<rparr>)"
      using valid assms(1) by (intro mavis_auth_ok) (simp_all add: find_named)
    with call evaluate_accepted [OF Inr] show ?thesis
      by (auto simp: call_backend_auth_def post_json_def auth_reply_def read_reply_def Let_def)
  qed
qed

lemma info_call:
  assumes "sam_lower_unique (me_sql_lower env) d" and "length user \<in> {1..256}" and "length nas \<in> {1..64}"
  shows "\<exists>d' r why p. call_backend_info (mavis_backend env) (d, n) user nas = ((d', n + 1), Some (r, why, p)) \<and>
    ((r, p) = (case named_user (me_sql_lower env) user d of
       Some u \<Rightarrow> if u_enabled u \<and> login_profile env d user nas \<noteq> None then (''ACK'', login_profile env d user nas) else (''NAK'', None)
     | None \<Rightarrow> (''NFD'', None)))"
proof -
  let ?q = "\<lparr>iq_username = user, iq_nas_ip = nas\<rparr>"
  let ?u = "named_user (me_sql_lower env) user d"
  have valid: "info_request_valid ?q" using assms(2,3) by (auto simp: info_request_valid_def)
  have "mavis_info (me_sql_lower env) (me_clock env n) ?q d =
      (with_audit (me_clock env n) (authz_entry ?q ?u (resolve_info d ?q ?u)) d, Inr (fst (resolve_info d ?q ?u)))"
    using valid assms(1) by (intro mavis_info_ok) (simp_all add: find_named)
  moreover have "(result_name (is_result (fst (resolve_info d ?q ?u))), is_profile (fst (resolve_info d ?q ?u))) =
      (case ?u of
         Some u \<Rightarrow> if u_enabled u \<and> login_profile env d user nas \<noteq> None then (''ACK'', login_profile env d user nas) else (''NAK'', None)
       | None \<Rightarrow> (''NFD'', None))"
    by (auto simp: resolve_info_def refused_def login_profile_def Let_def split: option.split)
  ultimately show ?thesis
    by (simp add: call_backend_info_def post_json_def mavis_backend_def Let_def info_reply_def read_reply_def)
qed

section \<open>Properties\<close>

text \<open>
  C7: The child and the backend together implement the decision: a login packet is answered ACK exactly
  when the directory accepted the non-empty password of a known, enabled user, and it carries the
  profile of the user's effective authorization on the device's group exactly then - whatever goes
  wrong on the way, no other packet gets an ACK or a profile.
\<close>

theorem device_login_implements_the_decision:
  assumes "sam_lower_unique (me_sql_lower env) d"
    and "av_get req AV_TACTYPE = ''AUTH''" and "map_of req AV_TACPROFILE = None"
    and "length (av_get req AV_USER) \<in> {1..256}" and "length (av_get req AV_PASSWORD) \<le> 1024"
    and "length (av_get req AV_SERVERIP) \<in> {1..64}"
  shows "\<exists>s' resp. handle_packet (mavis_backend env) (d, n) req = (s', Some resp) \<and>
    (map_of resp AV_RESULT = Some ''ACK'' \<longleftrightarrow> login_accepted env d (av_get req AV_USER) (av_get req AV_PASSWORD)) \<and>
    map_of resp AV_TACPROFILE =
      (if login_accepted env d (av_get req AV_USER) (av_get req AV_PASSWORD)
       then login_profile env d (av_get req AV_USER) (av_get req AV_SERVERIP) else None)"
proof -
  let ?user = "av_get req AV_USER" and ?pw = "av_get req AV_PASSWORD" and ?nas = "av_get req AV_SERVERIP"
  from auth_call [OF assms(1,4,5), of ?nas n] assms(6) obtain d' r why where
    auth: "call_backend_auth (mavis_backend env) (d, n) ?user ?pw ?nas = ((d', n + 1), Some (r, why))"
    and r: "r = ''ACK'' \<longleftrightarrow> login_accepted env d ?user ?pw"
    and d': "d' = d \<or> (\<exists>e. d' = with_audit (me_clock env n) e d)" by auto
  show ?thesis
  proof (cases "login_accepted env d ?user ?pw")
    case False
    with auth r show ?thesis
      using assms(2,3) by (auto simp: handle_packet_def Let_def update_conv')
  next
    case True
    from d' assms(1) have unique: "sam_lower_unique (me_sql_lower env) d'" by auto
    have same: "named_user (me_sql_lower env) ?user d' = named_user (me_sql_lower env) ?user d"
      "login_profile env d' ?user ?nas = login_profile env d ?user ?nas"
      using d' by (auto simp: login_profile_audit)
    from True obtain u where "named_user (me_sql_lower env) ?user d = Some u" "u_enabled u"
      by (auto simp: login_accepted_def split: option.splits)
    with info_call [OF unique assms(4,6), of "n + 1"] obtain d2 ri whyi p where
      info: "call_backend_info (mavis_backend env) (d', n + 1) ?user ?nas = ((d2, n + 2), Some (ri, whyi, p))"
      and p: "(ri, p) = (if login_profile env d ?user ?nas \<noteq> None then (''ACK'', login_profile env d ?user ?nas) else (''NAK'', None))"
      by (auto simp: same)
    from assms(6) have "?nas \<noteq> []" by auto
    with auth info r True assms(2,3) p show ?thesis
      by (auto simp: handle_packet_def Let_def map_of_with_profile update_conv' split: if_splits)
  qed
qed

definition ex_login_db :: db where
  "ex_login_db = ex_info_db\<lparr>system_settings := (\<lambda>_. None)(''ldap.url'' := Some ''ldaps://dc'')\<rparr>"

definition ex_login_env :: mavis_env where
  "ex_login_env = \<lparr>me_sql_lower = py_lower, me_ldap = (\<lambda>_ _ _. Bind_True), me_clock = (\<lambda>_. 0)\<rparr>"

lemma ex_login_user: "named_user py_lower ''ALICE'' ex_login_db = Some ex_user_row"
  by (simp add: named_user_def ex_login_db_def ex_info_db_def ex_user_row_def py_lower_char_def Let_def char_eval)

lemma ex_login_accepted: "login_accepted ex_login_env ex_login_db ''ALICE'' ''pw''"
  using ex_login_user
  by (simp add: login_accepted_def ex_login_env_def resolve_ldap_endpoint_def SETTING_LDAP_URL_def Let_def ex_user_row_def)
    (simp add: ex_login_db_def)

lemma ex_login_profile: "login_profile ex_login_env ex_login_db ''ALICE'' ''10.0.5.9'' \<noteq> None"
proof -
  have "resolve_device_for_ip ''10.0.5.9'' (devices ex_login_db) = Some (ex_device 1 ''10.0.0.0/8'')"
    using ex_info_device by (simp add: ex_login_db_def)
  with ex_login_user show ?thesis
    by (simp add: login_profile_def ex_login_env_def effective_profile_def)
      (simp add: ex_login_db_def ex_user_row_def ex_info_db_def empty_db_def ex_device_def evaluate_for_user_def
        load_authorizations_def load_authorization_def get_profile_def List.map_filter_def
        ex_profile_def authz_matches_def load_user_def user_row.defs authorization_row.defs is_direct_def)
qed

theorem device_login_implements_the_decision_witness:
  "\<exists>s' resp p. handle_packet (mavis_backend ex_login_env) (ex_login_db, 0)
     [(49, ''AUTH''), (4, ''ALICE''), (8, ''pw''), (25, ''10.0.5.9'')] = (s', Some resp) \<and>
   map_of resp AV_RESULT = Some ''ACK'' \<and> map_of resp AV_TACPROFILE = Some p"
proof -
  let ?req = "[(49, ''AUTH''), (4, ''ALICE''), (8, ''pw''), (25, ''10.0.5.9'')] :: (int \<times> string) list"
  have "sam_lower_unique (me_sql_lower ex_login_env) ex_login_db"
    by (simp add: sam_lower_unique_def ex_login_db_def ex_info_db_def)
  moreover have "av_get ?req AV_TACTYPE = ''AUTH''" "av_get ?req AV_USER = ''ALICE''" "av_get ?req AV_PASSWORD = ''pw''"
    "av_get ?req AV_SERVERIP = ''10.0.5.9''" "map_of ?req AV_TACPROFILE = None"
    by (simp_all add: av_get_def)
  ultimately show ?thesis
    using device_login_implements_the_decision [of ex_login_env ex_login_db ?req 0] ex_login_accepted ex_login_profile
    by auto
qed

end
