(* ===== verification/Disclosure.thy ===== *)
theory Disclosure
  imports Read_Api
begin

text \<open>
  What the API tells about the secrets it keeps. \<open>public_part\<close> is the database with every stored secret
  blanked out: the shared secrets of the devices, the password hash of the administrator, the whole
  table of secrets. Two states are \<open>alike\<close> when they differ in nothing else; the interface
  \<open>observed_system\<close> says when a client who only sees answers cannot tell them apart.
\<close>

section \<open>States that differ only in secrets\<close>

text \<open>A secret shows whether it is there and whether it is empty.\<close>

definition redact :: "string option \<Rightarrow> string option" where
  "redact v = map_option (\<lambda>s. if s = [] then [] else ''***'') v"

definition redact_device :: "device_row \<Rightarrow> device_row" where
  "redact_device r = r\<lparr>current_secret_enc := redact (current_secret_enc r),
     previous_secret_enc := redact (previous_secret_enc r)\<rparr>"

definition redact_admin :: "local_admin_row \<Rightarrow> local_admin_row" where
  "redact_admin a = a\<lparr>password_argon2_hash := []\<rparr>"

definition public_part :: "db \<Rightarrow> db" where
  "public_part d = d\<lparr>devices := map redact_device (devices d), local_admins := map redact_admin (local_admins d),
     system_secrets := redact \<circ> system_secrets d\<rparr>"

definition alike :: "db \<Rightarrow> db \<Rightarrow> bool" where
  "alike d d' \<longleftrightarrow> public_part d = public_part d'"

definition app_alike :: "app \<Rightarrow> app \<Rightarrow> bool" where
  "app_alike s s' \<longleftrightarrow> alike (ap_db s) (ap_db s') \<and> ap_sched s = ap_sched s' \<and>
     tf_cert (ap_tls s) = tf_cert (ap_tls s') \<and> (tf_key (ap_tls s) = None) = (tf_key (ap_tls s') = None)"

lemma redact_simps [simp]:
  "redact None = None" "redact (redact v) = redact v" "truthy (redact v) = truthy v" "redact v = None \<longleftrightarrow> v = None"
  by (cases v; simp add: redact_def truthy_def)+

lemma redact_same: "redact v = redact w \<Longrightarrow> truthy v = truthy w \<and> (v = None) = (w = None)"
  by (cases v; cases w) (auto simp: redact_def truthy_def split: if_splits)

lemma redact_device_fields [simp]:
  "d_id (redact_device r) = d_id r" "d_name (redact_device r) = d_name r"
  "d_ip_or_cidr (redact_device r) = d_ip_or_cidr r" "d_device_group_id (redact_device r) = d_device_group_id r"
  "previous_retired_at (redact_device r) = previous_retired_at r" "d_description (redact_device r) = d_description r"
  "d_created_at (redact_device r) = d_created_at r" "d_updated_at (redact_device r) = d_updated_at r"
  "current_secret_enc (redact_device r) = redact (current_secret_enc r)"
  "previous_secret_enc (redact_device r) = redact (previous_secret_enc r)"
  by (simp_all add: redact_device_def)

lemma redact_device_eq:
  "redact_device r = redact_device q \<longleftrightarrow>
     d_id r = d_id q \<and> d_name r = d_name q \<and> d_ip_or_cidr r = d_ip_or_cidr q \<and>
     d_device_group_id r = d_device_group_id q \<and> previous_retired_at r = previous_retired_at q \<and>
     d_description r = d_description q \<and> d_created_at r = d_created_at q \<and> d_updated_at r = d_updated_at q \<and>
     redact (current_secret_enc r) = redact (current_secret_enc q) \<and>
     redact (previous_secret_enc r) = redact (previous_secret_enc q)"
  by (cases r; cases q) (auto simp: redact_device_def)

lemma alike_iff:
  "alike d d' \<longleftrightarrow> users d = users d' \<and> ad_groups d = ad_groups d' \<and> user_ad_group d = user_ad_group d' \<and>
     device_groups d = device_groups d' \<and> privilege_profiles d = privilege_profiles d' \<and>
     authorizations d = authorizations d' \<and> web_sessions d = web_sessions d' \<and> audit_log d = audit_log d' \<and>
     accounting_records d = accounting_records d' \<and> system_settings d = system_settings d' \<and> seqs d = seqs d' \<and>
     map redact_device (devices d) = map redact_device (devices d') \<and>
     map redact_admin (local_admins d) = map redact_admin (local_admins d') \<and>
     redact \<circ> system_secrets d = redact \<circ> system_secrets d'"
  by (cases d; cases d') (auto simp: alike_def public_part_def)

lemma alike_refl [simp]: "alike d d"
  by (simp add: alike_def)

text \<open>What alike databases have in common, for the proofs about one handler.\<close>

lemma alike_reads:
  assumes "alike d d'"
  shows "users d' = users d" "ad_groups d' = ad_groups d" "user_ad_group d' = user_ad_group d"
    "device_groups d' = device_groups d" "privilege_profiles d' = privilege_profiles d"
    "authorizations d' = authorizations d" "web_sessions d' = web_sessions d" "audit_log d' = audit_log d"
    "accounting_records d' = accounting_records d" "system_settings d' = system_settings d" "seqs d' = seqs d"
    "read_setting d' = read_setting d" "length (devices d') = length (devices d)"
    "length (local_admins d') = length (local_admins d)"
    "map redact_device (devices d') = map redact_device (devices d)"
    "truthy (read_secret d' k) = truthy (read_secret d k)" "(read_secret d' k = None) = (read_secret d k = None)"
proof -
  have "redact (system_secrets d' k) = redact (system_secrets d k)"
    using assms by (simp add: alike_iff fun_eq_iff)
  then show "truthy (read_secret d' k) = truthy (read_secret d k)" "(read_secret d' k = None) = (read_secret d k = None)"
    by (auto simp: read_secret_def dest: redact_same)
  show "length (devices d') = length (devices d)" "length (local_admins d') = length (local_admins d)"
    using assms by (auto simp: alike_iff dest: map_eq_imp_length_eq)
qed (use assms in \<open>auto simp: alike_iff read_setting_def\<close>)

section \<open>Answers\<close>

text \<open>A function of the rows that does not look at their secrets.\<close>

lemma map_redacted:
  assumes "map redact_device xs = map redact_device ys" and "\<And>r. f (redact_device r) = f r"
  shows "map f xs = map f ys"
proof -
  have "map f xs = map f (map redact_device xs)" by (simp add: assms(2))
  also have "\<dots> = map f ys" unfolding assms(1) by (simp add: assms(2))
  finally show ?thesis .
qed

lemma sort_key_map: "(\<And>r. k (f r) = k r) \<Longrightarrow> sort_key k (map f xs) = map f (sort_key k xs)"
proof (induction xs)
  case (Cons x xs)
  have "insort_key k (f x) (map f ys) = map f (insort_key k x ys)" for ys
    by (induction ys) (simp_all add: Cons.prems)
  with Cons show ?case by simp
qed simp

lemma filter_redacted: "(\<And>r. P (redact_device r) = P r) \<Longrightarrow> filter P (map redact_device xs) = map redact_device (filter P xs)"
  by (induction xs) simp_all

lemma sort_redacted:
  "map redact_device xs = map redact_device ys \<Longrightarrow> (\<And>r. k (redact_device r) = k r) \<Longrightarrow>
   map redact_device (sort_key k xs) = map redact_device (sort_key k ys)"
  by (metis sort_key_map)

lemma filter_alike:
  "map redact_device xs = map redact_device ys \<Longrightarrow> (\<And>r. P (redact_device r) = P r) \<Longrightarrow>
   map redact_device (filter P xs) = map redact_device (filter P ys)"
  by (metis filter_redacted)

lemma find_redacted:
  "map redact_device xs = map redact_device ys \<Longrightarrow>
   map_option redact_device (List.find (\<lambda>r. d_id r = i) xs) = map_option redact_device (List.find (\<lambda>r. d_id r = i) ys)"
proof (induction xs arbitrary: ys)
  case (Cons x xs)
  then obtain y ys' where "ys = y # ys'" "redact_device x = redact_device y" "map redact_device xs = map redact_device ys'"
    by (auto simp: map_eq_Cons_conv)
  with Cons.IH show ?case by (auto simp: redact_device_eq)
qed simp

lemma from_row_redacted [simp]: "from_row (redact_device r) = from_row r"
  by (simp add: from_row_def)

lemma get_device_alike:
  assumes "alike d d'"
  shows "map_option redact_device (get_device d' i) = map_option redact_device (get_device d i)"
  unfolding get_device_def by (rule find_redacted) (rule alike_reads(15) [OF assms])

lemma devices_read_alike:
  assumes "alike d d'"
  shows "list_devices d' = list_devices d" "snd (get_device_route i d') = snd (get_device_route i d)"
proof -
  have "map redact_device (sort_key d_id (devices d')) = map redact_device (sort_key d_id (devices d))"
    by (rule sort_redacted [OF alike_reads(15) [OF assms]]) simp
  then show "list_devices d' = list_devices d" unfolding list_devices_def by (rule map_redacted) simp
  from get_device_alike [OF assms, of i] show "snd (get_device_route i d') = snd (get_device_route i d)"
    by (cases "get_device d i"; cases "get_device d' i")
       (auto simp: get_device_route_def from_row_def redact_device_eq dest: redact_same)
qed

lemma loads_alike:
  assumes "alike d d'"
  shows "load_user d' u = load_user d u" "load_authorizations d' P = load_authorizations d P"
    "get_user d' i = get_user d i" "get_profile d' i = get_profile d i" "group_name d' i = group_name d i"
    "user_candidates d' lu = user_candidates d lu"
proof -
  note eqs = alike_reads(1-11) [OF assms]
  show "load_user d' u = load_user d u" unfolding load_user_def groups_of_def eqs ..
  have "load_authorization d' = load_authorization d" by (rule ext) (simp add: load_authorization_def get_profile_def eqs)
  then show *: "load_authorizations d' P = load_authorizations d P" for P by (simp add: load_authorizations_def eqs)
  show "get_user d' i = get_user d i" "get_profile d' i = get_profile d i" "group_name d' i = group_name d i"
    by (simp_all add: get_user_def get_profile_def group_name_def get_device_group_def eqs)
  show "user_candidates d' lu = user_candidates d lu" by (simp add: user_candidates_def *)
qed

lemma access_alike:
  assumes "alike d d'"
  shows "snd (list_effective_permissions u d') = snd (list_effective_permissions u d)"
    "snd (my_access sql_lower ctx d') = snd (my_access sql_lower ctx d)"
proof -
  have permission: "permission_of d' = permission_of d"
    unfolding permission_of_def loads_alike [OF assms] ..
  then show "snd (list_effective_permissions u d') = snd (list_effective_permissions u d)"
    by (simp add: list_effective_permissions_def loads_alike [OF assms] Let_def split: option.split)
  have preview: "map (\<lambda>x. (d_id x, d_name x, d_ip_or_cidr x)) (take n (sort_key d_name (filter (\<lambda>x. d_device_group_id x = g) (devices d')))) =
      map (\<lambda>x. (d_id x, d_name x, d_ip_or_cidr x)) (take n (sort_key d_name (filter (\<lambda>x. d_device_group_id x = g) (devices d))))"
    and count: "length (filter (\<lambda>x. d_device_group_id x = g) (devices d')) = length (filter (\<lambda>x. d_device_group_id x = g) (devices d))" for n g
  proof -
    have f: "map redact_device (filter (\<lambda>x. d_device_group_id x = g) (devices d')) =
        map redact_device (filter (\<lambda>x. d_device_group_id x = g) (devices d))"
      by (rule filter_alike [OF alike_reads(15) [OF assms]]) simp
    from map_eq_imp_length_eq [OF f]
    show "length (filter (\<lambda>x. d_device_group_id x = g) (devices d')) = length (filter (\<lambda>x. d_device_group_id x = g) (devices d))" .
    from f have "map redact_device (sort_key d_name (filter (\<lambda>x. d_device_group_id x = g) (devices d'))) =
        map redact_device (sort_key d_name (filter (\<lambda>x. d_device_group_id x = g) (devices d)))"
      by (rule sort_redacted) simp
    then have "map redact_device (take n (sort_key d_name (filter (\<lambda>x. d_device_group_id x = g) (devices d')))) =
        map redact_device (take n (sort_key d_name (filter (\<lambda>x. d_device_group_id x = g) (devices d))))"
      by (simp only: take_map [symmetric])
    then show "map (\<lambda>x. (d_id x, d_name x, d_ip_or_cidr x)) (take n (sort_key d_name (filter (\<lambda>x. d_device_group_id x = g) (devices d')))) =
      map (\<lambda>x. (d_id x, d_name x, d_ip_or_cidr x)) (take n (sort_key d_name (filter (\<lambda>x. d_device_group_id x = g) (devices d))))"
      by (rule map_redacted) simp
  qed
  have "my_group d' = my_group d"
    unfolding my_group_def loads_alike [OF assms] Let_def by (simp only: preview count length_sort)
  moreover have "find_me sql_lower n d' = find_me sql_lower n d" for n
    unfolding find_me_def alike_reads(1) [OF assms] ..
  ultimately show "snd (my_access sql_lower ctx d') = snd (my_access sql_lower ctx d)"
    by (cases "find_me sql_lower (sc_username ctx) d")
       (simp_all add: my_access_def loads_alike [OF assms] Let_def split: option.split)
qed


lemma settings_alike:
  assumes "alike d d'"
  shows "get_saml_status url d' = get_saml_status url d" "load_status decode d' = load_status decode d"
    "read_syslog_status d' = read_syslog_status d" "get_hints d' = get_hints d" "load_config d' = load_config d"
    "build_setup_status cert d' = build_setup_status cert d" "read_source d' = read_source d"
    "keypair_name url cn d' = keypair_name url cn d"
proof -
  note eqs = alike_reads(4-6,8,9,11,12,14,16,17) [OF assms]
  have stored: "stored_mappings d' = stored_mappings d" "status_base_dns d' = status_base_dns d"
    "status_cadence d' = status_cadence d" "read_last_error_at d' = read_last_error_at d"
    by (simp_all add: stored_mappings_def status_base_dns_def status_cadence_def read_last_error_at_def eqs)
  show "get_saml_status url d' = get_saml_status url d" unfolding get_saml_status_def Let_def stored eqs ..
  show "load_status decode d' = load_status decode d" unfolding load_status_def load_bind_password_def Let_def stored eqs ..
  have "stored_offset d' k = stored_offset d k" "offset_readable d' k = offset_readable d k" for k
    by (simp_all add: stored_offset_def offset_readable_def eqs)
  moreover have "syslog_load_config d' = (syslog_load_config d)\<lparr>sy_tls_ca_pem := read_secret d' ''syslog.tls_ca_pem'',
      sy_tls_client_cert_pem := read_secret d' ''syslog.tls_client_cert_pem'',
      sy_tls_client_key_pem := read_secret d' ''syslog.tls_client_key_pem''\<rparr>"
    by (simp add: syslog_load_config_def eqs)
  ultimately show "read_syslog_status d' = read_syslog_status d"
    unfolding read_syslog_status_def Let_def stored eqs by (simp add: eqs syslog_load_config_def)
  show "get_hints d' = get_hints d" "load_config d' = load_config d" "read_source d' = read_source d"
    "keypair_name url cn d' = keypair_name url cn d"
    unfolding get_hints_def load_config_def read_source_def keypair_name_def eqs by (rule refl)+
  have "length (devices d') = length (devices d)" by (rule alike_reads(13) [OF assms])
  then show "build_setup_status cert d' = build_setup_status cert d"
    unfolding build_setup_status_def setup_steps_def local_admin_step_def url_step_def tls_step_def ldap_sync_step_def
      saml_step_def count_step_def syslog_step_def Let_def eqs by simp
qed

text \<open>Which questions are answered without looking at a secret: all but the metadata of the service
  provider, which publish its certificate.\<close>

lemma ask_alike:
  assumes "app_alike s s'" and "q \<noteq> Get_sp_metadata"
  shows "snd (ask env lib ctx q s') = snd (ask env lib ctx q s)"
proof -
  from assms have d: "alike (ap_db s) (ap_db s')" and tls: "tf_cert (ap_tls s') = tf_cert (ap_tls s)"
    by (simp_all add: app_alike_def)
  note eqs = alike_reads(1-12) [OF d]
  have or_500: "snd (or_500 b r (\<lambda>x. (b, Inr x))) = snd (or_500 a r (\<lambda>x. (a, Inr x)))" for a b and r :: "'z exn"
    by (cases r) simp_all
  show ?thesis using assms(2)
    by (cases q)
       (simp_all add: devices_read_alike [OF d] access_alike [OF d] settings_alike [OF d] eqs tls
          list_device_groups_def get_device_group_route_def get_device_group_def list_privilege_profiles_def
          get_privilege_profile_def get_profile_def list_authorizations_def get_authorization_route_def get_authorization_def
          list_users_def list_ad_groups_def get_ldap_settings_def get_web_settings_def get_tls_status_def
          saml_status_route_def get_sync_status_def get_syslog_status_def list_audit_log_def list_accounting_def
          admin_only_def validated_def get_or_404_def or_500_def plainly_def
          split: option.split sum.split)
qed

section \<open>Changes\<close>

text \<open>Two runs of a handler that a client cannot tell apart, now or later.\<close>

definition same :: "'a outcome \<Rightarrow> 'a outcome \<Rightarrow> bool" where
  "same r r' \<longleftrightarrow> alike (fst r) (fst r') \<and> snd r = snd r'"

lemma same_simps [simp]: "same (d, x) (d', y) \<longleftrightarrow> alike d d' \<and> x = y"
  by (simp add: same_def)

lemma same_admin: "alike d d' \<Longrightarrow> same r r' \<Longrightarrow> same (admin_only ctx d r) (admin_only ctx d' r')"
  by (simp add: admin_only_def)

lemma same_validated: "alike d d' \<Longrightarrow> same r r' \<Longrightarrow> same (validated ok d r) (validated ok d' r')"
  by (simp add: validated_def)

lemma same_or_500:
  "alike d d' \<Longrightarrow> (\<And>x. same (k x) (k' x)) \<Longrightarrow> same (or_500 d r k) (or_500 d' r k')"
  by (cases r) simp_all

lemma alike_audit: "alike d d' \<Longrightarrow> alike (with_audit now e d) (with_audit now e d')"
  by (simp add: alike_iff with_audit_def bump_seq_def)

lemma alike_write_setting: "alike d d' \<Longrightarrow> alike (write_setting k v d) (write_setting k v d')"
  by (auto simp: alike_iff write_setting_def read_setting_def split: option.split)

lemma alike_write_secret: "alike d d' \<Longrightarrow> alike (write_secret k v d) (write_secret k v d')"
proof -
  assume "alike d d'"
  moreover from this have "redact (system_secrets d x) = redact (system_secrets d' x)" for x
    by (simp add: alike_iff fun_eq_iff)
  moreover from alike_reads(17) [OF \<open>alike d d'\<close>] have "(read_secret d' k = None) = (read_secret d k = None)" .
  ultimately show ?thesis
    by (auto simp: alike_iff write_secret_def fun_eq_iff split: option.split)
qed

lemma same_commit:
  "alike d d' \<Longrightarrow> alike d1 d1' \<Longrightarrow> (\<And>x x'. alike x x' \<Longrightarrow> same (k x) (k' x')) \<Longrightarrow>
   same (audit_commit now (ctx_entry ctx a ty sm) d d1 k) (audit_commit now (ctx_entry ctx a ty sm) d' d1' k')"
  by (simp add: alike_audit)

lemmas same_rules = same_admin same_validated same_commit
lemmas alike_writes = alike_write_setting alike_write_secret alike_audit

text \<open>The tables without secrets.\<close>

lemma same_groups:
  assumes "alike d d'"
  shows "same (create_device_group now ctx gp d) (create_device_group now ctx gp d')"
    "same (update_device_group now ctx i gu d) (update_device_group now ctx i gu d')"
  using assms alike_reads(1-11) [OF assms]
  by (auto simp: create_device_group_def update_device_group_def Let_def get_device_group_def get_or_404_def
      bump_seq_def alike_iff with_audit_def split: option.split prod.split)

lemma same_profiles:
  assumes "alike d d'"
  shows "same (create_privilege_profile now ctx pp d) (create_privilege_profile now ctx pp d')"
    "same (update_privilege_profile now ctx i pu d) (update_privilege_profile now ctx i pu d')"
    "same (delete_privilege_profile now ctx i d) (delete_privilege_profile now ctx i d')"
  using assms alike_reads(1-11) [OF assms]
  by (auto simp: create_privilege_profile_def update_privilege_profile_def delete_privilege_profile_def
      remove_privilege_profile_def Let_def get_profile_def get_or_404_def
      bump_seq_def alike_iff with_audit_def split: option.split prod.split)

lemma same_urls: "alike d d' \<Longrightarrow> same (put_url now ctx a k u d) (put_url now ctx a k u d')"
  unfolding put_url_def by (intro same_rules alike_writes) simp_all

lemma same_status:
  assumes "alike d d'"
  shows "same (saml_status_route url d) (saml_status_route url d')" "same (get_syslog_status d) (get_syslog_status d')"
  using assms by (auto simp: saml_status_route_def get_syslog_status_def settings_alike [OF assms] intro!: same_or_500)

lemma same_saml:
  assumes "alike d d'"
  shows "same (import_idp_metadata xp url now ctx xml d) (import_idp_metadata xp url now ctx xml d')"
    "same (update_mapping url now ctx pm d) (update_mapping url now ctx pm d')"
    "same (regenerate_sp_keypair keys url now ctx cn d) (regenerate_sp_keypair keys url now ctx cn d')"
  unfolding import_idp_metadata_def update_mapping_def regenerate_sp_keypair_def write_mapping_def
    settings_alike(8) [OF assms] using assms
  by (auto split: sum.split metadata_exc.split prod.split simp del: audit_commit_ctx
      intro!: same_rules alike_writes same_status)

lemma same_syslog:
  assumes "alike d d'"
  shows "same (update_syslog_config now ctx py d) (update_syslog_config now ctx py d')"
proof -
  have put: "alike d1 d1' \<Longrightarrow> alike (put_secret k v d1) (put_secret k v d1')" for k v d1 d1'
    by (simp add: put_secret_def alike_write_secret split: option.split)
  show ?thesis
    unfolding update_syslog_config_def write_syslog_config_def write_syslog_settings_def using assms
    by (intro same_rules put alike_writes same_status)
qed

lemma same_setup:
  assumes "alike d d'"
  shows "same (complete_wizard cert now ctx d) (complete_wizard cert now ctx d')"
    "same (reopen_wizard cert now ctx d) (reopen_wizard cert now ctx d')"
  unfolding complete_wizard_def reopen_wizard_def using assms
  by (auto simp: settings_alike(6) alike_reads(12) [OF assms] simp del: audit_commit_ctx
      intro!: same_rules alike_writes)

lemma same_sync:
  assumes "alike d d'"
  shows "alike (fst (fst (update_config dec now ctx p (d, sched)))) (fst (fst (update_config dec now ctx p (d', sched)))) \<and>
    snd (fst (update_config dec now ctx p (d, sched))) = snd (fst (update_config dec now ctx p (d', sched))) \<and>
    snd (update_config dec now ctx p (d, sched)) = snd (update_config dec now ctx p (d', sched))"
proof -
  have "same (update_config_tx now ctx p d) (update_config_tx now ctx p d')"
    unfolding update_config_tx_def write_sync_config_def Let_def using assms
    by (intro same_rules) (auto intro!: alike_writes)
  then have tx: "alike (fst (update_config_tx now ctx p d)) (fst (update_config_tx now ctx p d'))"
    "snd (update_config_tx now ctx p d) = snd (update_config_tx now ctx p d')" by (simp_all add: same_def)
  have "refresh_from_db (Some (fst (update_config_tx now ctx p d'))) sched =
      refresh_from_db (Some (fst (update_config_tx now ctx p d))) sched"
    unfolding refresh_from_db_def option.case settings_alike(5) [OF tx(1)] ..
  with tx show ?thesis
    by (simp add: update_config_def case_prod_unfold settings_alike(2) [OF tx(1)] split: sum.split bool.split)
qed

lemma same_authorizations:
  assumes "alike d d'"
  shows "same (create_authorization now ctx pa d) (create_authorization now ctx pa d')"
    "same (delete_authorization now ctx i d) (delete_authorization now ctx i d')"
proof -
  note eqs = alike_reads(1-11) [OF assms]
  have unknown: "unknown_reference pa d' = unknown_reference pa d" and got: "get_authorization d' i = get_authorization d i"
    unfolding unknown_reference_def get_user_def get_ad_group_def get_device_group_def get_profile_def
      get_authorization_def eqs by (rule refl)+
  have ok: "authorizations_ok (bump_seq T_authorization (d'\<lparr>authorizations := as\<rparr>)) =
      authorizations_ok (bump_seq T_authorization (d\<lparr>authorizations := as\<rparr>))" for as
  proof -
    have "authz_refs_ok (bump_seq T_authorization (d'\<lparr>authorizations := as\<rparr>)) =
        authz_refs_ok (bump_seq T_authorization (d\<lparr>authorizations := as\<rparr>))"
      by (rule ext) (simp add: authz_refs_ok_def bump_seq_def eqs split: option.split)
    then show ?thesis by (simp add: authorizations_ok_def bump_seq_def)
  qed
  show "same (create_authorization now ctx pa d) (create_authorization now ctx pa d')"
    using assms by (auto simp: create_authorization_def unknown eqs ok Let_def split: option.split
        intro!: alike_audit) (auto simp: alike_iff bump_seq_def)
  show "same (delete_authorization now ctx i d) (delete_authorization now ctx i d')"
    using assms by (auto simp: delete_authorization_def got eqs get_or_404_def split: option.split
        intro!: alike_audit) (auto simp: alike_iff)
qed

lemma same_group_deletion:
  assumes "alike d d'"
  shows "same (delete_device_group now ctx i d) (delete_device_group now ctx i d')"
proof -
  have "map d_device_group_id (devices d') = map d_device_group_id (devices d)"
    by (rule map_redacted [OF alike_reads(15) [OF assms]]) simp
  then have "d_device_group_id ` set (devices d') = d_device_group_id ` set (devices d)" by (metis set_map)
  then have used: "(\<exists>x\<in>set (devices d'). d_device_group_id x = i) = (\<exists>x\<in>set (devices d). d_device_group_id x = i)"
    by (metis (no_types) imageE image_eqI)
  have "get_device_group d' i = get_device_group d i" by (simp add: get_device_group_def alike_reads(4) [OF assms])
  with assms show ?thesis
    by (auto simp: delete_device_group_def remove_device_group_def used get_or_404_def alike_reads(4,6) [OF assms]
        split: option.split intro!: alike_audit) (auto simp: alike_iff)
qed

section \<open>Devices\<close>

lemma devices_ok_redacted: "devices_ok gs (map redact_device ds) = devices_ok gs ds"
  by (simp add: devices_ok_def o_def list_all_iff)

lemma put_row_redacted: "map redact_device (put_row d_id row ds) = put_row d_id (redact_device row) (map redact_device ds)"
  by (simp add: put_row_def)

text \<open>Replacing a device in alike databases by rows that are alike.\<close>

lemma alike_put_device:
  assumes "alike d d'" and "redact_device row = redact_device row'"
  shows "alike (d\<lparr>devices := put_row d_id row (devices d)\<rparr>) (d'\<lparr>devices := put_row d_id row' (devices d')\<rparr>)"
    and "devices_ok gs (put_row d_id row' (devices d')) = devices_ok gs (put_row d_id row (devices d))"
proof -
  have rows: "map redact_device (put_row d_id row (devices d)) = map redact_device (put_row d_id row' (devices d'))"
    using assms(2) alike_reads(15) [OF assms(1)] by (simp add: put_row_redacted)
  with assms(1) show "alike (d\<lparr>devices := put_row d_id row (devices d)\<rparr>) (d'\<lparr>devices := put_row d_id row' (devices d')\<rparr>)"
    by (simp add: alike_iff)
  from rows show "devices_ok gs (put_row d_id row' (devices d')) = devices_ok gs (put_row d_id row (devices d))"
    by (metis devices_ok_redacted)
qed

lemma device_rows [consumes 1, case_names none row]:
  assumes "alike d d'"
  obtains (none) "get_device d i = None" "get_device d' i = None"
  | (row) r r' where "get_device d i = Some r" "get_device d' i = Some r'" "redact_device r = redact_device r'"
  using get_device_alike [OF assms, of i] by (cases "get_device d i"; cases "get_device d' i") auto

definition same_row :: "device_row outcome \<Rightarrow> device_row outcome \<Rightarrow> bool" where
  "same_row r r' \<longleftrightarrow> alike (fst r) (fst r') \<and> map_sum id redact_device (snd r) = map_sum id redact_device (snd r')"

lemma same_create_device:
  assumes "alike d d'"
  shows "same_row (create_device_tx now ctx p d) (create_device_tx now ctx p d')"
proof -
  have rows: "map redact_device (devices d @ [row]) = map redact_device (devices d' @ [row])" for row
    using alike_reads(15) [OF assms] by simp
  then have ok: "devices_ok gs (devices d' @ [row]) = devices_ok gs (devices d @ [row])" for gs row
    by (metis devices_ok_redacted)
  have "get_device_group d' g = get_device_group d g" for g
    by (simp add: get_device_group_def alike_reads(4) [OF assms])
  with assms rows show ?thesis
    by (auto simp: same_row_def create_device_tx_def ensure_device_group_exists_def Let_def ok bump_seq_def
        alike_reads(4,11) [OF assms] intro!: alike_audit) (auto simp: alike_iff)
qed

lemma same_delete_device:
  assumes "alike d d'"
  shows "same (delete_device_tx now ctx i d) (delete_device_tx now ctx i d')"
proof -
  have "alike (remove_device i d) (remove_device i d')"
    using filter_alike [OF alike_reads(15) [OF assms], of "\<lambda>r. d_id r \<noteq> i"] assms
    by (auto simp: remove_device_def alike_iff del_row_def)
  with assms show ?thesis
    by (cases rule: device_rows [OF assms, where i = i, consumes 0])
      (auto simp: delete_device_tx_def redact_device_eq intro!: alike_audit)
qed

lemma touch_alike:
  "redact_device r = redact_device r' \<Longrightarrow> redact_device q = redact_device q' \<Longrightarrow> (q = r) = (q' = r') \<Longrightarrow>
   redact_device (touch now r q) = redact_device (touch now r' q')"
  by (auto simp: touch_def redact_device_eq)

text \<open>A change of one device; the row it finds decides with its public attributes only.\<close>

lemma same_change_device:
  assumes "alike d d'" and "\<And>r r'. redact_device r = redact_device r' \<Longrightarrow>
      redact_device (f r) = redact_device (f r') \<and> (f r = r) = (f r' = r')"
  shows "same_row (change_device now ctx a f i d) (change_device now ctx a f i d')"
  using assms(1)
proof (cases rule: device_rows [where i = i])
  case none
  with assms(1) show ?thesis by (simp add: same_row_def change_device_def)
next
  case (row r r')
  have t: "redact_device (touch now r (f r)) = redact_device (touch now r' (f r'))"
    using assms(2) [OF row(3)] row(3) by (intro touch_alike) simp_all
  from alike_put_device(1) [OF assms(1) t] row t show ?thesis
    by (auto simp: same_row_def change_device_def Let_def redact_device_eq intro!: alike_audit)
qed

lemma retired_alike:
  "redact_device r = redact_device r' \<Longrightarrow>
     redact_device (retired now r) = redact_device (retired now r') \<and> (retired now r = r) = (retired now r' = r')"
  by (cases r; cases r') (auto simp: redact_device_eq retired_def dest: redact_same)

text \<open>An update without a secret sets four attributes, to values the secrets have no part in.\<close>

lemma device_update_public:
  assumes "\<not> truthy (du_current_secret p)"
  shows "fst (apply_device_update p r) = r\<lparr>
    d_device_group_id := (case du_device_group_id p of None \<Rightarrow> d_device_group_id r | Some g \<Rightarrow> g),
    d_name := (case du_name p of None \<Rightarrow> d_name r | Some n \<Rightarrow> n),
    d_ip_or_cidr := (case du_ip_or_cidr p of None \<Rightarrow> d_ip_or_cidr r | Some v \<Rightarrow> v),
    d_description := (case du_description p of None \<Rightarrow> d_description r | Some v \<Rightarrow> Some v)\<rparr>"
  using assms
  by (cases "du_device_group_id p"; cases "du_name p"; cases "du_ip_or_cidr p"; cases "du_description p")
     (simp_all add: apply_device_update_def upd_def)

lemma update_alike:
  assumes "redact_device r = redact_device r'" and "\<not> truthy (du_current_secret p)"
  shows "redact_device (fst (apply_device_update p r)) = redact_device (fst (apply_device_update p r'))"
    and "(fst (apply_device_update p r) = r) = (fst (apply_device_update p r') = r')"
    and "snd (apply_device_update p r) = snd (apply_device_update p r')"
proof -
  have keep: "(r\<lparr>d_device_group_id := g, d_name := n, d_ip_or_cidr := i, d_description := t\<rparr> = r) =
      (g = d_device_group_id r \<and> n = d_name r \<and> i = d_ip_or_cidr r \<and> t = d_description r)" for r :: device_row and g n i t
    by (cases r) auto
  show "redact_device (fst (apply_device_update p r)) = redact_device (fst (apply_device_update p r'))"
    "(fst (apply_device_update p r) = r) = (fst (apply_device_update p r') = r')"
    unfolding device_update_public [OF assms(2)] keep using assms(1) by (auto simp: redact_device_eq split: option.split)
  show "snd (apply_device_update p r) = snd (apply_device_update p r')"
    using assms by (cases "du_device_group_id p"; cases "du_name p"; cases "du_ip_or_cidr p"; cases "du_description p")
      (simp_all add: apply_device_update_def upd_def redact_device_eq)
qed

lemma same_update_device:
  assumes "alike d d'" and "\<not> truthy (du_current_secret p)"
  shows "same_row (update_device_tx now ctx i p d) (update_device_tx now ctx i p d')"
  using assms(1)
proof (cases rule: device_rows [where i = i])
  case none
  with assms(1) show ?thesis by (simp add: same_row_def update_device_tx_def)
next
  case (row r r')
  note u = update_alike [OF row(3) assms(2)]
  have t: "redact_device (touch now r (fst (apply_device_update p r))) = redact_device (touch now r' (fst (apply_device_update p r')))"
    using u row(3) by (intro touch_alike) simp_all
  have "get_device_group d' g = get_device_group d g" for g
    by (simp add: get_device_group_def alike_reads(4) [OF assms(1)])
  with row u t assms(1) alike_put_device [OF assms(1) t] show ?thesis
    by (auto simp: same_row_def update_device_tx_def case_prod_unfold Let_def ensure_device_group_exists_def
        alike_reads(4) [OF assms(1)] redact_device_eq split: option.split intro!: alike_audit)
qed

section \<open>The certificate volume\<close>

definition files_alike :: "tls_files \<Rightarrow> tls_files \<Rightarrow> bool" where
  "files_alike f g \<longleftrightarrow> tf_cert f = tf_cert g \<and> (tf_key f = None) = (tf_key g = None)"

definition io_alike :: "tls_files \<times> string option \<Rightarrow> tls_files \<times> string option \<Rightarrow> bool" where
  "io_alike st st' \<longleftrightarrow> files_alike (fst st) (fst st') \<and> snd st = snd st'"

lemma run_op_alike:
  "io_alike st st' \<Longrightarrow> (\<And>f g. files_alike f g \<Longrightarrow> files_alike (eff f) (eff g)) \<Longrightarrow>
   io_alike (run_op io op b eff st) (run_op io op b eff st')"
  by (auto simp: io_alike_def run_op_def split: option.split io_result.split)

lemma unlink_alike:
  assumes "io_alike st st'" and "\<And>f g. files_alike f g \<Longrightarrow> files_alike (clr f) (clr g)"
    and "\<And>f g. files_alike f g \<Longrightarrow> (get f = None) = (get g = None)"
  shows "io_alike (unlink_if io op get clr st) (unlink_if io op get clr st')"
proof -
  have "(get (fst st) = None) = (get (fst st') = None)" using assms(1,3) by (simp add: io_alike_def)
  with run_op_alike [OF assms(1,2)] assms(1) show ?thesis by (simp add: unlink_if_def)
qed

lemma write_alike:
  "files_alike f g \<Longrightarrow> io_alike (write_cert_and_key io c k f) (write_cert_and_key io c k g)"
  unfolding write_cert_and_key_def
  by (intro run_op_alike unlink_alike) (auto simp: files_alike_def io_alike_def)

definition tls_same :: "tls_state \<times> (http_exc + 'a) \<Rightarrow> tls_state \<times> (http_exc + 'a) \<Rightarrow> bool" where
  "tls_same r r' \<longleftrightarrow> alike (fst (fst r)) (fst (fst r')) \<and> files_alike (snd (fst r)) (snd (fst r')) \<and> snd r = snd r'"

lemma install_alike:
  assumes "alike d d'" and "files_alike f f'" and "\<exists>a t s. e = ctx_entry ctx a t s"
  shows "tls_same (install_pair io now e source c k info (d, f)) (install_pair io now e source c k info (d', f'))"
proof -
  from assms(3) have "audit_append now e x = Inr (with_audit now e x)" for x
    by (auto simp: audit_append_def with_audit_def ctx_entry_def audit_args_def)
  moreover have "alike (with_audit now e (write_setting k v d)) (with_audit now e (write_setting k v d'))" for k v
    using assms(1) by (intro alike_writes)
  ultimately show ?thesis
    using write_alike [OF assms(2), of io c k] assms(1)
    by (cases "write_cert_and_key io c k f"; cases "write_cert_and_key io c k f'")
       (auto simp: install_pair_def tls_same_def io_alike_def split: option.split sum.split)
qed

lemma same_tls:
  assumes "alike d d'" and "files_alike f f'"
  shows "tls_same (upload_tls lib io now ctx c k (d, f)) (upload_tls lib io now ctx c k (d', f'))"
    "tls_same (upload_tls_pfx lib io now ctx x w (d, f)) (upload_tls_pfx lib io now ctx x w (d', f'))"
    "tls_same (regenerate_self_signed lib io now ctx cn n (d, f)) (regenerate_self_signed lib io now ctx cn n (d', f'))"
proof -
  have refuse: "tls_same ((d, f), r) ((d', f'), r)" for r :: "http_exc + tls_status" using assms by (simp add: tls_same_def)
  have admin: "tls_same a b \<Longrightarrow> tls_same (tls_admin ctx (d, f) a) (tls_admin ctx (d', f') b)" for a b :: "tls_state \<times> (http_exc + tls_status)"
    by (simp add: tls_admin_def refuse)
  note install = install_alike [OF assms]
  show "tls_same (upload_tls lib io now ctx c k (d, f)) (upload_tls lib io now ctx c k (d', f'))"
    "tls_same (upload_tls_pfx lib io now ctx x w (d, f)) (upload_tls_pfx lib io now ctx x w (d', f'))"
    "tls_same (regenerate_self_signed lib io now ctx cn n (d, f)) (regenerate_self_signed lib io now ctx cn n (d', f'))"
    unfolding upload_tls_def upload_tls_pfx_def regenerate_self_signed_def
    by (auto intro!: refuse admin install split: sum.split option.split prod.split)
qed

section \<open>The whole API\<close>

text \<open>
  Requests whose outcome is none of the business of a secret. The others test or use one: they bind to
  the directory, connect to the collector, compare a new shared secret with the stored one (the time of
  the last change moves only when the row does), or tell the length of \<open>hosts.cfg\<close>.
\<close>

fun opaque :: "request \<Rightarrow> bool" where
  "opaque (Update_device i p) = (\<not> truthy (du_current_secret p))"
| "opaque (Rotate_secret i n) = False"
| "opaque Regenerate_hosts = False"
| "opaque (Test_ldap_sync p) = False"
| "opaque Run_ldap_sync = False"
| "opaque Test_syslog = False"
| "opaque _ = True"

definition other_key :: "app_env \<Rightarrow> string \<Rightarrow> app_env" where
  "other_key env k = env\<lparr>en_nas := (en_nas env)\<lparr>ne_shared_secret := k\<rparr>\<rparr>"

definition app_same :: "app \<times> (http_exc + 'a) \<Rightarrow> app \<times> (http_exc + 'a) \<Rightarrow> bool" where
  "app_same r r' \<longleftrightarrow> app_alike (fst r) (fst r') \<and> snd r = snd r'"

lemma regen_outcome: "fl_db (fst (with_regen env rd f r)) = fst r" "snd (with_regen env rd f r) = map_sum id rd (snd r)"
  by (cases r; cases "snd r"; simp add: with_regen_def regen_def split: option.split)+

lemma on_fleet_alike:
  assumes "app_alike s s'" and "alike (fl_db (fst r)) (fl_db (fst r'))" and "snd r = snd r'"
  shows "app_same (on_fleet mk s r) (on_fleet mk s' r')"
  using assms by (simp add: app_same_def app_alike_def on_fleet_def)

lemma on_db_alike: "app_alike s s' \<Longrightarrow> same r r' \<Longrightarrow> app_same (on_db mk s r) (on_db mk s' r')"
  unfolding on_db_def by (rule on_fleet_alike) (simp_all add: same_def)

lemma body_alike: "app_alike s s' \<Longrightarrow> app_same r r' \<Longrightarrow> app_same (body ok s r) (body ok s' r')"
  by (simp add: body_def app_same_def)

lemma device_outcome_alike:
  assumes "app_alike s s'" and "same_row r r'"
  shows "app_same (on_fleet mk s (with_regen env from_row f r)) (on_fleet mk s' (with_regen env' from_row f' r'))"
proof (rule on_fleet_alike [OF assms(1)])
  from assms(2) show "alike (fl_db (fst (with_regen env from_row f r))) (fl_db (fst (with_regen env' from_row f' r')))"
    by (simp add: regen_outcome same_row_def)
  have "map_sum id from_row x = map_sum id from_row (map_sum id redact_device x)" for x :: "http_exc + device_row"
    by (cases x) simp_all
  with assms(2) show "snd (with_regen env from_row f r) = snd (with_regen env' from_row f' r')"
    unfolding regen_outcome same_row_def by metis
qed

lemma route_alike:
  assumes "app_alike s s'" and "opaque req"
  shows "app_same (route env now ctx req s) (route (other_key env k) now ctx req s')"
proof -
  from assms(1) have d: "alike (ap_db s) (ap_db s')" and sched: "ap_sched s' = ap_sched s"
    and files: "files_alike (ap_tls s) (ap_tls s')" by (simp_all add: app_alike_def files_alike_def)
  then have cert: "tf_cert (ap_tls s') = tf_cert (ap_tls s)" by (simp add: files_alike_def)
  note handlers = same_groups [OF d] same_group_deletion [OF d] same_profiles [OF d] same_authorizations [OF d]
    same_urls [OF d] same_saml [OF d] same_syslog [OF d] same_setup [OF d]
  note on = body_alike [OF assms(1)] on_db_alike [OF assms(1)] device_outcome_alike [OF assms(1)]
  note devices = same_create_device [OF d] same_change_device [OF d retired_alike] same_update_device [OF d]
  show ?thesis
  proof (cases req)
    case (Delete_device i)
    with same_delete_device [OF d, of now ctx i] show ?thesis
      by (auto simp: delete_device_def regen_outcome same_def map_sum.identity intro!: on_fleet_alike [OF assms(1)])
  next
    case (Put_ldap_sync p)
    from same_sync [OF d, of "en_decode env" now ctx p "ap_sched s"] assms(1) Put_ldap_sync show ?thesis
      by (simp add: other_key_def on_sched_def sched) (simp add: on_db_def on_fleet_def app_same_def app_alike_def)
  next
    case (Upload_cert c key)
    with same_tls(1) [OF d files, of "en_crypto env" "en_volume env" now ctx c key] assms(1) show ?thesis
      by (simp add: other_key_def tls_same_def files_alike_def on_tls_def on_db_def on_fleet_def app_same_def app_alike_def)
  next
    case (Upload_pfx x w)
    with same_tls(2) [OF d files, of "en_crypto env" "en_volume env" now ctx x w] assms(1) show ?thesis
      by (simp add: other_key_def tls_same_def files_alike_def on_tls_def on_db_def on_fleet_def app_same_def app_alike_def)
  next
    case (New_self_signed cn n)
    with same_tls(3) [OF d files, of "en_crypto env" "en_volume env" now ctx cn n] assms(1) show ?thesis
      by (simp add: other_key_def tls_same_def files_alike_def on_tls_def on_db_def on_fleet_def app_same_def app_alike_def)
  qed (use assms(2) in \<open>simp_all add: other_key_def on handlers devices cert create_device_def update_device_def
      retire_previous_secret_def put_ldap_settings_def put_web_settings_def\<close>)
qed

section \<open>Clients\<close>

text \<open>What a client does: a question or a request, at an instant, from an address, with a cookie.\<close>

datatype client_call = Asks query | Does request

type_synonym client_input = "instant \<times> request_info \<times> string option \<times> client_call"

type_synonym client_output = "http_exc + (answer + reply)"

fun serve_call :: "app_env \<Rightarrow> saml_lib \<Rightarrow> client_input \<Rightarrow> app \<Rightarrow> app \<times> client_output" where
  "serve_call env lib (now, rq, cookie, Asks q) s =
     (let (s', r) = serve_query env lib now rq cookie q s in (s', map_sum id Inl r))"
| "serve_call env lib (now, rq, cookie, Does req) s =
     (let (s', r) = serve env now rq cookie req s in (s', map_sum id Inr r))"

fun keeps_secrets :: "client_input \<Rightarrow> bool" where
  "keeps_secrets (now, rq, cookie, Asks q) \<longleftrightarrow> q \<noteq> Get_sp_metadata"
| "keeps_secrets (now, rq, cookie, Does req) \<longleftrightarrow> opaque req"

text \<open>
  The interface: two systems that answer inputs, a relation of their states, and the inputs that are
  harmless - they get the same answer in related states and lead to related states. The client of the
  interface holds a whole conversation.
\<close>

fun conversation :: "('i \<Rightarrow> 's \<Rightarrow> 's \<times> 'o) \<Rightarrow> 'i list \<Rightarrow> 's \<Rightarrow> 'o list" where
  "conversation step [] s = []"
| "conversation step (i # is') s = snd (step i s) # conversation step is' (fst (step i s))"

locale observed_system =
  fixes step step' :: "'i \<Rightarrow> 's \<Rightarrow> 's \<times> 'o" and related :: "'s \<Rightarrow> 's \<Rightarrow> bool" and harmless :: "'i \<Rightarrow> bool"
  assumes same_answer: "related s t \<Longrightarrow> harmless i \<Longrightarrow> snd (step i s) = snd (step' i t)"
    and still_related: "related s t \<Longrightarrow> harmless i \<Longrightarrow> related (fst (step i s)) (fst (step' i t))"
begin

lemma same_conversation:
  "related s t \<Longrightarrow> list_all harmless is \<Longrightarrow> conversation step is s = conversation step' is t"
  by (induction "is" arbitrary: s t) (simp_all add: same_answer still_related)

end

lemma session_alike:
  assumes "alike d d'"
  shows "same (require_session now rq cookie d) (require_session now rq cookie d')"
proof -
  note eqs = alike_reads(7) [OF assms]
  have "get_web_session d' t = get_web_session d t" for t by (simp add: get_web_session_def eqs)
  moreover have "alike (d\<lparr>web_sessions := ws\<rparr>) (d'\<lparr>web_sessions := ws\<rparr>)" for ws using assms by (simp add: alike_iff)
  ultimately show ?thesis
    using assms by (auto simp: require_session_def load_active_session_def delete_web_session_def eqs split: option.split)
qed

lemma app_alike_db:
  "app_alike s s' \<Longrightarrow> alike d d' \<Longrightarrow>
   app_alike (s\<lparr>ap_fleet := (ap_fleet s)\<lparr>fl_db := d\<rparr>\<rparr>) (s'\<lparr>ap_fleet := (ap_fleet s')\<lparr>fl_db := d'\<rparr>\<rparr>)"
  by (simp add: app_alike_def)

lemma serve_alike:
  assumes "app_alike s s'" and "opaque req"
  shows "app_same (serve env now rq cookie req s) (serve (other_key env k) now rq cookie req s')"
proof -
  from assms(1) have "same (require_session now rq cookie (ap_db s)) (require_session now rq cookie (ap_db s'))"
    by (intro session_alike) (simp add: app_alike_def)
  then obtain d d' r where run: "require_session now rq cookie (ap_db s) = (d, r)"
      "require_session now rq cookie (ap_db s') = (d', r)" and d: "alike d d'"
    by (cases "require_session now rq cookie (ap_db s)"; cases "require_session now rq cookie (ap_db s')") auto
  from app_alike_db [OF assms(1) d] route_alike [OF app_alike_db [OF assms(1) d] assms(2), of env now _ k]
  show ?thesis by (cases r) (simp_all add: serve_def run app_same_def)
qed

lemma query_alike:
  assumes "app_alike s s'" and "q \<noteq> Get_sp_metadata"
  shows "app_same (serve_query env lib now rq cookie q s) (serve_query (other_key env k) lib now rq cookie q s')"
proof -
  from assms(1) have "same (require_session now rq cookie (ap_db s)) (require_session now rq cookie (ap_db s'))"
    by (intro session_alike) (simp add: app_alike_def)
  then obtain d d' r where run: "require_session now rq cookie (ap_db s) = (d, r)"
      "require_session now rq cookie (ap_db s') = (d', r)" and d: "alike d d'"
    by (cases "require_session now rq cookie (ap_db s)"; cases "require_session now rq cookie (ap_db s')") auto
  have env: "ask (other_key env k) lib ctx q x = ask env lib ctx q x" for ctx x
    by (cases q) (simp_all add: other_key_def)
  have "app_alike (fst (serve_query env lib now rq cookie q s)) (fst (serve_query (other_key env k) lib now rq cookie q s'))"
    unfolding serve_query_state run by (rule app_alike_db [OF assms(1)]) (simp add: d)
  moreover have "snd (serve_query env lib now rq cookie q s) = snd (serve_query (other_key env k) lib now rq cookie q s')"
    using ask_alike [OF app_alike_db [OF assms(1) d] assms(2), of env lib]
    by (cases r) (simp_all add: serve_query_def run Let_def case_prod_unfold env)
  ultimately show ?thesis by (simp add: app_same_def)
qed

interpretation api: observed_system "serve_call env lib" "serve_call (other_key env k) lib" app_alike keeps_secrets
  for env lib k
proof
  fix s t i assume st: "app_alike s t" and i: "keeps_secrets i"
  obtain now rq cookie call where call: "i = (now, rq, cookie, call)" by (cases i)
  have "snd (serve_call env lib i s) = snd (serve_call (other_key env k) lib i t) \<and>
      app_alike (fst (serve_call env lib i s)) (fst (serve_call (other_key env k) lib i t))"
  proof (cases call)
    case (Asks q)
    with query_alike [OF st, of q env lib now rq cookie k] i call show ?thesis
      by (simp add: app_same_def case_prod_unfold Let_def)
  next
    case (Does req)
    with serve_alike [OF st, of req env now rq cookie k] i call show ?thesis
      by (simp add: app_same_def case_prod_unfold Let_def)
  qed
  then show "snd (serve_call env lib i s) = snd (serve_call (other_key env k) lib i t)"
    "app_alike (fst (serve_call env lib i s)) (fst (serve_call (other_key env k) lib i t))" by simp_all
qed

end
