(* ===== verification/Read_Routing.thy ===== *)
theory Read_Routing
  imports Routing Read_Api
begin

text \<open>
  The questions of \<open>Read_Api\<close> on the router table: where each is asked, which handler answers it, and
  that there are no others.
\<close>

fun query_path :: "query \<Rightarrow> string" where
  "query_path Get_groups = ''/api/v1/device-groups''"
| "query_path (Get_group i) = with_id ''/api/v1/device-groups'' i []"
| "query_path Get_profiles = ''/api/v1/privilege-profiles''"
| "query_path (Get_profile_by_id i) = with_id ''/api/v1/privilege-profiles'' i []"
| "query_path Get_devices = ''/api/v1/devices''"
| "query_path (Get_device_by_id i) = with_id ''/api/v1/devices'' i []"
| "query_path Get_authorizations = ''/api/v1/authorizations''"
| "query_path (Get_authorization_by_id i) = with_id ''/api/v1/authorizations'' i []"
| "query_path (Get_effective_permissions u) = with_id ''/api/v1/users'' u ''/effective-permissions''"
| "query_path Get_my_access = ''/api/v1/me/access''"
| "query_path Get_users = ''/api/v1/users''"
| "query_path Get_ad_groups = ''/api/v1/ad-groups''"
| "query_path Get_ldap_url = ''/api/v1/settings/ldap''"
| "query_path Get_web_url = ''/api/v1/settings/web''"
| "query_path Get_tls = ''/api/v1/settings/tls''"
| "query_path Get_saml = ''/api/v1/settings/saml''"
| "query_path Get_sp_metadata = ''/api/v1/settings/saml/sp-metadata''"
| "query_path Get_ldap_sync = ''/api/v1/settings/ldap-sync''"
| "query_path Get_syslog = ''/api/v1/settings/syslog''"
| "query_path Get_audit_actions = ''/api/v1/audit-log/actions''"
| "query_path (Get_audit_log q) = ''/api/v1/audit-log''"
| "query_path (Get_accounting q) = ''/api/v1/accounting''"
| "query_path Get_setup = ''/api/v1/setup''"
| "query_path Get_template_hints = ''/api/v1/device-templates''"

text \<open>The handler \<open>ask\<close> runs, as the prefix of its router and its function.\<close>

fun query_handler :: "query \<Rightarrow> string \<times> string" where
  "query_handler Get_groups = (''/api/v1/device-groups'', ''list_device_groups'')"
| "query_handler (Get_group i) = (''/api/v1/device-groups'', ''get_device_group'')"
| "query_handler Get_profiles = (''/api/v1/privilege-profiles'', ''list_privilege_profiles'')"
| "query_handler (Get_profile_by_id i) = (''/api/v1/privilege-profiles'', ''get_privilege_profile'')"
| "query_handler Get_devices = (''/api/v1/devices'', ''list_devices'')"
| "query_handler (Get_device_by_id i) = (''/api/v1/devices'', ''get_device'')"
| "query_handler Get_authorizations = (''/api/v1/authorizations'', ''list_authorizations'')"
| "query_handler (Get_authorization_by_id i) = (''/api/v1/authorizations'', ''get_authorization'')"
| "query_handler (Get_effective_permissions u) = (''/api/v1'', ''list_effective_permissions'')"
| "query_handler Get_my_access = (''/api/v1'', ''my_access'')"
| "query_handler Get_users = (''/api/v1/users'', ''list_users'')"
| "query_handler Get_ad_groups = (''/api/v1/ad-groups'', ''list_ad_groups'')"
| "query_handler Get_ldap_url = (''/api/v1/settings'', ''get_ldap_settings'')"
| "query_handler Get_web_url = (''/api/v1/settings'', ''get_web_settings'')"
| "query_handler Get_tls = (''/api/v1/settings/tls'', ''get_tls_status'')"
| "query_handler Get_saml = (''/api/v1/settings/saml'', ''get_saml_status'')"
| "query_handler Get_sp_metadata = (''/api/v1/settings/saml'', ''get_sp_metadata'')"
| "query_handler Get_ldap_sync = (''/api/v1/settings/ldap-sync'', ''get_status'')"
| "query_handler Get_syslog = (''/api/v1/settings/syslog'', ''get_status'')"
| "query_handler Get_audit_actions = (''/api/v1/audit-log'', ''list_known_actions'')"
| "query_handler (Get_audit_log q) = (''/api/v1/audit-log'', ''list_audit_log'')"
| "query_handler (Get_accounting q) = (''/api/v1/accounting'', ''list_accounting'')"
| "query_handler Get_setup = (''/api/v1/setup'', ''get_setup_status'')"
| "query_handler Get_template_hints = (''/api/v1/device-templates'', ''get_hints'')"

definition reading_routes :: "app_route list" where
  "reading_routes = filter (\<lambda>r. startswith ''/api/v1'' (template r) \<and> route_method r = GET) (routes_of mounts)"

definition template_keys :: "app_route list \<Rightarrow> ((string \<times> string) \<times> string) list" where
  "template_keys rs = map (\<lambda>r. (handler r, template r)) rs"

lemma reading_keys:
  "template_keys reading_routes =
    [((''/api/v1/device-groups'', ''list_device_groups''), ''/api/v1/device-groups''),
     ((''/api/v1/device-groups'', ''get_device_group''), ''/api/v1/device-groups/{device_group_id}''),
     ((''/api/v1/privilege-profiles'', ''list_privilege_profiles''), ''/api/v1/privilege-profiles''),
     ((''/api/v1/privilege-profiles'', ''get_privilege_profile''), ''/api/v1/privilege-profiles/{profile_id}''),
     ((''/api/v1/devices'', ''list_devices''), ''/api/v1/devices''),
     ((''/api/v1/devices'', ''get_device''), ''/api/v1/devices/{device_id}''),
     ((''/api/v1/authorizations'', ''list_authorizations''), ''/api/v1/authorizations''),
     ((''/api/v1/authorizations'', ''get_authorization''), ''/api/v1/authorizations/{authz_id}''),
     ((''/api/v1'', ''list_effective_permissions''), ''/api/v1/users/{user_id}/effective-permissions''),
     ((''/api/v1'', ''my_access''), ''/api/v1/me/access''),
     ((''/api/v1/users'', ''list_users''), ''/api/v1/users''),
     ((''/api/v1/ad-groups'', ''list_ad_groups''), ''/api/v1/ad-groups''),
     ((''/api/v1/settings'', ''get_ldap_settings''), ''/api/v1/settings/ldap''),
     ((''/api/v1/settings'', ''get_web_settings''), ''/api/v1/settings/web''),
     ((''/api/v1/settings/tls'', ''get_tls_status''), ''/api/v1/settings/tls''),
     ((''/api/v1/settings/saml'', ''get_saml_status''), ''/api/v1/settings/saml''),
     ((''/api/v1/settings/saml'', ''get_sp_metadata''), ''/api/v1/settings/saml/sp-metadata''),
     ((''/api/v1/settings/ldap-sync'', ''get_status''), ''/api/v1/settings/ldap-sync''),
     ((''/api/v1/settings/syslog'', ''get_status''), ''/api/v1/settings/syslog''),
     ((''/api/v1/audit-log'', ''list_known_actions''), ''/api/v1/audit-log/actions''),
     ((''/api/v1/audit-log'', ''list_audit_log''), ''/api/v1/audit-log''),
     ((''/api/v1/accounting'', ''list_accounting''), ''/api/v1/accounting''),
     ((''/api/v1/setup'', ''get_setup_status''), ''/api/v1/setup''),
     ((''/api/v1/device-templates'', ''get_hints''), ''/api/v1/device-templates'')]"
  by code_simp

text \<open>One question for every reading route, in the order of the routes.\<close>

definition sample_queries :: "query list" where
  "sample_queries =
     [Get_groups, Get_group 0, Get_profiles, Get_profile_by_id 0, Get_devices, Get_device_by_id 0,
      Get_authorizations, Get_authorization_by_id 0, Get_effective_permissions 0, Get_my_access, Get_users,
      Get_ad_groups, Get_ldap_url, Get_web_url, Get_tls, Get_saml, Get_sp_metadata, Get_ldap_sync, Get_syslog,
      Get_audit_actions, Get_audit_log undefined, Get_accounting undefined, Get_setup, Get_template_hints]"

lemma reading_handlers: "map handler reading_routes = map query_handler sample_queries"
proof -
  have "map handler rs = map fst (template_keys rs)" for rs by (simp add: template_keys_def)
  then show ?thesis by (simp add: reading_keys sample_queries_def)
qed

lemma query_key:
  "\<exists>t. map_of (template_keys reading_routes) (query_handler q) = Some t \<and>
     template_match t (query_path q)"
  unfolding reading_keys
  apply (cases q)
  apply (simp_all add: key_simps) [8]
  apply (simp_all add: key_simps) [8]
  apply (simp_all add: key_simps)
  done

lemma query_route:
  obtains r where "r \<in> set reading_routes" "handler r = query_handler q" "template_match (template r) (query_path q)"
  using query_key [of q] by (auto simp: template_keys_def dest!: map_of_SomeD)

lemma reading_behind: "list_all behind_session reading_routes"
  by code_simp

section \<open>Which methods a path takes\<close>

instantiation http_method :: enum
begin

definition enum_http_method :: "http_method list" where
  "enum_http_method = [GET, POST, PUT, PATCH, DELETE]"

definition enum_all_http_method :: "(http_method \<Rightarrow> bool) \<Rightarrow> bool" where
  "enum_all_http_method P \<longleftrightarrow> P GET \<and> P POST \<and> P PUT \<and> P PATCH \<and> P DELETE"

definition enum_ex_http_method :: "(http_method \<Rightarrow> bool) \<Rightarrow> bool" where
  "enum_ex_http_method P \<longleftrightarrow> P GET \<or> P POST \<or> P PUT \<or> P PATCH \<or> P DELETE"

instance
proof
  show univ: "UNIV = set (enum_class.enum :: http_method list)"
    using http_method.exhaust by (auto simp: enum_http_method_def)
  show "distinct (enum_class.enum :: http_method list)" by (simp add: enum_http_method_def)
  show "enum_class.enum_all P = Ball UNIV P" "enum_class.enum_ex P = Bex UNIV P" for P :: "http_method \<Rightarrow> bool"
    by (simp_all add: univ enum_http_method_def enum_all_http_method_def enum_ex_http_method_def)
qed

end

text \<open>
  A path nobody serves is a 404; a path served for other methods only is a 405. The dispatch is that
  of Starlette, of which this is what the model takes over.
\<close>

definition allowed_methods :: "(string \<Rightarrow> string \<Rightarrow> bool) \<Rightarrow> app_route list \<Rightarrow> string \<Rightarrow> http_method list" where
  "allowed_methods matches rs path =
     filter (\<lambda>m. list_ex (\<lambda>r. matches (template r) path \<and> route_method r = m) rs) Enum.enum"

lemma allowed_dispatch:
  "m \<in> set (allowed_methods matches rs path) \<longleftrightarrow> (\<exists>r. dispatch matches rs m path = To r)"
  "dispatch matches rs m path = Not_found \<longleftrightarrow> allowed_methods matches rs path = []"
  "dispatch matches rs m path = Method_not_allowed \<longleftrightarrow>
     allowed_methods matches rs path \<noteq> [] \<and> m \<notin> set (allowed_methods matches rs path)"
  by (auto simp del: split_paired_All split_paired_Ex simp: allowed_methods_def dispatch_def enum_UNIV list_ex_iff filter_empty_conv find_None_iff
      split: option.split dest!: find_Some_iff [THEN iffD1])

lemma device_methods:
  "allowed_methods template_match (routes_of mounts) ''/api/v1/devices'' = [GET, POST]"
  "allowed_methods template_match (routes_of mounts) ''/api/v1/devices/7'' = [GET, PATCH, DELETE]"
  "allowed_methods template_match (routes_of mounts) ''/api/v1/devices/7/rotate-secret'' = [POST]"
  by code_simp+

text \<open>
  Every question is answered at its path by the handler the model runs for it, behind the session, and
  the questions of the model are all the GET handlers of the API.
\<close>

theorem questions_reach_their_handlers:
  assumes "path_matcher matches"
  shows "(\<exists>r. dispatch matches (routes_of mounts) GET (query_path q) = To r \<and> handler r = query_handler q \<and>
      behind_session r) \<and>
    {handler r |r. r \<in> set (routes_of mounts) \<and> startswith ''/api/v1'' (template r) \<and> route_method r = GET} =
      range query_handler"
proof
  obtain r where r: "r \<in> set reading_routes" "handler r = query_handler q" "template_match (template r) (query_path q)"
    by (rule query_route)
  then have "r \<in> set (routes_of mounts)" "route_method r = GET" by (simp_all add: reading_routes_def)
  with dispatch_one [OF assms this(1) r(3)] r reading_behind
  show "\<exists>r. dispatch matches (routes_of mounts) GET (query_path q) = To r \<and> handler r = query_handler q \<and> behind_session r"
    by (auto simp: list_all_iff)
  have "handler ` set reading_routes = range query_handler"
  proof
    show "handler ` set reading_routes \<subseteq> range query_handler"
      unfolding set_map [symmetric] reading_handlers by auto
    show "range query_handler \<subseteq> handler ` set reading_routes"
    proof
      fix h assume "h \<in> range query_handler"
      then obtain q' where "h = query_handler q'" by blast
      moreover obtain r' where "r' \<in> set reading_routes" "handler r' = query_handler q'" by (rule query_route)
      ultimately show "h \<in> handler ` set reading_routes" by force
    qed
  qed
  then show "{handler r |r. r \<in> set (routes_of mounts) \<and> startswith ''/api/v1'' (template r) \<and> route_method r = GET} =
      range query_handler"
    unfolding reading_routes_def by (simp only: set_filter image_def) blast
qed

theorem questions_reach_their_handlers_witness:
  "\<exists>r. dispatch template_match (routes_of mounts) GET ''/api/v1/users/7/effective-permissions'' = To r \<and>
     handler r = (''/api/v1'', ''list_effective_permissions'')"
proof -
  have line: "query_path (Get_effective_permissions 7) = ''/api/v1/users/7/effective-permissions''" by code_simp
  have "path_matcher template_match" by (simp add: path_matcher_def)
  from questions_reach_their_handlers [OF this, of "Get_effective_permissions 7", unfolded line] show ?thesis
    by (elim conjE exE) (intro exI conjI, simp_all only: query_handler.simps)
qed

end
