(* ===== verification/Log_Pipeline.thy ===== *)
theory Log_Pipeline
  imports Accounting Syslog
begin

text \<open>
  The way of a command from the daemon's log to the collector: the ingestor of \<open>Accounting\<close> and the
  forwarder of \<open>Syslog\<close> on one database, in any interleaving, with the daemon writing and the rest of
  the service logging. Each of the two has its own offset among the settings and knows nothing of the
  other.
\<close>

record pipeline = log_world +
  pl_audit_sent :: "audit_row list"
  pl_acct_sent :: "accounting_row list"

definition log_side :: "pipeline \<Rightarrow> log_world" where
  "log_side p = log_world.truncate p"

definition forward_side :: "pipeline \<Rightarrow> forward_state" where
  "forward_side p = \<lparr>fw_db = lw_db p, fw_audit_sent = pl_audit_sent p, fw_acct_sent = pl_acct_sent p\<rparr>"

definition put_log :: "log_world \<Rightarrow> pipeline \<Rightarrow> pipeline" where
  "put_log w p = log_world.extend w \<lparr>pl_audit_sent = pl_audit_sent p, pl_acct_sent = pl_acct_sent p\<rparr>"

definition put_forward :: "forward_state \<Rightarrow> pipeline \<Rightarrow> pipeline" where
  "put_forward s p = p\<lparr>lw_db := fw_db s, pl_audit_sent := fw_audit_sent s, pl_acct_sent := fw_acct_sent s\<rparr>"

text \<open>
  The steps: of the ingestor, of the daemon, and of the forwarder and the rest of the service - which
  store no accounting rows and leave the ingestor's offset alone.
\<close>

inductive pipeline_step :: "pipeline \<Rightarrow> pipeline \<Rightarrow> bool" where
  ingests: "ingest_step (log_side p) w \<Longrightarrow> pipeline_step p (put_log w p)"
| logs: "whole_lines s \<Longrightarrow> pipeline_step p (put_log (log_append s (log_side p)) p)"
| forwards: "forward_step (forward_side p) s \<Longrightarrow> accounting_records (fw_db s) = accounting_records (lw_db p) \<Longrightarrow>
    load_offset (fw_db s) = load_offset (lw_db p) \<Longrightarrow> pipeline_step p (put_forward s p)"

inductive pipeline_reachable :: "nat \<Rightarrow> pipeline \<Rightarrow> bool" for i where
  start: "tail_reachable i (log_side p) \<Longrightarrow> forward_reachable (forward_side p) \<Longrightarrow>
    accounting_records (lw_db p) = [] \<Longrightarrow> pipeline_reachable i p"
| step: "pipeline_reachable i p \<Longrightarrow> pipeline_step p p' \<Longrightarrow> pipeline_reachable i p'"

lemma side_simps [simp]:
  "log_side (put_log w p) = w" "forward_side (put_forward s p) = s"
  "fw_db (forward_side p) = lw_db p" "lw_db (log_side p) = lw_db p" "lw_files (log_side p) = lw_files p"
  "forward_side (put_log w p) = (forward_side p)\<lparr>fw_db := lw_db w\<rparr>"
  "log_side (put_forward s p) = (log_side p)\<lparr>lw_db := fw_db s\<rparr>"
  "fw_acct_sent (forward_side p) = pl_acct_sent p"
  by (simp_all add: log_side_def put_log_def forward_side_def put_forward_def log_world.defs)

lemma put_log_simps [simp]:
  "lw_db (put_log w p) = lw_db w" "lw_files (put_log w p) = lw_files w" "lw_path (put_log w p) = lw_path w"
  "lw_handle (put_log w p) = lw_handle w" "pl_audit_sent (put_log w p) = pl_audit_sent p"
  "pl_acct_sent (put_log w p) = pl_acct_sent p" "put_log w (put_log w' p) = put_log w p"
  by (simp_all add: put_log_def log_world.defs)

section \<open>Each side seen by the other\<close>

text \<open>The forwarder sees what the ingestor does as rows of its stream and settings that are not its own.\<close>

lemma save_offset_seen: "forward_step\<^sup>*\<^sup>* s (s\<lparr>fw_db := save_offset n (fw_db s)\<rparr>)"
  unfolding save_offset_def by (rule r_into_rtranclp, rule forward_step.configured) simp_all

lemma persist_seen: "persist_one rc (fw_db s) = Inr d' \<Longrightarrow> forward_step\<^sup>*\<^sup>* s (s\<lparr>fw_db := d'\<rparr>)"
proof -
  assume p: "persist_one rc (fw_db s) = Inr d'"
  let ?row = "accounting_row_of (seqs (fw_db s) T_accounting_record) (resolve_device_id (pr_nas_ip rc) (fw_db s)) rc"
  have "ar_id ?row = seqs (fw_db s) T_accounting_record" by (simp add: accounting_row_of_def Let_def)
  then have "?row\<lparr>ar_id := seqs (fw_db s) T_accounting_record\<rparr> = ?row" by simp
  with p have "d' = insert_accounting ?row (fw_db s)"
    by (auto simp: persist_one_def insert_accounting_def Let_def split: if_splits)
  then show ?thesis using forward_step.accounted [of s ?row] by auto
qed

lemma line_seen:
  assumes "consume_line now content pos (fw_db s) = Some (Inr (d', pos'))"
  shows "forward_step\<^sup>*\<^sup>* s (s\<lparr>fw_db := d'\<rparr>)"
proof (cases "parse_record now (read_line (drop pos content))")
  case None
  with assms show ?thesis by (auto simp: consume_line_def Let_def split: if_splits)
next
  case (Some rc)
  with assms obtain d1 n where "persist_one rc (fw_db s) = Inr d1" "d' = save_offset n d1"
    by (auto simp: consume_line_def Let_def split: if_splits sum.splits)
  with persist_seen [of rc s d1] save_offset_seen [of "s\<lparr>fw_db := d1\<rparr>" n] show ?thesis by simp
qed

lemma db_seen: "d = fw_db s \<Longrightarrow> forward_step\<^sup>*\<^sup>* s (s\<lparr>fw_db := d\<rparr>)"
  by (cases s) simp

lemma ingest_seen:
  assumes "ingest_step w w'" and "fw_db s = lw_db w"
  shows "forward_step\<^sup>*\<^sup>* s (s\<lparr>fw_db := lw_db w'\<rparr>)"
  using assms(1)
proof (cases rule: ingest_step.cases)
  case (opened i d' pos)
  with save_offset_seen [of s 0] assms(2) show ?thesis
    by (auto simp: consume_start_def split: sum.splits if_splits)
next
  case (line_read i pos now d' pos')
  with line_seen [of now "lw_files w i" pos s d' pos'] assms(2) show ?thesis by simp
qed (use assms(2) db_seen [of _ s] in simp_all)

lemma forward_run_inv: "forward_step\<^sup>*\<^sup>* s s' \<Longrightarrow> forward_inv s \<Longrightarrow> forward_inv s'"
  by (induction rule: rtranclp_induct) (auto intro: forward_inv_step)

text \<open>The ingestor sees of the forwarder a database with its rows and its offset.\<close>

lemma forward_seen:
  "accounting_records d = accounting_records (lw_db w) \<Longrightarrow> load_offset d = load_offset (lw_db w) \<Longrightarrow>
   tail_inv i w \<Longrightarrow> tail_inv i (w\<lparr>lw_db := d\<rparr>)"
  unfolding tail_inv_def stored_core_def by (cases w) (simp cong: option.case_cong)

lemma side_unchanged: "(forward_side p)\<lparr>fw_db := lw_db p\<rparr> = forward_side p"
  by (simp add: forward_side_def)

lemma pipeline_inv:
  "pipeline_reachable i p \<Longrightarrow> tail_inv i (log_side p) \<and> forward_inv (forward_side p)"
proof (induction rule: pipeline_reachable.induct)
  case (start p)
  then show ?case by (simp add: tail_reachable_inv forward_reachable_inv)
next
  case (step p p')
  from step.hyps(2) show ?case
  proof cases
    case (ingests w)
    with step.IH tail_inv_step ingest_seen [OF ingests(2), of "forward_side p"] forward_run_inv show ?thesis by auto
  next
    case (logs s)
    have "lw_db (log_append s w) = lw_db w" for w by (simp add: log_append_def split: option.split)
    with logs step.IH show ?thesis by (simp add: tail_inv_append side_unchanged)
  next
    case (forwards s)
    with step.IH show ?thesis by (auto intro: forward_seen forward_inv_step)
  qed
qed

text \<open>A turn of the forwarder is one of the steps above: it writes its own settings only.\<close>

lemma own_settings: "key \<noteq> SETTING_OFFSET \<Longrightarrow> load_offset (write_setting key v d) = load_offset d"
  by (simp add: load_offset_def settings.rd_wr_other)

lemma forwarder_turn_seen:
  "accounting_records (forwarder_turn net now d) = accounting_records d"
  "load_offset (forwarder_turn net now d) = load_offset d"
proof -
  have "d' = d \<or> d' = advance SYSLOG_LAST_ID ar_id (batch_acct d) (advance SYSLOG_LAST_AUDIT al_id (batch_audit d) d)"
    if "process_one_batch net d = (d', out)" for d' out
    using that by (metis process_failed process_idle process_sent old.nat.exhaust old.sum.exhaust)
  then show "accounting_records (forwarder_turn net now d) = accounting_records d"
    "load_offset (forwarder_turn net now d) = load_offset d"
    by (auto simp: forwarder_turn_def clear_error_def record_error_def advance_def own_settings
        split: prod.split sum.split)
qed

section \<open>Properties\<close>



definition ex_pipe :: pipeline where
  "ex_pipe = put_log ex_world \<lparr>lw_files = \<lambda>_. [], lw_path = None, lw_handle = None, lw_db = ex_log_db,
     pl_audit_sent = [], pl_acct_sent = []\<rparr>"

definition ex_line :: string where
  "ex_line = ex_fields ''start'' @ [nl]"

definition ex_row :: accounting_row where
  "ex_row = accounting_row_of (seqs ex_log_db T_accounting_record) None (ex_parsed ''start'')"

definition ex_read :: db where
  "ex_read = save_offset (int (length ex_line)) (insert_accounting ex_row ex_log_db)"

lemma ex_unset: "stored_offset empty_db k = 0"
  by (simp add: stored_offset_def read_setting_def empty_db_def py_isdigit_def py_isdigit_char_def
      is_ascii_digit_def py_int_def py_strip_def py_isspace_char_def digits_val_def digit_val_def)

lemma ex_pipe_reachable: "pipeline_reachable 1 ex_pipe"
proof (rule pipeline_reachable.start)
  show "tail_reachable 1 (log_side ex_pipe)" using ex_reachable by (simp add: ex_pipe_def)
  have "forward_reachable \<lparr>fw_db = ex_log_db, fw_audit_sent = [], fw_acct_sent = []\<rparr>"
    by (rule forward_reachable.start)
       (simp_all add: ex_log_db_def save_offset_def stored_offset_other ex_unset, simp_all add: empty_db_def)
  then show "forward_reachable (forward_side ex_pipe)" by (simp add: ex_pipe_def ex_world_def forward_side_def)
  show "accounting_records (lw_db ex_pipe) = []"
    using ex_offset(2) by (simp add: ex_pipe_def ex_world_def)
qed

lemma ex_consumed: "consume_line 0 ex_line 0 ex_log_db = Some (Inr (ex_read, length ex_line))"
proof -
  have l: "read_line ex_line = ex_line" using read_line_nl [OF ex_no_nl(1), of "[]"] by (simp add: ex_line_def)
  have p: "parse_record 0 ex_line = Some (ex_parsed ''start'')" by (simp add: ex_line_def ex_parse)
  have "row_fits ex_row"
    by (simp add: ex_row_def ex_parsed_def accounting_row_of_def row_fits_def text_fits_def int_fits_def int_arg_def)
  then have "persist_one (ex_parsed ''start'') ex_log_db = Inr (insert_accounting ex_row ex_log_db)"
    by (simp add: persist_one_def insert_accounting_def ex_row_def resolve_device_id_def ex_parsed_def
        accounting_row_of_def Let_def truthy_def)
  with l p show ?thesis by (simp add: consume_line_def ex_read_def) (simp add: ex_line_def)
qed

definition ex_piped :: pipeline where
  "ex_piped = put_log (ex_world\<lparr>lw_handle := Some (1, length ex_line), lw_db := ex_read\<rparr>) ex_pipe"

lemma ex_piped_reachable: "pipeline_reachable 1 ex_piped"
proof -
  let ?opened = "ex_world\<lparr>lw_handle := Some (1, 0), lw_db := ex_log_db\<rparr>"
  have w: "lw_files ex_world = (\<lambda>_. ex_line)" "lw_path ex_world = Some 1" "lw_handle ex_world = None"
    "lw_db ex_world = ex_log_db" by (simp_all add: ex_world_def ex_line_def)
  have "ingest_step ex_world ?opened"
    by (rule ingest_step.opened) (simp_all add: w consume_start_def ex_offset)
  then have "pipeline_step ex_pipe (put_log ?opened ex_pipe)"
    by (intro pipeline_step.ingests) (simp add: ex_pipe_def)
  then have one: "pipeline_reachable 1 (put_log ?opened ex_pipe)"
    by (rule pipeline_reachable.step [OF ex_pipe_reachable])
  have "ingest_step ?opened (?opened\<lparr>lw_handle := Some (1, length ex_line), lw_db := ex_read\<rparr>)"
    by (rule ingest_step.line_read [of _ 1 0 0]) (simp_all add: w ex_consumed)
  then have "pipeline_step (put_log ?opened ex_pipe) ex_piped"
    using pipeline_step.ingests [of "put_log ?opened ex_pipe"] by (simp add: ex_piped_def)
  with one show ?thesis by (rule pipeline_reachable.step)
qed


end
