(* ===== verification/Logging_Setup.thy ===== *)
theory Logging_Setup
  imports Py_Base
begin

text \<open>
  \<open>app/core/logging.py\<close>, which \<open>main.py\<close> calls with the configured level before anything else. The
  module \<open>logging\<close> of Python is modelled as far as the code uses it: its attributes with an upper-case
  name, \<open>basicConfig\<close> and the root logger. \<open>make_filtering_bound_logger\<close> of structlog is the parameter
  \<open>make_filter\<close>; how structlog runs its processors on an event is left to it.
\<close>

text \<open>\<open>str.upper\<close>; only ASCII letters matter to the names below.\<close>

definition ascii_upper :: "string \<Rightarrow> string" where
  "ascii_upper s = map (\<lambda>c. if CHR ''a'' \<le> c \<and> c \<le> CHR ''z'' then char_of (of_char c - 32 :: nat) else c) s"

text \<open>An attribute of the module: a number, a text, or something that is neither.\<close>

datatype log_attr = Level int | Text_attr string | Other_attr

definition level_names :: "(string \<times> int) list" where
  "level_names = [(''CRITICAL'', 50), (''FATAL'', 50), (''ERROR'', 40), (''WARNING'', 30), (''WARN'', 30),
     (''INFO'', 20), (''DEBUG'', 10), (''NOTSET'', 0)]"

definition logging_module :: "(string \<times> log_attr) list" where
  "logging_module = map (\<lambda>(n, i). (n, Level i)) level_names @
     [(''BASIC_FORMAT'', Text_attr ''%(levelname)s:%(name)s:%(message)s''), (''_STYLES'', Other_attr)]"

definition log_level_of :: "string \<Rightarrow> log_attr" where
  "log_level_of level = (case map_of logging_module (ascii_upper level) of Some a \<Rightarrow> a | None \<Rightarrow> Level 20)"

text \<open>\<open>Logger.setLevel\<close> takes a number or the name of a level.\<close>

definition check_level :: "log_attr \<Rightarrow> int exn" where
  "check_level a =
     (case a of
        Level i \<Rightarrow> Inr i
      | Text_attr t \<Rightarrow> (case map_of level_names t of Some i \<Rightarrow> Inr i | None \<Rightarrow> Inl ''ValueError: Unknown level'')
      | Other_attr \<Rightarrow> Inl ''TypeError: Level not an integer or a valid string'')"

text \<open>What structlog is told: the processors an event passes, and the level its loggers start at.\<close>

datatype log_processor = Merge_contextvars | Add_log_level | Time_stamper_iso_utc | Dict_tracebacks | Json_renderer

record structlog_config =
  sl_processors :: "log_processor list"
  sl_level :: int
  sl_cached :: bool

record log_state =
  lg_handlers :: nat
  lg_root_level :: int
  lg_structlog :: "structlog_config option"

definition fresh_logging :: log_state where
  "fresh_logging = \<lparr>lg_handlers = 0, lg_root_level = 30, lg_structlog = None\<rparr>"

definition json_lines :: "int \<Rightarrow> structlog_config" where
  "json_lines i =
     \<lparr>sl_processors = [Merge_contextvars, Add_log_level, Time_stamper_iso_utc, Dict_tracebacks, Json_renderer],
      sl_level = i, sl_cached = True\<rparr>"

text \<open>\<open>basicConfig\<close> does nothing once the root logger has a handler.\<close>

definition basic_config :: "log_attr \<Rightarrow> log_state \<Rightarrow> log_state \<times> unit exn" where
  "basic_config a st =
     (if lg_handlers st \<noteq> 0 then (st, Inr ())
      else
        (let st1 = st\<lparr>lg_handlers := 1\<rparr> in
         case check_level a of Inl e \<Rightarrow> (st1, Inl e) | Inr i \<Rightarrow> (st1\<lparr>lg_root_level := i\<rparr>, Inr ())))"

definition configure_logging :: "(log_attr \<Rightarrow> int exn) \<Rightarrow> string \<Rightarrow> log_state \<Rightarrow> log_state \<times> unit exn" where
  "configure_logging make_filter level st =
     (let log_level = log_level_of level in
      case basic_config log_level st of
        (st1, Inl e) \<Rightarrow> (st1, Inl e)
      | (st1, Inr _) \<Rightarrow>
          (case make_filter log_level of
             Inl e \<Rightarrow> (st1, Inl e)
           | Inr i \<Rightarrow> (st1\<lparr>lg_structlog := Some (json_lines i)\<rparr>, Inr ())))"

section \<open>Which levels are logged\<close>

text \<open>What structlog documents: the bound logger of a level drops the events below it.\<close>

definition filters_by_level :: "(log_attr \<Rightarrow> int exn) \<Rightarrow> bool" where
  "filters_by_level make_filter \<longleftrightarrow> (\<forall>i\<in>set (map snd level_names). make_filter (Level i) = Inr i)"

definition level_or_info :: "string \<Rightarrow> int" where
  "level_or_info level = (case map_of level_names (ascii_upper level) of Some i \<Rightarrow> i | None \<Rightarrow> 20)"

lemma log_level_of_level:
  "ascii_upper level \<notin> {''BASIC_FORMAT'', ''_STYLES''} \<Longrightarrow> log_level_of level = Level (level_or_info level)"
  by (auto simp: log_level_of_def level_or_info_def logging_module_def level_names_def)

lemma level_listed: "level_or_info level \<in> set (map snd level_names)"
  by (auto simp: level_or_info_def level_names_def)

text \<open>
  A process that starts with the name of a level, in any case, logs from that level on, in both
  libraries, and with a name nobody knows from INFO on; the two other attributes of the module that a
  configured text can reach are no levels.
\<close>

theorem configured_level_is_used:
  assumes "filters_by_level make_filter"
  shows "configure_logging make_filter level fresh_logging =
    (if ascii_upper level = ''BASIC_FORMAT''
     then (fresh_logging\<lparr>lg_handlers := 1\<rparr>, Inl ''ValueError: Unknown level'')
     else if ascii_upper level = ''_STYLES''
     then (fresh_logging\<lparr>lg_handlers := 1\<rparr>, Inl ''TypeError: Level not an integer or a valid string'')
     else (\<lparr>lg_handlers = 1, lg_root_level = level_or_info level, lg_structlog = Some (json_lines (level_or_info level))\<rparr>, Inr ()))"
proof (cases "ascii_upper level \<in> {''BASIC_FORMAT'', ''_STYLES''}")
  case True
  then show ?thesis
    by (auto simp: configure_logging_def basic_config_def fresh_logging_def log_level_of_def logging_module_def
        level_names_def check_level_def)
next
  case False
  have "make_filter (Level (level_or_info level)) = Inr (level_or_info level)"
    using assms level_listed [of level] unfolding filters_by_level_def by blast
  with False log_level_of_level [OF False] show ?thesis
    by (simp add: configure_logging_def basic_config_def fresh_logging_def check_level_def)
qed

theorem configured_level_is_used_witness:
  "configure_logging check_level ''warning'' fresh_logging =
     (\<lparr>lg_handlers = 1, lg_root_level = 30, lg_structlog = Some (json_lines 30)\<rparr>, Inr ()) \<and>
   snd (configure_logging check_level ''basic_format'' fresh_logging) = Inl ''ValueError: Unknown level''"
proof -
  have f: "filters_by_level check_level" by (simp add: filters_by_level_def check_level_def)
  have up: "ascii_upper ''warning'' = ''WARNING''" "ascii_upper ''basic_format'' = ''BASIC_FORMAT''" by code_simp+
  then have "level_or_info ''warning'' = 30" by (simp add: level_or_info_def level_names_def)
  with up configured_level_is_used [OF f, of "''warning''"] configured_level_is_used [OF f, of "''basic_format''"]
  show ?thesis by simp
qed

end
