(* ===== verification/Migration_Env.thy ===== *)
theory Migration_Env
  imports Migrations Secrets
begin

text \<open>
  \<open>alembic/env.py\<close>: where and how the revisions run. Alembic keeps the revision a database is at in
  the database; \<open>run_migrations\<close> applies the revisions after it. A connection of PostgreSQL runs them
  in one transaction, so an error leaves the database as it was. The section of \<open>alembic.ini\<close> has a
  placeholder for the URL, which the environment replaces.
\<close>

record migrated_db =
  md_schema :: schema
  md_revision :: "string option"

type_synonym servers = "string \<Rightarrow> migrated_db option"

fun after_revision :: "string \<Rightarrow> migration list \<Rightarrow> migration list option" where
  "after_revision r [] = None"
| "after_revision r (x # ms) = (if mg_revision x = r then Some ms else after_revision r ms)"

definition pending :: "migration list \<Rightarrow> string option \<Rightarrow> migration list exn" where
  "pending ms at =
     (case at of
        None \<Rightarrow> Inr ms
      | Some r \<Rightarrow> (case after_revision r ms of None \<Rightarrow> Inl ''CommandError: cannot locate revision'' | Some p \<Rightarrow> Inr p))"

definition run_migrations :: "migration list \<Rightarrow> migrated_db \<Rightarrow> migrated_db exn" where
  "run_migrations ms d =
     (case pending ms (md_revision d) of
        Inl e \<Rightarrow> Inl e
      | Inr [] \<Rightarrow> Inr d
      | Inr p \<Rightarrow>
          (case upgrade_all p (md_schema d) of
             None \<Rightarrow> Inl ''ProgrammingError''
           | Some s \<Rightarrow> Inr \<lparr>md_schema = s, md_revision = Some (mg_revision (last p))\<rparr>))"

text \<open>The URL \<open>engine_from_config\<close> connects to, from the section with the URL put in.\<close>

definition engine_url :: "(string \<times> string) list \<Rightarrow> string exn" where
  "engine_url cfg =
     (case map_of cfg ''sqlalchemy.url'' of None \<Rightarrow> Inl ''KeyError: url'' | Some u \<Rightarrow> Inr u)"

definition run_migrations_online ::
    "migration list \<Rightarrow> app_settings \<Rightarrow> (string \<times> string) list \<Rightarrow> servers \<Rightarrow> servers \<times> unit exn" where
  "run_migrations_online ms settings ini_section dbs =
     (case sync_url settings of
        Inl e \<Rightarrow> (dbs, Inl e)
      | Inr url \<Rightarrow>
          (case engine_url (AList.update ''sqlalchemy.url'' url ini_section) of
             Inl e \<Rightarrow> (dbs, Inl e)
           | Inr target \<Rightarrow>
               (case dbs target of
                  None \<Rightarrow> (dbs, Inl ''OperationalError'')
                | Some d \<Rightarrow>
                    (case run_migrations ms d of
                       Inl e \<Rightarrow> (dbs, Inl e)
                     | Inr d' \<Rightarrow> (dbs(target \<mapsto> d'), Inr ())))))"

text \<open>Offline, the statements for the dialect of the URL are printed instead, from the first revision on.\<close>

definition run_migrations_offline :: "migration list \<Rightarrow> app_settings \<Rightarrow> (string \<times> schema_op list) exn" where
  "run_migrations_offline ms settings =
     map_sum id (\<lambda>url. (url, concat (map mg_upgrade ms))) (sync_url settings)"

section \<open>Facts\<close>

lemma after_last: "ms \<noteq> [] \<Longrightarrow> distinct (map mg_revision ms) \<Longrightarrow> after_revision (mg_revision (last ms)) ms = Some []"
  by (induction ms) (auto split: if_splits)

lemma revisions_distinct: "distinct (map mg_revision migrations)" "migrations \<noteq> []"
  by (simp_all add: migrations_def)

lemma upgrade_all_run: "upgrade_all ms s = run_ops (concat (map mg_upgrade ms)) s"
  by (induction ms arbitrary: s) (auto simp: run_ops_append split: option.split)

text \<open>The revisions form one chain, in the order of the list.\<close>

fun chained :: "string option \<Rightarrow> migration list \<Rightarrow> bool" where
  "chained prev [] = True"
| "chained prev (m # ms) = (mg_down_revision m = prev \<and> chained (Some (mg_revision m)) ms)"

lemma migrations_chained: "chained None migrations"
  by (simp add: migrations_def)

definition at_head :: migrated_db where
  "at_head = \<lparr>md_schema = head_schema, md_revision = Some (mg_revision (last migrations))\<rparr>"

lemma run_at_head: "run_migrations migrations at_head = Inr at_head"
  using after_last [OF revisions_distinct(2,1)] by (simp add: run_migrations_def pending_def at_head_def)

lemma run_from_start:
  "ms \<noteq> [] \<Longrightarrow> upgrade_all ms s = Some s' \<Longrightarrow>
   run_migrations ms \<lparr>md_schema = s, md_revision = None\<rparr> =
     Inr \<lparr>md_schema = s', md_revision = Some (mg_revision (last ms))\<rparr>"
  by (cases ms) (simp_all add: run_migrations_def pending_def del: upgrade_all.simps)

lemma run_from_empty:
  "run_migrations migrations \<lparr>md_schema = empty_schema, md_revision = None\<rparr> = Inr at_head"
  unfolding at_head_def by (rule run_from_start [OF revisions_distinct(2) head_reached])

section \<open>Properties\<close>

text \<open>
  Migrating goes to the database of the service and nowhere else, whatever the file says; an empty
  database ends at the schema of the models, running again changes nothing, and the statements printed
  offline are the ones an empty database runs. A run that fails changes no database at all.
\<close>

theorem migrating_reaches_the_models_once:
  assumes "sync_url settings = Inr url" and "dbs url = Some \<lparr>md_schema = empty_schema, md_revision = None\<rparr>"
  shows "run_migrations_online migrations settings ini dbs = (dbs(url \<mapsto> at_head), Inr ()) \<and>
    run_migrations_online migrations settings ini (dbs(url \<mapsto> at_head)) = (dbs(url \<mapsto> at_head), Inr ()) \<and>
    (\<exists>ops. run_migrations_offline migrations settings = Inr (url, ops) \<and> run_ops ops empty_schema = Some (md_schema at_head))"
proof -
  have target: "engine_url (AList.update ''sqlalchemy.url'' url ini) = Inr url"
    by (simp add: engine_url_def update_conv')
  have "run_ops (concat (map mg_upgrade migrations)) empty_schema = Some head_schema"
    using head_reached by (simp only: upgrade_all_run)
  with assms target show ?thesis
    by (simp add: run_migrations_online_def run_from_empty run_at_head run_migrations_offline_def)
      (simp add: at_head_def)
qed

theorem failed_migration_changes_nothing:
  assumes "run_migrations_online ms settings ini dbs = (dbs', Inl e)"
  shows "dbs' = dbs"
  using assms by (auto simp: run_migrations_online_def split: sum.splits option.splits)

definition ex_settings :: app_settings where
  "ex_settings = \<lparr>cf_database_url = ''postgresql+psycopg://u@db/t'', cf_database_password_file = None,
     cf_database_password_value = None, cf_master_key_file = None, cf_master_key_b64 = None\<rparr>"

lemma ex_settings_url: "sync_url ex_settings = Inr ''postgresql+psycopg://u@db/t''"
  by code_simp

theorem migrating_reaches_the_models_once_witness:
  "fst (run_migrations_online migrations ex_settings [(''sqlalchemy.url'', ''driver://placeholder'')]
     [''postgresql+psycopg://u@db/t'' \<mapsto> \<lparr>md_schema = empty_schema, md_revision = None\<rparr>])
     ''postgresql+psycopg://u@db/t'' = Some at_head"
  using migrating_reaches_the_models_once [OF ex_settings_url,
      of "[''postgresql+psycopg://u@db/t'' \<mapsto> \<lparr>md_schema = empty_schema, md_revision = None\<rparr>]"
      "[(''sqlalchemy.url'', ''driver://placeholder'')]"] by simp

end
