(* ===== verification/Setting_Rows.thy ===== *)
theory Setting_Rows
  imports Settings_Store
begin

text \<open>
  The tables \<open>system_setting\<close> and \<open>system_secret\<close> row by row, and the helpers of the modules on the rows:
  select by key, then insert, update or delete. The rest of the library sees each table as a map
  (\<open>Settings_Store\<close>); this theory is why it may: on a table with unique keys the helpers never fail,
  keep the keys unique, and do to the rows what the map says.
\<close>

record kv_row =
  kv_key :: string
  kv_value :: string

section \<open>The statements\<close>

text \<open>\<open>scalar_one_or_none\<close> on a selection by key.\<close>

definition select_row :: "string \<Rightarrow> kv_row list \<Rightarrow> kv_row option exn" where
  "select_row key rows =
     (case filter (\<lambda>r. kv_key r = key) rows of
        [] \<Rightarrow> Inr None
      | [r] \<Rightarrow> Inr (Some r)
      | _ \<Rightarrow> Inl ''MultipleResultsFound'')"

definition insert_row :: "kv_row \<Rightarrow> kv_row list \<Rightarrow> kv_row list exn" where
  "insert_row r rows = (if kv_key r \<in> set (map kv_key rows) then Inl ''IntegrityError'' else Inr (rows @ [r]))"

definition update_row :: "string \<Rightarrow> string \<Rightarrow> kv_row list \<Rightarrow> kv_row list" where
  "update_row key v rows = map (\<lambda>r. if kv_key r = key then r\<lparr>kv_value := v\<rparr> else r) rows"

definition delete_row :: "string \<Rightarrow> kv_row list \<Rightarrow> kv_row list" where
  "delete_row key rows = filter (\<lambda>r. kv_key r \<noteq> key) rows"

section \<open>The helpers\<close>

definition read_row :: "kv_row list \<Rightarrow> string \<Rightarrow> string option exn" where
  "read_row rows key = map_sum id (map_option kv_value) (select_row key rows)"

text \<open>The helper of the modules that only ever store a value.\<close>

definition upsert_row :: "string \<Rightarrow> string \<Rightarrow> kv_row list \<Rightarrow> kv_row list exn" where
  "upsert_row key v rows =
     (case select_row key rows of
        Inl e \<Rightarrow> Inl e
      | Inr None \<Rightarrow> insert_row \<lparr>kv_key = key, kv_value = v\<rparr> rows
      | Inr (Some r) \<Rightarrow> Inr (update_row (kv_key r) v rows))"

text \<open>The helper of the modules that clear a value by storing \<open>None\<close>.\<close>

definition upsert_or_delete :: "string \<Rightarrow> string option \<Rightarrow> kv_row list \<Rightarrow> kv_row list exn" where
  "upsert_or_delete key value rows =
     (case select_row key rows of
        Inl e \<Rightarrow> Inl e
      | Inr row \<Rightarrow>
          (case value of
             None \<Rightarrow> (case row of None \<Rightarrow> Inr rows | Some r \<Rightarrow> Inr (delete_row (kv_key r) rows))
           | Some v \<Rightarrow>
               (case row of
                  None \<Rightarrow> insert_row \<lparr>kv_key = key, kv_value = v\<rparr> rows
                | Some r \<Rightarrow> Inr (update_row (kv_key r) v rows))))"

section \<open>The rows as a map\<close>

definition unique_rows :: "kv_row list \<Rightarrow> bool" where
  "unique_rows rows = distinct (map kv_key rows)"

definition rows_map :: "kv_row list \<Rightarrow> (string \<rightharpoonup> string)" where
  "rows_map rows = map_of (map (\<lambda>r. (kv_key r, kv_value r)) rows)"

lemma rows_map_simps [simp]:
  "rows_map [] = (\<lambda>_. None)" "rows_map (r # rows) = (rows_map rows)(kv_key r \<mapsto> kv_value r)"
  by (simp_all add: rows_map_def)

lemma rows_map_None: "rows_map rows k = None \<longleftrightarrow> k \<notin> set (map kv_key rows)"
  by (induction rows) auto

lemma filter_absent: "k \<notin> set (map kv_key rows) \<Longrightarrow> filter (\<lambda>r. kv_key r = k) rows = []"
  by (auto simp: filter_empty_conv)

lemma select_unique:
  assumes "unique_rows rows"
  shows "\<exists>row. select_row key rows = Inr row \<and> map_option kv_value row = rows_map rows key \<and>
    (\<forall>r\<in>set_option row. kv_key r = key)"
  using assms
proof (induction rows)
  case (Cons r rows)
  then show ?case
    by (auto simp: unique_rows_def select_row_def filter_absent dest: filter_absent split: list.splits)
qed (simp add: select_row_def)

lemma update_row_keys [simp]: "map kv_key (update_row key v rows) = map kv_key rows"
  by (simp add: update_row_def)

lemma update_row_map: "key \<in> set (map kv_key rows) \<Longrightarrow> rows_map (update_row key v rows) = (rows_map rows)(key \<mapsto> v)"
proof (induction rows)
  case (Cons r rows)
  show ?case
  proof (cases "key \<in> set (map kv_key rows)")
    case True
    with Cons.IH show ?thesis by (auto simp: update_row_def fun_eq_iff)
  next
    case False
    then have "update_row key v rows = rows" by (auto simp: update_row_def intro!: map_idI)
    with Cons.prems False show ?thesis by (auto simp: update_row_def fun_eq_iff)
  qed
qed simp

lemma delete_row_map: "rows_map (delete_row key rows) = (rows_map rows)(key := None)"
  by (induction rows) (auto simp: delete_row_def fun_eq_iff)

lemma insert_row_map:
  "kv_key r \<notin> set (map kv_key rows) \<Longrightarrow>
   rows_map (rows @ [r]) = (rows_map rows)(kv_key r \<mapsto> kv_value r)"
  by (induction rows) (auto simp: fun_eq_iff)

lemma read_row_map: "unique_rows rows \<Longrightarrow> read_row rows key = Inr (rows_map rows key)"
  using select_unique [of rows key] by (auto simp: read_row_def)

lemma upsert_or_delete_map:
  assumes "unique_rows rows"
  shows "\<exists>rows'. upsert_or_delete key v rows = Inr rows' \<and> unique_rows rows' \<and> rows_map rows' = (rows_map rows)(key := v)"
proof -
  obtain row where row: "select_row key rows = Inr row" "map_option kv_value row = rows_map rows key"
    "\<forall>r\<in>set_option row. kv_key r = key"
    using select_unique [OF assms, of key] by blast
  show ?thesis
  proof (cases row)
    case None
    with row(2) have new: "key \<notin> set (map kv_key rows)" using rows_map_None [of rows key] by simp
    with None row assms insert_row_map [of "\<lparr>kv_key = key, kv_value = w\<rparr>" rows for w] show ?thesis
      by (cases v) (auto simp: upsert_or_delete_def insert_row_def unique_rows_def fun_upd_idem rows_map_None)
  next
    case (Some r)
    with row have old: "kv_key r = key" "key \<in> set (map kv_key rows)"
      using rows_map_None [of rows key] by auto
    have "unique_rows (delete_row key rows)"
      using assms by (simp add: unique_rows_def delete_row_def distinct_map_filter)
    moreover have "unique_rows (update_row key w rows)" for w using assms by (simp add: unique_rows_def)
    ultimately show ?thesis using Some row(1) old update_row_map [OF old(2)]
      by (cases v) (auto simp: upsert_or_delete_def delete_row_map)
  qed
qed

lemma upsert_is_upsert: "upsert_row key v rows = upsert_or_delete key (Some v) rows"
  by (simp add: upsert_row_def upsert_or_delete_def split: sum.split option.split)

section \<open>Tables\<close>

text \<open>A table is a list of rows with unique keys, as the primary key demands.\<close>

typedef kv_table = "{rows. unique_rows rows}" by (rule exI [of _ "[]"]) (simp add: unique_rows_def)

setup_lifting type_definition_kv_table

definition stored_rows :: "string \<Rightarrow> string option \<Rightarrow> kv_row list \<Rightarrow> kv_row list" where
  "stored_rows key v rows = (case upsert_or_delete key v rows of Inr rows' \<Rightarrow> rows' | Inl _ \<Rightarrow> rows)"

lemma stored_rows_map:
  "unique_rows rows \<Longrightarrow>
   unique_rows (stored_rows key v rows) \<and> rows_map (stored_rows key v rows) = (rows_map rows)(key := v)"
  using upsert_or_delete_map [of rows key v] by (auto simp: stored_rows_def)

lift_definition table_read :: "kv_table \<Rightarrow> string \<Rightarrow> string option" is rows_map .

lift_definition table_write :: "string \<Rightarrow> string option \<Rightarrow> kv_table \<Rightarrow> kv_table" is stored_rows
  by (simp add: stored_rows_map)

lemma table_read_write: "table_read (table_write k v t) = (table_read t)(k := v)"
  by transfer (simp add: stored_rows_map)

interpretation rows: kv_store table_read table_write
  by unfold_locales (simp_all add: table_read_write)

section \<open>Properties\<close>

text \<open>
  C38: The helpers on the rows implement the map: on a table with unique keys reading gives what the map
  has, storing and clearing never fail, keep the keys unique and change the map at the key only - as
  \<open>read_setting\<close> and \<open>write_setting\<close> do.
\<close>

theorem setting_rows_implement_the_map:
  assumes "unique_rows rows" and "system_settings d = rows_map rows"
  shows "read_row rows key = Inr (read_setting d key) \<and>
    (\<exists>rows'. upsert_or_delete key v rows = Inr rows' \<and> unique_rows rows' \<and>
      rows_map rows' = system_settings (write_setting key v d)) \<and>
    (\<exists>rows'. upsert_row key w rows = Inr rows' \<and> unique_rows rows' \<and>
      rows_map rows' = system_settings (write_setting key (Some w) d))"
proof (intro conjI)
  have "system_settings (write_setting key v d) = (system_settings d)(key := v)" for v
    by (cases v) (auto simp: write_setting_def read_setting_def fun_upd_idem)
  then show "\<exists>rows'. upsert_or_delete key v rows = Inr rows' \<and> unique_rows rows' \<and>
      rows_map rows' = system_settings (write_setting key v d)"
    "\<exists>rows'. upsert_row key w rows = Inr rows' \<and> unique_rows rows' \<and>
      rows_map rows' = system_settings (write_setting key (Some w) d)"
    using upsert_or_delete_map [OF assms(1)] assms(2) by (simp_all add: upsert_is_upsert)
  show "read_row rows key = Inr (read_setting d key)"
    using read_row_map [OF assms(1)] assms(2) by (simp add: read_setting_def)
qed

definition ex_rows :: "kv_row list" where
  "ex_rows = [\<lparr>kv_key = ''ldap.url'', kv_value = ''ldaps://dc''\<rparr>, \<lparr>kv_key = ''web.base_url'', kv_value = ''https://w''\<rparr>]"

theorem setting_rows_implement_the_map_witness:
  "\<exists>rows'. upsert_or_delete ''ldap.url'' None ex_rows = Inr rows' \<and> unique_rows rows' \<and>
     rows_map rows' = [''web.base_url'' \<mapsto> ''https://w'']"
proof -
  let ?d = "empty_db\<lparr>system_settings := rows_map ex_rows\<rparr>"
  have "unique_rows ex_rows" by (simp add: unique_rows_def ex_rows_def)
  moreover have "system_settings (write_setting ''ldap.url'' None ?d) = [''web.base_url'' \<mapsto> ''https://w'']"
    by (auto simp: write_setting_def read_setting_def ex_rows_def fun_eq_iff)
  ultimately show ?thesis
    using setting_rows_implement_the_map [of ex_rows ?d "''ldap.url''" None] by simp
qed

end
