(* ===== verification/Spec2Isabelle.thy ===== *)
theory Spec2Isabelle
  imports Policy Device_Resolution Profile_Render Nas_Config Audit_Trail Sessions Auth_Local Ldap_Auth
    Internal_Mavis Mavis_Child Ldap_Sync Ldap_Client Syslog Accounting Devices Device_Groups Privilege_Profiles Authorizations Queries Effective_Permissions Ldap_Worker Settings_Ldap_Sync General_Settings Settings_Syslog Setup_Wizard Settings_Saml Tls Secrets Bootstrap Whole_System Migrations Routing Lifecycle Smoke Interference Device_Login Disclosure Read_Routing Log_Pipeline Logging_Setup Migration_Env Setting_Rows
begin

text \<open>
  A verification library of the TACACS+ management service (FastAPI backend \<open>src/backend/app\<close>, its
  migrations \<open>src/backend/alembic\<close>, the MAVIS child \<open>src/docker/tac_plus-ng/mavis_child.py\<close>, the smoke
  test \<open>src/scripts/smoke-tacacs.py\<close>).

  The program. An operator keeps devices, device groups, privilege profiles and authorizations in a
  PostgreSQL database through \<open>/api/v1\<close>; users and groups come from a directory sync. The daemon
  tac_plus-ng reads the devices from \<open>hosts.cfg\<close>, which the backend writes, and asks the backend,
  through the MAVIS child, whether a password is right (AUTH) and which profile a user gets (INFO).
  Every change is written to an audit log; command accounting is ingested from a log file; both
  are forwarded to a syslog collector.

  How it is modelled. The database is the record \<open>db\<close> (theory \<open>Models\<close>): one list of rows per table
  in primary-key order, two maps for settings and secrets, one sequence per table. A handler is a
  function from the instant of the request, the caller and \<open>db\<close> to the committed \<open>db\<close> and an error or a
  response (\<open>http_exc + 'a\<close>); an exception nobody catches rolls back and is \<open>Unhandled\<close>. Constraints of
  the database are predicates a flush checks, so a violation is a branch. Background loops are step
  relations. Python ints are \<open>int\<close>, instants are microseconds, \<open>str\<close> is a HOL string of code points
  below U+0100, bytes are lists of 8-bit words.

  Theories and sources.
  \<^item> Prelude: \<open>Py_Base\<close> (strings, numbers), \<open>Bytes\<close>, \<open>Base64\<close>, \<open>Json\<close>, \<open>Py_Time\<close>, \<open>Strptime\<close>, \<open>Shlex\<close>,
    \<open>Url\<close>, \<open>Ip_Address\<close>: the parts of Python's library the code calls. \<open>Requests\<close>, \<open>Api_Common\<close>,
    \<open>Settings_Store\<close>: what the handlers share; interfaces \<open>kv_store\<close>, \<open>char_escape\<close> (\<open>Escaping\<close>),
    \<open>best_choice\<close> (\<open>Selection\<close>). \<open>Setting_Rows\<close>: the settings tables row by row, why the library may
    see them as maps.
  \<^item> Data: \<open>Models\<close> (\<open>db/models\<close>), \<open>Migrations\<close> (\<open>alembic/versions\<close> and the tables of the ORM classes),
    \<open>Migration_Env\<close> (\<open>alembic/env.py\<close>: which revisions a start of the container applies, in one
    transaction), \<open>Secrets\<close> (\<open>core/config.py\<close>, \<open>core/crypto.py\<close>, \<open>db/types.py\<close>, \<open>db/session.py\<close>,
    \<open>api/health.py\<close>), \<open>Logging_Setup\<close> (\<open>core/logging.py\<close>).
  \<^item> Decisions: \<open>Policy\<close>, \<open>Device_Resolution\<close>, \<open>Profile_Render\<close> (\<open>authz\<close>), \<open>Nas_Config\<close> (\<open>nas_config\<close>),
    \<open>Ldap_Auth\<close> (\<open>auth\<close>), \<open>Internal_Mavis\<close> (\<open>api/internal_mavis.py\<close>), \<open>Mavis_Child\<close>.
  \<^item> Identity: \<open>Sessions\<close>, \<open>Auth_Local\<close>, \<open>Saml_Config\<close>, \<open>Saml_Routes\<close>, \<open>Bootstrap\<close> (\<open>cli.py\<close>,
    \<open>device_templates.py\<close>), \<open>Ldap_Client\<close>, \<open>Ldap_Sync\<close>, \<open>Ldap_Worker\<close> (\<open>ldap_sync\<close>).
  \<^item> API (\<open>api/v1\<close>): \<open>Device_Groups\<close>, \<open>Privilege_Profiles\<close>, \<open>Devices\<close>, \<open>Authorizations\<close>, \<open>Queries\<close>,
    \<open>Effective_Permissions\<close>, \<open>General_Settings\<close>, \<open>Settings_Ldap_Sync\<close>, \<open>Settings_Syslog\<close>,
    \<open>Settings_Saml\<close>, \<open>Tls\<close>, \<open>Certificates\<close>, \<open>Setup_Wizard\<close>. \<open>Read_Api\<close>: every GET handler with its
    response model, as one datatype of questions behind the session dependency.
  \<^item> Logs: \<open>Audit_Trail\<close> (\<open>audit\<close>), \<open>Accounting\<close> (\<open>accounting/ingestor.py\<close>), \<open>Syslog\<close>
    (\<open>syslog/forwarder.py\<close>), \<open>Log_Pipeline\<close> (the two interleaved on one database, with the daemon).
  \<^item> Composition: \<open>Contracts\<close> and \<open>Interference\<close> (what an operation leaves alone), \<open>Application\<close>,
    \<open>Routing\<close> and \<open>Read_Routing\<close> (\<open>main.py\<close>: handlers behind the session, router table), \<open>Lifecycle\<close>
    (lifespan and background tasks), \<open>Device_Login\<close> (a login packet through the MAVIS child and the
    backend's two routes), \<open>Disclosure\<close> (what the answers tell about the stored secrets),
    \<open>Whole_System\<close> (all of it as one transition system), \<open>Smoke\<close>.

  What the lemmas show. Per component: the functional behaviour of each operation on every branch,
  round trips of every encoder with its decoder, invariants kept by every operation, equivalence of
  the loops with a declarative choice. In this theory: properties of the composed system - integrity
  of the configuration and of \<open>hosts.cfg\<close> over every interleaving, the audit trail, who may change
  what, how a grant or a departure reaches the devices, and that no conversation with the API depends
  on a stored secret. For the last, \<open>Disclosure\<close> relates two states that agree on everything but the
  secrets (noninterference by unwinding, the interface \<open>observed_system\<close>); its conversations leave out
  the calls whose answer says something about a secret by design: the SP metadata (it holds the
  certificate of the key), an update of a device that compares or rotates a secret, the regeneration of
  \<open>hosts.cfg\<close> (it counts bytes), the tests of the directory and of the collector.

  Bounds. \<open>Json\<close> decodes with fuel one more than the text, which the decoder never uses up on a text
  \<open>dumps\<close> wrote (lemma \<open>jneed_dumps\<close>); the readers used as specifications (packets, structured data)
  take the length of their input. The loops of the program are recursions that end; the ingestor
  and the forwarder, which do not, are step relations whose turns end.

  Parameters. Code outside the repository is an argument: the directory (\<open>ldap_server\<close>,
  \<open>ldap_connect\<close>), Argon2, AES-GCM, certificate parsing and signing, python3-saml, the XML parser,
  pydantic's decoding of stored JSON, \<open>lower()\<close> of PostgreSQL, Starlette's path matching, sockets and
  TLS, the TACACS+ client, random tokens, clocks and file operations. What a property needs of them is
  a named hypothesis.

  Not modelled. Column lengths outside \<open>accounting_record\<close> (a longer value is a database error there),
  \<open>created_at\<close> columns nobody reads, text beyond U+00FF, concurrent transactions on one row (each
  handler is one step), timers and sleeps, the parsing of command-line arguments, printing, the
  rendering of log lines by structlog, the OpenAPI pages of FastAPI, \<open>db/base.py\<close> (an empty
  class), the frontend and the container set-up.
\<close>

section \<open>Helper facts\<close>

lemma grant_row:
  assumes "create_authorization now ctx p d = (d1, Inr row)"
  shows "\<exists>e d0. d1 = with_audit now e d0 \<and> d0 = bump_seq T_authorization (d\<lparr>authorizations := authorizations d @ [row]\<rparr>) \<and>
    principal_user_id row = ac_principal_user_id p \<and> a_device_group_id row = ac_device_group_id p \<and>
    privilege_profile_id row = ac_privilege_profile_id p"
  using assms by (auto simp: create_authorization_def Let_def split: option.splits if_splits)

lemma winner_exists:
  assumes "config_ok d" and "r \<in> set (authorizations d)" and "a_device_group_id r = dg" and "holds d u r"
  shows "\<exists>a. winning (evaluate_for_user (load_user d u) dg
      (load_authorizations d (\<lambda>a. a_device_group_id a = dg))) = Some a"
proof -
  from config_ok_loads [OF assms(1,2)] obtain a where a: "load_authorization d r = Some a" by blast
  then have "a \<in> set (load_authorizations d (\<lambda>a. a_device_group_id a = dg))"
    using assms(2,3) by (auto simp: load_authorizations_mem)
  moreover have "authz_matches (load_user d u) dg a"
    using matches_load [OF a] assms(3,4) by simp
  ultimately show ?thesis
    using adr6.pick_exists [of a] by (fastforce simp: authz_score_def adr6_choice_def)
qed

section \<open>The system\<close>

text \<open>
  C1: Whatever the clients, the devices, the directory and the background jobs do, in any order: the
  configuration tables keep every declared constraint (so every authorization refers to rows that
  exist and every privilege level is between 0 and 15), audit ids keep rising, and as long as its
  volume is writable \<open>hosts.cfg\<close> is the rendering of the current devices.
\<close>

theorem system_keeps_integrity:
  assumes "(system_step env)\<^sup>*\<^sup>* s s'" and "config_ok (ap_db s)" and "audit_ok (ap_db s)"
    and "fl_hosts (ap_fleet s) = rendered_config (ne_shared_secret (en_nas env)) (ap_db s)"
  shows "config_ok (ap_db s') \<and> audit_ok (ap_db s') \<and>
    (ne_writable (en_nas env) \<longrightarrow>
       fl_hosts (ap_fleet s') = rendered_config (ne_shared_secret (en_nas env)) (ap_db s'))"
  using running.run_keeps [OF assms(1)] assms(2-4) by (simp add: system_ok_def hosts_in_sync_def)

definition ex_app_env :: app_env where
  "ex_app_env = \<lparr>en_nas = ex_env, en_hosts_path = ''hosts.cfg'', en_public_url = [], en_sql_lower = py_lower,
     en_connect = (\<lambda>_ _ _. Server_Invalid ''down''), en_network = (\<lambda>_ _. None), en_decode = (\<lambda>_. None),
     en_xml_parse = (\<lambda>_. ParseError ''bad''), en_keys = cl_keys ex_crypto, en_crypto = ex_crypto,
     en_volume = (\<lambda>_. Done)\<rparr>"

definition ex_live_session :: web_session_row where
  "ex_live_session = new_session_row 0 ''t'' ''root'' ''admin'' ''local'' None None"

definition ex_server :: app where
  "ex_server = \<lparr>ap_fleet = \<lparr>fl_db = empty_db\<lparr>web_sessions := [ex_live_session]\<rparr>, fl_hosts = []\<rparr>,
     ap_sched = None, ap_tls = \<lparr>tf_cert = None, tf_key = None\<rparr>\<rparr>"

definition ex_new_group :: request where
  "ex_new_group = Create_group \<lparr>gc_name = ''core'', gc_description = None\<rparr>"

definition ex_no_client :: request_info where
  "ex_no_client = \<lparr>rq_client_ip = None, rq_user_agent = None\<rparr>"

definition ex_served :: app where
  "ex_served = fst (serve ex_app_env 5 ex_no_client (Some ''t'') ex_new_group ex_server)"

lemma ex_step: "(system_step ex_app_env)\<^sup>*\<^sup>* ex_server ex_served"
proof (rule r_into_rtranclp, rule system_step.request)
  show "serve (ex_app_env\<lparr>en_sql_lower := en_sql_lower ex_app_env, en_connect := en_connect ex_app_env,
      en_network := en_network ex_app_env, en_decode := en_decode ex_app_env,
      en_xml_parse := en_xml_parse ex_app_env, en_keys := en_keys ex_app_env,
      en_crypto := en_crypto ex_app_env, en_volume := en_volume ex_app_env\<rparr>) 5 ex_no_client (Some ''t'')
      ex_new_group ex_server = (ex_served, snd (serve ex_app_env 5 ex_no_client (Some ''t'') ex_new_group ex_server))"
    by (simp add: ex_served_def)
qed

lemma ex_server_db: "ap_db ex_server = empty_db\<lparr>web_sessions := [ex_live_session]\<rparr>"
  by (simp add: ex_server_def)

lemma ex_start: "config_ok (ap_db ex_server)" "audit_ok (ap_db ex_server)"
  "fl_hosts (ap_fleet ex_server) = rendered_config (ne_shared_secret (en_nas ex_app_env)) (ap_db ex_server)"
  by (simp_all add: ex_server_def config_frame_ok [OF _ config_ok_empty] audit_ok_def)
     (simp_all add: empty_db_def rendered_config_def ex_app_env_def ex_env_def render_host_blocks_def named_blocks_def)

theorem system_keeps_integrity_witness:
  "config_ok (ap_db ex_served) \<and> fl_hosts (ap_fleet ex_served) = rendered_config [] (ap_db ex_served)"
  using system_keeps_integrity [OF ex_step ex_start] by (simp add: ex_app_env_def ex_env_def)

text \<open>
  C10: The audit trail is append-only under everything the service does: an entry keeps its place and
  its content for good, whatever is logged after it.
\<close>

theorem audit_history_is_kept:
  assumes "(system_step env)\<^sup>*\<^sup>* s s'" and "i < length (audit_log (ap_db s))"
  shows "i < length (audit_log (ap_db s')) \<and> audit_log (ap_db s') ! i = audit_log (ap_db s) ! i"
  using assms by (rule running.entry_stays)

lemma ex_served_log: "map al_action (audit_log (ap_db ex_served)) = [action_code DEVICE_GROUP_CREATED]"
  by (simp add: ex_served_def serve_def ex_server_def ex_no_client_def require_session_def load_active_session_def
      get_web_session_def ex_live_session_def new_session_row_def SESSION_HARD_LIFETIME_def
      SESSION_SLIDING_LIFETIME_def ex_new_group_def body_def device_group_create_valid_def str_len_def opt_len_def
      on_db_def on_fleet_def create_device_group_def Let_def device_groups_ok_def empty_db_def crud_entry_def)

theorem audit_history_is_kept_witness:
  "\<exists>s'. (system_step ex_app_env)\<^sup>*\<^sup>* ex_served s' \<and> s' \<noteq> ex_served \<and>
     al_action (audit_log (ap_db s') ! 0) = action_code DEVICE_GROUP_CREATED"
proof -
  let ?d = "fst (mavis_info py_lower 6 \<lparr>iq_username = ''bob'', iq_nas_ip = ''10.0.0.1''\<rparr> (ap_db ex_served))"
  let ?s = "put_db ex_served ?d"
  have step: "(system_step ex_app_env)\<^sup>*\<^sup>* ex_served ?s"
    by (rule r_into_rtranclp, rule system_step.mavis_info, rule prod.collapse [symmetric])
  have users: "users (ap_db ex_served) = []"
    by (simp add: ex_served_def serve_def ex_server_def ex_no_client_def require_session_def load_active_session_def
      get_web_session_def ex_live_session_def new_session_row_def SESSION_HARD_LIFETIME_def
      SESSION_SLIDING_LIFETIME_def ex_new_group_def body_def device_group_create_valid_def str_len_def opt_len_def
      on_db_def on_fleet_def create_device_group_def Let_def device_groups_ok_def empty_db_def crud_entry_def)
  then have "find_user_by_sam py_lower ''bob'' (ap_db ex_served) = Inr None"
    by (simp add: find_user_by_sam_def scalar_one_or_none_def)
  then have "length (audit_log ?d) = Suc (length (audit_log (ap_db ex_served)))"
    by (simp add: mavis_info_ok info_request_valid_def)
  then have "?s \<noteq> ex_served" by (metis n_not_Suc_n put_db_fields(1))
  moreover from ex_served_log have "0 < length (audit_log (ap_db ex_served))" "al_action (audit_log (ap_db ex_served) ! 0) = action_code DEVICE_GROUP_CREATED"
    by (auto simp: map_eq_Cons_conv)
  ultimately show ?thesis using step audit_history_is_kept [OF step, of 0] by auto
qed



text \<open>
  C11: Only an administrator changes settings: to anyone else every settings, certificate, SAML, sync,
  syslog and setup request is an error that changes nothing at all. The inventory - groups,
  profiles, devices, authorizations - is open to every role.
\<close>

theorem settings_need_an_admin:
  assumes "\<not> configures req" and "sc_role ctx \<noteq> ''admin''"
  shows "fst (route env now ctx req s) = s \<and> (\<exists>e. snd (route env now ctx req s) = Inl e)"
  using assms by (rule route_needs_admin)

theorem settings_need_an_admin_witness:
  "fst (route ex_app_env 0 ex_operator (Put_ldap_url ''ldaps://dc'') ex_server) = ex_server"
  using settings_need_an_admin [of "Put_ldap_url ''ldaps://dc''" ex_operator] by (simp add: ex_operator_def)

text \<open>
  C12: A request to the API leaves the configuration of every subsystem it is not there for exactly as
  it was: what the syslog forwarder, the directory sync, the live logins and the SAML login load
  next is what they would have loaded before.
\<close>

theorem settings_do_not_interfere:
  assumes "x \<notin> set (affects req)"
  shows "loaded_alike url (ap_db s) (ap_db (fst (serve env now rq cookie req s))) x"
  using serve_kv assms by (rule frame_loaded_alike)

theorem settings_do_not_interfere_witness:
  "load_config (ap_db (fst (serve ex_app_env 5 ex_no_client (Some ''t'') (Put_web_url ''https://t'') ex_server))) =
     load_config (ap_db ex_server)"
  using settings_do_not_interfere [of Directory_sync "Put_web_url ''https://t''" "[]" ex_server ex_app_env 5 ex_no_client "Some ''t''"]
  by (simp add: loaded_alike_def)

section \<open>From the UI and the directory to the devices\<close>

text \<open>
  C5: An authorization created for a user takes effect with the next login: the backend answers ACK for
  every device of the group, and with exactly the granted profile when the user has no other
  personal authorization on that group.
\<close>

theorem grant_takes_effect:
  assumes "create_authorization now ctx p d = (d1, Inr row)" and "config_ok d" and "sam_lower_unique sql_lower d"
    and "ac_principal_user_id p = Some (u_id u)" and "named_user sql_lower (iq_username q) d = Some u" and "u_enabled u"
    and "resolve_device_for_ip (iq_nas_ip q) (devices d) = Some dev" and "d_device_group_id dev = ac_device_group_id p"
    and "info_request_valid q"
  shows "\<exists>d2 resp. mavis_info sql_lower later q d1 = (d2, Inr resp) \<and> is_result resp = ACK \<and>
    ((\<forall>b\<in>set (authorizations d). principal_user_id b = Some (u_id u) \<longrightarrow> a_device_group_id b \<noteq> ac_device_group_id p) \<longrightarrow>
       is_profile resp = map_option render_tacprofile (get_profile d (ac_privilege_profile_id p)))"
proof -
  from grant_row [OF assms(1)] have row: "principal_user_id row = Some (u_id u)"
    "a_device_group_id row = ac_device_group_id p" "privilege_profile_id row = ac_privilege_profile_id p"
    and auths: "authorizations d1 = authorizations d @ [row]" and same: "users d1 = users d" "devices d1 = devices d"
    "privilege_profiles d1 = privilege_profiles d"
    using assms(4) by auto
  have ok: "config_ok d1" using config_ok_create_authorization [OF assms(1,2)] .
  have "named_user sql_lower (iq_username q) d1 = Some u" "sam_lower_unique sql_lower d1"
    using assms(3,5) by (simp_all add: named_user_def sam_lower_unique_def same)
  then have found: "find_user_by_sam sql_lower (iq_username q) d1 = Inr (Some u)"
    by (simp add: find_user_by_sam_unique)
  note info = mavis_info_ok [OF assms(9) found, of later]
  have "row \<in> set (authorizations d1)" "holds d1 u row" using row by (simp_all add: auths holds_def)
  from winner_exists [OF ok this(1) row(2) this(2)] obtain a where
    a: "winning (evaluate_for_user (load_user d1 u) (ac_device_group_id p)
        (load_authorizations d1 (\<lambda>a. a_device_group_id a = ac_device_group_id p))) = Some a" by blast
  have res: "fst (resolve_info d1 q (Some u)) =
      \<lparr>is_result = ACK, is_reason = None, is_profile = Some (render_tacprofile (privilege_profile a))\<rparr>"
    using assms(6,7,8) a by (simp add: resolve_info_def same effective_profile_def Let_def)
  have "get_profile d (ac_privilege_profile_id p) = Some (privilege_profile a)"
    if only: "\<forall>b\<in>set (authorizations d). principal_user_id b = Some (u_id u) \<longrightarrow> a_device_group_id b \<noteq> ac_device_group_id p"
  proof -
    from winning_row [OF ok a] obtain r where r: "r \<in> set (authorizations d1)" "load_authorization d1 r = Some a"
      "a_device_group_id r = ac_device_group_id p" "principal_user_id r = Some (u_id u)"
      using row auths by auto
    with only have "r = row" by (auto simp: auths)
    with load_authorization_fields [OF r(2)] row show ?thesis by (simp add: get_profile_def same)
  qed
  with info res show ?thesis by simp
qed

definition ex_grant_db :: db where
  "ex_grant_db = ex_info_db\<lparr>authorizations := []\<rparr>"

definition ex_grant :: authorization_create where
  "ex_grant = \<lparr>ac_principal_user_id = Some 7, ac_principal_ad_group_id = None, ac_device_group_id = 1,
     ac_privilege_profile_id = 1\<rparr>"

lemma ex_grant_ok: "config_ok ex_grant_db"
  by (simp add: config_ok_def ex_grant_db_def ex_info_db_def empty_db_def keys_ok_def device_groups_ok_def
      profiles_ok_def profile_ok_def devices_ok_def authorizations_ok_def ex_profile_def ex_device_def
      List.map_filter_def)

lemma ex_granted: "\<exists>d1 row. create_authorization 3 ex_operator ex_grant ex_grant_db = (d1, Inr row)"
  by (simp add: create_authorization_def unknown_reference_def ex_grant_def ex_grant_db_def ex_info_db_def
      get_user_def get_ad_group_def get_device_group_def get_profile_def ex_user_row_def ex_profile_def
      ex_device_def authorizations_ok_def one_principal_def authz_refs_ok_def authz_user_key_def
      authz_group_key_def List.map_filter_def Let_def)

theorem grant_takes_effect_witness:
  "\<exists>d2 resp. mavis_info py_lower 4 \<lparr>iq_username = ''alice'', iq_nas_ip = ''10.0.5.9''\<rparr>
     (fst (create_authorization 3 ex_operator ex_grant ex_grant_db)) = (d2, Inr resp) \<and>
     is_profile resp = Some (render_tacprofile (ex_profile 1 15))"
proof -
  let ?q = "\<lparr>iq_username = ''alice'', iq_nas_ip = ''10.0.5.9''\<rparr>"
  from ex_granted obtain d1 row where run: "create_authorization 3 ex_operator ex_grant ex_grant_db = (d1, Inr row)"
    by blast
  have "sam_lower_unique py_lower ex_grant_db" by (simp add: sam_lower_unique_def ex_grant_db_def ex_info_db_def)
  moreover have "named_user py_lower (iq_username ?q) ex_grant_db = Some ex_user_row"
    by (simp add: named_user_def ex_grant_db_def ex_info_db_def ex_user_row_def py_lower_char_def Let_def char_eval)
  moreover have "resolve_device_for_ip (iq_nas_ip ?q) (devices ex_grant_db) = Some (ex_device 1 ''10.0.0.0/8'')"
    using ex_info_device by (simp add: ex_grant_db_def)
  ultimately have "\<exists>d2 resp. mavis_info py_lower 4 ?q d1 = (d2, Inr resp) \<and>
      is_profile resp = map_option render_tacprofile (get_profile ex_grant_db (ac_privilege_profile_id ex_grant))"
    using grant_takes_effect [OF run ex_grant_ok, of py_lower ex_user_row ?q "ex_device 1 ''10.0.0.0/8''" 4]
    by (simp add: ex_grant_def ex_user_row_def ex_device_def info_request_valid_def) (auto simp: ex_grant_db_def)
  then show ?thesis
    by (simp add: run) (simp add: ex_grant_def ex_grant_db_def ex_info_db_def get_profile_def ex_profile_def)
qed



text \<open>
  C3: The API keeps its secrets: whatever a client asks and whatever it changes, in any number of
  calls, as long as no call is one of those that put a secret to use, it gets the same answers from two
  servers that differ in the stored secrets - shared secrets of devices, password hashes, bind password,
  private keys, the fleet-wide key - and in nothing else.
\<close>

theorem responses_reveal_no_secret:
  assumes "app_alike s s'" and "list_all keeps_secrets calls"
  shows "conversation (serve_call env lib) calls s = conversation (serve_call (other_key env k) lib) calls s'"
  using assms by (rule api.same_conversation)

definition ex_keyed :: "string \<Rightarrow> app" where
  "ex_keyed secret = ex_server\<lparr>ap_fleet := \<lparr>fl_db = empty_db\<lparr>web_sessions := [ex_live_session],
     devices := [(ex_device 1 ''10.0.0.1'')\<lparr>current_secret_enc := Some secret\<rparr>],
     system_secrets := (\<lambda>_. None)(LDAP_BIND_PASSWORD \<mapsto> secret)\<rparr>, fl_hosts = secret\<rparr>\<rparr>"

definition ex_calls :: "client_input list" where
  "ex_calls = [(1, ex_no_client, Some ''t'', Does (Retire_secret 1)),
     (2, ex_no_client, Some ''t'', Asks Get_devices)]"

text \<open>The devices a conversation shows: which have a secret, and when the last one was retired.\<close>

definition shown_devices :: "client_output \<Rightarrow> (bool \<times> instant option) list" where
  "shown_devices out =
     (case out of Inr (Inl (Devices_read ds)) \<Rightarrow> map (\<lambda>x. (has_current_secret x, dr_previous_retired_at x)) ds | _ \<Rightarrow> [])"

theorem responses_reveal_no_secret_witness:
  "conversation (serve_call ex_app_env ex_saml_lib) ex_calls (ex_keyed ''alpha'') =
     conversation (serve_call (other_key ex_app_env ''K2'') ex_saml_lib) ex_calls (ex_keyed ''beta'') \<and>
   map shown_devices (conversation (serve_call ex_app_env ex_saml_lib) ex_calls (ex_keyed ''alpha'')) = [[], [(True, Some 1)]]"
proof
  show "map shown_devices (conversation (serve_call ex_app_env ex_saml_lib) ex_calls (ex_keyed ''alpha'')) = [[], [(True, Some 1)]]"
    by code_simp
  have "app_alike (ex_keyed ''alpha'') (ex_keyed ''beta'')"
    by (simp add: app_alike_def ex_keyed_def alike_iff redact_device_def redact_def fun_eq_iff)
  then show "conversation (serve_call ex_app_env ex_saml_lib) ex_calls (ex_keyed ''alpha'') =
      conversation (serve_call (other_key ex_app_env ''K2'') ex_saml_lib) ex_calls (ex_keyed ''beta'')"
    by (rule responses_reveal_no_secret) (simp add: ex_calls_def)
qed

end
